(* ===== verification/Forge_Prelude.thy ===== *)
theory Forge_Prelude
  imports
    Complex_Main
    "HOL-Library.Word"
    "HOL-Library.State_Monad"
    "HOL-Library.Multiset"
    "HOL-Library.Sublist"
    "HOL-Library.Char_ord"
    "HOL-Library.List_Lexorder"
begin

text \<open>
  What the components of the orchestrator share: Go's fixed-width integers and their signed
  comparison, decimal printing (\<^verbatim>\<open>%d\<close>), \<^verbatim>\<open>strings.Contains\<close>, JSON values and the field decoding
  of \<^verbatim>\<open>encoding/json\<close>, rows of a table updated by a \<^verbatim>\<open>WHERE\<close> clause, the collections of
  automation the component theories fill, and the preservation calculus for programs of the
  state monad (\<open>keeps\<close>), in which the invariants of the whole control plane are proved.
\<close>

section \<open>Automation collections\<close>

named_theorems keeps_rules \<open>preservation rules of monadic programs\<close>
named_theorems stmt_simps \<open>equations for database statements on the tables\<close>
named_theorems frame_simps \<open>fields that an operation leaves alone\<close>

section \<open>Go integers\<close>

text \<open>\<^verbatim>\<open>int32\<close> columns and fields: two's complement on 32 bits, compared signed.\<close>

type_synonym int32 = "32 word"

definition int32_less :: "int32 \<Rightarrow> int32 \<Rightarrow> bool" where
  "int32_less a b \<longleftrightarrow> sint a < sint b"

definition int32_max :: int where
  "int32_max = 2147483647"

lemma sint_int32_bounds: "- 2147483648 \<le> sint (a :: int32)" "sint (a :: int32) \<le> int32_max"
  using sint_ge[of a] sint_lt[of a] by (simp_all add: int32_max_def)

text \<open>PostgreSQL's \<^verbatim>\<open>INT\<close> increment raises \<^verbatim>\<open>integer out of range\<close> instead of wrapping.\<close>

definition int4_succ :: "int32 \<Rightarrow> int32 option" where
  "int4_succ a = (if sint a = int32_max then None else Some (a + 1))"

lemma sint_succ_int32:
  assumes "sint (a :: int32) \<noteq> int32_max"
  shows "sint (a + 1) = sint a + 1"
proof -
  have "sint a + sint (1 :: int32) \<in> {- (2 ^ 31) ..< 2 ^ 31}"
    using assms sint_int32_bounds[of a] by (simp add: int32_max_def)
  then have "signed_take_bit 31 (sint a + sint (1 :: int32)) = sint a + sint (1 :: int32)"
    by (subst signed_take_bit_int_eq_self) simp_all
  then show ?thesis by (simp add: sint_word_ariths)
qed

lemma int4_succ_Some: "int4_succ a = Some b \<Longrightarrow> sint b = sint a + 1"
  by (auto simp: int4_succ_def sint_succ_int32 split: if_splits)

section \<open>Strings\<close>

fun show_nat :: "nat \<Rightarrow> string" where
  "show_nat n = (if n < 10 then [char_of (48 + n)] else show_nat (n div 10) @ [char_of (48 + n mod 10)])"

declare show_nat.simps [simp del]

definition show_int :: "int \<Rightarrow> string" where
  "show_int i = (if i < 0 then CHR ''-'' # show_nat (nat (- i)) else show_nat (nat i))"

lemma show_nat_not_Nil [simp]: "show_nat n \<noteq> []"
  by (subst show_nat.simps) simp

lemma show_int_not_Nil [simp]: "show_int i \<noteq> []"
  by (simp add: show_int_def)

text \<open>\<^verbatim>\<open>strings.Contains(s, sub)\<close>.\<close>

definition str_contains :: "string \<Rightarrow> string \<Rightarrow> bool" where
  "str_contains s sub \<longleftrightarrow> sublist sub s"

lemma str_contains_appendI: "str_contains (a @ sub @ b) sub"
  by (auto simp: str_contains_def sublist_def)

text \<open>The ASCII part of the case folding by which \<^verbatim>\<open>encoding/json\<close> matches object keys.\<close>

definition lower_char :: "char \<Rightarrow> char" where
  "lower_char c = (let n = of_char c :: nat in if 65 \<le> n \<and> n \<le> 90 then char_of (n + 32) else c)"

definition fold_eq :: "string \<Rightarrow> string \<Rightarrow> bool" where
  "fold_eq a b \<longleftrightarrow> map lower_char a = map lower_char b"

section \<open>JSON values\<close>

text \<open>
  \<^verbatim>\<open>JSONB\<close> columns and \<^verbatim>\<open>json.RawMessage\<close> fields hold JSON documents. The model keeps the value, not
  its bytes, so a number is its value (\<^verbatim>\<open>512\<close> and \<^verbatim>\<open>512.0\<close> are the same \<^verbatim>\<open>JNum\<close>) and an object is the
  list of its members in document order.
\<close>

datatype json = JNull | JBool bool | JNum rat | JStr string | JArr "json list" | JObj "(string \<times> json) list"

definition JEmpty :: json where
  "JEmpty = JObj []"

text \<open>Decoding of one member into an \<^verbatim>\<open>int32\<close> field: \<^verbatim>\<open>null\<close> leaves the field alone, a number that is
  not an integer of the type's range is an error, as is every other kind of value.\<close>

definition decode_int32 :: "json \<Rightarrow> int32 \<Rightarrow> int32 \<times> bool" where
  "decode_int32 j old = (case j of
     JNull \<Rightarrow> (old, True)
   | JNum q \<Rightarrow> (if q = of_int \<lfloor>q\<rfloor> \<and> - 2147483648 \<le> \<lfloor>q\<rfloor> \<and> \<lfloor>q\<rfloor> \<le> 2147483647
                then (of_int \<lfloor>q\<rfloor>, True) else (old, False))
   | _ \<Rightarrow> (old, False))"

definition decode_float :: "json \<Rightarrow> rat \<Rightarrow> rat \<times> bool" where
  "decode_float j old = (case j of JNull \<Rightarrow> (old, True) | JNum q \<Rightarrow> (q, True) | _ \<Rightarrow> (old, False))"

definition decode_string :: "json \<Rightarrow> string \<Rightarrow> string \<times> bool" where
  "decode_string j old = (case j of JNull \<Rightarrow> (old, True) | JStr s \<Rightarrow> (s, True) | _ \<Rightarrow> (old, False))"

definition decode_int64 :: "json \<Rightarrow> 64 word \<Rightarrow> 64 word \<times> bool" where
  "decode_int64 j old = (case j of
     JNull \<Rightarrow> (old, True)
   | JNum q \<Rightarrow> (if q = of_int \<lfloor>q\<rfloor> \<and> - (2 ^ 63) \<le> \<lfloor>q\<rfloor> \<and> \<lfloor>q\<rfloor> < 2 ^ 63
                then (of_int \<lfloor>q\<rfloor>, True) else (old, False))
   | _ \<Rightarrow> (old, False))"

definition decode_bool :: "json \<Rightarrow> bool \<Rightarrow> bool \<times> bool" where
  "decode_bool j old = (case j of JNull \<Rightarrow> (old, True) | JBool b \<Rightarrow> (b, True) | _ \<Rightarrow> (old, False))"

text \<open>Arrays and objects: a decoder gives the value and whether the types matched; every member whose key matches
  the field is decoded into it, the last one winning, and a mismatch does not stop the others.\<close>

definition decode_list :: "(json \<Rightarrow> 'a \<times> bool) \<Rightarrow> json \<Rightarrow> 'a list \<Rightarrow> 'a list \<times> bool" where
  "decode_list d j old = (case j of
     JNull \<Rightarrow> (old, True)
   | JArr xs \<Rightarrow> (map (fst \<circ> d) xs, list_all (snd \<circ> d) xs)
   | _ \<Rightarrow> (old, False))"

fun decode_field :: "string \<Rightarrow> (json \<Rightarrow> 'a \<Rightarrow> 'a \<times> bool) \<Rightarrow> (string \<times> json) list \<Rightarrow> 'a \<Rightarrow> 'a \<times> bool" where
  "decode_field f d [] old = (old, True)"
| "decode_field f d ((k, v) # ms) old =
    (if fold_eq k f
     then let (x, ok) = d v old; (y, ok') = decode_field f d ms x in (y, ok \<and> ok')
     else decode_field f d ms old)"

definition object_members :: "json \<Rightarrow> (string \<times> json) list \<times> bool" where
  "object_members j = (case j of JNull \<Rightarrow> ([], True) | JObj ms \<Rightarrow> (ms, True) | _ \<Rightarrow> ([], False))"

section \<open>Rows of a table\<close>

text \<open>
  A table is the list of its rows. \<^verbatim>\<open>UPDATE ... SET f WHERE p\<close> rewrites the rows that satisfy the
  condition in place, and a row is looked up by its key.
\<close>

definition update_where :: "('r \<Rightarrow> bool) \<Rightarrow> ('r \<Rightarrow> 'r) \<Rightarrow> 'r list \<Rightarrow> 'r list" where
  "update_where p f rows = map (\<lambda>r. if p r then f r else r) rows"

definition row_at :: "('r \<Rightarrow> 'k) \<Rightarrow> 'k \<Rightarrow> 'r list \<Rightarrow> 'r option" where
  "row_at key k rows = find (\<lambda>r. key r = k) rows"

lemma row_at_Nil [simp]: "row_at key k [] = None"
  by (simp add: row_at_def)

lemma row_at_Cons [simp]: "row_at key k (r # rs) = (if key r = k then Some r else row_at key k rs)"
  by (simp add: row_at_def)

lemma row_at_append:
  "row_at key k (xs @ ys) = (case row_at key k xs of None \<Rightarrow> row_at key k ys | Some r \<Rightarrow> Some r)"
  by (induction xs) auto

lemma row_at_Some: "row_at key k rows = Some r \<Longrightarrow> r \<in> set rows \<and> key r = k"
  by (induction rows) (auto split: if_splits)

lemma row_at_None: "row_at key k rows = None \<longleftrightarrow> (\<forall>r \<in> set rows. key r \<noteq> k)"
  by (induction rows) auto

lemma row_at_unique:
  "distinct (map key rows) \<Longrightarrow> r \<in> set rows \<Longrightarrow> row_at key (key r) rows = Some r"
  by (induction rows) auto

lemma row_at_update_where:
  assumes "\<And>r. key (f r) = key r"
  shows "row_at key k (update_where p f rows) =
    map_option (\<lambda>r. if p r then f r else r) (row_at key k rows)"
  by (induction rows) (auto simp: update_where_def assms)

lemma set_update_where:
  "r' \<in> set (update_where p f rows) \<longleftrightarrow>
    (\<exists>r \<in> set rows. (p r \<and> r' = f r) \<or> (\<not> p r \<and> r' = r))"
  by (auto simp: update_where_def)

lemma map_update_where:
  assumes "\<And>r. g (f r) = g r"
  shows "map g (update_where p f rows) = map g rows"
  by (simp add: update_where_def assms)

lemma length_update_where [simp]: "length (update_where p f rows) = length rows"
  by (simp add: update_where_def)

lemma update_where_none: "(\<And>r. r \<in> set rows \<Longrightarrow> \<not> p r) \<Longrightarrow> update_where p f rows = rows"
  by (auto simp: update_where_def intro: map_idI)

lemma filter_key_unique:
  "distinct (map key rows) \<Longrightarrow> row_at key k rows = Some r \<Longrightarrow>
    filter (\<lambda>x. key x = k \<and> q x) rows = (if q r then [r] else [])"
proof (induction rows)
  case (Cons a rows)
  show ?case
  proof (cases "key a = k")
    case True
    with Cons.prems(1) have "\<forall>x \<in> set rows. key x \<noteq> k" by (auto simp: image_iff)
    then have "filter (\<lambda>x. key x = k \<and> q x) rows = []" by (simp add: filter_empty_conv)
    with True Cons.prems show ?thesis by auto
  next
    case False
    with Cons show ?thesis by simp
  qed
qed simp

lemma filter_key_none: "row_at key k rows = None \<Longrightarrow> filter (\<lambda>x. key x = k \<and> q x) rows = []"
  by (simp add: row_at_None filter_empty_conv)

lemma mset_distinct_map: "mset xs = mset ys \<Longrightarrow> distinct (map f xs) = distinct (map f ys)"
  using mset_eq_imp_distinct_iff[of "map f xs" "map f ys"] by simp

lemma map_of_set_eq:
  assumes "distinct (map fst m)" and "distinct (map fst m')" and "set m = set m'"
  shows "map_of m = map_of m'"
  using assms map_of_inject_set by blast

section \<open>Preservation calculus for monadic programs\<close>

text \<open>
  \<open>keeps I m\<close>: from every state that satisfies \<open>I\<close>, the program \<open>m\<close> ends in one that satisfies it.
  The rules below follow the structure of a program; with the rules of the single statements
  (collected in \<open>keeps_rules\<close>) they discharge the preservation of an invariant by a whole handler.
\<close>

definition keeps :: "('s \<Rightarrow> bool) \<Rightarrow> ('s, 'a) state \<Rightarrow> bool" where
  "keeps I m \<longleftrightarrow> (\<forall>s. I s \<longrightarrow> I (snd (run_state m s)))"

lemma keepsI: "(\<And>s. I s \<Longrightarrow> I (snd (run_state m s))) \<Longrightarrow> keeps I m"
  by (simp add: keeps_def)

lemma keepsD: "keeps I m \<Longrightarrow> I s \<Longrightarrow> I (snd (run_state m s))"
  by (simp add: keeps_def)

lemma keeps_return [keeps_rules]: "keeps I (State_Monad.return x)"
  by (simp add: keeps_def)

lemma keeps_bind [keeps_rules]:
  assumes "keeps I m" and "\<And>x. keeps I (f x)"
  shows "keeps I (State_Monad.bind m f)"
  using assms by (auto simp: keeps_def split: prod.split)

lemma keeps_if [keeps_rules]:
  "(b \<Longrightarrow> keeps I m) \<Longrightarrow> (\<not> b \<Longrightarrow> keeps I n) \<Longrightarrow> keeps I (if b then m else n)"
  by simp

lemma keeps_case_option [keeps_rules]:
  "(v = None \<Longrightarrow> keeps I m) \<Longrightarrow> (\<And>x. v = Some x \<Longrightarrow> keeps I (f x)) \<Longrightarrow>
    keeps I (case v of None \<Rightarrow> m | Some x \<Rightarrow> f x)"
  by (cases v) auto

lemma keeps_case_sum [keeps_rules]:
  "(\<And>e. keeps I (f e)) \<Longrightarrow> (\<And>x. keeps I (g x)) \<Longrightarrow>
    keeps I (case v of Inl e \<Rightarrow> f e | Inr x \<Rightarrow> g x)"
  by (cases v) auto

lemma keeps_case_prod [keeps_rules]:
  "(\<And>a b. keeps I (f a b)) \<Longrightarrow> keeps I (case v of (a, b) \<Rightarrow> f a b)"
  by (cases v) auto

lemma keeps_Let [keeps_rules]: "(\<And>x. keeps I (f x)) \<Longrightarrow> keeps I (let x = v in f x)"
  by simp

text \<open>A Go \<^verbatim>\<open>for range\<close> loop whose body keeps going whatever happens to one element.\<close>

fun for_each :: "('a \<Rightarrow> ('s, 'b) state) \<Rightarrow> 'a list \<Rightarrow> ('s, 'b list) state" where
  "for_each f [] = State_Monad.return []"
| "for_each f (x # xs) = do { y \<leftarrow> f x; ys \<leftarrow> for_each f xs; State_Monad.return (y # ys) }"

lemma for_each_state:
  "snd (run_state (for_each f []) w) = w"
  "snd (run_state (for_each f (x # xs)) w) = snd (run_state (for_each f xs) (snd (run_state (f x) w)))"
  by (simp_all split: prod.split)

lemma run_bind_discard: "run_state (State_Monad.bind m (\<lambda>_. n)) w = run_state n (snd (run_state m w))"
  by (simp split: prod.split)

lemma keeps_for_each [keeps_rules]: "(\<And>x. keeps I (f x)) \<Longrightarrow> keeps I (for_each f xs)"
  by (induction xs) (simp_all add: keeps_return keeps_bind)

end
