(* ===== verification/Models.thy ===== *)
theory Models
  imports Forge_Prelude
begin

text \<open>
  The shared types of \<^verbatim>\<open>shared-go/models\<close>: the sandbox states and events, the table of valid
  transitions with \<^verbatim>\<open>NextState\<close>, and the command and node vocabularies. In Go each of these is a
  \<^verbatim>\<open>string\<close> type with named constants; here it is a datatype with the same constants and one
  constructor for every other string, so that a value outside the named ones stays representable.
  The lemmas at the end are the facts of the state machine that the components rely on, and the
  reachability of its states.
\<close>

section \<open>Sandbox states and events\<close>

datatype SandboxState =
    StatePending
  | StateStarting
  | StateRunning
  | StateRestarting
  | StateStopped
  | StateDestroying
  | StateDestroyed
  | StateFailed
  | OtherState string

fun SandboxState_string :: "SandboxState \<Rightarrow> string" where
  "SandboxState_string StatePending = ''pending''"
| "SandboxState_string StateStarting = ''starting''"
| "SandboxState_string StateRunning = ''running''"
| "SandboxState_string StateRestarting = ''restarting''"
| "SandboxState_string StateStopped = ''stopped''"
| "SandboxState_string StateDestroying = ''destroying''"
| "SandboxState_string StateDestroyed = ''destroyed''"
| "SandboxState_string StateFailed = ''failed''"
| "SandboxState_string (OtherState s) = s"

definition AllStates :: "SandboxState list" where
  "AllStates = [StatePending, StateStarting, StateRunning, StateRestarting, StateStopped,
     StateDestroying, StateDestroyed, StateFailed]"

definition SandboxState_of :: "string \<Rightarrow> SandboxState" where
  "SandboxState_of s =
     (case find (\<lambda>st. SandboxState_string st = s) AllStates of Some st \<Rightarrow> st | None \<Rightarrow> OtherState s)"

datatype SandboxEvent =
    EventScheduled
  | EventStarted
  | EventContainerExited
  | EventIdleTimeout
  | EventDestroyRequest
  | EventDestroyed
  | EventRestartAttempt
  | EventNodeFailed
  | EventStartFailed

fun SandboxEvent_string :: "SandboxEvent \<Rightarrow> string" where
  "SandboxEvent_string EventScheduled = ''scheduled''"
| "SandboxEvent_string EventStarted = ''started''"
| "SandboxEvent_string EventContainerExited = ''container_exited''"
| "SandboxEvent_string EventIdleTimeout = ''idle_timeout''"
| "SandboxEvent_string EventDestroyRequest = ''destroy_requested''"
| "SandboxEvent_string EventDestroyed = ''destroyed''"
| "SandboxEvent_string EventRestartAttempt = ''restart_attempt''"
| "SandboxEvent_string EventNodeFailed = ''node_failed''"
| "SandboxEvent_string EventStartFailed = ''start_failed''"

definition AllEvents :: "SandboxEvent list" where
  "AllEvents = [EventScheduled, EventStarted, EventContainerExited, EventIdleTimeout,
     EventDestroyRequest, EventDestroyed, EventRestartAttempt, EventNodeFailed, EventStartFailed]"

definition ValidTransitions :: "(SandboxState \<times> (SandboxEvent \<times> SandboxState) list) list" where
  "ValidTransitions =
    [(StatePending,
       [(EventScheduled, StateStarting),
        (EventDestroyRequest, StateDestroyed)]),
     (StateStarting,
       [(EventStarted, StateRunning),
        (EventContainerExited, StateFailed),
        (EventStartFailed, StateFailed),
        (EventDestroyRequest, StateDestroying)]),
     (StateRunning,
       [(EventContainerExited, StateRestarting),
        (EventDestroyRequest, StateDestroying),
        (EventIdleTimeout, StateStopped),
        (EventNodeFailed, StatePending)]),
     (StateRestarting,
       [(EventRestartAttempt, StateStarting),
        (EventDestroyRequest, StateDestroying)]),
     (StateStopped,
       [(EventScheduled, StateStarting),
        (EventDestroyRequest, StateDestroyed)]),
     (StateDestroying,
       [(EventDestroyed, StateDestroyed)]),
     (StateFailed,
       [(EventRestartAttempt, StateStarting),
        (EventDestroyRequest, StateDestroyed),
        (EventStarted, StateRunning)])]"

definition NextState :: "SandboxState \<Rightarrow> SandboxEvent \<Rightarrow> SandboxState option" where
  "NextState current event =
     (case map_of ValidTransitions current of
        None \<Rightarrow> None
      | Some transitions \<Rightarrow> map_of transitions event)"

definition IsTerminal :: "SandboxState \<Rightarrow> bool" where
  "IsTerminal state \<longleftrightarrow> state = StateDestroyed"

section \<open>Commands and nodes\<close>

datatype CommandType =
    CmdStartSandbox | CmdStopSandbox | CmdRestartSandbox | CmdGetLogs | CmdPrune
  | OtherCommand string

datatype CommandStatus = CmdPending | CmdDispatched | CmdCompleted | CmdFailed

datatype NodeStatus = NodeHealthy | NodeUnhealthy | NodeDraining | NodeRemoved | OtherStatus string

fun NodeStatus_string :: "NodeStatus \<Rightarrow> string" where
  "NodeStatus_string NodeHealthy = ''healthy''"
| "NodeStatus_string NodeUnhealthy = ''unhealthy''"
| "NodeStatus_string NodeDraining = ''draining''"
| "NodeStatus_string NodeRemoved = ''removed''"
| "NodeStatus_string (OtherStatus s) = s"

section \<open>Facts of the state machine\<close>

lemma AllStates_iff: "s \<in> set AllStates \<longleftrightarrow> (\<forall>x. s \<noteq> OtherState x)"
  by (cases s) (simp_all add: AllStates_def)

lemma SandboxState_string_inj:
  "a \<in> set AllStates \<Longrightarrow> b \<in> set AllStates \<Longrightarrow>
    SandboxState_string a = SandboxState_string b \<Longrightarrow> a = b"
  by (auto simp: AllStates_def)

lemma SandboxState_of_string: "s \<in> set AllStates \<Longrightarrow> SandboxState_of (SandboxState_string s) = s"
proof -
  have "list_all (\<lambda>s. SandboxState_of (SandboxState_string s) = s) AllStates" by code_simp
  then show "s \<in> set AllStates \<Longrightarrow> ?thesis" by (simp add: list_all_iff)
qed

lemma SandboxState_string_of: "SandboxState_string (SandboxState_of s) = s"
  by (auto simp: SandboxState_of_def dest!: find_Some_iff[THEN iffD1] split: option.split)

text \<open>The transition relation of the table, one event at a time.\<close>

inductive transition :: "SandboxState \<Rightarrow> SandboxEvent \<Rightarrow> SandboxState \<Rightarrow> bool" where
  "NextState s e = Some s' \<Longrightarrow> transition s e s'"

inductive_simps transition_iff: "transition s e s'"

inductive reaches :: "SandboxState \<Rightarrow> SandboxState \<Rightarrow> bool" where
  reaches_refl: "reaches s s"
| reaches_step: "transition s e s' \<Longrightarrow> reaches s' s'' \<Longrightarrow> reaches s s''"

lemma reaches_trans: "reaches a b \<Longrightarrow> reaches b c \<Longrightarrow> reaches a c"
  by (induction rule: reaches.induct) (auto intro: reaches_step)

lemma NextState_simps [simp]:
  "NextState StatePending e =
     (if e = EventScheduled then Some StateStarting
      else if e = EventDestroyRequest then Some StateDestroyed else None)"
  "NextState StateStarting e =
     (if e = EventStarted then Some StateRunning
      else if e = EventContainerExited \<or> e = EventStartFailed then Some StateFailed
      else if e = EventDestroyRequest then Some StateDestroying else None)"
  "NextState StateRunning e =
     (if e = EventContainerExited then Some StateRestarting
      else if e = EventDestroyRequest then Some StateDestroying
      else if e = EventIdleTimeout then Some StateStopped
      else if e = EventNodeFailed then Some StatePending else None)"
  "NextState StateRestarting e =
     (if e = EventRestartAttempt then Some StateStarting
      else if e = EventDestroyRequest then Some StateDestroying else None)"
  "NextState StateStopped e =
     (if e = EventScheduled then Some StateStarting
      else if e = EventDestroyRequest then Some StateDestroyed else None)"
  "NextState StateDestroying e = (if e = EventDestroyed then Some StateDestroyed else None)"
  "NextState StateDestroyed e = None"
  "NextState StateFailed e =
     (if e = EventRestartAttempt then Some StateStarting
      else if e = EventDestroyRequest then Some StateDestroyed
      else if e = EventStarted then Some StateRunning else None)"
  "NextState (OtherState x) e = None"
  by (simp_all add: NextState_def ValidTransitions_def)

lemma NextState_named:
  "NextState s e = Some s' \<Longrightarrow> s \<in> set AllStates \<and> s' \<in> set AllStates"
  by (cases s) (auto simp: AllStates_iff split: if_splits)

lemma NextState_into_pending: "NextState s e = Some StatePending \<Longrightarrow> s = StateRunning"
  by (cases s) (auto split: if_splits)

lemma NextState_from_destroying:
  "NextState StateDestroying e = Some s' \<Longrightarrow> s' = StateDestroyed"
  by (auto split: if_splits)

lemma reaches_from_destroying:
  "reaches a b \<Longrightarrow> a = StateDestroying \<or> a = StateDestroyed \<Longrightarrow>
     b = StateDestroying \<or> b = StateDestroyed"
  by (induction rule: reaches.induct) (auto simp: transition_iff split: if_splits)

lemma exits_iff: "(\<exists>e. NextState s e \<noteq> None) = (s \<in> set AllStates \<and> s \<noteq> StateDestroyed)"
proof (cases s)
  case StateDestroying
  have "NextState StateDestroying EventDestroyed \<noteq> None" by simp
  with StateDestroying show ?thesis by (auto simp: AllStates_iff simp del: NextState_simps)
qed (auto simp: AllStates_iff intro!: exI[of _ EventDestroyRequest])

section \<open>Properties of the state machine\<close>

text \<open>The table is exactly the shape the orchestrator relies on: a state has an outgoing
  transition if and only if it is a named state that is not terminal, so the only terminal state is
  \<^verbatim>\<open>destroyed\<close>, and every transition stays among the named states.\<close>

theorem terminal_iff_no_transition:
  "((\<exists>e. NextState s e = Some s') = (\<exists>e \<in> set AllEvents. NextState s e = Some s')) \<and>
   ((\<exists>e. NextState s e \<noteq> None) = (s \<in> set AllStates \<and> \<not> IsTerminal s)) \<and>
   (IsTerminal s = (s = StateDestroyed)) \<and>
   {t. \<exists>e. NextState s e = Some t} \<subseteq> set AllStates"
proof (intro conjI)
  show "(\<exists>e. NextState s e = Some s') = (\<exists>e \<in> set AllEvents. NextState s e = Some s')"
    by (cases s) (auto simp: AllEvents_def split: if_splits)
  show "(\<exists>e. NextState s e \<noteq> None) = (s \<in> set AllStates \<and> \<not> IsTerminal s)"
    using exits_iff by (simp add: IsTerminal_def)
  show "IsTerminal s = (s = StateDestroyed)" by (simp add: IsTerminal_def)
  show "{t. \<exists>e. NextState s e = Some t} \<subseteq> set AllStates" using NextState_named by blast
qed

text \<open>From every named state a finite sequence of events leads to \<^verbatim>\<open>destroyed\<close>: no
  state of the machine is a trap.\<close>

theorem every_state_reaches_destroyed:
  assumes "s \<in> set AllStates"
  shows "reaches s StateDestroyed"
proof -
  have destroying: "reaches StateDestroying StateDestroyed"
    by (rule reaches_step[of _ EventDestroyed, OF _ reaches_refl]) (simp add: transition_iff)
  have "s = StateDestroyed \<or> s = StateDestroying \<or>
    NextState s EventDestroyRequest = Some StateDestroyed \<or>
    NextState s EventDestroyRequest = Some StateDestroying"
    using assms by (auto simp: AllStates_def)
  then show ?thesis
    using destroying by (auto intro: reaches_refl reaches_step simp: transition_iff)
qed

theorem every_state_reaches_destroyed_witness:
  "StateRestarting \<in> set AllStates \<and> reaches StateRestarting StateDestroyed"
  using every_state_reaches_destroyed[of StateRestarting] by (simp add: AllStates_def)

end
