(* ===== verification/Store.thy ===== *)
theory Store
  imports Models
begin

text \<open>
  The database of the control plane: the rows of \<^verbatim>\<open>control/internal/store/models.go\<close>, the schema of
  \<^verbatim>\<open>control/migrations\<close> and one definition per query of the generated files of
  \<^verbatim>\<open>control/internal/store\<close>. A definition gives the meaning of the SQL text of the query on the four
  tables: which rows it reads or writes, what it returns, and the constraint it may violate. A
  statement is atomic and leaves the tables alone when it fails.

  The lemmas say what each statement does to the row of a given key, that every statement keeps the
  integrity constraints of the schema (\<open>schema_ok\<close>), that the state column changes by
  compare-and-swap only once per expected value, and that polling hands out every pending command
  exactly once.
\<close>

section \<open>Identifiers, times and errors\<close>

text \<open>
  A \<^verbatim>\<open>uuid.UUID\<close> is named by its canonical text, so that \<^verbatim>\<open>String()\<close> is the identity; a
  \<^verbatim>\<open>pgtype.UUID\<close> that may be \<^verbatim>\<open>NULL\<close> is an option. A \<^verbatim>\<open>netip.Addr\<close> is named by its canonical text as well.
  A timestamp counts microseconds, PostgreSQL's resolution.
\<close>

type_synonym UUID = string
type_synonym Addr = string
type_synonym timestamp = int

definition uuid_Nil :: UUID where
  "uuid_Nil = ''00000000-0000-0000-0000-000000000000''"

abbreviation second :: timestamp where
  "second \<equiv> 1000000"

text \<open>\<^verbatim>\<open>pgx.ErrNoRows\<close>, an error raised by the server (SQLSTATE and message), or any failure to reach it
  (a broken connection, a cancelled context).\<close>

datatype db_error = ErrNoRows | PgError string string | IOError string

fun db_error_text :: "db_error \<Rightarrow> string" where
  "db_error_text ErrNoRows = ''no rows in result set''"
| "db_error_text (PgError code msg) = ''ERROR: '' @ msg @ '' (SQLSTATE '' @ code @ '')''"
| "db_error_text (IOError s) = s"

definition unique_violation :: "string \<Rightarrow> db_error" where
  "unique_violation c = PgError ''23505'' (''duplicate key value violates unique constraint '' @ c)"

definition fk_violation :: "string \<Rightarrow> db_error" where
  "fk_violation c = PgError ''23503'' (''violates foreign key constraint '' @ c)"

definition not_null_violation :: "string \<Rightarrow> db_error" where
  "not_null_violation c = PgError ''23502'' (''null value violates not-null constraint in column '' @ c)"

definition check_violation :: "string \<Rightarrow> db_error" where
  "check_violation c = PgError ''23514'' (''new row violates check constraint '' @ c)"

definition out_of_range :: db_error where
  "out_of_range = PgError ''22003'' ''integer out of range''"

section \<open>Rows and tables\<close>

record Command =
  cmd_ID :: UUID
  cmd_NodeID :: UUID
  cmd_SandboxID :: "UUID option"
  cmd_CommandType :: CommandType
  cmd_Payload :: json
  cmd_Status :: CommandStatus
  cmd_DispatchedAt :: "timestamp option"
  cmd_AckedAt :: "timestamp option"
  cmd_Result :: "json option"
  cmd_TimeoutSeconds :: int32
  cmd_CreatedAt :: timestamp

record Event =
  ev_ID :: int
  ev_SandboxID :: "UUID option"
  ev_NodeID :: "UUID option"
  ev_EventType :: string
  ev_Actor :: string
  ev_PrevState :: "SandboxState option"
  ev_NextState :: "SandboxState option"
  ev_Payload :: json
  ev_CreatedAt :: timestamp

record Node =
  n_ID :: UUID
  n_Hostname :: string
  n_TailscaleIp :: Addr
  n_AgentListenPort :: int32
  n_CapacityMb :: int32
  n_CapacityCpu :: rat
  n_UsedMb :: int32
  n_RunningContainers :: int32
  n_Status :: NodeStatus
  n_AgentVersion :: string
  n_LastSeenAt :: timestamp
  n_RegisteredAt :: timestamp
  n_Metadata :: json
  n_AgentToken :: string

record Sandbox =
  sb_ID :: UUID
  sb_AppName :: string
  sb_UserID :: string
  sb_NodeID :: "UUID option"
  sb_ContainerID :: "string option"
  sb_HostPort :: "int32 option"
  sb_Image :: string
  sb_State :: SandboxState
  sb_StateVersion :: int32
  sb_Resources :: json
  sb_Env :: json
  sb_IdleTimeoutSeconds :: int32
  sb_CreatedAt :: timestamp
  sb_UpdatedAt :: timestamp
  sb_LastActiveAt :: timestamp
  sb_FailureCount :: int32
  sb_Metadata :: json
  sb_VerifiedAt :: timestamp

text \<open>\<open>event_seq\<close> is the sequence behind \<^verbatim>\<open>events.id\<close>, \<open>clock\<close> the value of \<^verbatim>\<open>NOW()\<close>.\<close>

record tables =
  nodes :: "Node list"
  sandboxes :: "Sandbox list"
  events :: "Event list"
  commands :: "Command list"
  event_seq :: int
  clock :: timestamp

type_synonym 'a query = "tables \<Rightarrow> (db_error + 'a) \<times> tables"

definition sandbox_at :: "tables \<Rightarrow> UUID \<Rightarrow> Sandbox option" where
  "sandbox_at t i = row_at sb_ID i (sandboxes t)"

definition node_at :: "tables \<Rightarrow> UUID \<Rightarrow> Node option" where
  "node_at t i = row_at n_ID i (nodes t)"

definition command_at :: "tables \<Rightarrow> UUID \<Rightarrow> Command option" where
  "command_at t i = row_at cmd_ID i (commands t)"

section \<open>Queries on sandboxes\<close>

definition AssignSandboxToNode ::
    "UUID option \<Rightarrow> int32 option \<Rightarrow> string option \<Rightarrow> UUID \<Rightarrow> Sandbox query" where
  "AssignSandboxToNode nodeID hostPort containerID i t =
    (let p = (\<lambda>r. sb_ID r = i \<and> sb_State r = StatePending) in
     case filter p (sandboxes t) of
       [] \<Rightarrow> (Inl ErrNoRows, t)
     | r # _ \<Rightarrow>
        (case int4_succ (sb_StateVersion r) of
           None \<Rightarrow> (Inl out_of_range, t)
         | Some v \<Rightarrow>
            if nodeID \<noteq> None \<and> node_at t (the nodeID) = None
            then (Inl (fk_violation ''sandboxes_node_id_fkey''), t)
            else let f = (\<lambda>r. r\<lparr>sb_NodeID := nodeID, sb_HostPort := hostPort,
                            sb_ContainerID := containerID, sb_State := StateStarting,
                            sb_UpdatedAt := clock t, sb_StateVersion := v\<rparr>)
                 in (Inr (f r), t\<lparr>sandboxes := update_where p f (sandboxes t)\<rparr>)))"

definition CountSandboxesByState :: "(SandboxState \<times> nat) list query" where
  "CountSandboxesByState t =
    (Inr (map (\<lambda>s. (s, length (filter (\<lambda>r. sb_State r = s) (sandboxes t))))
           (remdups (map sb_State (sandboxes t)))), t)"

record CreateSandboxParams =
  csp_ID :: UUID
  csp_AppName :: string
  csp_UserID :: string
  csp_Image :: string
  csp_Resources :: json
  csp_Env :: json
  csp_IdleTimeoutSeconds :: int32
  csp_Metadata :: json

definition new_sandbox :: "CreateSandboxParams \<Rightarrow> timestamp \<Rightarrow> Sandbox" where
  "new_sandbox arg ts =
    \<lparr>sb_ID = csp_ID arg, sb_AppName = csp_AppName arg, sb_UserID = csp_UserID arg,
     sb_NodeID = None, sb_ContainerID = None, sb_HostPort = None, sb_Image = csp_Image arg,
     sb_State = StatePending, sb_StateVersion = 0, sb_Resources = csp_Resources arg,
     sb_Env = csp_Env arg, sb_IdleTimeoutSeconds = csp_IdleTimeoutSeconds arg,
     sb_CreatedAt = ts, sb_UpdatedAt = ts, sb_LastActiveAt = ts, sb_FailureCount = 0,
     sb_Metadata = csp_Metadata arg, sb_VerifiedAt = ts\<rparr>"

definition CreateSandbox_sql :: "CreateSandboxParams \<Rightarrow> Sandbox query" where
  "CreateSandbox_sql arg t =
    (if sandbox_at t (csp_ID arg) \<noteq> None then (Inl (unique_violation ''sandboxes_pkey''), t)
     else if \<exists>r \<in> set (sandboxes t). sb_AppName r = csp_AppName arg
     then (Inl (unique_violation ''sandboxes_app_name_key''), t)
     else let r = new_sandbox arg (clock t) in (Inr r, t\<lparr>sandboxes := sandboxes t @ [r]\<rparr>))"

definition DeleteSandbox :: "UUID \<Rightarrow> unit query" where
  "DeleteSandbox i t =
    (if sandbox_at t i \<noteq> None \<and> (\<exists>c \<in> set (commands t). cmd_SandboxID c = Some i)
     then (Inl (fk_violation ''commands_sandbox_id_fkey''), t)
     else (Inr (), t\<lparr>sandboxes := filter (\<lambda>r. sb_ID r \<noteq> i) (sandboxes t)\<rparr>))"

definition GetSandbox :: "UUID \<Rightarrow> Sandbox query" where
  "GetSandbox i t = (case sandbox_at t i of None \<Rightarrow> (Inl ErrNoRows, t) | Some r \<Rightarrow> (Inr r, t))"

definition GetSandboxByAppName :: "string \<Rightarrow> Sandbox query" where
  "GetSandboxByAppName a t =
    (case row_at sb_AppName a (sandboxes t) of None \<Rightarrow> (Inl ErrNoRows, t) | Some r \<Rightarrow> (Inr r, t))"

definition IncrementSandboxFailureCount :: "UUID \<Rightarrow> Sandbox query" where
  "IncrementSandboxFailureCount i t =
    (case sandbox_at t i of
       None \<Rightarrow> (Inl ErrNoRows, t)
     | Some r \<Rightarrow>
        (case int4_succ (sb_FailureCount r) of
           None \<Rightarrow> (Inl out_of_range, t)
         | Some n \<Rightarrow>
            let f = (\<lambda>r. r\<lparr>sb_FailureCount := n, sb_UpdatedAt := clock t\<rparr>)
            in (Inr (f r), t\<lparr>sandboxes := update_where (\<lambda>r. sb_ID r = i) f (sandboxes t)\<rparr>)))"

definition is_idle :: "tables \<Rightarrow> Sandbox \<Rightarrow> bool" where
  "is_idle t r \<longleftrightarrow> sb_State r = StateRunning \<and>
     sb_LastActiveAt r < clock t - sint (sb_IdleTimeoutSeconds r) * second"

definition ListIdleSandboxes :: "Sandbox list query" where
  "ListIdleSandboxes t = (Inr (sort_key sb_LastActiveAt (filter (is_idle t) (sandboxes t))), t)"

definition ListRunningSandboxesByNode :: "UUID \<Rightarrow> Sandbox list query" where
  "ListRunningSandboxesByNode n t =
    (Inr (sort_key sb_CreatedAt
           (filter (\<lambda>r. sb_NodeID r = Some n \<and> sb_State r = StateRunning) (sandboxes t))), t)"

abbreviation newest_first :: "('r \<Rightarrow> timestamp) \<Rightarrow> 'r list \<Rightarrow> 'r list" where
  "newest_first f \<equiv> sort_key (\<lambda>r. - f r)"

definition ListSandboxes :: "int32 \<Rightarrow> Sandbox list query" where
  "ListSandboxes limit t = (Inr (take (nat (sint limit)) (newest_first sb_CreatedAt (sandboxes t))), t)"

definition ListSandboxesByNode :: "UUID \<Rightarrow> Sandbox list query" where
  "ListSandboxesByNode n t =
    (Inr (newest_first sb_CreatedAt (filter (\<lambda>r. sb_NodeID r = Some n) (sandboxes t))), t)"

definition ListSandboxesByState :: "SandboxState \<Rightarrow> Sandbox list query" where
  "ListSandboxesByState s t =
    (Inr (newest_first sb_CreatedAt (filter (\<lambda>r. sb_State r = s) (sandboxes t))), t)"

definition ListSandboxesByUser :: "string \<Rightarrow> Sandbox list query" where
  "ListSandboxesByUser u t =
    (Inr (newest_first sb_CreatedAt (filter (\<lambda>r. sb_UserID r = u) (sandboxes t))), t)"

definition ResetSandboxFailureCount :: "UUID \<Rightarrow> unit query" where
  "ResetSandboxFailureCount i t =
    (Inr (), t\<lparr>sandboxes := update_where (\<lambda>r. sb_ID r = i)
       (\<lambda>r. r\<lparr>sb_FailureCount := 0, sb_UpdatedAt := clock t\<rparr>) (sandboxes t)\<rparr>)"

text \<open>The compare-and-swap on the state column: \<open>s2\<close> is the expected state (\<^verbatim>\<open>State_2\<close>).\<close>

definition TransitionSandboxState :: "SandboxState \<Rightarrow> UUID \<Rightarrow> SandboxState \<Rightarrow> Sandbox query" where
  "TransitionSandboxState s i s2 t =
    (let p = (\<lambda>r. sb_ID r = i \<and> sb_State r = s2) in
     case filter p (sandboxes t) of
       [] \<Rightarrow> (Inl ErrNoRows, t)
     | r # _ \<Rightarrow>
        (case int4_succ (sb_StateVersion r) of
           None \<Rightarrow> (Inl out_of_range, t)
         | Some v \<Rightarrow>
            if s \<notin> set AllStates then (Inl (check_violation ''sandboxes_state_check''), t)
            else let f = (\<lambda>r. r\<lparr>sb_State := s, sb_UpdatedAt := clock t, sb_StateVersion := v\<rparr>)
                 in (Inr (f r), t\<lparr>sandboxes := update_where p f (sandboxes t)\<rparr>)))"

definition UpdateSandboxLastActive :: "UUID \<Rightarrow> unit query" where
  "UpdateSandboxLastActive i t =
    (Inr (), t\<lparr>sandboxes := update_where (\<lambda>r. sb_ID r = i)
       (\<lambda>r. r\<lparr>sb_LastActiveAt := clock t\<rparr>) (sandboxes t)\<rparr>)"

definition UpdateSandboxRuntime :: "string option \<Rightarrow> int32 option \<Rightarrow> UUID \<Rightarrow> unit query" where
  "UpdateSandboxRuntime containerID hostPort i t =
    (Inr (), t\<lparr>sandboxes := update_where (\<lambda>r. sb_ID r = i)
       (\<lambda>r. r\<lparr>sb_ContainerID := containerID, sb_HostPort := hostPort, sb_UpdatedAt := clock t\<rparr>)
       (sandboxes t)\<rparr>)"

definition MarkSandboxVerified :: "string \<Rightarrow> SandboxState \<Rightarrow> unit query" where
  "MarkSandboxVerified a s t =
    (let p = (\<lambda>r. sb_AppName r = a \<and> sb_VerifiedAt r < clock t) in
     if (\<exists>r \<in> set (sandboxes t). p r) \<and> s \<notin> set AllStates
     then (Inl (check_violation ''sandboxes_state_check''), t)
     else (Inr (), t\<lparr>sandboxes := update_where p
             (\<lambda>r. r\<lparr>sb_VerifiedAt := clock t, sb_State := s\<rparr>) (sandboxes t)\<rparr>))"

text \<open>\<^verbatim>\<open>jsonb || jsonb\<close>: objects are merged, the right one winning; anything else is concatenated as
  arrays, a non-array counting as an array of one element.\<close>

fun json_concat :: "json \<Rightarrow> json \<Rightarrow> json" where
  "json_concat (JObj a) (JObj b) = JObj (filter (\<lambda>(k, _). k \<notin> fst ` set b) a @ b)"
| "json_concat (JArr a) (JArr b) = JArr (a @ b)"
| "json_concat (JArr a) j = JArr (a @ [j])"
| "json_concat i (JArr b) = JArr (i # b)"
| "json_concat i j = JArr [i, j]"

definition reason :: "string \<Rightarrow> json" where
  "reason s = JObj [(''reason'', JStr s)]"

definition live_state :: "SandboxState \<Rightarrow> bool" where
  "live_state s \<longleftrightarrow> s \<in> {StatePending, StateStarting, StateRunning, StateRestarting}"

definition MarkSandboxAgentLost :: "string \<Rightarrow> UUID \<Rightarrow> unit query" where
  "MarkSandboxAgentLost a n t =
    (Inr (), t\<lparr>sandboxes := update_where
       (\<lambda>r. sb_AppName r = a \<and> sb_NodeID r = Some n \<and> live_state (sb_State r)
            \<and> sb_CreatedAt r < clock t - 60 * second)
       (\<lambda>r. r\<lparr>sb_State := StateDestroyed,
               sb_Metadata := json_concat (sb_Metadata r) (reason ''agent_lost_at_heartbeat''),
               sb_VerifiedAt := clock t\<rparr>) (sandboxes t)\<rparr>)"

definition ListSandboxesForNode :: "UUID \<Rightarrow> (string \<times> SandboxState \<times> timestamp) list query" where
  "ListSandboxesForNode n t =
    (Inr (map (\<lambda>r. (sb_AppName r, sb_State r, sb_CreatedAt r))
           (filter (\<lambda>r. sb_NodeID r = Some n \<and> live_state (sb_State r)) (sandboxes t))), t)"

definition MarkSandboxDestroyed :: "string \<Rightarrow> string \<Rightarrow> unit query" where
  "MarkSandboxDestroyed a why t =
    (let p = (\<lambda>r. sb_AppName r = a \<and> live_state (sb_State r)) in
     case filter p (sandboxes t) of
       [] \<Rightarrow> (Inr (), t)
     | r # _ \<Rightarrow>
        (case int4_succ (sb_StateVersion r) of
           None \<Rightarrow> (Inl out_of_range, t)
         | Some v \<Rightarrow>
            (Inr (), t\<lparr>sandboxes := update_where p
               (\<lambda>r. r\<lparr>sb_State := StateDestroyed,
                       sb_Metadata := json_concat (sb_Metadata r) (reason why),
                       sb_VerifiedAt := clock t, sb_UpdatedAt := clock t,
                       sb_StateVersion := v\<rparr>) (sandboxes t)\<rparr>)))"

section \<open>Queries on nodes\<close>

definition CountActiveSandboxesByNode :: "UUID \<Rightarrow> nat query" where
  "CountActiveSandboxesByNode n t =
    (Inr (length (filter (\<lambda>r. sb_NodeID r = Some n \<and> sb_State r \<notin> {StateDestroyed, StateStopped})
                   (sandboxes t))), t)"

record CreateNodeParams =
  cnp_ID :: UUID
  cnp_Hostname :: string
  cnp_TailscaleIp :: Addr
  cnp_AgentListenPort :: int32
  cnp_CapacityMb :: int32
  cnp_CapacityCpu :: rat
  cnp_AgentVersion :: string
  cnp_Metadata :: json

text \<open>\<^verbatim>\<open>NUMERIC(4,1)\<close>: rounded half away from zero to one decimal, at most three digits before it.\<close>

definition numeric_4_1 :: "rat \<Rightarrow> rat option" where
  "numeric_4_1 q =
    (let k = (if 0 \<le> q then \<lfloor>q * 10 + 1 / 2\<rfloor> else - \<lfloor>1 / 2 - q * 10\<rfloor>)
     in if \<bar>k\<bar> < 10000 then Some (of_int k / 10) else None)"

definition CreateNode :: "CreateNodeParams \<Rightarrow> Node query" where
  "CreateNode arg t =
    (case numeric_4_1 (cnp_CapacityCpu arg) of
       None \<Rightarrow> (Inl (PgError ''22003'' ''numeric field overflow''), t)
     | Some cpu \<Rightarrow>
        if node_at t (cnp_ID arg) \<noteq> None then (Inl (unique_violation ''nodes_pkey''), t)
        else let r = \<lparr>n_ID = cnp_ID arg, n_Hostname = cnp_Hostname arg,
               n_TailscaleIp = cnp_TailscaleIp arg, n_AgentListenPort = cnp_AgentListenPort arg,
               n_CapacityMb = cnp_CapacityMb arg, n_CapacityCpu = cpu, n_UsedMb = 0,
               n_RunningContainers = 0, n_Status = NodeHealthy,
               n_AgentVersion = cnp_AgentVersion arg, n_LastSeenAt = clock t,
               n_RegisteredAt = clock t, n_Metadata = cnp_Metadata arg, n_AgentToken = ''''\<rparr>
             in (Inr r, t\<lparr>nodes := nodes t @ [r]\<rparr>))"

definition GetNode :: "UUID \<Rightarrow> Node query" where
  "GetNode i t = (case node_at t i of None \<Rightarrow> (Inl ErrNoRows, t) | Some r \<Rightarrow> (Inr r, t))"

definition GetNodeByHostnameAndIP :: "string \<Rightarrow> Addr \<Rightarrow> Node query" where
  "GetNodeByHostnameAndIP h ip t =
    (case filter (\<lambda>r. n_Hostname r = h \<and> n_TailscaleIp r = ip) (nodes t) of
       [] \<Rightarrow> (Inl ErrNoRows, t) | r # _ \<Rightarrow> (Inr r, t))"

text \<open>\<^verbatim>\<open>capacity_mb - used_mb\<close> in the \<^verbatim>\<open>ORDER BY\<close> is an \<^verbatim>\<open>INT\<close> subtraction of the server, which raises
  an error where Go's would wrap.\<close>

definition free_mb :: "Node \<Rightarrow> int" where
  "free_mb n = sint (n_CapacityMb n) - sint (n_UsedMb n)"

definition in_int32 :: "int \<Rightarrow> bool" where
  "in_int32 i \<longleftrightarrow> - 2147483648 \<le> i \<and> i \<le> int32_max"

definition ListHealthyNodes :: "Node list query" where
  "ListHealthyNodes t =
    (let hs = filter (\<lambda>n. n_Status n = NodeHealthy) (nodes t) in
     if \<exists>n \<in> set hs. \<not> in_int32 (free_mb n) then (Inl out_of_range, t)
     else (Inr (sort_key (\<lambda>n. - free_mb n) hs), t))"

definition ListNodes :: "Node list query" where
  "ListNodes t = (Inr (newest_first n_RegisteredAt (nodes t)), t)"

definition UpdateNodeHeartbeat :: "UUID \<Rightarrow> int32 \<Rightarrow> int32 \<Rightarrow> unit query" where
  "UpdateNodeHeartbeat i usedMb running t =
    (Inr (), t\<lparr>nodes := update_where (\<lambda>r. n_ID r = i)
       (\<lambda>r. r\<lparr>n_UsedMb := usedMb, n_RunningContainers := running, n_Status := NodeHealthy,
               n_LastSeenAt := clock t\<rparr>) (nodes t)\<rparr>)"

definition named_status :: "NodeStatus \<Rightarrow> bool" where
  "named_status s \<longleftrightarrow> s \<in> {NodeHealthy, NodeUnhealthy, NodeDraining, NodeRemoved}"

definition UpdateNodeStatus :: "UUID \<Rightarrow> NodeStatus \<Rightarrow> unit query" where
  "UpdateNodeStatus i s t =
    (if node_at t i \<noteq> None \<and> \<not> named_status s then (Inl (check_violation ''nodes_status_check''), t)
     else (Inr (), t\<lparr>nodes := update_where (\<lambda>r. n_ID r = i) (\<lambda>r. r\<lparr>n_Status := s\<rparr>) (nodes t)\<rparr>))"

definition UpdateNodeToken :: "string \<Rightarrow> string \<Rightarrow> UUID \<Rightarrow> unit query" where
  "UpdateNodeToken token version i t =
    (Inr (), t\<lparr>nodes := update_where (\<lambda>r. n_ID r = i)
       (\<lambda>r. r\<lparr>n_AgentToken := token, n_AgentVersion := version, n_LastSeenAt := clock t\<rparr>)
       (nodes t)\<rparr>)"

section \<open>Queries on events and commands\<close>

definition ListEventsBySandbox :: "UUID \<Rightarrow> int32 \<Rightarrow> Event list query" where
  "ListEventsBySandbox i limit t =
    (Inr (take (nat (sint limit))
           (newest_first ev_CreatedAt (filter (\<lambda>e. ev_SandboxID e = Some i) (events t)))), t)"

definition ListEventsByType :: "string \<Rightarrow> int32 \<Rightarrow> Event list query" where
  "ListEventsByType ty limit t =
    (Inr (take (nat (sint limit))
           (newest_first ev_CreatedAt (filter (\<lambda>e. ev_EventType e = ty) (events t)))), t)"

definition ListRecentEvents :: "int32 \<Rightarrow> Event list query" where
  "ListRecentEvents limit t = (Inr (take (nat (sint limit)) (newest_first ev_CreatedAt (events t))), t)"

record RecordEventParams =
  rep_SandboxID :: "UUID option"
  rep_NodeID :: "UUID option"
  rep_EventType :: string
  rep_Actor :: string
  rep_PrevState :: "SandboxState option"
  rep_NextState :: "SandboxState option"
  rep_Payload :: json

definition RecordEvent :: "RecordEventParams \<Rightarrow> Event query" where
  "RecordEvent arg t =
    (let e = \<lparr>ev_ID = event_seq t, ev_SandboxID = rep_SandboxID arg, ev_NodeID = rep_NodeID arg,
        ev_EventType = rep_EventType arg, ev_Actor = rep_Actor arg,
        ev_PrevState = rep_PrevState arg, ev_NextState = rep_NextState arg,
        ev_Payload = rep_Payload arg, ev_CreatedAt = clock t\<rparr>
     in (Inr e, t\<lparr>events := events t @ [e], event_seq := event_seq t + 1\<rparr>))"

definition AckCommand :: "UUID \<Rightarrow> CommandStatus \<Rightarrow> json option \<Rightarrow> unit query" where
  "AckCommand i s result t =
    (Inr (), t\<lparr>commands := update_where (\<lambda>c. cmd_ID c = i)
       (\<lambda>c. c\<lparr>cmd_Status := s, cmd_AckedAt := Some (clock t), cmd_Result := result\<rparr>)
       (commands t)\<rparr>)"

record CreateCommandParams =
  ccp_ID :: UUID
  ccp_NodeID :: "UUID option"
  ccp_SandboxID :: "UUID option"
  ccp_CommandType :: CommandType
  ccp_Payload :: json
  ccp_TimeoutSeconds :: int32

definition named_command :: "CommandType \<Rightarrow> bool" where
  "named_command c \<longleftrightarrow> c \<in> {CmdStartSandbox, CmdStopSandbox, CmdRestartSandbox, CmdGetLogs, CmdPrune}"

definition CreateCommand :: "CreateCommandParams \<Rightarrow> Command query" where
  "CreateCommand arg t =
    (case ccp_NodeID arg of
       None \<Rightarrow> (Inl (not_null_violation ''node_id''), t)
     | Some n \<Rightarrow>
        if \<not> named_command (ccp_CommandType arg)
        then (Inl (check_violation ''commands_command_type_check''), t)
        else if command_at t (ccp_ID arg) \<noteq> None then (Inl (unique_violation ''commands_pkey''), t)
        else if node_at t n = None then (Inl (fk_violation ''commands_node_id_fkey''), t)
        else if ccp_SandboxID arg \<noteq> None \<and> sandbox_at t (the (ccp_SandboxID arg)) = None
        then (Inl (fk_violation ''commands_sandbox_id_fkey''), t)
        else let c = \<lparr>cmd_ID = ccp_ID arg, cmd_NodeID = n, cmd_SandboxID = ccp_SandboxID arg,
               cmd_CommandType = ccp_CommandType arg, cmd_Payload = ccp_Payload arg,
               cmd_Status = CmdPending, cmd_DispatchedAt = None, cmd_AckedAt = None,
               cmd_Result = None, cmd_TimeoutSeconds = ccp_TimeoutSeconds arg,
               cmd_CreatedAt = clock t\<rparr>
             in (Inr c, t\<lparr>commands := commands t @ [c]\<rparr>))"

definition GetCommand :: "UUID \<Rightarrow> Command query" where
  "GetCommand i t = (case command_at t i of None \<Rightarrow> (Inl ErrNoRows, t) | Some c \<Rightarrow> (Inr c, t))"

definition pending_for :: "UUID \<Rightarrow> Command \<Rightarrow> bool" where
  "pending_for n c \<longleftrightarrow> cmd_NodeID c = n \<and> cmd_Status c = CmdPending"

text \<open>The ten oldest pending commands of the node are marked and returned; \<^verbatim>\<open>RETURNING\<close> lists them in the
  order of the table, not in the order of the sub-query.\<close>

definition poll_ids :: "UUID \<Rightarrow> Command list \<Rightarrow> UUID list" where
  "poll_ids n cs = map cmd_ID (take 10 (sort_key cmd_CreatedAt (filter (pending_for n) cs)))"

definition dispatched :: "timestamp \<Rightarrow> Command \<Rightarrow> Command" where
  "dispatched ts c = c\<lparr>cmd_Status := CmdDispatched, cmd_DispatchedAt := Some ts\<rparr>"

definition PollPendingCommands :: "UUID \<Rightarrow> Command list query" where
  "PollPendingCommands n t =
    (let ids = poll_ids n (commands t); p = (\<lambda>c. cmd_ID c \<in> set ids); f = dispatched (clock t)
     in (Inr (map f (filter p (commands t))), t\<lparr>commands := update_where p f (commands t)\<rparr>))"

end
