(* ===== verification/Store_Laws.thy ===== *)
theory Store_Laws
  imports Store
begin

text \<open>
  What the statements of \<^verbatim>\<open>control/internal/store\<close> guarantee. The first part rewrites every statement
  keyed by a sandbox id into the replacement of one row (\<open>put_sandbox\<close>), so that the effect of a
  handler is computed by the simplifier; the second part proves that every statement keeps the
  integrity constraints of the schema; the third treats the compare-and-swap on the state column and
  the command queue.
\<close>

section \<open>One row at a time\<close>

definition pk_ok :: "tables \<Rightarrow> bool" where
  "pk_ok t \<longleftrightarrow> distinct (map sb_ID (sandboxes t))"

definition put_sandbox :: "Sandbox \<Rightarrow> tables \<Rightarrow> tables" where
  "put_sandbox r' t =
    t\<lparr>sandboxes := update_where (\<lambda>r. sb_ID r = sb_ID r') (\<lambda>_. r') (sandboxes t)\<rparr>"

definition event_row :: "RecordEventParams \<Rightarrow> tables \<Rightarrow> Event" where
  "event_row arg t =
    \<lparr>ev_ID = event_seq t, ev_SandboxID = rep_SandboxID arg, ev_NodeID = rep_NodeID arg,
     ev_EventType = rep_EventType arg, ev_Actor = rep_Actor arg, ev_PrevState = rep_PrevState arg,
     ev_NextState = rep_NextState arg, ev_Payload = rep_Payload arg, ev_CreatedAt = clock t\<rparr>"

definition log_event :: "RecordEventParams \<Rightarrow> tables \<Rightarrow> tables" where
  "log_event arg t = t\<lparr>events := events t @ [event_row arg t], event_seq := event_seq t + 1\<rparr>"

definition add_command :: "Command \<Rightarrow> tables \<Rightarrow> tables" where
  "add_command c t = t\<lparr>commands := commands t @ [c]\<rparr>"

lemma sandbox_at_ID: "sandbox_at t i = Some r \<Longrightarrow> sb_ID r = i"
  by (auto simp: sandbox_at_def dest: row_at_Some)

lemma sandbox_at_in: "sandbox_at t i = Some r \<Longrightarrow> r \<in> set (sandboxes t)"
  by (auto simp: sandbox_at_def dest: row_at_Some)

lemma in_sandbox_at: "pk_ok t \<Longrightarrow> r \<in> set (sandboxes t) \<Longrightarrow> sandbox_at t (sb_ID r) = Some r"
  by (simp add: pk_ok_def sandbox_at_def row_at_unique)

lemma row_at_distinct: "distinct (map key rows) \<Longrightarrow> r \<in> set rows \<Longrightarrow> row_at key (key r) rows = Some r"
  by (induction rows) auto

lemma row_at_map:
  "(\<And>r. key (f r) = key r) \<Longrightarrow> row_at key k (map f rows) = map_option f (row_at key k rows)"
  by (induction rows) auto

lemma sandbox_at_put [frame_simps]:
  "sandbox_at (put_sandbox r t) j =
    (if j = sb_ID r \<and> sandbox_at t j \<noteq> None then Some r else sandbox_at t j)"
proof (cases "j = sb_ID r")
  case True
  have "row_at sb_ID (sb_ID r) (update_where (\<lambda>x. sb_ID x = sb_ID r) (\<lambda>_. r) rows) =
    map_option (\<lambda>_. r) (row_at sb_ID (sb_ID r) rows)" for rows
    by (induction rows) (auto simp: update_where_def)
  with True show ?thesis
    by (cases "sandbox_at t j") (simp_all add: put_sandbox_def sandbox_at_def)
next
  case False
  then have "row_at sb_ID j (update_where (\<lambda>x. sb_ID x = sb_ID r) (\<lambda>_. r) rows) =
    row_at sb_ID j rows" for rows
    by (induction rows) (auto simp: update_where_def)
  with False show ?thesis by (auto simp: put_sandbox_def sandbox_at_def)
qed

lemma map_ID_put: "map sb_ID (sandboxes (put_sandbox r t)) = map sb_ID (sandboxes t)"
  by (simp add: put_sandbox_def update_where_def)

lemma pk_ok_put [frame_simps]: "pk_ok (put_sandbox r t) = pk_ok t"
  by (simp add: pk_ok_def map_ID_put)

lemma put_put [frame_simps]:
  "sb_ID r = sb_ID r' \<Longrightarrow> put_sandbox r (put_sandbox r' t) = put_sandbox r t"
  by (auto simp: put_sandbox_def update_where_def)

lemma set_put_sandbox:
  "set (sandboxes (put_sandbox r t)) \<subseteq> insert r (set (sandboxes t))"
  by (auto simp: put_sandbox_def update_where_def)

lemma update_where_key_eq:
  assumes "distinct (map key rows)" and "row_at key k rows = Some r" and "key (f r) = k"
  shows "update_where (\<lambda>x. key x = k \<and> q x) f rows =
    (if q r then update_where (\<lambda>x. key x = k) (\<lambda>_. f r) rows else rows)"
  using assms
proof (induction rows)
  case (Cons a rows)
  show ?case
  proof (cases "key a = k")
    case True
    with Cons.prems(1) have "\<And>x. x \<in> set rows \<Longrightarrow> key x \<noteq> k" by (auto simp: image_iff)
    then have "update_where (\<lambda>x. key x = k \<and> q x) f rows = rows"
      and "update_where (\<lambda>x. key x = k) (\<lambda>_. f r) rows = rows"
      by (auto intro: update_where_none)
    with True Cons.prems show ?thesis by (simp add: update_where_def)
  next
    case False
    with Cons show ?thesis by (simp add: update_where_def split: if_splits)
  qed
qed simp

lemma put_sandbox_eqI:
  assumes "pk_ok t" and "sandbox_at t i = Some r" and "sb_ID (f r) = i" and "q r"
  shows "t\<lparr>sandboxes := update_where (\<lambda>x. sb_ID x = i \<and> q x) f (sandboxes t)\<rparr> = put_sandbox (f r) t"
  using assms update_where_key_eq[of sb_ID "sandboxes t" i r f q]
  by (simp add: pk_ok_def sandbox_at_def put_sandbox_def)

lemmas put_sandbox_eqI_True = put_sandbox_eqI[where q = "\<lambda>_. True", simplified]

text \<open>Fields of the tables that the row operations leave alone.\<close>

lemma put_sandbox_frame [frame_simps]:
  "nodes (put_sandbox r t) = nodes t" "events (put_sandbox r t) = events t"
  "commands (put_sandbox r t) = commands t" "event_seq (put_sandbox r t) = event_seq t"
  "clock (put_sandbox r t) = clock t"
  by (simp_all add: put_sandbox_def)

lemma log_event_frame [frame_simps]:
  "nodes (log_event a t) = nodes t" "sandboxes (log_event a t) = sandboxes t"
  "commands (log_event a t) = commands t" "clock (log_event a t) = clock t"
  "events (log_event a t) = events t @ [event_row a t]"
  by (simp_all add: log_event_def)

lemma add_command_frame [frame_simps]:
  "nodes (add_command c t) = nodes t" "sandboxes (add_command c t) = sandboxes t"
  "events (add_command c t) = events t" "clock (add_command c t) = clock t"
  "event_seq (add_command c t) = event_seq t" "commands (add_command c t) = commands t @ [c]"
  by (simp_all add: add_command_def)

lemma lookup_frame [frame_simps]:
  "sandbox_at (log_event a t) i = sandbox_at t i" "sandbox_at (add_command c t) i = sandbox_at t i"
  "node_at (put_sandbox r t) i = node_at t i" "node_at (log_event a t) i = node_at t i"
  "node_at (add_command c t) i = node_at t i"
  "command_at (put_sandbox r t) i = command_at t i" "command_at (log_event a t) i = command_at t i"
  "pk_ok (log_event a t) = pk_ok t" "pk_ok (add_command c t) = pk_ok t"
  by (simp_all add: sandbox_at_def node_at_def command_at_def pk_ok_def frame_simps)

lemma command_at_add [frame_simps]:
  "command_at (add_command c t) i =
    (case command_at t i of None \<Rightarrow> if cmd_ID c = i then Some c else None | Some x \<Rightarrow> Some x)"
  by (simp add: command_at_def add_command_def row_at_append split: option.split)

section \<open>The statements, computed on one row\<close>

lemma GetSandbox_eq [stmt_simps]:
  "sandbox_at t i = Some r \<Longrightarrow> GetSandbox i t = (Inr r, t)"
  "sandbox_at t i = None \<Longrightarrow> GetSandbox i t = (Inl ErrNoRows, t)"
  by (simp_all add: GetSandbox_def)

lemma GetNode_eq [stmt_simps]:
  "node_at t i = Some r \<Longrightarrow> GetNode i t = (Inr r, t)"
  "node_at t i = None \<Longrightarrow> GetNode i t = (Inl ErrNoRows, t)"
  by (simp_all add: GetNode_def)

text \<open>The number of further transitions a row has before its \<^verbatim>\<open>state_version\<close> overflows is not a
  concern of the callers; \<open>version_room\<close> is the hypothesis that it does not.\<close>

definition version_room :: "int \<Rightarrow> Sandbox \<Rightarrow> bool" where
  "version_room k r \<longleftrightarrow> sint (sb_StateVersion r) + k \<le> int32_max"

lemma version_room_mono: "version_room k r \<Longrightarrow> j \<le> k \<Longrightarrow> version_room j r"
  by (simp add: version_room_def)

lemma int4_succ_room: "version_room 1 r \<Longrightarrow> int4_succ (sb_StateVersion r) = Some (sb_StateVersion r + 1)"
  by (simp add: int4_succ_def version_room_def)

lemma sint_version_succ: "version_room 1 r \<Longrightarrow> sint (sb_StateVersion r + 1) = sint (sb_StateVersion r) + 1"
  by (rule sint_succ_int32) (simp add: version_room_def)

definition moved :: "SandboxState \<Rightarrow> timestamp \<Rightarrow> Sandbox \<Rightarrow> Sandbox" where
  "moved s ts r = r\<lparr>sb_State := s, sb_UpdatedAt := ts, sb_StateVersion := sb_StateVersion r + 1\<rparr>"

lemma moved_simps [simp]:
  "sb_ID (moved s ts r) = sb_ID r" "sb_AppName (moved s ts r) = sb_AppName r"
  "sb_NodeID (moved s ts r) = sb_NodeID r" "sb_State (moved s ts r) = s"
  "sb_ContainerID (moved s ts r) = sb_ContainerID r" "sb_HostPort (moved s ts r) = sb_HostPort r"
  "sb_FailureCount (moved s ts r) = sb_FailureCount r" "sb_Image (moved s ts r) = sb_Image r"
  "sb_UserID (moved s ts r) = sb_UserID r"
  "sb_StateVersion (moved s ts r) = sb_StateVersion r + 1"
  by (simp_all add: moved_def)

definition assigned :: "UUID \<Rightarrow> int32 option \<Rightarrow> string option \<Rightarrow> timestamp \<Rightarrow> Sandbox \<Rightarrow> Sandbox" where
  "assigned n hp cid ts r = r\<lparr>sb_NodeID := Some n, sb_HostPort := hp, sb_ContainerID := cid,
     sb_State := StateStarting, sb_UpdatedAt := ts, sb_StateVersion := sb_StateVersion r + 1\<rparr>"

lemma assigned_simps [simp]:
  "sb_ID (assigned n hp cid ts r) = sb_ID r" "sb_AppName (assigned n hp cid ts r) = sb_AppName r"
  "sb_NodeID (assigned n hp cid ts r) = Some n" "sb_State (assigned n hp cid ts r) = StateStarting"
  "sb_ContainerID (assigned n hp cid ts r) = cid" "sb_HostPort (assigned n hp cid ts r) = hp"
  "sb_FailureCount (assigned n hp cid ts r) = sb_FailureCount r"
  "sb_Image (assigned n hp cid ts r) = sb_Image r" "sb_UserID (assigned n hp cid ts r) = sb_UserID r"
  by (simp_all add: assigned_def)

lemma version_room_moved: "version_room (k + 1) r \<Longrightarrow> 0 \<le> k \<Longrightarrow> version_room k (moved s ts r)"
  using sint_version_succ[of r] by (simp add: version_room_def)

lemma filter_state_eq:
  assumes "pk_ok t" and "sandbox_at t i = Some r"
  shows "filter (\<lambda>x. sb_ID x = i \<and> sb_State x = s) (sandboxes t) = (if sb_State r = s then [r] else [])"
  using assms filter_key_unique[of sb_ID "sandboxes t" i r "\<lambda>x. sb_State x = s"]
  by (simp add: pk_ok_def sandbox_at_def)

lemma filter_state_none:
  "sandbox_at t i = None \<Longrightarrow> filter (\<lambda>x. sb_ID x = i \<and> sb_State x = s) (sandboxes t) = []"
  by (simp add: sandbox_at_def filter_key_none)

lemma Transition_hit [stmt_simps]:
  assumes "pk_ok t" and "sandbox_at t i = Some r" and "sb_State r = s2" and "version_room 1 r"
    and "s \<in> set AllStates"
  shows "TransitionSandboxState s i s2 t =
    (Inr (moved s (clock t) r), put_sandbox (moved s (clock t) r) t)"
proof -
  let ?f = "\<lambda>x. x\<lparr>sb_State := s, sb_UpdatedAt := clock t, sb_StateVersion := sb_StateVersion r + 1\<rparr>"
  have "t\<lparr>sandboxes := update_where (\<lambda>x. sb_ID x = i \<and> sb_State x = s2) ?f (sandboxes t)\<rparr> =
      put_sandbox (?f r) t"
    using assms sandbox_at_ID[of t i r]
    by (intro put_sandbox_eqI[where q = "\<lambda>x. sb_State x = s2" and f = ?f]) simp_all
  then show ?thesis
    using assms by (simp add: TransitionSandboxState_def filter_state_eq int4_succ_room moved_def)
qed

lemma Transition_miss [stmt_simps]:
  assumes "pk_ok t" and "sandbox_at t i = Some r" and "sb_State r \<noteq> s2"
  shows "TransitionSandboxState s i s2 t = (Inl ErrNoRows, t)"
  using assms by (simp add: TransitionSandboxState_def filter_state_eq)

lemma Transition_absent [stmt_simps]:
  "sandbox_at t i = None \<Longrightarrow> TransitionSandboxState s i s2 t = (Inl ErrNoRows, t)"
  by (simp add: TransitionSandboxState_def filter_state_none)

lemma Assign_hit [stmt_simps]:
  assumes "pk_ok t" and "sandbox_at t i = Some r" and "sb_State r = StatePending"
    and "version_room 1 r" and "node_at t n \<noteq> None"
  shows "AssignSandboxToNode (Some n) hp cid i t =
    (Inr (assigned n hp cid (clock t) r), put_sandbox (assigned n hp cid (clock t) r) t)"
proof -
  let ?f = "\<lambda>x. x\<lparr>sb_NodeID := Some n, sb_HostPort := hp, sb_ContainerID := cid,
    sb_State := StateStarting, sb_UpdatedAt := clock t, sb_StateVersion := sb_StateVersion r + 1\<rparr>"
  have "t\<lparr>sandboxes := update_where (\<lambda>x. sb_ID x = i \<and> sb_State x = StatePending) ?f (sandboxes t)\<rparr> =
      put_sandbox (?f r) t"
    using assms sandbox_at_ID[of t i r]
    by (intro put_sandbox_eqI[where q = "\<lambda>x. sb_State x = StatePending" and f = ?f]) simp_all
  then show ?thesis
    using assms by (auto simp: AssignSandboxToNode_def filter_state_eq int4_succ_room assigned_def Let_def)
qed

lemma Increment_eq [stmt_simps]:
  assumes "pk_ok t" and "sandbox_at t i = Some r" and "sint (sb_FailureCount r) < int32_max"
  shows "IncrementSandboxFailureCount i t =
    (let r' = r\<lparr>sb_FailureCount := sb_FailureCount r + 1, sb_UpdatedAt := clock t\<rparr>
     in (Inr r', put_sandbox r' t))"
proof -
  let ?f = "\<lambda>x. x\<lparr>sb_FailureCount := sb_FailureCount r + 1, sb_UpdatedAt := clock t\<rparr>"
  have "t\<lparr>sandboxes := update_where (\<lambda>x. sb_ID x = i) ?f (sandboxes t)\<rparr> = put_sandbox (?f r) t"
    using assms sandbox_at_ID[of t i r] by (intro put_sandbox_eqI_True[where f = ?f]) simp_all
  then show ?thesis
    using assms by (simp add: IncrementSandboxFailureCount_def int4_succ_def Let_def)
qed

lemma Reset_eq [stmt_simps]:
  assumes "pk_ok t" and "sandbox_at t i = Some r"
  shows "ResetSandboxFailureCount i t =
    (Inr (), put_sandbox (r\<lparr>sb_FailureCount := 0, sb_UpdatedAt := clock t\<rparr>) t)"
  using assms sandbox_at_ID[of t i r]
    put_sandbox_eqI_True[of t i r "\<lambda>r. r\<lparr>sb_FailureCount := 0, sb_UpdatedAt := clock t\<rparr>"]
  by (simp add: ResetSandboxFailureCount_def)

lemma Runtime_eq [stmt_simps]:
  assumes "pk_ok t" and "sandbox_at t i = Some r"
  shows "UpdateSandboxRuntime cid hp i t =
    (Inr (), put_sandbox (r\<lparr>sb_ContainerID := cid, sb_HostPort := hp, sb_UpdatedAt := clock t\<rparr>) t)"
  using assms sandbox_at_ID[of t i r]
    put_sandbox_eqI_True[of t i r "\<lambda>r. r\<lparr>sb_ContainerID := cid, sb_HostPort := hp, sb_UpdatedAt := clock t\<rparr>"]
  by (simp add: UpdateSandboxRuntime_def)

lemma RecordEvent_eq [stmt_simps]: "RecordEvent a t = (Inr (event_row a t), log_event a t)"
  by (simp add: RecordEvent_def Let_def log_event_def event_row_def)

definition the_command :: "CreateCommandParams \<Rightarrow> UUID \<Rightarrow> timestamp \<Rightarrow> Command" where
  "the_command a n ts = \<lparr>cmd_ID = ccp_ID a, cmd_NodeID = n, cmd_SandboxID = ccp_SandboxID a,
     cmd_CommandType = ccp_CommandType a, cmd_Payload = ccp_Payload a, cmd_Status = CmdPending,
     cmd_DispatchedAt = None, cmd_AckedAt = None, cmd_Result = None,
     cmd_TimeoutSeconds = ccp_TimeoutSeconds a, cmd_CreatedAt = ts\<rparr>"

lemma CreateCommand_ok [stmt_simps]:
  assumes "ccp_NodeID a = Some n" and "named_command (ccp_CommandType a)"
    and "command_at t (ccp_ID a) = None" and "node_at t n \<noteq> None"
    and "ccp_SandboxID a = Some i" and "sandbox_at t i \<noteq> None"
  shows "CreateCommand a t =
    (Inr (the_command a n (clock t)), add_command (the_command a n (clock t)) t)"
  using assms by (auto simp: CreateCommand_def the_command_def add_command_def Let_def)

lemma CreateCommand_no_node [stmt_simps]:
  "ccp_NodeID a = None \<Longrightarrow> CreateCommand a t = (Inl (not_null_violation ''node_id''), t)"
  by (simp add: CreateCommand_def)

section \<open>Integrity constraints\<close>

text \<open>Primary keys, the unique application name, the \<^verbatim>\<open>CHECK\<close> constraints and the foreign keys of
  \<^verbatim>\<open>control/migrations\<close>.\<close>

definition schema_ok :: "tables \<Rightarrow> bool" where
  "schema_ok t \<longleftrightarrow>
     distinct (map n_ID (nodes t)) \<and> pk_ok t \<and> distinct (map sb_AppName (sandboxes t)) \<and>
     distinct (map cmd_ID (commands t)) \<and> distinct (map ev_ID (events t)) \<and>
     (\<forall>e \<in> set (events t). ev_ID e < event_seq t) \<and>
     (\<forall>n \<in> set (nodes t). named_status (n_Status n)) \<and>
     (\<forall>r \<in> set (sandboxes t). sb_State r \<in> set AllStates \<and>
        (\<forall>n. sb_NodeID r = Some n \<longrightarrow> node_at t n \<noteq> None)) \<and>
     (\<forall>c \<in> set (commands t). named_command (cmd_CommandType c) \<and> node_at t (cmd_NodeID c) \<noteq> None \<and>
        (\<forall>i. cmd_SandboxID c = Some i \<longrightarrow> sandbox_at t i \<noteq> None))"

lemma schema_pk [simp]: "schema_ok t \<Longrightarrow> pk_ok t"
  by (simp add: schema_ok_def)

lemma schema_app_names: "schema_ok t \<Longrightarrow> distinct (map sb_AppName (sandboxes t))"
  by (simp add: schema_ok_def)

lemma schema_state: "schema_ok t \<Longrightarrow> sandbox_at t i = Some r \<Longrightarrow> sb_State r \<in> set AllStates"
  by (auto simp: schema_ok_def dest: sandbox_at_in)

lemma schema_node: "schema_ok t \<Longrightarrow> sandbox_at t i = Some r \<Longrightarrow> sb_NodeID r = Some n \<Longrightarrow> node_at t n \<noteq> None"
  by (auto simp: schema_ok_def dest: sandbox_at_in)

lemma row_at_update_None:
  assumes "\<And>r. key (f r) = key r"
  shows "row_at key k (update_where p f rows) = None \<longleftrightarrow> row_at key k rows = None"
  by (simp add: row_at_update_where[where key = key, OF assms])

text \<open>An update of sandbox rows that keeps their keys, writes a named state and a known node.\<close>

lemma schema_ok_update_sandboxes:
  assumes "schema_ok t"
    and "\<And>r. sb_ID (f r) = sb_ID r" and "\<And>r. sb_AppName (f r) = sb_AppName r"
    and "\<And>r. r \<in> set (sandboxes t) \<Longrightarrow> p r \<Longrightarrow> sb_State (f r) \<in> set AllStates"
    and "\<And>r n. r \<in> set (sandboxes t) \<Longrightarrow> p r \<Longrightarrow> sb_NodeID (f r) = Some n \<Longrightarrow> node_at t n \<noteq> None"
  shows "schema_ok (t\<lparr>sandboxes := update_where p f (sandboxes t)\<rparr>)"
proof -
  have "sb_State r' \<in> set AllStates \<and> (\<forall>n. sb_NodeID r' = Some n \<longrightarrow> node_at t n \<noteq> None)"
    if "r' \<in> set (update_where p f (sandboxes t))" for r'
    using that assms(1,4,5) unfolding set_update_where schema_ok_def by blast
  then show ?thesis
    using assms(1) row_at_update_None[where key = sb_ID and f = f and rows = "sandboxes t" and p = p, OF assms(2)]
    by (simp add: schema_ok_def pk_ok_def sandbox_at_def node_at_def
        map_update_where[where g = sb_ID, OF assms(2)] map_update_where[where g = sb_AppName, OF assms(3)])
qed

lemma schema_ok_update_nodes:
  assumes "schema_ok t" and "\<And>n. n_ID (f n) = n_ID n"
    and "\<And>n. n \<in> set (nodes t) \<Longrightarrow> p n \<Longrightarrow> named_status (n_Status n) \<Longrightarrow> named_status (n_Status (f n))"
  shows "schema_ok (t\<lparr>nodes := update_where p f (nodes t)\<rparr>)"
proof -
  have "named_status (n_Status n')" if "n' \<in> set (update_where p f (nodes t))" for n'
    using that assms(1,3) unfolding set_update_where schema_ok_def by blast
  moreover have "row_at n_ID k (update_where p f (nodes t)) = None \<longleftrightarrow> row_at n_ID k (nodes t) = None" for k
    by (rule row_at_update_None) (rule assms(2))
  ultimately show ?thesis
    using assms(1) by (simp add: schema_ok_def pk_ok_def sandbox_at_def node_at_def
        map_update_where[where g = n_ID, OF assms(2)])
qed

lemma schema_ok_update_commands:
  assumes "schema_ok t" and "\<And>c. cmd_ID (f c) = cmd_ID c" and "\<And>c. cmd_NodeID (f c) = cmd_NodeID c"
    and "\<And>c. cmd_SandboxID (f c) = cmd_SandboxID c" and "\<And>c. cmd_CommandType (f c) = cmd_CommandType c"
  shows "schema_ok (t\<lparr>commands := update_where p f (commands t)\<rparr>)"
  using assms(1)
  by (auto simp: schema_ok_def pk_ok_def sandbox_at_def node_at_def set_update_where
      map_update_where[where g = cmd_ID, OF assms(2)] assms(3-5))

text \<open>The database as a state machine: one step is any statement with any parameters, or the clock
  moving on.\<close>

inductive sql_step :: "tables \<Rightarrow> tables \<Rightarrow> bool" where
  "sql_step t (snd (AssignSandboxToNode n hp c i t))"
| "sql_step t (snd (CreateSandbox_sql csp t))"
| "sql_step t (snd (DeleteSandbox i t))"
| "sql_step t (snd (IncrementSandboxFailureCount i t))"
| "sql_step t (snd (ResetSandboxFailureCount i t))"
| "sql_step t (snd (TransitionSandboxState s i s2 t))"
| "sql_step t (snd (UpdateSandboxLastActive i t))"
| "sql_step t (snd (UpdateSandboxRuntime c hp i t))"
| "sql_step t (snd (MarkSandboxVerified a s t))"
| "sql_step t (snd (MarkSandboxAgentLost a i t))"
| "sql_step t (snd (MarkSandboxDestroyed a why t))"
| "sql_step t (snd (CreateNode cnp t))"
| "sql_step t (snd (UpdateNodeHeartbeat i u k t))"
| "sql_step t (snd (UpdateNodeStatus i ns t))"
| "sql_step t (snd (UpdateNodeToken tok ver i t))"
| "sql_step t (snd (RecordEvent ep t))"
| "sql_step t (snd (AckCommand i cs res t))"
| "sql_step t (snd (CreateCommand ccp t))"
| "sql_step t (snd (PollPendingCommands i t))"
| "sql_step t (t\<lparr>clock := ts\<rparr>)"

lemma schema_Assign: "schema_ok t \<Longrightarrow> schema_ok (snd (AssignSandboxToNode n hp c i t))"
  unfolding AssignSandboxToNode_def Let_def
  by (auto simp: AllStates_def split: list.split option.split intro!: schema_ok_update_sandboxes)

lemma schema_Create:
  assumes "schema_ok t"
  shows "schema_ok (snd (CreateSandbox_sql a t))"
proof (cases "sandbox_at t (csp_ID a) \<noteq> None \<or> (\<exists>r \<in> set (sandboxes t). sb_AppName r = csp_AppName a)")
  case True
  with assms show ?thesis by (auto simp: CreateSandbox_sql_def)
next
  case False
  then have fresh: "csp_ID a \<notin> sb_ID ` set (sandboxes t)" "csp_AppName a \<notin> sb_AppName ` set (sandboxes t)"
    by (auto simp: sandbox_at_def row_at_None)
  with False assms show ?thesis
    by (auto simp: CreateSandbox_sql_def Let_def new_sandbox_def schema_ok_def pk_ok_def sandbox_at_def
        node_at_def AllStates_def row_at_append split: option.split)
qed

lemma schema_Delete:
  assumes "schema_ok t"
  shows "schema_ok (snd (DeleteSandbox i t))"
proof -
  have keep: "row_at sb_ID j (filter (\<lambda>r. sb_ID r \<noteq> i) rows) = row_at sb_ID j rows" if "j \<noteq> i" for j rows
    using that by (induction rows) auto
  have "sandbox_at t i = None \<Longrightarrow> filter (\<lambda>r. sb_ID r \<noteq> i) (sandboxes t) = sandboxes t"
    by (auto simp: sandbox_at_def row_at_None filter_id_conv)
  moreover have "schema_ok (t\<lparr>sandboxes := filter (\<lambda>r. sb_ID r \<noteq> i) (sandboxes t)\<rparr>)"
    if "\<forall>c \<in> set (commands t). cmd_SandboxID c \<noteq> Some i"
    using assms that
    by (auto simp: schema_ok_def pk_ok_def sandbox_at_def node_at_def distinct_map_filter keep)
  ultimately show ?thesis using assms by (auto simp: DeleteSandbox_def)
qed

lemma schema_Increment: "schema_ok t \<Longrightarrow> schema_ok (snd (IncrementSandboxFailureCount i t))"
  unfolding IncrementSandboxFailureCount_def Let_def
  by (auto split: option.split intro!: schema_ok_update_sandboxes) (auto simp: schema_ok_def)

lemma schema_Reset: "schema_ok t \<Longrightarrow> schema_ok (snd (ResetSandboxFailureCount i t))"
  unfolding ResetSandboxFailureCount_def
  by (auto intro!: schema_ok_update_sandboxes) (auto simp: schema_ok_def)

lemma schema_Transition: "schema_ok t \<Longrightarrow> schema_ok (snd (TransitionSandboxState s i s2 t))"
  unfolding TransitionSandboxState_def Let_def
  by (auto split: list.split option.split intro!: schema_ok_update_sandboxes) (auto simp: schema_ok_def)

lemma schema_LastActive: "schema_ok t \<Longrightarrow> schema_ok (snd (UpdateSandboxLastActive i t))"
  unfolding UpdateSandboxLastActive_def
  by (auto intro!: schema_ok_update_sandboxes) (auto simp: schema_ok_def)

lemma schema_Runtime: "schema_ok t \<Longrightarrow> schema_ok (snd (UpdateSandboxRuntime c hp i t))"
  unfolding UpdateSandboxRuntime_def
  by (auto intro!: schema_ok_update_sandboxes) (auto simp: schema_ok_def)

lemma schema_Verified: "schema_ok t \<Longrightarrow> schema_ok (snd (MarkSandboxVerified a s t))"
  unfolding MarkSandboxVerified_def Let_def
  by (auto intro!: schema_ok_update_sandboxes) (auto simp: schema_ok_def)

lemma schema_AgentLost: "schema_ok t \<Longrightarrow> schema_ok (snd (MarkSandboxAgentLost a n t))"
  unfolding MarkSandboxAgentLost_def
  by (auto simp: AllStates_def intro!: schema_ok_update_sandboxes) (auto simp: schema_ok_def)

lemma schema_Destroyed: "schema_ok t \<Longrightarrow> schema_ok (snd (MarkSandboxDestroyed a why t))"
  unfolding MarkSandboxDestroyed_def Let_def
  by (auto simp: AllStates_def split: list.split option.split intro!: schema_ok_update_sandboxes)
    (auto simp: schema_ok_def)

lemma schema_CreateNode:
  assumes "schema_ok t"
  shows "schema_ok (snd (CreateNode a t))"
proof (cases "numeric_4_1 (cnp_CapacityCpu a) = None \<or> node_at t (cnp_ID a) \<noteq> None")
  case True
  with assms show ?thesis by (auto simp: CreateNode_def split: option.split)
next
  case False
  then have "cnp_ID a \<notin> n_ID ` set (nodes t)" by (auto simp: node_at_def row_at_None)
  with False assms show ?thesis
    by (auto simp: CreateNode_def Let_def schema_ok_def pk_ok_def sandbox_at_def node_at_def
        named_status_def row_at_append split: option.splits)
qed

lemma schema_Heartbeat: "schema_ok t \<Longrightarrow> schema_ok (snd (UpdateNodeHeartbeat i u k t))"
  unfolding UpdateNodeHeartbeat_def by (auto simp: named_status_def intro!: schema_ok_update_nodes)

lemma schema_NodeStatus: "schema_ok t \<Longrightarrow> schema_ok (snd (UpdateNodeStatus i s t))"
  unfolding UpdateNodeStatus_def
  by (auto simp: node_at_def row_at_None intro!: schema_ok_update_nodes)

lemma schema_NodeToken: "schema_ok t \<Longrightarrow> schema_ok (snd (UpdateNodeToken tok v i t))"
  unfolding UpdateNodeToken_def by (auto intro!: schema_ok_update_nodes)

lemma schema_RecordEvent: "schema_ok t \<Longrightarrow> schema_ok (snd (RecordEvent a t))"
  by (auto simp: RecordEvent_def Let_def schema_ok_def pk_ok_def sandbox_at_def node_at_def)

lemma schema_Ack: "schema_ok t \<Longrightarrow> schema_ok (snd (AckCommand i s res t))"
  unfolding AckCommand_def by (auto intro!: schema_ok_update_commands)

lemma schema_CreateCommand:
  assumes "schema_ok t"
  shows "schema_ok (snd (CreateCommand a t))"
proof (cases "command_at t (ccp_ID a)")
  case None
  then have "ccp_ID a \<notin> cmd_ID ` set (commands t)" by (auto simp: command_at_def row_at_None)
  with assms show ?thesis
    by (auto simp: CreateCommand_def Let_def schema_ok_def pk_ok_def sandbox_at_def node_at_def
        split: option.split)
next
  case (Some c)
  with assms show ?thesis by (auto simp: CreateCommand_def split: option.split)
qed

lemma schema_Poll: "schema_ok t \<Longrightarrow> schema_ok (snd (PollPendingCommands n t))"
  unfolding PollPendingCommands_def Let_def
  by (auto simp: dispatched_def intro!: schema_ok_update_commands)

lemmas schema_statements =
  schema_Assign schema_Create schema_Delete schema_Increment schema_Reset schema_Transition
  schema_LastActive schema_Runtime schema_Verified schema_AgentLost schema_Destroyed
  schema_CreateNode schema_Heartbeat schema_NodeStatus schema_NodeToken schema_RecordEvent
  schema_Ack schema_CreateCommand schema_Poll

lemma schema_clock: "schema_ok t \<Longrightarrow> schema_ok (t\<lparr>clock := ts\<rparr>)"
  by (simp add: schema_ok_def pk_ok_def sandbox_at_def node_at_def)

lemma sql_step_schema: "sql_step t t' \<Longrightarrow> schema_ok t \<Longrightarrow> schema_ok t'"
  by (induction rule: sql_step.induct) (simp_all add: schema_statements schema_clock)

section \<open>Competing transitions and the command queue\<close>

fun cas_race ::
    "UUID \<Rightarrow> SandboxState \<Rightarrow> SandboxState list \<Rightarrow> tables \<Rightarrow> (db_error + Sandbox) list \<times> tables" where
  "cas_race i s2 [] t = ([], t)"
| "cas_race i s2 (s # ss) t =
    (let (x, t1) = TransitionSandboxState s i s2 t; (xs, t2) = cas_race i s2 ss t1 in (x # xs, t2))"

lemma cas_race_lost:
  assumes "pk_ok t" and "sandbox_at t i = Some r" and "sb_State r \<noteq> s2"
  shows "cas_race i s2 ss t = (replicate (length ss) (Inl ErrNoRows), t)"
  by (induction ss) (simp_all add: Transition_miss[OF assms])

fun poll_n :: "nat \<Rightarrow> UUID \<Rightarrow> tables \<Rightarrow> Command list \<times> tables" where
  "poll_n 0 n t = ([], t)"
| "poll_n (Suc k) n t =
    (case PollPendingCommands n t of
       (Inl e, t') \<Rightarrow> ([], t')
     | (Inr cs, t') \<Rightarrow> (let (ds, t'') = poll_n k n t' in (cs @ ds, t'')))"

lemma set_poll_ids: "set (poll_ids n cs) \<subseteq> cmd_ID ` set (filter (pending_for n) cs)"
  by (auto simp: poll_ids_def dest!: in_set_takeD)

lemma poll_ids_pending:
  assumes "distinct (map cmd_ID cs)" and "c \<in> set cs" and "cmd_ID c \<in> set (poll_ids n cs)"
  shows "pending_for n c"
proof -
  obtain d where "d \<in> set cs" "pending_for n d" "cmd_ID d = cmd_ID c"
    using set_poll_ids[of n cs] assms(3) by auto
  with assms(1,2) have "d = c" by (auto simp: distinct_map inj_on_def)
  with \<open>pending_for n d\<close> show ?thesis by simp
qed

lemma distinct_poll_ids: "distinct (map cmd_ID cs) \<Longrightarrow> distinct (poll_ids n cs)"
proof -
  assume "distinct (map cmd_ID cs)"
  then have "distinct (map cmd_ID (filter (pending_for n) cs))" by (rule distinct_map_filter)
  moreover have "mset (map cmd_ID (sort_key cmd_CreatedAt (filter (pending_for n) cs))) =
      mset (map cmd_ID (filter (pending_for n) cs))" by (simp only: mset_map mset_sort)
  ultimately have "distinct (map cmd_ID (sort_key cmd_CreatedAt (filter (pending_for n) cs)))"
    using mset_eq_imp_distinct_iff by blast
  then show ?thesis unfolding poll_ids_def take_map[symmetric] by (rule distinct_take)
qed

lemma length_poll_ids: "length (poll_ids n cs) = min 10 (length (filter (pending_for n) cs))"
  by (simp add: poll_ids_def)

lemma length_filter_poll:
  assumes "distinct (map cmd_ID cs)"
  shows "length (filter (\<lambda>c. cmd_ID c \<in> set (poll_ids n cs)) cs) = min 10 (length (filter (pending_for n) cs))"
proof -
  let ?p = "\<lambda>c. cmd_ID c \<in> set (poll_ids n cs)"
  have "set (map cmd_ID (filter ?p cs)) = set (poll_ids n cs)"
    using set_poll_ids[of n cs] by (auto simp: image_iff)
  moreover have "distinct (map cmd_ID (filter ?p cs))" using assms by (rule distinct_map_filter)
  ultimately have "length (map cmd_ID (filter ?p cs)) = length (poll_ids n cs)"
    using distinct_poll_ids[OF assms] by (metis distinct_card)
  then show ?thesis by (simp add: length_poll_ids)
qed

lemma pending_after_poll:
  "filter (pending_for n) (update_where p (dispatched ts) cs) = filter (\<lambda>c. pending_for n c \<and> \<not> p c) cs"
  by (induction cs) (auto simp: update_where_def dispatched_def pending_for_def)

lemma mset_filter_split:
  "mset (filter P xs) = mset (filter (\<lambda>x. P x \<and> Q x) xs) + mset (filter (\<lambda>x. P x \<and> \<not> Q x) xs)"
  by (induction xs) auto

lemma poll_step:
  assumes "distinct (map cmd_ID (commands t))"
  obtains cs t' where "PollPendingCommands n t = (Inr cs, t')"
    and "mset (map cmd_ID (filter (pending_for n) (commands t))) =
      mset (map cmd_ID cs) + mset (map cmd_ID (filter (pending_for n) (commands t')))"
    and "length cs = min 10 (length (filter (pending_for n) (commands t)))"
    and "distinct (map cmd_ID (commands t'))"
proof -
  let ?p = "\<lambda>c. cmd_ID c \<in> set (poll_ids n (commands t))"
  let ?f = "dispatched (clock t)"
  have "filter ?p (commands t) = filter (\<lambda>c. pending_for n c \<and> ?p c) (commands t)"
    by (intro filter_cong refl) (use poll_ids_pending[OF assms] in blast)
  then have split: "mset (filter (pending_for n) (commands t)) =
      mset (filter ?p (commands t)) + mset (filter (\<lambda>c. pending_for n c \<and> \<not> ?p c) (commands t))"
    using mset_filter_split[of "pending_for n" "commands t" ?p] by simp
  have ids: "cmd_ID (?f c) = cmd_ID c" for c by (simp add: dispatched_def)
  show ?thesis
  proof (rule that)
    show "PollPendingCommands n t = (Inr (map ?f (filter ?p (commands t))),
        t\<lparr>commands := update_where ?p ?f (commands t)\<rparr>)"
      by (simp add: PollPendingCommands_def Let_def)
    show "mset (map cmd_ID (filter (pending_for n) (commands t))) =
        mset (map cmd_ID (map ?f (filter ?p (commands t)))) +
        mset (map cmd_ID (filter (pending_for n) (commands (t\<lparr>commands := update_where ?p ?f (commands t)\<rparr>))))"
      using arg_cong[OF split, of "image_mset cmd_ID"]
      by (simp add: pending_after_poll ids comp_def del: mset_filter)
  qed (simp_all add: length_filter_poll assms map_update_where ids)
qed

section \<open>A concrete database\<close>

text \<open>One healthy node and rows on it, on which the hypotheses of the theorems are checked.\<close>

definition a_node :: Node where
  "a_node = \<lparr>n_ID = ''n1'', n_Hostname = ''host'', n_TailscaleIp = ''100.64.0.1'',
     n_AgentListenPort = 9090, n_CapacityMb = 2048, n_CapacityCpu = 2, n_UsedMb = 256,
     n_RunningContainers = 1, n_Status = NodeHealthy, n_AgentVersion = ''v1'', n_LastSeenAt = 0,
     n_RegisteredAt = 0, n_Metadata = JEmpty, n_AgentToken = ''tok''\<rparr>"

definition a_sandbox :: "UUID \<Rightarrow> SandboxState \<Rightarrow> int32 \<Rightarrow> Sandbox" where
  "a_sandbox i s failures = \<lparr>sb_ID = i, sb_AppName = ''app-'' @ i, sb_UserID = ''u'',
     sb_NodeID = Some ''n1'', sb_ContainerID = Some ''c1'', sb_HostPort = Some 30001,
     sb_Image = ''img'', sb_State = s, sb_StateVersion = 4, sb_Resources = JEmpty, sb_Env = JEmpty,
     sb_IdleTimeoutSeconds = 1800, sb_CreatedAt = 0, sb_UpdatedAt = 0, sb_LastActiveAt = 0,
     sb_FailureCount = failures, sb_Metadata = JEmpty, sb_VerifiedAt = 0\<rparr>"

definition a_command :: "UUID \<Rightarrow> UUID \<Rightarrow> Command" where
  "a_command c i = \<lparr>cmd_ID = c, cmd_NodeID = ''n1'', cmd_SandboxID = Some i,
     cmd_CommandType = CmdStartSandbox, cmd_Payload = JEmpty, cmd_Status = CmdPending,
     cmd_DispatchedAt = None, cmd_AckedAt = None, cmd_Result = None, cmd_TimeoutSeconds = 60,
     cmd_CreatedAt = 0\<rparr>"

definition a_db :: "Sandbox list \<Rightarrow> Command list \<Rightarrow> tables" where
  "a_db rs cs = \<lparr>nodes = [a_node], sandboxes = rs, events = [], commands = cs, event_seq = 0,
     clock = 10 ^ 10\<rparr>"

lemmas concrete = a_node_def a_sandbox_def a_command_def a_db_def pk_ok_def sandbox_at_def node_at_def
  command_at_def version_room_def int32_max_def

section \<open>Properties\<close>



text \<open>C6. The optimistic lock has exactly one winner: of any number of transitions of one sandbox that
  expect the same state, the first one executed succeeds and every later one gets \<^verbatim>\<open>ErrNoRows\<close> and
  changes nothing.\<close>

theorem cas_race_one_winner:
  assumes "pk_ok t" and "sandbox_at t i = Some r" and "sb_State r = s2" and "version_room 1 r"
    and "s \<in> set AllStates" and "s \<noteq> s2"
  shows "cas_race i s2 (s # ss) t =
    (Inr (moved s (clock t) r) # replicate (length ss) (Inl ErrNoRows),
     put_sandbox (moved s (clock t) r) t)"
proof -
  let ?t = "put_sandbox (moved s (clock t) r) t"
  have "sandbox_at ?t i = Some (moved s (clock t) r)"
    using assms(2) sandbox_at_ID[of t i r] by (simp add: frame_simps)
  moreover have "sb_State (moved s (clock t) r) \<noteq> s2" using assms(6) by simp
  ultimately have "cas_race i s2 ss ?t = (replicate (length ss) (Inl ErrNoRows), ?t)"
    using assms(1) cas_race_lost[of ?t i "moved s (clock t) r" s2 ss] by (simp add: pk_ok_put)
  then show ?thesis using Transition_hit[OF assms(1-5)] by simp
qed

theorem cas_race_one_winner_witness:
  "fst (cas_race ''s'' StateRunning [StateStopped, StatePending] (a_db [a_sandbox ''s'' StateRunning 0] [])) =
    [Inr (moved StateStopped (10 ^ 10) (a_sandbox ''s'' StateRunning 0)), Inl ErrNoRows]"
  by (subst cas_race_one_winner[where r = "a_sandbox ''s'' StateRunning 0"])
    (simp_all add: concrete AllStates_def)

text \<open>C8. The command queue delivers every pending command of a node exactly once: after enough polls
  (ten commands per poll) the polls together returned each pending command once, and none is left
  pending.\<close>

theorem poll_delivers_exactly_once:
  assumes "distinct (map cmd_ID (commands t))"
    and "length (filter (pending_for n) (commands t)) \<le> 10 * k"
  shows "mset (map cmd_ID (fst (poll_n k n t))) = mset (map cmd_ID (filter (pending_for n) (commands t)))
    \<and> filter (pending_for n) (commands (snd (poll_n k n t))) = []"
  using assms
proof (induction k arbitrary: t)
  case (Suc k)
  obtain cs t' where step: "PollPendingCommands n t = (Inr cs, t')"
    "mset (map cmd_ID (filter (pending_for n) (commands t))) =
      mset (map cmd_ID cs) + mset (map cmd_ID (filter (pending_for n) (commands t')))"
    "length cs = min 10 (length (filter (pending_for n) (commands t)))"
    "distinct (map cmd_ID (commands t'))"
    by (rule poll_step[OF Suc.prems(1)])
  have "length (filter (pending_for n) (commands t)) = length cs + length (filter (pending_for n) (commands t'))"
    using arg_cong[OF step(2), of size] by (simp flip: size_mset)
  with step(3) Suc.prems(2) have "length (filter (pending_for n) (commands t')) \<le> 10 * k" by auto
  with Suc.IH[OF step(4)] step(1,2) show ?case by (auto split: prod.split)
qed simp

theorem poll_delivers_exactly_once_witness:
  "mset (map cmd_ID (fst (poll_n 1 ''n1'' (a_db [] [a_command ''x'' ''s'', a_command ''y'' ''s''])))) =
    {#''x'', ''y''#}"
  by (subst poll_delivers_exactly_once[THEN conjunct1]) (simp_all add: concrete pending_for_def)

end
