(* ===== verification/Scheduler.thy ===== *)
theory Scheduler
  imports Store_Laws
begin

text \<open>
  Node selection, \<^verbatim>\<open>control/internal/scheduler/scheduler.go\<close>. \<^verbatim>\<open>Schedule\<close> is the loop of the source on
  \<^verbatim>\<open>int32\<close> values (the subtraction wraps, comparisons are signed). The lemmas characterise its result by
  the specification \<open>fits\<close>/\<open>leftmost_best\<close>: the first candidate with the most free memory among those
  that fit, and the two errors exactly when there is none.
\<close>

record NodeCandidate =
  nc_ID :: UUID
  nc_CapacityMB :: int32
  nc_UsedMB :: int32
  nc_Status :: NodeStatus

datatype sched_error = ErrNoNodes | SchedErrNoCapacity

definition nc_free :: "NodeCandidate \<Rightarrow> int32" where
  "nc_free c = nc_CapacityMB c - nc_UsedMB c"

fun Schedule_loop :: "NodeCandidate list \<Rightarrow> int32 \<Rightarrow> UUID \<Rightarrow> int32 \<Rightarrow> UUID \<times> int32" where
  "Schedule_loop [] requiredMB bestID bestFree = (bestID, bestFree)"
| "Schedule_loop (c # cs) requiredMB bestID bestFree =
    (if nc_Status c \<noteq> NodeHealthy then Schedule_loop cs requiredMB bestID bestFree
     else let free = nc_free c in
       if int32_less free requiredMB then Schedule_loop cs requiredMB bestID bestFree
       else if int32_less bestFree free then Schedule_loop cs requiredMB (nc_ID c) free
       else Schedule_loop cs requiredMB bestID bestFree)"

definition Schedule :: "NodeCandidate list \<Rightarrow> int32 \<Rightarrow> sched_error + UUID" where
  "Schedule candidates requiredMB =
    (if candidates = [] then Inl ErrNoNodes
     else let (bestID, bestFree) = Schedule_loop candidates requiredMB uuid_Nil (-1) in
       if int32_less bestFree 0 then Inl SchedErrNoCapacity else Inr bestID)"

text \<open>The conversion of database rows to candidates that both callers of \<^verbatim>\<open>Schedule\<close> write out.\<close>

definition to_candidate :: "Node \<Rightarrow> NodeCandidate" where
  "to_candidate n = \<lparr>nc_ID = n_ID n, nc_CapacityMB = n_CapacityMb n, nc_UsedMB = n_UsedMb n,
     nc_Status = n_Status n\<rparr>"

section \<open>Specification\<close>

definition fits :: "int32 \<Rightarrow> NodeCandidate \<Rightarrow> bool" where
  "fits req c \<longleftrightarrow> nc_Status c = NodeHealthy \<and> sint req \<le> sint (nc_free c) \<and> 0 \<le> sint (nc_free c)"

definition leftmost_best :: "int32 \<Rightarrow> NodeCandidate list \<Rightarrow> NodeCandidate \<Rightarrow> bool" where
  "leftmost_best req cs c \<longleftrightarrow>
    (\<exists>pre post. cs = pre @ c # post \<and> fits req c \<and>
       (\<forall>d \<in> set pre. fits req d \<longrightarrow> sint (nc_free d) < sint (nc_free c)) \<and>
       (\<forall>d \<in> set post. fits req d \<longrightarrow> sint (nc_free d) \<le> sint (nc_free c)))"

lemma leftmost_best_fits: "leftmost_best req cs c \<Longrightarrow> c \<in> set cs \<and> fits req c"
  by (auto simp: leftmost_best_def)

lemma leftmost_best_max:
  "leftmost_best req cs c \<Longrightarrow> d \<in> set cs \<Longrightarrow> fits req d \<Longrightarrow> sint (nc_free d) \<le> sint (nc_free c)"
  by (auto simp: leftmost_best_def less_imp_le)

section \<open>The loop\<close>

abbreviation improves :: "int32 \<Rightarrow> int32 \<Rightarrow> NodeCandidate \<Rightarrow> bool" where
  "improves req b c \<equiv> fits req c \<and> sint b < sint (nc_free c)"

lemma Schedule_loop_Cons:
  assumes "-1 \<le> sint b"
  shows "Schedule_loop (c # cs) req i b =
    (if improves req b c then Schedule_loop cs req (nc_ID c) (nc_free c) else Schedule_loop cs req i b)"
  using assms by (auto simp: fits_def int32_less_def Let_def)

lemma Schedule_loop_none:
  "-1 \<le> sint b \<Longrightarrow> \<forall>c \<in> set cs. \<not> improves req b c \<Longrightarrow> Schedule_loop cs req i b = (i, b)"
  by (induction cs) (auto simp: Schedule_loop_Cons simp del: Schedule_loop.simps(2))

lemma Schedule_loop_best:
  assumes "-1 \<le> sint b" and "\<exists>c \<in> set cs. improves req b c"
  shows "\<exists>pre c post. cs = pre @ c # post \<and> Schedule_loop cs req i b = (nc_ID c, nc_free c) \<and>
    improves req b c \<and>
    (\<forall>d \<in> set pre. fits req d \<longrightarrow> sint (nc_free d) < sint (nc_free c)) \<and>
    (\<forall>d \<in> set post. fits req d \<longrightarrow> sint (nc_free d) \<le> sint (nc_free c))"
  using assms
proof (induction cs arbitrary: i b)
  case (Cons x xs)
  show ?case
  proof (cases "improves req b x")
    case x: True
    then have lb: "-1 \<le> sint (nc_free x)" by (simp add: fits_def)
    show ?thesis
    proof (cases "\<exists>c \<in> set xs. improves req (nc_free x) c")
      case True
      from Cons.IH[OF lb True, of "nc_ID x"] obtain pre c post where
        h: "xs = pre @ c # post" "Schedule_loop xs req (nc_ID x) (nc_free x) = (nc_ID c, nc_free c)"
        "improves req (nc_free x) c"
        "\<forall>d \<in> set pre. fits req d \<longrightarrow> sint (nc_free d) < sint (nc_free c)"
        "\<forall>d \<in> set post. fits req d \<longrightarrow> sint (nc_free d) \<le> sint (nc_free c)" by blast
      with x Cons.prems(1) show ?thesis
        by (intro exI[of _ "x # pre"] exI[of _ c] exI[of _ post])
          (auto simp: Schedule_loop_Cons simp del: Schedule_loop.simps(2))
    next
      case False
      then have "Schedule_loop xs req (nc_ID x) (nc_free x) = (nc_ID x, nc_free x)"
        by (intro Schedule_loop_none[OF lb]) blast
      with x False Cons.prems(1) show ?thesis
        by (intro exI[of _ "[]"] exI[of _ x] exI[of _ xs])
          (auto simp: Schedule_loop_Cons not_less simp del: Schedule_loop.simps(2))
    qed
  next
    case False
    with Cons.prems(2) have "\<exists>c \<in> set xs. improves req b c" by auto
    from Cons.IH[OF Cons.prems(1) this, of i] obtain pre c post where
      h: "xs = pre @ c # post" "Schedule_loop xs req i b = (nc_ID c, nc_free c)" "improves req b c"
      "\<forall>d \<in> set pre. fits req d \<longrightarrow> sint (nc_free d) < sint (nc_free c)"
      "\<forall>d \<in> set post. fits req d \<longrightarrow> sint (nc_free d) \<le> sint (nc_free c)" by blast
    with False Cons.prems(1) show ?thesis
      by (intro exI[of _ "x # pre"] exI[of _ c] exI[of _ post])
        (auto simp: Schedule_loop_Cons simp del: Schedule_loop.simps(2))
  qed
qed simp

lemma Schedule_found:
  assumes "\<exists>c \<in> set cs. fits req c"
  shows "\<exists>c. leftmost_best req cs c \<and> Schedule cs req = Inr (nc_ID c)"
proof -
  have eq: "improves req (-1) c = fits req c" for c by (auto simp: fits_def)
  from assms have "\<exists>c \<in> set cs. improves req (-1) c" unfolding eq .
  from Schedule_loop_best[OF _ this, of uuid_Nil] obtain pre c post where
    h: "cs = pre @ c # post" "Schedule_loop cs req uuid_Nil (-1) = (nc_ID c, nc_free c)" "fits req c"
    "\<forall>d \<in> set pre. fits req d \<longrightarrow> sint (nc_free d) < sint (nc_free c)"
    "\<forall>d \<in> set post. fits req d \<longrightarrow> sint (nc_free d) \<le> sint (nc_free c)" by auto
  then have "leftmost_best req cs c" unfolding leftmost_best_def by blast
  moreover have "Schedule cs req = Inr (nc_ID c)"
    using h(1-3) by (auto simp: Schedule_def int32_less_def fits_def)
  ultimately show ?thesis by blast
qed

lemma Schedule_not_found:
  assumes "cs \<noteq> []" and "\<forall>c \<in> set cs. \<not> fits req c"
  shows "Schedule cs req = Inl SchedErrNoCapacity"
  using assms Schedule_loop_none[of "-1" cs req uuid_Nil] by (simp add: Schedule_def int32_less_def)

lemma leftmost_best_unique:
  assumes "leftmost_best req cs c" and "leftmost_best req cs d"
  shows "c = d"
proof -
  from assms(1) obtain p1 q1 where c: "cs = p1 @ c # q1" "fits req c"
    "\<forall>d \<in> set p1. fits req d \<longrightarrow> sint (nc_free d) < sint (nc_free c)" unfolding leftmost_best_def by blast
  from assms(2) obtain p2 q2 where d: "cs = p2 @ d # q2" "fits req d"
    "\<forall>x \<in> set p2. fits req x \<longrightarrow> sint (nc_free x) < sint (nc_free d)" unfolding leftmost_best_def by blast
  have "sint (nc_free c) = sint (nc_free d)"
    using leftmost_best_max[OF assms(1)] leftmost_best_max[OF assms(2)]
      leftmost_best_fits[OF assms(1)] leftmost_best_fits[OF assms(2)] by force
  with c d have "c \<notin> set p2" "d \<notin> set p1" by auto
  moreover from c(1) d(1) have "p1 @ c # q1 = p2 @ d # q2" by simp
  ultimately show ?thesis
    by (auto simp: append_eq_append_conv2 Cons_eq_append_conv append_eq_Cons_conv)
qed

lemma nc_free_no_wrap:
  assumes "0 \<le> sint (nc_UsedMB c)" and "sint (nc_UsedMB c) \<le> sint (nc_CapacityMB c)"
  shows "sint (nc_free c) = sint (nc_CapacityMB c) - sint (nc_UsedMB c)"
proof -
  have "sint (nc_CapacityMB c) - sint (nc_UsedMB c) \<in> {- (2 ^ 31) ..< 2 ^ 31}"
    using assms sint_int32_bounds[of "nc_CapacityMB c"] by (simp add: int32_max_def)
  then show ?thesis
    by (simp add: nc_free_def sint_word_ariths signed_take_bit_int_eq_self)
qed

section \<open>Properties\<close>

text \<open>C7. The scheduler implements its specification: it selects a node exactly when some healthy
  candidate has enough free memory, and the node it selects is the first one with the most free
  memory among those; with no such candidate it reports the lack of capacity, and with no candidate
  at all the lack of nodes.\<close>

theorem Schedule_correct:
  "(Schedule cs req = Inr i \<longleftrightarrow> (\<exists>c. leftmost_best req cs c \<and> nc_ID c = i)) \<and>
   (Schedule cs req = Inl SchedErrNoCapacity \<longleftrightarrow> cs \<noteq> [] \<and> filter (fits req) cs = []) \<and>
   (Schedule cs req = Inl ErrNoNodes \<longleftrightarrow> cs = [])"
proof (cases "\<exists>c \<in> set cs. fits req c")
  case True
  then obtain c where c: "leftmost_best req cs c" "Schedule cs req = Inr (nc_ID c)"
    using Schedule_found by blast
  with True show ?thesis by (auto simp: filter_empty_conv dest: leftmost_best_unique)
next
  case False
  then have "Schedule cs req = (if cs = [] then Inl ErrNoNodes else Inl SchedErrNoCapacity)"
    by (simp add: Schedule_not_found) (simp add: Schedule_def)
  with False show ?thesis by (auto simp: filter_empty_conv dest: leftmost_best_fits)
qed

text \<open>No overcommitment by one placement: for a node whose reported usage is within its capacity
  and a requirement that is not negative, a selected node really has the required memory free, in
  unbounded arithmetic, and is healthy.\<close>

theorem Schedule_no_overcommit:
  assumes "Schedule cs req = Inr i"
    and "\<forall>c \<in> set cs. 0 \<le> sint (nc_UsedMB c) \<and> sint (nc_UsedMB c) \<le> sint (nc_CapacityMB c)"
  shows "\<exists>c \<in> set cs. nc_ID c = i \<and> nc_Status c = NodeHealthy \<and>
    sint (nc_UsedMB c) + sint req \<le> sint (nc_CapacityMB c)"
proof -
  have "\<exists>c \<in> set cs. fits req c"
    using assms(1) Schedule_not_found[of cs req] by (cases "cs = []") (auto simp: Schedule_def)
  then obtain c where c: "leftmost_best req cs c" "Schedule cs req = Inr (nc_ID c)"
    using Schedule_found by blast
  with assms have "c \<in> set cs" "nc_ID c = i" "fits req c" by (auto dest: leftmost_best_fits)
  with assms(2) show ?thesis
    by (intro bexI[of _ c]) (auto simp: fits_def nc_free_no_wrap)
qed

theorem Schedule_no_overcommit_witness:
  "\<exists>c \<in> set [\<lparr>nc_ID = ''a'', nc_CapacityMB = 2048, nc_UsedMB = 1900, nc_Status = NodeHealthy\<rparr>,
             \<lparr>nc_ID = ''b'', nc_CapacityMB = 1024, nc_UsedMB = 128, nc_Status = NodeHealthy\<rparr>].
     nc_ID c = ''b'' \<and> nc_Status c = NodeHealthy \<and>
     sint (nc_UsedMB c) + sint (512 :: int32) \<le> sint (nc_CapacityMB c)"
  by (rule Schedule_no_overcommit) (simp_all add: Schedule_def int32_less_def nc_free_def)

end
