(* ===== verification/Routing.thy ===== *)
theory Routing
  imports Forge_Prelude "HOL-Library.AList"
begin

text \<open>
  Route updates, \<^verbatim>\<open>control/internal/routing/batcher.go\<close> and \<^verbatim>\<open>manager.go\<close>. The batcher keeps the pending
  changes in a map keyed by application name; a flush empties the map and hands one batch (the routes
  to add and the names to remove) to the proxy client. The lock is released while the batch is
  applied, so a flush is modelled as its effect on the batcher plus one entry of \<open>outbox\<close>, the batches
  handed over so far in order; \<^verbatim>\<open>CaddyClient.Apply\<close> works on such an entry.

  Go leaves the iteration order of a map open: \<open>range_order\<close> is that order, an arbitrary permutation
  (\<open>batcher_ok\<close>). \<open>timer\<close> says that the debounce timer is armed; its callback is \<open>timer_fire\<close>.
\<close>

section \<open>Batcher\<close>

record Route =
  rt_AppName :: string
  rt_SandboxID :: string
  rt_Upstream :: string

record RouteChange =
  rc_Action :: string
  rc_Route :: Route
  rc_AppName :: string

definition no_route :: Route where
  "no_route = \<lparr>rt_AppName = '''', rt_SandboxID = '''', rt_Upstream = ''''\<rparr>"

definition defaultMaxBuf :: nat where
  "defaultMaxBuf = 50"

type_synonym batch = "Route list \<times> string list"

record Batcher =
  maxBuf :: nat
  pending :: "(string \<times> RouteChange) list"
  timer :: bool
  stopped :: bool
  range_order :: "(string \<times> RouteChange) list \<Rightarrow> (string \<times> RouteChange) list"
  outbox :: "batch list"

definition NewBatcher :: "((string \<times> RouteChange) list \<Rightarrow> (string \<times> RouteChange) list) \<Rightarrow> Batcher" where
  "NewBatcher ord = \<lparr>maxBuf = defaultMaxBuf, pending = [], timer = False, stopped = False,
     range_order = ord, outbox = []\<rparr>"

definition stopTimerLocked :: "Batcher \<Rightarrow> Batcher" where
  "stopTimerLocked b = b\<lparr>timer := False\<rparr>"

definition batch_of :: "(string \<times> RouteChange) list \<Rightarrow> batch" where
  "batch_of cs =
    (map (rc_Route \<circ> snd) (filter (\<lambda>(_, c). rc_Action c = ''add'') cs),
     map (rc_AppName \<circ> snd) (filter (\<lambda>(_, c). rc_Action c = ''remove'') cs))"

definition flushLocked :: "Batcher \<Rightarrow> Batcher" where
  "flushLocked b =
    (if pending b = [] then b
     else b\<lparr>pending := [], timer := False,
            outbox := outbox b @ [batch_of (range_order b (pending b))]\<rparr>)"

definition change_key :: "RouteChange \<Rightarrow> string" where
  "change_key change =
    (if rc_Action change = ''add'' then rt_AppName (rc_Route change) else rc_AppName change)"

definition Enqueue :: "RouteChange \<Rightarrow> Batcher \<Rightarrow> Batcher" where
  "Enqueue change b =
    (if stopped b then b
     else let b1 = b\<lparr>pending := AList.update (change_key change) change (pending b)\<rparr> in
       if maxBuf b1 \<le> length (pending b1) then flushLocked (stopTimerLocked b1)
       else b1\<lparr>timer := True\<rparr>)"

definition timer_fire :: "Batcher \<Rightarrow> Batcher" where
  "timer_fire b = (if stopped b then b else flushLocked b)"

definition Stop :: "Batcher \<Rightarrow> Batcher" where
  "Stop b =
    (if stopped b then b
     else let b1 = stopTimerLocked (b\<lparr>stopped := True\<rparr>) in
       if pending b1 \<noteq> [] then flushLocked b1 else b1)"

section \<open>Route manager\<close>

definition OnSandboxRunning :: "string \<Rightarrow> string \<Rightarrow> string \<Rightarrow> Batcher \<Rightarrow> (string + unit) \<times> Batcher" where
  "OnSandboxRunning appName sandboxID upstream b =
    (if upstream = '''' then (Inl ''route manager: upstream must not be empty'', b)
     else (Inr (), Enqueue \<lparr>rc_Action = ''add'',
       rc_Route = \<lparr>rt_AppName = appName, rt_SandboxID = sandboxID, rt_Upstream = upstream\<rparr>,
       rc_AppName = ''''\<rparr> b))"

definition OnSandboxStopped :: "string \<Rightarrow> Batcher \<Rightarrow> (string + unit) \<times> Batcher" where
  "OnSandboxStopped appName b =
    (Inr (), Enqueue \<lparr>rc_Action = ''remove'', rc_Route = no_route, rc_AppName = appName\<rparr> b)"

section \<open>Invariant\<close>

definition wf_change :: "RouteChange \<Rightarrow> bool" where
  "wf_change c \<longleftrightarrow> rc_Action c = ''add'' \<or> rc_Action c = ''remove''"

definition pending_ok :: "(string \<times> RouteChange) list \<Rightarrow> bool" where
  "pending_ok cs \<longleftrightarrow> distinct (map fst cs) \<and> (\<forall>(k, c) \<in> set cs. k = change_key c \<and> wf_change c)"

text \<open>Below its limit, the buffer never waits without an armed timer.\<close>

definition batcher_ok :: "Batcher \<Rightarrow> bool" where
  "batcher_ok b \<longleftrightarrow> pending_ok (pending b) \<and> 0 < maxBuf b \<and> length (pending b) < maxBuf b \<and>
     (pending b \<noteq> [] \<longrightarrow> timer b \<and> \<not> stopped b) \<and> (\<forall>cs. mset (range_order b cs) = mset cs)"

lemma batcher_ok_New: "(\<forall>cs. mset (ord cs) = mset cs) \<Longrightarrow> batcher_ok (NewBatcher ord)"
  by (simp add: batcher_ok_def NewBatcher_def pending_ok_def defaultMaxBuf_def)

lemma pending_ok_update:
  assumes "pending_ok cs" and "wf_change c"
  shows "pending_ok (AList.update (change_key c) c cs)"
proof -
  have sub: "set (AList.update (change_key c) c cs) \<subseteq> insert (change_key c, c) (set cs)"
    by (induction cs) auto
  show ?thesis
    using assms sub unfolding pending_ok_def by (auto simp: distinct_update)
qed

lemma batcher_ok_flush: "batcher_ok b \<Longrightarrow> batcher_ok (flushLocked b)"
  by (simp add: batcher_ok_def flushLocked_def pending_ok_def)

lemma flushLocked_pending_ok:
  "pending_ok (pending b) \<Longrightarrow> 0 < maxBuf b \<Longrightarrow> (\<forall>cs. mset (range_order b cs) = mset cs) \<Longrightarrow>
    batcher_ok (flushLocked b)"
  by (simp add: batcher_ok_def flushLocked_def pending_ok_def)

lemma update_not_Nil [simp]: "AList.update k v xs \<noteq> []"
  by (cases xs) auto

lemma batcher_ok_Enqueue: "batcher_ok b \<Longrightarrow> wf_change c \<Longrightarrow> batcher_ok (Enqueue c b)"
  unfolding Enqueue_def Let_def
  by (auto simp: batcher_ok_def stopTimerLocked_def pending_ok_update not_le
      intro!: flushLocked_pending_ok)
     (auto simp: batcher_ok_def flushLocked_def pending_ok_def)

lemma batcher_ok_timer: "batcher_ok b \<Longrightarrow> batcher_ok (timer_fire b)"
  by (simp add: timer_fire_def batcher_ok_flush)

lemma batcher_ok_Stop:
  assumes "batcher_ok b"
  shows "batcher_ok (Stop b) \<and> stopped (Stop b) \<and> pending (Stop b) = []"
  using assms by (auto simp: Stop_def Let_def stopTimerLocked_def flushLocked_def batcher_ok_def pending_ok_def)

section \<open>What the batches amount to\<close>

text \<open>The proxy's table of routes by application name, a change applied to it, and a batch applied in the
  order of \<^verbatim>\<open>CaddyClient.Apply\<close>: the additions, then the removals.\<close>

type_synonym route_table = "string \<rightharpoonup> Route"

definition apply_change :: "RouteChange \<Rightarrow> route_table \<Rightarrow> route_table" where
  "apply_change c m = m(change_key c := if rc_Action c = ''add'' then Some (rc_Route c) else None)"

definition apply_batch :: "batch \<Rightarrow> route_table \<Rightarrow> route_table" where
  "apply_batch b m =
    fold (\<lambda>a m. m(a := None)) (snd b) (fold (\<lambda>r m. m(rt_AppName r \<mapsto> r)) (fst b) m)"

definition overlay :: "(string \<times> RouteChange) list \<Rightarrow> route_table \<Rightarrow> route_table" where
  "overlay cs m = (\<lambda>k. case map_of cs k of
     None \<Rightarrow> m k
   | Some c \<Rightarrow> if rc_Action c = ''add'' then Some (rc_Route c) else None)"

lemma overlay_Nil [simp]: "overlay [] m = m"
  by (simp add: overlay_def)

lemma overlay_update: "overlay (AList.update (change_key c) c cs) m = apply_change c (overlay cs m)"
  by (auto simp: overlay_def apply_change_def update_conv')

lemma adds_commute:
  "a \<notin> set (map rt_AppName rs) \<Longrightarrow>
    fold (\<lambda>r m. m(rt_AppName r \<mapsto> r)) rs (m(a := None)) =
    (fold (\<lambda>r m. m(rt_AppName r \<mapsto> r)) rs m)(a := None)"
proof (induction rs arbitrary: m)
  case (Cons r rs)
  have "m(a := None, rt_AppName r \<mapsto> r) = (m(rt_AppName r \<mapsto> r))(a := None)"
    by (rule fun_upd_twist) (use Cons.prems in simp)
  with Cons.IH[of "m(rt_AppName r \<mapsto> r)"] Cons.prems show ?case by (simp del: fun_upd_apply)
qed simp

lemma apply_batch_Cons:
  assumes "pending_ok ((k, c) # cs)"
  shows "apply_batch (batch_of ((k, c) # cs)) m = apply_batch (batch_of cs) (apply_change c m)"
proof (cases "rc_Action c = ''add''")
  case True
  then show ?thesis by (simp add: batch_of_def apply_batch_def apply_change_def change_key_def)
next
  case False
  with assms have act: "rc_Action c = ''remove''" and k: "k = rc_AppName c"
    by (auto simp: pending_ok_def wf_change_def change_key_def)
  have "k \<notin> set (map rt_AppName (fst (batch_of cs)))"
    using assms by (force simp: pending_ok_def batch_of_def change_key_def)
  with act k show ?thesis
    by (simp add: batch_of_def apply_batch_def apply_change_def change_key_def adds_commute)
qed

lemma overlay_Cons:
  "distinct (map fst ((k, c) # cs)) \<Longrightarrow> k = change_key c \<Longrightarrow>
    overlay ((k, c) # cs) m = overlay cs (apply_change c m)"
proof (rule ext)
  fix a
  assume *: "distinct (map fst ((k, c) # cs))" "k = change_key c"
  then have "map_of cs k = None" by (simp add: map_of_eq_None_iff)
  with * show "overlay ((k, c) # cs) m a = overlay cs (apply_change c m) a"
    by (cases "a = k"; cases "map_of cs a") (simp_all add: overlay_def apply_change_def)
qed

lemma batch_overlay: "pending_ok cs \<Longrightarrow> apply_batch (batch_of cs) m = overlay cs m"
proof (induction cs arbitrary: m)
  case Nil
  show ?case by (simp add: batch_of_def apply_batch_def)
next
  case (Cons x cs)
  obtain k c where x: "x = (k, c)" by (cases x)
  with Cons.prems have "pending_ok cs" "distinct (map fst ((k, c) # cs))" "k = change_key c"
    by (auto simp: pending_ok_def)
  with Cons x show ?case by (simp add: apply_batch_Cons overlay_Cons del: fun_upd_apply)
qed

lemma overlay_perm:
  assumes "pending_ok cs" and "mset cs' = mset cs"
  shows "pending_ok cs' \<and> overlay cs' m = overlay cs m"
proof -
  have d: "distinct (map fst cs')" "distinct (map fst cs)"
    using assms mset_distinct_map[OF assms(2), of fst] by (simp_all add: pending_ok_def)
  moreover have s: "set cs' = set cs" using assms(2) by (rule mset_eq_setD)
  ultimately have "map_of cs' = map_of cs" by (intro map_of_set_eq)
  with d s assms(1) show ?thesis by (simp add: pending_ok_def overlay_def)
qed

text \<open>The table once everything handed over and everything pending is applied.\<close>

definition effect :: "Batcher \<Rightarrow> route_table \<Rightarrow> route_table" where
  "effect b m = overlay (pending b) (fold apply_batch (outbox b) m)"

lemma effect_flush:
  assumes "pending_ok (pending b)" and "\<forall>cs. mset (range_order b cs) = mset cs"
  shows "effect (flushLocked b) m = effect b m"
proof (cases "pending b = []")
  case False
  have "mset (range_order b (pending b)) = mset (pending b)" using assms(2) by simp
  from overlay_perm[OF assms(1) this] batch_overlay[of "range_order b (pending b)"] False show ?thesis
    by (simp add: effect_def flushLocked_def)
qed (simp add: flushLocked_def)

lemma effect_Enqueue:
  assumes "batcher_ok b" and "wf_change c" and "\<not> stopped b"
  shows "effect (Enqueue c b) m = apply_change c (effect b m)"
proof -
  let ?b = "b\<lparr>pending := AList.update (change_key c) c (pending b)\<rparr>"
  have e: "effect ?b m = apply_change c (effect b m)" by (simp add: effect_def overlay_update)
  have "pending_ok (pending ?b)" "\<forall>cs. mset (range_order ?b cs) = mset cs"
    using assms by (simp_all add: batcher_ok_def pending_ok_update)
  then have "effect (flushLocked (stopTimerLocked ?b)) m = effect ?b m"
    by (subst effect_flush) (simp_all add: stopTimerLocked_def effect_def)
  with e assms(3) show ?thesis by (simp add: Enqueue_def Let_def) (simp add: effect_def)
qed

lemma effect_timer: "batcher_ok b \<Longrightarrow> effect (timer_fire b) m = effect b m"
  by (simp add: timer_fire_def effect_flush batcher_ok_def)

lemma effect_Stop: "batcher_ok b \<Longrightarrow> effect (Stop b) m = effect b m"
  using effect_flush[of "b\<lparr>stopped := True, timer := False\<rparr>" m]
  by (auto simp: Stop_def Let_def stopTimerLocked_def batcher_ok_def) (simp_all add: effect_def)

section \<open>The contract of a route sink\<close>

text \<open>What the lifecycle package relies on: changes are put into a sink that hands them over on its own
  schedule, and the hand-overs neither lose nor reorder the net effect of the changes.\<close>

datatype 'c sink_step = Put 'c | Tick

fun run_sink :: "('c \<Rightarrow> 's \<Rightarrow> 's) \<Rightarrow> ('s \<Rightarrow> 's) \<Rightarrow> 'c sink_step list \<Rightarrow> 's \<Rightarrow> 's" where
  "run_sink put tick [] s = s"
| "run_sink put tick (Put c # xs) s = run_sink put tick xs (put c s)"
| "run_sink put tick (Tick # xs) s = run_sink put tick xs (tick s)"

fun puts :: "'c sink_step list \<Rightarrow> 'c list" where
  "puts [] = []"
| "puts (Put c # xs) = c # puts xs"
| "puts (Tick # xs) = puts xs"

locale route_sink =
  fixes put :: "'c \<Rightarrow> 's \<Rightarrow> 's" and tick :: "'s \<Rightarrow> 's" and good :: "'s \<Rightarrow> bool"
    and net :: "'s \<Rightarrow> 'm \<Rightarrow> 'm" and act :: "'c \<Rightarrow> 'm \<Rightarrow> 'm"
  assumes put_good: "good s \<Longrightarrow> good (put c s)"
    and tick_good: "good s \<Longrightarrow> good (tick s)"
    and put_net: "good s \<Longrightarrow> net (put c s) m = act c (net s m)"
    and tick_net: "good s \<Longrightarrow> net (tick s) m = net s m"
begin

lemma run_good: "good s \<Longrightarrow> good (run_sink put tick xs s)"
  by (induction xs arbitrary: s rule: puts.induct) (auto simp: put_good tick_good)

lemma run_net: "good s \<Longrightarrow> net (run_sink put tick xs s) m = fold act (puts xs) (net s m)"
  by (induction xs arbitrary: s rule: puts.induct) (auto simp: put_good tick_good put_net tick_net)

end

text \<open>The calls of the notifier.\<close>

datatype notice = Running string string string | Stopped string

fun notice_run :: "notice \<Rightarrow> Batcher \<Rightarrow> Batcher" where
  "notice_run (Running a i u) b = snd (OnSandboxRunning a i u b)"
| "notice_run (Stopped a) b = snd (OnSandboxStopped a b)"

fun notice_act :: "notice \<Rightarrow> route_table \<Rightarrow> route_table" where
  "notice_act (Running a i u) m =
    (if u = '''' then m else m(a \<mapsto> \<lparr>rt_AppName = a, rt_SandboxID = i, rt_Upstream = u\<rparr>))"
| "notice_act (Stopped a) m = m(a := None)"

definition accepting :: "Batcher \<Rightarrow> bool" where
  "accepting b \<longleftrightarrow> batcher_ok b \<and> \<not> stopped b"

lemma flush_stopped [simp]: "stopped (flushLocked b) = stopped b"
  by (simp add: flushLocked_def)

lemma Enqueue_stopped [simp]: "stopped (Enqueue c b) = stopped b"
  by (simp add: Enqueue_def Let_def stopTimerLocked_def)

interpretation sink: route_sink notice_run timer_fire accepting effect notice_act
proof
  fix b c m assume "accepting b"
  then have b: "batcher_ok b" "\<not> stopped b" by (simp_all add: accepting_def)
  then show "accepting (notice_run c b)"
    by (cases c) (auto simp: accepting_def OnSandboxRunning_def OnSandboxStopped_def wf_change_def
        intro!: batcher_ok_Enqueue)
  show "effect (notice_run c b) m = notice_act c (effect b m)"
    using b by (cases c) (simp_all add: OnSandboxRunning_def OnSandboxStopped_def effect_Enqueue
        wf_change_def apply_change_def change_key_def)
  show "accepting (timer_fire b)" using b by (simp add: accepting_def batcher_ok_timer) (simp add: timer_fire_def)
  show "effect (timer_fire b) m = effect b m" using b by (simp add: effect_timer)
qed

section \<open>Properties\<close>

lemma accepting_New: "(\<forall>cs. mset (ord cs) = mset cs) \<Longrightarrow> accepting (NewBatcher ord)"
  by (simp add: accepting_def batcher_ok_New) (simp add: NewBatcher_def)

lemma effect_New [simp]: "effect (NewBatcher ord) m = m"
  by (simp add: effect_def NewBatcher_def)

text \<open>Every batch carries at most \<^verbatim>\<open>maxBuf\<close> changes.\<close>

definition batch_size :: "batch \<Rightarrow> nat" where
  "batch_size b = length (fst b) + length (snd b)"

lemma batch_size_le: "batch_size (batch_of cs) \<le> length cs"
proof (induction cs)
  case (Cons x cs)
  then show ?case by (cases x) (auto simp: batch_size_def batch_of_def)
qed (simp add: batch_size_def batch_of_def)

definition small_batches :: "Batcher \<Rightarrow> bool" where
  "small_batches b \<longleftrightarrow> maxBuf b = defaultMaxBuf \<and> list_all (\<lambda>x. batch_size x \<le> defaultMaxBuf) (outbox b)"

lemma small_flush:
  assumes "small_batches b" and "length (pending b) \<le> defaultMaxBuf"
    and "\<forall>cs. mset (range_order b cs) = mset cs"
  shows "small_batches (flushLocked b)"
proof -
  have "length (range_order b (pending b)) = length (pending b)" using assms(3) by (metis size_mset)
  with assms(1,2) batch_size_le[of "range_order b (pending b)"] show ?thesis
    by (simp add: small_batches_def flushLocked_def)
qed

lemma small_Enqueue: "accepting b \<Longrightarrow> small_batches b \<Longrightarrow> small_batches (Enqueue c b)"
proof -
  assume b: "accepting b" "small_batches b"
  have "length (AList.update k v xs) \<le> Suc (length xs)" for k :: string and v :: RouteChange and xs
    by (induction xs) auto
  then have "length (AList.update (change_key c) c (pending b)) \<le> defaultMaxBuf"
    using b by (fastforce simp: accepting_def batcher_ok_def small_batches_def intro: le_trans)
  then have "small_batches (flushLocked (b\<lparr>pending := AList.update (change_key c) c (pending b), timer := False\<rparr>))"
    using b by (intro small_flush) (simp_all add: accepting_def batcher_ok_def small_batches_def)
  then show ?thesis using b by (simp add: Enqueue_def Let_def stopTimerLocked_def small_batches_def)
qed

lemma small_step: "accepting b \<Longrightarrow> small_batches b \<Longrightarrow> small_batches (notice_run c b)"
  by (cases c) (simp_all add: OnSandboxRunning_def OnSandboxStopped_def small_Enqueue)

lemma small_timer: "accepting b \<Longrightarrow> small_batches b \<Longrightarrow> small_batches (timer_fire b)"
  by (auto simp: timer_fire_def accepting_def batcher_ok_def intro!: small_flush)
    (simp add: small_batches_def less_imp_le)

text \<open>The same contract, with the size of the batches as what is kept.\<close>

interpretation bounded: route_sink notice_run timer_fire "\<lambda>b. accepting b \<and> small_batches b" effect notice_act
  by unfold_locales (auto simp: small_step small_timer sink.put_good sink.tick_good sink.put_net sink.tick_net)

text \<open>C19. The buffer is bounded and never waits without a timer: after any sequence of notices and
  timer firings fewer than fifty changes are pending, one per application, the debounce timer is
  armed whenever any change is pending, and every batch handed over has at most fifty changes.\<close>

theorem batcher_bounded_and_live:
  assumes "\<forall>cs. mset (ord cs) = mset cs" and "b = run_sink notice_run timer_fire xs (NewBatcher ord)"
  shows "length (pending b) < 50 \<and> distinct (map fst (pending b)) \<and> (timer b \<or> pending b = []) \<and>
    filter (\<lambda>x. 50 < batch_size x) (outbox b) = []"
proof -
  have "accepting (NewBatcher ord) \<and> small_batches (NewBatcher ord)"
    using accepting_New[OF assms(1)] by (simp add: small_batches_def NewBatcher_def)
  then have "accepting b" "small_batches b" using bounded.run_good assms(2) by blast+
  then show ?thesis
    by (auto simp: accepting_def batcher_ok_def pending_ok_def small_batches_def defaultMaxBuf_def
        filter_empty_conv list_all_iff)
qed

theorem batcher_bounded_and_live_witness:
  "timer (run_sink notice_run timer_fire [Put (Stopped ''a'')] (NewBatcher rev)) \<or>
   pending (run_sink notice_run timer_fire [Put (Stopped ''a'')] (NewBatcher rev)) = []"
  by (rule batcher_bounded_and_live[where ord = rev and xs = "[Put (Stopped ''a'')]", THEN conjunct2, THEN conjunct2, THEN conjunct1])
    simp_all

text \<open>C18. The batcher loses nothing and the last notice of an application wins: after any sequence of
  notices and timer firings, whatever order the map is iterated in, stopping the batcher leaves nothing
  pending, and the batches handed over, applied one after the other, have exactly the effect of
  applying every notice in order.\<close>

theorem batcher_last_write_wins:
  assumes "\<forall>cs. mset (ord cs) = mset cs"
  shows "pending (Stop (run_sink notice_run timer_fire xs (NewBatcher ord))) = [] \<and>
    fold apply_batch (outbox (Stop (run_sink notice_run timer_fire xs (NewBatcher ord)))) m = fold notice_act (puts xs) m"
proof -
  let ?b = "run_sink notice_run timer_fire xs (NewBatcher ord)"
  have ok: "batcher_ok ?b" using sink.run_good[OF accepting_New[OF assms]] by (simp add: accepting_def)
  have "effect (Stop ?b) m = fold notice_act (puts xs) m"
    using effect_Stop[OF ok] sink.run_net[OF accepting_New[OF assms]] by simp
  with batcher_ok_Stop[OF ok] show ?thesis by (simp add: effect_def)
qed

theorem batcher_last_write_wins_witness:
  "pending (Stop (run_sink notice_run timer_fire [Put (Running ''a'' ''i'' ''u:1''), Tick, Put (Stopped ''a'')] (NewBatcher rev))) = []"
  by (rule batcher_last_write_wins[THEN conjunct1]) simp

end
