(* ===== verification/Control_World.thy ===== *)
theory Control_World
  imports Scheduler Routing
begin

text \<open>
  The world in which the handlers of the control plane run: the database, the route batcher, and the
  interference of everything else. A handler is a program of the state monad whose steps are database
  statements (\<open>stmt\<close>) and route notifications (\<open>notify\<close>). The handlers run concurrently and the database
  can fail, so each statement is preceded by one step of \<open>sched\<close>, the schedule of the environment: an
  arbitrary change of the database and of the batcher by others, and possibly a fault that the
  statement reports instead of running. A theorem over every schedule covers every interleaving at the
  granularity of statements, which are atomic; the empty schedule is a run without interference.

  The locale \<open>work_invariant\<close> (with \<open>store_invariant\<close> for the monitor) is the contract between the store and its clients: what each statement
  that the handlers issue keeps. The handlers' theories prove inside it that whole handlers keep the
  invariant under every schedule whose steps keep it.
\<close>

section \<open>Worlds and statements\<close>

record world =
  db :: tables
  batcher :: Batcher
  sched :: "(tables \<times> Batcher \<Rightarrow> (tables \<times> Batcher) \<times> db_error option) list"

definition interfere :: "world \<Rightarrow> db_error option \<times> world" where
  "interfere w = (case sched w of
     [] \<Rightarrow> (None, w)
   | e # es \<Rightarrow> (let ((t, b), fault) = e (db w, batcher w)
                in (fault, w\<lparr>db := t, batcher := b, sched := es\<rparr>)))"

definition stmt :: "'a query \<Rightarrow> (world, db_error + 'a) state" where
  "stmt q = State (\<lambda>w. case interfere w of
     (Some e, w') \<Rightarrow> (Inl e, w')
   | (None, w') \<Rightarrow> (let (x, t) = q (db w') in (x, w'\<lparr>db := t\<rparr>)))"

text \<open>\<open>if err != nil { return wrap(err) }\<close> after a call of the store.\<close>

definition must :: "'a query \<Rightarrow> (db_error \<Rightarrow> 'e) \<Rightarrow> ('a \<Rightarrow> (world, 'e + 'b) state) \<Rightarrow> (world, 'e + 'b) state" where
  "must q wrap k = do {
     r \<leftarrow> stmt q;
     case r of Inl e \<Rightarrow> State_Monad.return (Inl (wrap e)) | Inr x \<Rightarrow> k x }"

text \<open>A call whose error is only logged.\<close>

definition best_effort :: "'a query \<Rightarrow> (world, unit) state" where
  "best_effort q = do { _ \<leftarrow> stmt q; State_Monad.return () }"

definition notify :: "(Batcher \<Rightarrow> (string + unit) \<times> Batcher) \<Rightarrow> (world, string + unit) state" where
  "notify f = State (\<lambda>w. let (x, b) = f (batcher w) in (x, w\<lparr>batcher := b\<rparr>))"

section \<open>Errors of the control plane\<close>

text \<open>The sentinel errors of \<^verbatim>\<open>lifecycle.go\<close> with the text they are wrapped in, \<^verbatim>\<open>fmt.Errorf("...: %w", err)\<close>
  around an error of the store or of the scheduler, and a run-time panic.\<close>

datatype lc_error =
    ErrConflict
  | ErrNoCapacity
  | ErrNotFound
  | ErrInvalidTransition string
  | ErrInvalidState string
  | Wrap string db_error
  | WrapSched string sched_error
  | WrapSandbox UUID string lc_error
  | GoPanic string

section \<open>Runs without interference\<close>

definition quiet :: "tables \<Rightarrow> Batcher \<Rightarrow> world" where
  "quiet t b = \<lparr>db = t, batcher = b, sched = []\<rparr>"

lemma quiet_sel [simp]: "db (quiet t b) = t" "batcher (quiet t b) = b" "sched (quiet t b) = []"
  by (simp_all add: quiet_def)

named_theorems run_simps \<open>symbolic execution of handlers without interference\<close>

lemma run_stmt [run_simps]: "run_state (stmt q) (quiet t b) = (fst (q t), quiet (snd (q t)) b)"
  by (simp add: stmt_def interfere_def quiet_def split: prod.split)

lemma run_must [run_simps]:
  "run_state (must q wrap k) (quiet t b) =
    (case fst (q t) of Inl e \<Rightarrow> (Inl (wrap e), quiet (snd (q t)) b)
                     | Inr x \<Rightarrow> run_state (k x) (quiet (snd (q t)) b))"
  by (simp add: must_def run_stmt split: sum.split)

lemma run_best_effort [run_simps]:
  "run_state (best_effort q) (quiet t b) = ((), quiet (snd (q t)) b)"
  by (simp add: best_effort_def run_stmt)

lemma run_notify [run_simps]:
  "run_state (notify f) (quiet t b) = (fst (f b), quiet t (snd (f b)))"
  by (simp add: notify_def quiet_def split: prod.split)

lemmas run_monad [run_simps] = run_state_bind run_state_return

section \<open>Preservation under interference\<close>

text \<open>\<open>rely I\<close>: every step left in the schedule keeps \<open>I\<close>; \<open>safe I\<close> is \<open>I\<close> on the database with that.\<close>

definition rely :: "(tables \<Rightarrow> bool) \<Rightarrow> world \<Rightarrow> bool" where
  "rely I w \<longleftrightarrow> (\<forall>e \<in> set (sched w). \<forall>t b. I t \<longrightarrow> I (fst (fst (e (t, b)))))"

definition safe :: "(tables \<Rightarrow> bool) \<Rightarrow> world \<Rightarrow> bool" where
  "safe I w \<longleftrightarrow> I (db w) \<and> rely I w"

lemma safe_quiet [simp]: "safe I (quiet t b) = I t"
  by (simp add: safe_def rely_def)

lemma interfere_safe:
  assumes "safe I w"
  shows "safe I (snd (interfere w))"
proof (cases "sched w")
  case Nil
  with assms show ?thesis by (simp add: interfere_def)
next
  case (Cons e es)
  obtain t b fault where e: "e (db w, batcher w) = ((t, b), fault)" by (metis surj_pair)
  have "I (fst (fst (e (db w, batcher w))))" using assms Cons by (simp add: safe_def rely_def)
  with e Cons assms show ?thesis by (simp add: interfere_def safe_def rely_def)
qed

lemma keeps_stmt:
  assumes "\<And>t. I t \<Longrightarrow> I (snd (q t))"
  shows "keeps (safe I) (stmt q)"
proof (rule keepsI)
  fix w assume "safe I w"
  then have "safe I (snd (interfere w))" by (rule interfere_safe)
  then show "safe I (snd (run_state (stmt q) w))"
    using assms by (auto simp: stmt_def safe_def rely_def split: prod.split option.split)
      (metis snd_conv)
qed

lemma keeps_must:
  assumes "\<And>t. I t \<Longrightarrow> I (snd (q t))" and "\<And>x. keeps (safe I) (k x)"
  shows "keeps (safe I) (must q wrap k)"
  unfolding must_def by (intro keeps_rules keeps_stmt assms)

lemma keeps_best_effort:
  assumes "\<And>t. I t \<Longrightarrow> I (snd (q t))"
  shows "keeps (safe I) (best_effort q)"
  unfolding best_effort_def by (intro keeps_rules keeps_stmt assms)

lemma keeps_notify [keeps_rules]: "keeps (safe I) (notify f)"
  by (simp add: keeps_def notify_def safe_def rely_def split: prod.split)

text \<open>The changes of the state column that the handlers of the lifecycle package ask for: the
  transitions of the table, and two the table does not have, both to \<^verbatim>\<open>failed\<close> (a crash with the
  restart attempts exhausted, and a rescheduled sandbox that no node can take).\<close>

definition edge :: "SandboxState \<Rightarrow> SandboxState \<Rightarrow> bool" where
  "edge a b \<longleftrightarrow> (\<exists>e. NextState a e = Some b) \<or>
     (b = StateFailed \<and> (a = StateRunning \<or> a = StatePending))"

lemma edgeI [intro]: "NextState a e = Some b \<Longrightarrow> edge a b"
  by (auto simp: edge_def)

lemma edge_forced [simp]: "edge StateRunning StateFailed" "edge StatePending StateFailed"
  by (simp_all add: edge_def)

locale work_invariant =
  fixes I :: "tables \<Rightarrow> bool" and fresh :: "UUID \<Rightarrow> bool"
  assumes Create: "fresh (csp_ID csp) \<Longrightarrow> I t \<Longrightarrow> I (snd (CreateSandbox_sql csp t))"
    and Transition: "edge s2 s \<Longrightarrow> I t \<Longrightarrow> I (snd (TransitionSandboxState s i s2 t))"
    and Assign: "I t \<Longrightarrow> I (snd (AssignSandboxToNode n hp c i t))"
    and Delete: "I t \<Longrightarrow> I (snd (DeleteSandbox i t))"
    and Increment: "I t \<Longrightarrow> I (snd (IncrementSandboxFailureCount i t))"
    and Reset: "I t \<Longrightarrow> I (snd (ResetSandboxFailureCount i t))"
    and Runtime: "I t \<Longrightarrow> I (snd (UpdateSandboxRuntime c hp i t))"
    and Record: "I t \<Longrightarrow> I (snd (RecordEvent ep t))"
    and Command: "I t \<Longrightarrow> I (snd (CreateCommand ccp t))"
    and Ack: "I t \<Longrightarrow> I (snd (AckCommand i cs res t))"
begin

text \<open>Reads leave the database alone.\<close>

lemma reads:
  "I t \<Longrightarrow> I (snd (GetSandbox i t))" "I t \<Longrightarrow> I (snd (GetSandboxByAppName a t))"
  "I t \<Longrightarrow> I (snd (GetNode i t))" "I t \<Longrightarrow> I (snd (ListHealthyNodes t))"
  "I t \<Longrightarrow> I (snd (ListIdleSandboxes t))" "I t \<Longrightarrow> I (snd (ListRunningSandboxesByNode i t))"
  "I t \<Longrightarrow> I (snd (ListNodes t))"
  by (simp_all add: GetSandbox_def GetSandboxByAppName_def GetNode_def ListHealthyNodes_def
      ListIdleSandboxes_def ListRunningSandboxesByNode_def ListNodes_def Let_def split: option.split)

lemmas statements = Create Transition Assign Delete Increment Reset Runtime Record Command Ack reads

lemmas calls = keeps_rules keeps_stmt keeps_must keeps_best_effort

end

text \<open>The heartbeat monitor also writes the status of nodes.\<close>

locale store_invariant = work_invariant +
  assumes Status: "I t \<Longrightarrow> I (snd (UpdateNodeStatus i ns t))"

section \<open>The invariants of the development\<close>

text \<open>Work on sandboxes leaves the nodes alone.\<close>

interpretation placement: work_invariant "\<lambda>t. nodes t = ns" "\<lambda>_. True"
  by unfold_locales (simp_all add: CreateSandbox_sql_def TransitionSandboxState_def AssignSandboxToNode_def
      DeleteSandbox_def IncrementSandboxFailureCount_def ResetSandboxFailureCount_def UpdateSandboxRuntime_def
      RecordEvent_def CreateCommand_def AckCommand_def Let_def split: option.split list.split)

text \<open>The schema; the audit log, which only grows; and a set of states that no edge leaves, for the
  sandbox of a given id.\<close>

interpretation schema: store_invariant schema_ok "\<lambda>_. True"
  by unfold_locales (simp_all add: schema_statements)

definition log_extends :: "Event list \<Rightarrow> tables \<Rightarrow> bool" where
  "log_extends es t \<longleftrightarrow> prefix es (events t)"

lemma events_frame:
  "events (snd (CreateSandbox_sql csp t)) = events t"
  "events (snd (TransitionSandboxState s i s2 t)) = events t"
  "events (snd (AssignSandboxToNode n hp c i t)) = events t"
  "events (snd (DeleteSandbox i t)) = events t"
  "events (snd (IncrementSandboxFailureCount i t)) = events t"
  "events (snd (ResetSandboxFailureCount i t)) = events t"
  "events (snd (UpdateSandboxRuntime c hp i t)) = events t"
  "events (snd (CreateCommand ccp t)) = events t"
  "events (snd (AckCommand i cs res t)) = events t"
  "events (snd (UpdateNodeStatus i ns t)) = events t"
  by (simp_all add: CreateSandbox_sql_def TransitionSandboxState_def AssignSandboxToNode_def
      DeleteSandbox_def IncrementSandboxFailureCount_def ResetSandboxFailureCount_def
      UpdateSandboxRuntime_def CreateCommand_def AckCommand_def UpdateNodeStatus_def Let_def
      split: option.split list.split)

interpretation audit: store_invariant "log_extends es" "\<lambda>_. True"
  by unfold_locales (simp_all add: log_extends_def events_frame RecordEvent_def Let_def)

definition stays_in :: "SandboxState set \<Rightarrow> UUID \<Rightarrow> tables \<Rightarrow> bool" where
  "stays_in S i t \<longleftrightarrow> (\<forall>r \<in> set (sandboxes t). sb_ID r = i \<longrightarrow> sb_State r \<in> S)"

lemma stays_in_update:
  assumes "stays_in S i t" and "\<And>r. sb_ID (f r) = sb_ID r"
    and "\<And>r. r \<in> set (sandboxes t) \<Longrightarrow> p r \<Longrightarrow> sb_State r \<in> S \<Longrightarrow> sb_State (f r) \<in> S"
  shows "stays_in S i (t\<lparr>sandboxes := update_where p f (sandboxes t)\<rparr>)"
  using assms by (auto simp: stays_in_def set_update_where)

definition gone :: "SandboxState set" where
  "gone = {StateDestroying, StateDestroyed}"

lemma edge_gone: "edge a b \<Longrightarrow> a \<in> gone \<Longrightarrow> b \<in> gone"
  by (auto simp: edge_def gone_def split: if_splits)

lemma edge_Destroyed: "\<not> edge StateDestroyed b"
  by (simp add: edge_def)

lemma stays_in_laws:
  assumes "\<And>a b. edge a b \<Longrightarrow> a \<in> S \<Longrightarrow> b \<in> S"
  shows "store_invariant (stays_in S i) (\<lambda>j. j \<noteq> i)"
proof
  fix s s2 j t assume "edge s2 s" and "stays_in S i t"
  then show "stays_in S i (snd (TransitionSandboxState s j s2 t))"
    using assms[of s2 s] unfolding TransitionSandboxState_def Let_def
    by (auto split: list.split option.split intro!: stays_in_update)
next
  fix n hp c j t assume "stays_in S i t"
  moreover have "edge StatePending StateStarting" by (rule edgeI[of _ EventScheduled]) simp
  ultimately show "stays_in S i (snd (AssignSandboxToNode n hp c j t))"
    using assms[of StatePending StateStarting] unfolding AssignSandboxToNode_def Let_def
    by (auto split: list.split option.split intro!: stays_in_update)
next
  fix j t assume "stays_in S i t"
  then show "stays_in S i (snd (IncrementSandboxFailureCount j t))"
    unfolding IncrementSandboxFailureCount_def Let_def
    by (auto split: option.split intro!: stays_in_update)
qed (auto simp: CreateSandbox_sql_def new_sandbox_def DeleteSandbox_def RecordEvent_def CreateCommand_def
      AckCommand_def ResetSandboxFailureCount_def UpdateSandboxRuntime_def UpdateNodeStatus_def Let_def stays_in_def
      set_update_where split: option.split)

interpretation leaving: store_invariant "stays_in gone i" "\<lambda>j. j \<noteq> i"
  by (rule stays_in_laws) (rule edge_gone)

interpretation destroyed: store_invariant "stays_in {StateDestroyed} i" "\<lambda>j. j \<noteq> i"
  by (rule stays_in_laws) (auto simp: edge_Destroyed)

end
