(* ===== verification/Restart.thy ===== *)
theory Restart
  imports Control_World
begin

text \<open>
  Crash recovery, \<^verbatim>\<open>control/internal/lifecycle/restart.go\<close>: \<^verbatim>\<open>HandleCrash\<close> counts the failure and either
  moves the sandbox on to \<^verbatim>\<open>starting\<close> with a start command that carries the backoff delay, or gives up;
  \<^verbatim>\<open>HandleRestarted\<close> resets the count. Fresh identifiers (\<^verbatim>\<open>uuid.New()\<close>) are arguments. The lemmas compute
  the handler on every branch and give the backoff.
\<close>

section \<open>Operations\<close>

definition maxRestartAttempts :: int32 where
  "maxRestartAttempts = 3"

text \<open>A \<^verbatim>\<open>time.Duration\<close> is an \<^verbatim>\<open>int64\<close> of nanoseconds.\<close>

type_synonym Duration = "64 word"

definition baseRestartDelay :: Duration where
  "baseRestartDelay = 5000000000"

definition Seconds :: "Duration \<Rightarrow> rat" where
  "Seconds d = of_int (sint d) / 1000000000"

record CrashResult =
  cr_ShouldRestart :: bool
  cr_Delay :: Duration

definition no_crash_result :: CrashResult where
  "no_crash_result = \<lparr>cr_ShouldRestart = False, cr_Delay = 0\<rparr>"

definition text_or_empty :: "string option \<Rightarrow> string" where
  "text_or_empty s = (case s of None \<Rightarrow> '''' | Some x \<Rightarrow> x)"

text \<open>\<^verbatim>\<open>1 << (newCount - 1)\<close>: the subtraction wraps, a negative shift count panics.\<close>

definition backoff :: "int32 \<Rightarrow> Duration option" where
  "backoff newCount =
    (let k = newCount - 1 in
     if int32_less k 0 then None else Some (baseRestartDelay * push_bit (unat k) 1))"

definition crash_payload :: "Sandbox \<Rightarrow> Duration \<Rightarrow> json" where
  "crash_payload sandbox delay = JObj
    [(''app_name'', JStr (sb_AppName sandbox)),
     (''container_id'', JStr (text_or_empty (sb_ContainerID sandbox))),
     (''image'', JStr (sb_Image sandbox)),
     (''restart_delay'', JNum (Seconds delay))]"

definition HandleCrash :: "UUID \<Rightarrow> Sandbox \<Rightarrow> (world, lc_error + CrashResult) state" where
  "HandleCrash cmdID sandbox =
    must (IncrementSandboxFailureCount (sb_ID sandbox)) (Wrap ''increment failure count: '') (\<lambda>updated.
      let newCount = sb_FailureCount updated in
      if int32_less maxRestartAttempts newCount then
        must (TransitionSandboxState StateFailed (sb_ID sandbox) (sb_State sandbox))
          (Wrap ''transition to failed: '') (\<lambda>_. do {
            best_effort (RecordEvent
              \<lparr>rep_SandboxID = Some (sb_ID sandbox), rep_NodeID = sb_NodeID sandbox,
               rep_EventType = ''restart_exhausted'', rep_Actor = ''control-plane'',
               rep_PrevState = Some (sb_State sandbox), rep_NextState = Some StateFailed,
               rep_Payload = JEmpty\<rparr>);
            State_Monad.return (Inr no_crash_result) })
      else case backoff newCount of
        None \<Rightarrow> State_Monad.return (Inl (GoPanic ''negative shift amount''))
      | Some delay \<Rightarrow>
        must (TransitionSandboxState StateStarting (sb_ID sandbox) StateRestarting)
          (Wrap ''transition restarting->starting: '') (\<lambda>_.
        must (CreateCommand
              \<lparr>ccp_ID = cmdID, ccp_NodeID = sb_NodeID sandbox, ccp_SandboxID = Some (sb_ID sandbox),
               ccp_CommandType = CmdStartSandbox, ccp_Payload = crash_payload sandbox delay,
               ccp_TimeoutSeconds = 60 + of_int \<lfloor>Seconds delay\<rfloor>\<rparr>)
          (Wrap ''create restart command: '') (\<lambda>_. do {
            best_effort (RecordEvent
              \<lparr>rep_SandboxID = Some (sb_ID sandbox), rep_NodeID = sb_NodeID sandbox,
               rep_EventType = SandboxEvent_string EventRestartAttempt, rep_Actor = ''control-plane'',
               rep_PrevState = Some StateRestarting, rep_NextState = Some StateStarting,
               rep_Payload = crash_payload sandbox delay\<rparr>);
            State_Monad.return (Inr \<lparr>cr_ShouldRestart = True, cr_Delay = delay\<rparr>) })))"

definition HandleRestarted :: "UUID \<Rightarrow> (world, lc_error + unit) state" where
  "HandleRestarted sandboxID =
    must (ResetSandboxFailureCount sandboxID) (Wrap ''reset failure count: '') (\<lambda>_. State_Monad.return (Inr ()))"

section \<open>Preservation\<close>

context work_invariant
begin

lemma HandleCrash_keeps:
  assumes "edge (sb_State sandbox) StateFailed"
  shows "keeps (safe I) (HandleCrash cmdID sandbox)"
proof -
  have "edge StateRestarting StateStarting" by (rule edgeI[of _ EventRestartAttempt]) simp
  with assms show ?thesis unfolding HandleCrash_def by (intro calls statements) auto
qed

lemma HandleRestarted_keeps: "keeps (safe I) (HandleRestarted i)"
  unfolding HandleRestarted_def by (intro calls statements)

end

section \<open>Backoff\<close>

lemma backoff_simps:
  "backoff 1 = Some 5000000000" "backoff 2 = Some 10000000000" "backoff 3 = Some 20000000000"
  by (simp_all add: backoff_def int32_less_def baseRestartDelay_def)

lemma Seconds_simps:
  "Seconds 5000000000 = 5" "Seconds 10000000000 = 10" "Seconds 20000000000 = 20"
  by (simp_all add: Seconds_def)

lemma small_int32:
  assumes "0 \<le> sint (a :: int32)" and "sint a < 3"
  shows "a = 0 \<or> a = 1 \<or> a = 2"
proof -
  have "a = of_int (sint a)" by simp
  moreover have "sint a = 0 \<or> sint a = 1 \<or> sint a = 2" using assms by arith
  ultimately show ?thesis by (metis of_int_0 of_int_1 of_int_numeral)
qed

text \<open>After \<open>a\<close> earlier failures the next attempt waits \<open>5 * 2 ^ a\<close> seconds, and the timeout of its command
  covers the wait without overflow.\<close>

lemma backoff_after:
  assumes "0 \<le> sint a" and "sint a < 3" and "d = the (backoff (a + 1))"
  shows "Seconds d = 5 * 2 ^ nat (sint a)"
    and "sint (60 + of_int \<lfloor>Seconds d\<rfloor> :: int32) = 60 + \<lfloor>Seconds d\<rfloor>"
  using small_int32[OF assms(1,2)] assms(3) by (auto simp: backoff_simps Seconds_simps)

end
