(* ===== verification/Lifecycle.thy ===== *)
theory Lifecycle
  imports Restart
begin

text \<open>
  The lifecycle service, \<^verbatim>\<open>control/internal/lifecycle/lifecycle.go\<close>: one definition per handler, with
  every call of the store and of the route notifier in the order of the source. Fresh identifiers
  (\<^verbatim>\<open>uuid.New()\<close>) are arguments; log calls are left out. The two optional collaborators of the service
  are present or absent (\<open>ls_routeNotifier\<close>, \<open>ls_restartMgr\<close>). A \<^verbatim>\<open>float64\<close> field is its rational value, so
  that \<^verbatim>\<open>json.Marshal\<close> of a request cannot fail.
\<close>

section \<open>Requests and payloads\<close>

record Resources =
  res_CPUCores :: rat
  res_MemoryMB :: int32

type_synonym env = "(string \<times> string) list option"

record CreateRequest =
  cq_AppName :: string
  cq_UserID :: string
  cq_Image :: string
  cq_Resources :: Resources
  cq_Env :: env
  cq_IdleTimeoutSeconds :: int32
  cq_Metadata :: "json option"

record SandboxResult =
  sr_ID :: UUID
  sr_AppName :: string
  sr_UserID :: string
  sr_State :: SandboxState
  sr_URL :: string
  sr_NodeID :: "UUID option"
  sr_Image :: string

record LifecycleService =
  ls_routeNotifier :: bool
  ls_restartMgr :: bool

definition New :: LifecycleService where
  "New = \<lparr>ls_routeNotifier = False, ls_restartMgr = False\<rparr>"

definition SetRouteNotifier :: "LifecycleService \<Rightarrow> LifecycleService" where
  "SetRouteNotifier ls = ls\<lparr>ls_routeNotifier := True\<rparr>"

definition SetRestartManager :: "LifecycleService \<Rightarrow> LifecycleService" where
  "SetRestartManager ls = ls\<lparr>ls_restartMgr := True\<rparr>"

definition resources_json :: "Resources \<Rightarrow> json" where
  "resources_json r = JObj [(''cpu_cores'', JNum (res_CPUCores r)),
     (''memory_mb'', JNum (of_int (sint (res_MemoryMB r))))]"

text \<open>A nil map is \<^verbatim>\<open>null\<close>; a map is written with its keys sorted, the order in which \<open>env\<close> lists it.\<close>

definition env_json :: "env \<Rightarrow> json" where
  "env_json e = (case e of None \<Rightarrow> JNull | Some m \<Rightarrow> JObj (map (\<lambda>(k, v). (k, JStr v)) m))"

definition start_payload :: "string \<Rightarrow> json \<Rightarrow> string \<Rightarrow> Resources \<Rightarrow> json" where
  "start_payload appName envJ img res = JObj
    [(''app_name'', JStr appName), (''env'', envJ), (''image'', JStr img),
     (''resources'', resources_json res)]"

text \<open>\<^verbatim>\<open>json.Unmarshal\<close> into \<^verbatim>\<open>Resources\<close>: member by member, a member of the wrong type leaves its field and
  makes the call fail in the end, the other members are decoded all the same.\<close>

definition no_resources :: Resources where
  "no_resources = \<lparr>res_CPUCores = 0, res_MemoryMB = 0\<rparr>"

fun decode_members :: "(string \<times> json) list \<Rightarrow> Resources \<Rightarrow> Resources \<times> bool" where
  "decode_members [] r = (r, True)"
| "decode_members ((k, v) # ms) r =
    (if fold_eq k ''cpu_cores'' then
       let (q, ok) = decode_float v (res_CPUCores r);
           (r', ok') = decode_members ms (r\<lparr>res_CPUCores := q\<rparr>) in (r', ok \<and> ok')
     else if fold_eq k ''memory_mb'' then
       let (n, ok) = decode_int32 v (res_MemoryMB r);
           (r', ok') = decode_members ms (r\<lparr>res_MemoryMB := n\<rparr>) in (r', ok \<and> ok')
     else decode_members ms r)"

definition decode_resources :: "json \<Rightarrow> Resources \<times> bool" where
  "decode_resources j = (case j of
     JNull \<Rightarrow> (no_resources, True)
   | JObj ms \<Rightarrow> decode_members ms no_resources
   | _ \<Rightarrow> (no_resources, False))"

text \<open>\<^verbatim>\<open>json.Unmarshal\<close> into a nil \<^verbatim>\<open>map[string]string\<close>; a member that is not a string is stored as the
  empty string (the error is ignored by the only caller).\<close>

fun env_put :: "string \<Rightarrow> string \<Rightarrow> (string \<times> string) list \<Rightarrow> (string \<times> string) list" where
  "env_put k v [] = [(k, v)]"
| "env_put k v ((k', v') # m) =
    (if k = k' then (k, v) # m
     else if k < k' then (k, v) # (k', v') # m
     else (k', v') # env_put k v m)"

definition decode_env :: "json \<Rightarrow> env" where
  "decode_env j = (case j of
     JObj ms \<Rightarrow> Some (fold (\<lambda>(k, v). env_put k (case v of JStr s \<Rightarrow> s | _ \<Rightarrow> '''')) ms [])
   | _ \<Rightarrow> None)"

text \<open>The same decoding where the error counts, into a map that may exist already.\<close>

definition decode_env_map :: "json \<Rightarrow> env \<Rightarrow> env \<times> bool" where
  "decode_env_map j old = (case j of
     JNull \<Rightarrow> (None, True)
   | JObj ms \<Rightarrow>
       (Some (fold (\<lambda>(k, v). env_put k (fst (decode_string v ''''))) ms (case old of None \<Rightarrow> [] | Some m \<Rightarrow> m)),
        list_all (\<lambda>(k, v). snd (decode_string v '''')) ms)
   | _ \<Rightarrow> (old, False))"

definition safePayload :: "json option \<Rightarrow> json" where
  "safePayload p = (case p of None \<Rightarrow> JEmpty | Some j \<Rightarrow> j)"

definition container_payload :: "Sandbox \<Rightarrow> json" where
  "container_payload sandbox = JObj [(''container_id'', JStr (text_or_empty (sb_ContainerID sandbox)))]"

section \<open>CreateSandbox\<close>

definition is_conflict_text :: "db_error \<Rightarrow> bool" where
  "is_conflict_text e \<longleftrightarrow> str_contains (db_error_text e) ''unique'' \<or> str_contains (db_error_text e) ''duplicate''"

definition create_params :: "UUID \<Rightarrow> CreateRequest \<Rightarrow> CreateSandboxParams" where
  "create_params sandboxUUID req =
    \<lparr>csp_ID = sandboxUUID, csp_AppName = cq_AppName req, csp_UserID = cq_UserID req,
     csp_Image = cq_Image req, csp_Resources = resources_json (cq_Resources req),
     csp_Env = env_json (cq_Env req),
     csp_IdleTimeoutSeconds =
       (if cq_IdleTimeoutSeconds req = 0 then 1800 else cq_IdleTimeoutSeconds req),
     csp_Metadata = safePayload (cq_Metadata req)\<rparr>"

definition required_mb :: "CreateRequest \<Rightarrow> int32" where
  "required_mb req =
    (if res_MemoryMB (cq_Resources req) = 0 then 512 else res_MemoryMB (cq_Resources req))"

definition create_payload :: "CreateRequest \<Rightarrow> json" where
  "create_payload req =
    start_payload (cq_AppName req) (env_json (cq_Env req)) (cq_Image req) (cq_Resources req)"

text \<open>The lookup that recycles a destroyed or failed row of the same application name.\<close>

definition recycle :: "string \<Rightarrow> (world, lc_error + unit) state" where
  "recycle appName = do {
     r \<leftarrow> stmt (GetSandboxByAppName appName);
     case r of
       Inr existing \<Rightarrow>
         if sb_State existing = StateDestroyed \<or> sb_State existing = StateFailed then
           must (DeleteSandbox (sb_ID existing)) (Wrap ''recycle destroyed sandbox: '')
             (\<lambda>_. State_Monad.return (Inr ()))
         else State_Monad.return (Inl ErrConflict)
     | Inl e \<Rightarrow>
         if e = ErrNoRows then State_Monad.return (Inr ())
         else State_Monad.return (Inl (Wrap ''lookup existing sandbox: '' e)) }"

definition place :: "UUID \<Rightarrow> UUID \<Rightarrow> CreateRequest \<Rightarrow> UUID \<Rightarrow> (world, lc_error + SandboxResult) state" where
  "place sandboxUUID cmdID req selectedNodeID =
    must (AssignSandboxToNode (Some selectedNodeID) None None sandboxUUID)
      (Wrap ''assign sandbox to node: '') (\<lambda>assigned.
    must (CreateCommand
        \<lparr>ccp_ID = cmdID, ccp_NodeID = Some selectedNodeID, ccp_SandboxID = Some sandboxUUID,
         ccp_CommandType = CmdStartSandbox, ccp_Payload = create_payload req, ccp_TimeoutSeconds = 60\<rparr>)
      (Wrap ''create start command: '') (\<lambda>_. do {
        best_effort (RecordEvent
          \<lparr>rep_SandboxID = Some sandboxUUID, rep_NodeID = Some selectedNodeID,
           rep_EventType = SandboxEvent_string EventScheduled, rep_Actor = ''control-plane'',
           rep_PrevState = Some StatePending, rep_NextState = Some StateStarting,
           rep_Payload = create_payload req\<rparr>);
        State_Monad.return (Inr
          \<lparr>sr_ID = sandboxUUID, sr_AppName = sb_AppName assigned, sr_UserID = sb_UserID assigned,
           sr_State = sb_State assigned, sr_URL = ''https://'' @ cq_AppName req @ ''.myappx.live'',
           sr_NodeID = Some selectedNodeID, sr_Image = cq_Image req\<rparr>) }))"

definition CreateSandbox ::
    "UUID \<Rightarrow> UUID \<Rightarrow> CreateRequest \<Rightarrow> (world, lc_error + SandboxResult) state" where
  "CreateSandbox sandboxUUID cmdID req = do {
     recycled \<leftarrow> recycle (cq_AppName req);
     case recycled of
       Inl e \<Rightarrow> State_Monad.return (Inl e)
     | Inr _ \<Rightarrow>
         must (CreateSandbox_sql (create_params sandboxUUID req))
           (\<lambda>e. if is_conflict_text e then ErrConflict else Wrap ''create sandbox: '' e) (\<lambda>_.
         must ListHealthyNodes (Wrap ''list healthy nodes: '') (\<lambda>nodes.
           case Schedule (map to_candidate nodes) (required_mb req) of
             Inl _ \<Rightarrow> State_Monad.return (Inl ErrNoCapacity)
           | Inr selectedNodeID \<Rightarrow> place sandboxUUID cmdID req selectedNodeID)) }"

section \<open>Route notification helpers\<close>

definition upstream_of :: "Node \<Rightarrow> int32 \<Rightarrow> string" where
  "upstream_of node port = n_TailscaleIp node @ '':'' @ show_int (sint port)"

definition notifyRouteAdd :: "Sandbox \<Rightarrow> UUID \<Rightarrow> (world, unit) state" where
  "notifyRouteAdd sandbox sandboxID =
    (case (sb_NodeID sandbox, sb_HostPort sandbox) of
       (Some nodeID, Some port) \<Rightarrow> do {
         r \<leftarrow> stmt (GetNode nodeID);
         case r of
           Inl _ \<Rightarrow> State_Monad.return ()
         | Inr node \<Rightarrow> do {
             _ \<leftarrow> notify (OnSandboxRunning (sb_AppName sandbox) sandboxID (upstream_of node port));
             State_Monad.return () } }
     | _ \<Rightarrow> State_Monad.return ())"

definition notifyRouteRemove :: "string \<Rightarrow> (world, unit) state" where
  "notifyRouteRemove appName = do { _ \<leftarrow> notify (OnSandboxStopped appName); State_Monad.return () }"

text \<open>The agent's \<^verbatim>\<open>container_id\<close> and \<^verbatim>\<open>host_port\<close>, decoded like \<open>decode_members\<close>.\<close>

fun decode_runtime :: "(string \<times> json) list \<Rightarrow> string \<times> int32 \<Rightarrow> (string \<times> int32) \<times> bool" where
  "decode_runtime [] i = (i, True)"
| "decode_runtime ((k, v) # ms) i =
    (if fold_eq k ''container_id'' then
       let (c, ok) = decode_string v (fst i); (i', ok') = decode_runtime ms (c, snd i) in (i', ok \<and> ok')
     else if fold_eq k ''host_port'' then
       let (p, ok) = decode_int32 v (snd i); (i', ok') = decode_runtime ms (fst i, p) in (i', ok \<and> ok')
     else decode_runtime ms i)"

definition runtime_info :: "json \<Rightarrow> (string \<times> int32) option" where
  "runtime_info j = (case j of
     JNull \<Rightarrow> Some ('''', 0)
   | JObj ms \<Rightarrow> (case decode_runtime ms ('''', 0) of (i, ok) \<Rightarrow> if ok then Some i else None)
   | _ \<Rightarrow> None)"

definition persistRuntimeInfo :: "UUID \<Rightarrow> json option \<Rightarrow> (world, unit) state" where
  "persistRuntimeInfo sandboxID ackResult =
    (case Option.bind ackResult runtime_info of
       None \<Rightarrow> State_Monad.return ()
     | Some (containerID, hostPort) \<Rightarrow>
        if containerID = '''' \<and> hostPort = 0 then State_Monad.return ()
        else best_effort (UpdateSandboxRuntime
          (if containerID = '''' then None else Some containerID)
          (if hostPort = 0 then None else Some hostPort) sandboxID))"

section \<open>HandleAck\<close>

fun CommandType_string :: "CommandType \<Rightarrow> string" where
  "CommandType_string CmdStartSandbox = ''start_sandbox''"
| "CommandType_string CmdStopSandbox = ''stop_sandbox''"
| "CommandType_string CmdRestartSandbox = ''restart_sandbox''"
| "CommandType_string CmdGetLogs = ''get_logs''"
| "CommandType_string CmdPrune = ''prune''"
| "CommandType_string (OtherCommand s) = s"

text \<open>The event of an acknowledgment, \<^verbatim>\<open>None\<close> where the source sets \<^verbatim>\<open>needsTransition = false\<close>.\<close>

definition ack_event :: "CommandType \<Rightarrow> string \<Rightarrow> SandboxState \<Rightarrow> SandboxEvent option" where
  "ack_event cmdType status state =
    (if cmdType = CmdStartSandbox \<and> status = ''success'' then Some EventStarted
     else if cmdType = CmdStartSandbox \<and> status = ''failure'' then Some EventStartFailed
     else if cmdType = CmdStopSandbox \<and> status = ''success'' then
       if state = StateDestroying then Some EventDestroyed else None
     else None)"

definition alreadyAtTarget :: "SandboxEvent \<Rightarrow> SandboxState \<Rightarrow> bool" where
  "alreadyAtTarget event state = (case event of
     EventStarted \<Rightarrow> state = StateRunning
   | EventStartFailed \<Rightarrow> state = StateFailed
   | EventDestroyed \<Rightarrow> state = StateDestroyed
   | _ \<Rightarrow> False)"

definition ack_transition ::
    "UUID \<Rightarrow> CommandType \<Rightarrow> string \<Rightarrow> Sandbox \<Rightarrow> SandboxEvent \<Rightarrow>
      (world, lc_error + Sandbox \<times> SandboxState) state" where
  "ack_transition sandboxID cmdType status sandbox event =
    (case NextState (sb_State sandbox) event of
       None \<Rightarrow>
         if alreadyAtTarget event (sb_State sandbox)
         then State_Monad.return (Inr (sandbox, sb_State sandbox))
         else State_Monad.return (Inl (ErrInvalidTransition (CommandType_string cmdType @ '' + '' @
                status @ '' from '' @ SandboxState_string (sb_State sandbox))))
     | Some nextState \<Rightarrow> do {
         r \<leftarrow> stmt (TransitionSandboxState nextState sandboxID (sb_State sandbox));
         case r of
           Inr _ \<Rightarrow> State_Monad.return (Inr (sandbox, nextState))
         | Inl err \<Rightarrow>
             if err = ErrNoRows then do {
               f \<leftarrow> stmt (GetSandbox sandboxID);
               case f of
                 Inl _ \<Rightarrow> State_Monad.return (Inl (Wrap ''transition state: '' err))
               | Inr refreshed \<Rightarrow>
                   if sb_State refreshed = nextState \<or> alreadyAtTarget event (sb_State refreshed)
                   then State_Monad.return (Inr (refreshed, sb_State refreshed))
                   else State_Monad.return (Inl (Wrap ''transition state: '' err)) }
             else State_Monad.return (Inl (Wrap ''transition state: '' err)) })"

text \<open>What follows the transition: the runtime data of a started container, the audit event, the route,
  and the failure count.\<close>

definition ack_effects ::
    "LifecycleService \<Rightarrow> UUID \<Rightarrow> SandboxEvent \<Rightarrow> json option \<Rightarrow> Sandbox \<Rightarrow> SandboxState \<Rightarrow>
      (world, unit) state" where
  "ack_effects ls sandboxID event ackResult sandbox0 nextState = do {
     sandbox \<leftarrow>
       (if event = EventStarted then do {
          persistRuntimeInfo sandboxID ackResult;
          r \<leftarrow> stmt (GetSandbox sandboxID);
          State_Monad.return (case r of Inr refreshed \<Rightarrow> refreshed | Inl _ \<Rightarrow> sandbox0) }
        else State_Monad.return sandbox0);
     best_effort (RecordEvent
       \<lparr>rep_SandboxID = Some sandboxID, rep_NodeID = sb_NodeID sandbox,
        rep_EventType = SandboxEvent_string event, rep_Actor = ''agent'',
        rep_PrevState = Some (sb_State sandbox), rep_NextState = Some nextState,
        rep_Payload = safePayload ackResult\<rparr>);
     (if ls_routeNotifier ls then
        if nextState = StateRunning then notifyRouteAdd sandbox sandboxID
        else if nextState = StateDestroyed then notifyRouteRemove (sb_AppName sandbox)
        else State_Monad.return ()
      else State_Monad.return ());
     (if ls_restartMgr ls \<and> nextState = StateRunning \<and> int32_less 0 (sb_FailureCount sandbox)
      then do { _ \<leftarrow> HandleRestarted sandboxID; State_Monad.return () }
      else State_Monad.return ()) }"

definition HandleAck ::
    "LifecycleService \<Rightarrow> UUID \<Rightarrow> UUID \<Rightarrow> CommandType \<Rightarrow> string \<Rightarrow> json option \<Rightarrow>
      (world, lc_error + unit) state" where
  "HandleAck ls cmdID sandboxID cmdType status ackResult =
    must (GetSandbox sandboxID) (Wrap ''get sandbox: '') (\<lambda>sandbox. do {
      moved \<leftarrow>
        (case ack_event cmdType status (sb_State sandbox) of
           None \<Rightarrow> State_Monad.return (Inr ())
         | Some event \<Rightarrow> do {
             r \<leftarrow> ack_transition sandboxID cmdType status sandbox event;
             case r of
               Inl e \<Rightarrow> State_Monad.return (Inl e)
             | Inr (sandbox', nextState) \<Rightarrow> do {
                 ack_effects ls sandboxID event ackResult sandbox' nextState;
                 State_Monad.return (Inr ()) } });
      case moved of
        Inl e \<Rightarrow> State_Monad.return (Inl e)
      | Inr _ \<Rightarrow>
          must (AckCommand cmdID (if status = ''failure'' then CmdFailed else CmdCompleted) ackResult)
            (Wrap ''ack command: '') (\<lambda>_. State_Monad.return (Inr ())) })"

section \<open>HandleEvent\<close>

definition agent_event :: "string \<Rightarrow> SandboxEvent option" where
  "agent_event eventType =
    (if eventType = ''container_started'' then Some EventStarted
     else if eventType = ''container_exited'' then Some EventContainerExited
     else if eventType = ''container_oom'' then Some EventContainerExited
     else None)"

definition HandleEvent ::
    "LifecycleService \<Rightarrow> UUID \<Rightarrow> UUID \<Rightarrow> UUID \<Rightarrow> string \<Rightarrow> json option \<Rightarrow>
      (world, lc_error + unit) state" where
  "HandleEvent ls cmdID nodeID sandboxID eventType payload =
    must (GetSandbox sandboxID) (Wrap ''get sandbox: '') (\<lambda>sandbox.
      case Option.bind (agent_event eventType) (NextState (sb_State sandbox)) of
        None \<Rightarrow> State_Monad.return (Inr ())
      | Some nextState \<Rightarrow>
          must (TransitionSandboxState nextState sandboxID (sb_State sandbox))
            (Wrap ''transition state: '') (\<lambda>_. do {
              best_effort (RecordEvent
                \<lparr>rep_SandboxID = Some sandboxID, rep_NodeID = Some nodeID, rep_EventType = eventType,
                 rep_Actor = ''agent'', rep_PrevState = Some (sb_State sandbox),
                 rep_NextState = Some nextState, rep_Payload = safePayload payload\<rparr>);
              (if ls_routeNotifier ls \<and> sb_State sandbox = StateRunning \<and>
                  nextState \<in> {StateRestarting, StateStopped, StateFailed}
               then notifyRouteRemove (sb_AppName sandbox) else State_Monad.return ());
              (if ls_restartMgr ls \<and> nextState = StateRestarting then do {
                 result \<leftarrow> HandleCrash cmdID sandbox;
                 State_Monad.return (case result of Inl (GoPanic s) \<Rightarrow> Inl (GoPanic s) | _ \<Rightarrow> Inr ()) }
               else State_Monad.return (Inr ())) }))"

section \<open>DestroySandbox, WakeSandbox, RestartSandbox\<close>

definition DestroySandbox :: "UUID \<Rightarrow> UUID \<Rightarrow> (world, lc_error + unit) state" where
  "DestroySandbox cmdID sandboxID =
    must (GetSandbox sandboxID) (Wrap ''get sandbox: '') (\<lambda>sandbox.
      case NextState (sb_State sandbox) EventDestroyRequest of
        None \<Rightarrow> State_Monad.return (Inl (ErrInvalidTransition
                  (''cannot destroy sandbox in state '' @ SandboxState_string (sb_State sandbox))))
      | Some nextState \<Rightarrow>
          must (TransitionSandboxState nextState sandboxID (sb_State sandbox))
            (Wrap ''transition state: '') (\<lambda>_.
          must (CreateCommand
              \<lparr>ccp_ID = cmdID, ccp_NodeID = sb_NodeID sandbox, ccp_SandboxID = Some sandboxID,
               ccp_CommandType = CmdStopSandbox, ccp_Payload = container_payload sandbox,
               ccp_TimeoutSeconds = 60\<rparr>)
            (Wrap ''create stop command: '') (\<lambda>_. do {
              best_effort (RecordEvent
                \<lparr>rep_SandboxID = Some sandboxID, rep_NodeID = sb_NodeID sandbox,
                 rep_EventType = SandboxEvent_string EventDestroyRequest, rep_Actor = ''control-plane'',
                 rep_PrevState = Some (sb_State sandbox), rep_NextState = Some nextState,
                 rep_Payload = container_payload sandbox\<rparr>);
              State_Monad.return (Inr ()) })))"

definition wake_payload :: "Sandbox \<Rightarrow> json" where
  "wake_payload sandbox = start_payload (sb_AppName sandbox) (env_json (decode_env (sb_Env sandbox)))
     (sb_Image sandbox) (fst (decode_resources (sb_Resources sandbox)))"

definition WakeSandbox :: "UUID \<Rightarrow> UUID \<Rightarrow> (world, lc_error + unit) state" where
  "WakeSandbox cmdID sandboxID =
    must (GetSandbox sandboxID) (Wrap ''get sandbox: '') (\<lambda>sandbox.
      if sb_State sandbox \<noteq> StateStopped then
        State_Monad.return (Inl (ErrInvalidState (''sandbox must be stopped to wake, current state: ''
          @ SandboxState_string (sb_State sandbox))))
      else
        must (TransitionSandboxState StateStarting sandboxID (sb_State sandbox))
          (Wrap ''transition state: '') (\<lambda>_.
        must (CreateCommand
            \<lparr>ccp_ID = cmdID, ccp_NodeID = sb_NodeID sandbox, ccp_SandboxID = Some sandboxID,
             ccp_CommandType = CmdStartSandbox, ccp_Payload = wake_payload sandbox,
             ccp_TimeoutSeconds = 60\<rparr>)
          (Wrap ''create start command: '') (\<lambda>_. do {
            best_effort (RecordEvent
              \<lparr>rep_SandboxID = Some sandboxID, rep_NodeID = sb_NodeID sandbox,
               rep_EventType = SandboxEvent_string EventScheduled, rep_Actor = ''control-plane-wake'',
               rep_PrevState = Some StateStopped, rep_NextState = Some StateStarting,
               rep_Payload = wake_payload sandbox\<rparr>);
            State_Monad.return (Inr ()) })))"

definition RestartSandbox :: "UUID \<Rightarrow> UUID \<Rightarrow> (world, lc_error + unit) state" where
  "RestartSandbox cmdID sandboxID =
    must (GetSandbox sandboxID) (Wrap ''get sandbox: '') (\<lambda>sandbox.
      if sb_State sandbox \<noteq> StateRunning then
        State_Monad.return (Inl (ErrInvalidState (''sandbox must be running to restart, current state: ''
          @ SandboxState_string (sb_State sandbox))))
      else
        must (CreateCommand
            \<lparr>ccp_ID = cmdID, ccp_NodeID = sb_NodeID sandbox, ccp_SandboxID = Some sandboxID,
             ccp_CommandType = CmdRestartSandbox, ccp_Payload = container_payload sandbox,
             ccp_TimeoutSeconds = 60\<rparr>)
          (Wrap ''create restart command: '') (\<lambda>_. do {
            best_effort (RecordEvent
              \<lparr>rep_SandboxID = Some sandboxID, rep_NodeID = sb_NodeID sandbox,
               rep_EventType = ''restart_requested'', rep_Actor = ''control-plane'',
               rep_PrevState = Some (sb_State sandbox), rep_NextState = Some (sb_State sandbox),
               rep_Payload = container_payload sandbox\<rparr>);
            State_Monad.return (Inr ()) }))"

end
