(* ===== verification/Recovery.thy ===== *)
theory Recovery
  imports Lifecycle
begin

text \<open>
  The two background services of the lifecycle package that move sandboxes on their own: the idle reaper
  (\<^verbatim>\<open>idle_reaper.go\<close>) and the rescheduler (\<^verbatim>\<open>reschedule.go\<close>). Their loops go through the rows they listed
  and keep going when one of them fails; the identifier of the command issued for a sandbox
  (\<^verbatim>\<open>uuid.New()\<close>) is an argument indexed by the sandbox. The ticker that calls \<^verbatim>\<open>reap\<close> is not modelled.
\<close>

section \<open>Idle reaper\<close>

definition reap_payload :: "Sandbox \<Rightarrow> json" where
  "reap_payload sb = JObj [(''container_id'', JStr (text_or_empty (sb_ContainerID sb))),
     (''reason'', JStr ''idle_timeout'')]"

definition reapOne :: "bool \<Rightarrow> UUID \<Rightarrow> Sandbox \<Rightarrow> (world, db_error + unit) state" where
  "reapOne notifier cmdID sb =
    must (TransitionSandboxState StateStopped (sb_ID sb) StateRunning) id (\<lambda>_. do {
      best_effort (CreateCommand
        \<lparr>ccp_ID = cmdID, ccp_NodeID = sb_NodeID sb, ccp_SandboxID = Some (sb_ID sb),
         ccp_CommandType = CmdStopSandbox, ccp_Payload = reap_payload sb, ccp_TimeoutSeconds = 60\<rparr>);
      best_effort (RecordEvent
        \<lparr>rep_SandboxID = Some (sb_ID sb), rep_NodeID = sb_NodeID sb,
         rep_EventType = SandboxEvent_string EventIdleTimeout, rep_Actor = ''idle-reaper'',
         rep_PrevState = Some StateRunning, rep_NextState = Some StateStopped, rep_Payload = JEmpty\<rparr>);
      (if notifier then notifyRouteRemove (sb_AppName sb) else State_Monad.return ());
      State_Monad.return (Inr ()) })"

definition reap :: "bool \<Rightarrow> (UUID \<Rightarrow> UUID) \<Rightarrow> (world, db_error + unit) state" where
  "reap notifier newID =
    must ListIdleSandboxes id (\<lambda>idle.
      if idle = [] then State_Monad.return (Inr ())
      else do {
        _ \<leftarrow> for_each (\<lambda>sb. reapOne notifier (newID (sb_ID sb)) sb) idle;
        State_Monad.return (Inr ()) })"

section \<open>Rescheduler\<close>

record RescheduleResult =
  rr_Count :: int
  rr_Failed :: int
  rr_Errors :: "lc_error list"

definition no_reschedule :: RescheduleResult where
  "no_reschedule = \<lparr>rr_Count = 0, rr_Failed = 0, rr_Errors = []\<rparr>"

text \<open>\<^verbatim>\<open>memory_mb\<close> of the stored resources, 512 if missing, not positive, or malformed.\<close>

definition reschedule_mb :: "Sandbox \<Rightarrow> int32" where
  "reschedule_mb sandbox =
    (let (res, ok) = decode_resources (sb_Resources sandbox) in
     if ok \<and> int32_less 0 (res_MemoryMB res) then res_MemoryMB res else 512)"

definition reschedule_payload :: "Sandbox \<Rightarrow> json" where
  "reschedule_payload sandbox = start_payload (sb_AppName sandbox) (sb_Env sandbox) (sb_Image sandbox)
     (fst (decode_resources (sb_Resources sandbox)))"

definition rescheduleSandbox :: "bool \<Rightarrow> UUID \<Rightarrow> Sandbox \<Rightarrow> (world, lc_error + unit) state" where
  "rescheduleSandbox notifier cmdID sandbox =
    must (TransitionSandboxState StatePending (sb_ID sandbox) StateRunning)
      (Wrap ''transition running->pending: '') (\<lambda>_. do {
        best_effort (RecordEvent
          \<lparr>rep_SandboxID = Some (sb_ID sandbox), rep_NodeID = sb_NodeID sandbox,
           rep_EventType = SandboxEvent_string EventNodeFailed, rep_Actor = ''rescheduler'',
           rep_PrevState = Some StateRunning, rep_NextState = Some StatePending,
           rep_Payload = JEmpty\<rparr>);
        (if notifier then notifyRouteRemove (sb_AppName sandbox) else State_Monad.return ());
        best_effort (ResetSandboxFailureCount (sb_ID sandbox));
        must ListHealthyNodes (Wrap ''list healthy nodes: '') (\<lambda>nodes.
          case Schedule (map to_candidate nodes) (reschedule_mb sandbox) of
            Inl err \<Rightarrow> do {
              best_effort (TransitionSandboxState StateFailed (sb_ID sandbox) StatePending);
              best_effort (RecordEvent
                \<lparr>rep_SandboxID = Some (sb_ID sandbox), rep_NodeID = sb_NodeID sandbox,
                 rep_EventType = ''reschedule_failed'', rep_Actor = ''rescheduler'',
                 rep_PrevState = Some StatePending, rep_NextState = Some StateFailed,
                 rep_Payload = JEmpty\<rparr>);
              State_Monad.return (Inl (WrapSched ''schedule sandbox: '' err)) }
          | Inr selectedNodeID \<Rightarrow>
              must (AssignSandboxToNode (Some selectedNodeID) None None (sb_ID sandbox))
                (Wrap ''assign sandbox to node: '') (\<lambda>_.
              must (CreateCommand
                  \<lparr>ccp_ID = cmdID, ccp_NodeID = Some selectedNodeID,
                   ccp_SandboxID = Some (sb_ID sandbox), ccp_CommandType = CmdStartSandbox,
                   ccp_Payload = reschedule_payload sandbox, ccp_TimeoutSeconds = 60\<rparr>)
                (Wrap ''create start command: '') (\<lambda>_. do {
                  best_effort (RecordEvent
                    \<lparr>rep_SandboxID = Some (sb_ID sandbox), rep_NodeID = Some selectedNodeID,
                     rep_EventType = SandboxEvent_string EventScheduled, rep_Actor = ''rescheduler'',
                     rep_PrevState = Some StatePending, rep_NextState = Some StateStarting,
                     rep_Payload = reschedule_payload sandbox\<rparr>);
                  State_Monad.return (Inr ()) }))) })"

definition tally :: "Sandbox \<times> (lc_error + unit) \<Rightarrow> RescheduleResult \<Rightarrow> RescheduleResult" where
  "tally o1 result = (case o1 of (sandbox, out) \<Rightarrow>
     (case out of
        Inl err \<Rightarrow> result\<lparr>rr_Failed := rr_Failed result + 1,
          rr_Errors := rr_Errors result @ [WrapSandbox (sb_ID sandbox) (sb_AppName sandbox) err]\<rparr>
      | Inr _ \<Rightarrow> result\<lparr>rr_Count := rr_Count result + 1\<rparr>))"

definition RescheduleNode ::
    "bool \<Rightarrow> (UUID \<Rightarrow> UUID) \<Rightarrow> UUID \<Rightarrow> (world, lc_error + RescheduleResult) state" where
  "RescheduleNode notifier newID failedNodeID =
    must (ListRunningSandboxesByNode failedNodeID) (Wrap ''list running sandboxes for node: '') (\<lambda>sandboxes.
      if sandboxes = [] then State_Monad.return (Inr no_reschedule)
      else do {
        outs \<leftarrow> for_each (\<lambda>sandbox. rescheduleSandbox notifier (newID (sb_ID sandbox)) sandbox) sandboxes;
        State_Monad.return (Inr (fold tally (zip sandboxes outs) no_reschedule)) })"

section \<open>Preservation by every handler\<close>

context work_invariant
begin

lemma edges:
  "edge StateRunning StateStopped" "edge StateRunning StatePending" "edge StateStopped StateStarting"
  by (auto intro: edgeI[of _ EventIdleTimeout] edgeI[of _ EventNodeFailed] edgeI[of _ EventScheduled])

lemma notify_helpers_keep:
  "keeps (safe I) (notifyRouteAdd sandbox i)" "keeps (safe I) (notifyRouteRemove a)"
  "keeps (safe I) (persistRuntimeInfo i res)"
  unfolding notifyRouteAdd_def notifyRouteRemove_def persistRuntimeInfo_def
  by (intro calls statements; assumption?)+

lemma CreateSandbox_keeps:
  assumes "fresh sandboxUUID"
  shows "keeps (safe I) (CreateSandbox sandboxUUID cmdID req)"
proof -
  have "fresh (csp_ID (create_params sandboxUUID req))" using assms by (simp add: create_params_def)
  then show ?thesis
    unfolding CreateSandbox_def recycle_def place_def by (intro calls statements)
qed

lemma ack_transition_keeps: "keeps (safe I) (ack_transition i ct st sandbox e)"
  unfolding ack_transition_def by (intro calls statements) (auto intro: edgeI)

lemma ack_effects_keeps: "keeps (safe I) (ack_effects ls i e res sandbox s)"
  unfolding ack_effects_def by (intro calls statements notify_helpers_keep HandleRestarted_keeps)

lemma HandleAck_keeps: "keeps (safe I) (HandleAck ls c i ct st res)"
  unfolding HandleAck_def by (intro calls statements ack_transition_keeps ack_effects_keeps)

lemma HandleEvent_keeps: "keeps (safe I) (HandleEvent ls c n i ty p)"
proof -
  have next_edge: "edge s s'" if "Option.bind (agent_event ty) (NextState s) = Some s'" for s s'
    using that by (cases "agent_event ty") auto
  have crash: "edge s StateFailed"
    if "Option.bind (agent_event ty) (NextState s) = Some StateRestarting" for s
    using that by (cases s) (auto simp: agent_event_def split: if_splits)
  show ?thesis
    unfolding HandleEvent_def
    by (intro calls statements notify_helpers_keep HandleCrash_keeps)
      (auto intro: next_edge crash)
qed

lemma DestroySandbox_keeps: "keeps (safe I) (DestroySandbox c i)"
  unfolding DestroySandbox_def by (intro calls statements) (auto intro: edgeI)

lemma WakeSandbox_keeps: "keeps (safe I) (WakeSandbox c i)"
  unfolding WakeSandbox_def by (intro calls statements) (auto intro: edges)

lemma RestartSandbox_keeps: "keeps (safe I) (RestartSandbox c i)"
  unfolding RestartSandbox_def by (intro calls statements)

lemma reap_keeps: "keeps (safe I) (reap nt ids)"
  unfolding reap_def reapOne_def by (intro calls statements notify_helpers_keep edges)

lemma RescheduleNode_keeps: "keeps (safe I) (RescheduleNode nt ids n)"
  unfolding RescheduleNode_def rescheduleSandbox_def
  by (intro calls statements notify_helpers_keep edges edge_forced)

end

end
