(* ===== verification/Lifecycle_Laws.thy ===== *)
theory Lifecycle_Laws
  imports Recovery
begin

text \<open>
  What the handlers of the lifecycle service do when nothing interferes: the handlers are executed
  symbolically (\<open>run_simps\<close>, \<open>stmt_simps\<close>), and the properties give the answer and the whole effect of each
  of them on every branch, including the branches on which the effect is not the intended one.
\<close>

section \<open>Rows added and acknowledged\<close>

definition add_sandbox :: "Sandbox \<Rightarrow> tables \<Rightarrow> tables" where
  "add_sandbox r t = t\<lparr>sandboxes := sandboxes t @ [r]\<rparr>"

lemma add_sandbox_frame [frame_simps]:
  "nodes (add_sandbox r t) = nodes t" "events (add_sandbox r t) = events t"
  "commands (add_sandbox r t) = commands t" "event_seq (add_sandbox r t) = event_seq t"
  "clock (add_sandbox r t) = clock t" "sandboxes (add_sandbox r t) = sandboxes t @ [r]"
  "node_at (add_sandbox r t) n = node_at t n" "command_at (add_sandbox r t) c = command_at t c"
  by (simp_all add: add_sandbox_def node_at_def command_at_def)

lemma sandbox_at_add [frame_simps]:
  "sandbox_at (add_sandbox r t) i =
    (case sandbox_at t i of None \<Rightarrow> if sb_ID r = i then Some r else None | Some x \<Rightarrow> Some x)"
  by (simp add: sandbox_at_def add_sandbox_def row_at_append split: option.split)

lemma pk_ok_add [frame_simps]:
  "pk_ok (add_sandbox r t) \<longleftrightarrow> pk_ok t \<and> sandbox_at t (sb_ID r) = None"
  by (auto simp: pk_ok_def add_sandbox_def sandbox_at_def row_at_None image_iff)

lemma put_add [frame_simps]:
  "sandbox_at t (sb_ID r) = None \<Longrightarrow> sb_ID r' = sb_ID r \<Longrightarrow>
    put_sandbox r' (add_sandbox r t) = add_sandbox r' t"
  by (simp add: put_sandbox_def add_sandbox_def update_where_def sandbox_at_def row_at_None map_idI)

lemma CreateSandbox_sql_eq [stmt_simps]:
  assumes "sandbox_at t (csp_ID a) = None" and "row_at sb_AppName (csp_AppName a) (sandboxes t) = None"
  shows "CreateSandbox_sql a t =
    (Inr (new_sandbox a (clock t)), add_sandbox (new_sandbox a (clock t)) t)"
  using assms by (auto simp: CreateSandbox_sql_def add_sandbox_def Let_def row_at_None)

lemma GetSandboxByAppName_eq [stmt_simps]:
  "row_at sb_AppName a (sandboxes t) = None \<Longrightarrow> GetSandboxByAppName a t = (Inl ErrNoRows, t)"
  "row_at sb_AppName a (sandboxes t) = Some r \<Longrightarrow> GetSandboxByAppName a t = (Inr r, t)"
  by (simp_all add: GetSandboxByAppName_def)

definition acked :: "UUID \<Rightarrow> CommandStatus \<Rightarrow> json option \<Rightarrow> tables \<Rightarrow> tables" where
  "acked c s res t = t\<lparr>commands := update_where (\<lambda>x. cmd_ID x = c)
     (\<lambda>x. x\<lparr>cmd_Status := s, cmd_AckedAt := Some (clock t), cmd_Result := res\<rparr>) (commands t)\<rparr>"

lemma AckCommand_eq [stmt_simps]: "AckCommand c s res t = (Inr (), acked c s res t)"
  by (simp add: AckCommand_def acked_def)

lemma acked_frame [frame_simps]:
  "nodes (acked c s res t) = nodes t" "events (acked c s res t) = events t"
  "sandboxes (acked c s res t) = sandboxes t" "clock (acked c s res t) = clock t"
  "sandbox_at (acked c s res t) i = sandbox_at t i" "node_at (acked c s res t) n = node_at t n"
  "pk_ok (acked c s res t) = pk_ok t"
  by (simp_all add: acked_def sandbox_at_def node_at_def pk_ok_def)

lemma command_at_acked [frame_simps]:
  "command_at (acked c s res t) c =
    map_option (\<lambda>x. x\<lparr>cmd_Status := s, cmd_AckedAt := Some (clock t), cmd_Result := res\<rparr>) (command_at t c)"
  unfolding acked_def command_at_def
  by (cases "row_at cmd_ID c (commands t)") (auto simp: row_at_update_where dest: row_at_Some)

lemma log_put: "log_event a (put_sandbox x t) = put_sandbox x (log_event a t)"
  by (simp add: log_event_def put_sandbox_def event_row_def)

lemmas exec = run_simps stmt_simps frame_simps Let_def

section \<open>Creation\<close>

lemma new_sandbox_sel [simp]:
  "sb_ID (new_sandbox a ts) = csp_ID a" "sb_State (new_sandbox a ts) = StatePending"
  "sb_StateVersion (new_sandbox a ts) = 0" "sb_AppName (new_sandbox a ts) = csp_AppName a"
  "sb_UserID (new_sandbox a ts) = csp_UserID a" "sb_FailureCount (new_sandbox a ts) = 0"
  by (simp_all add: new_sandbox_def)

lemma create_params_sel [simp]:
  "csp_ID (create_params i req) = i" "csp_AppName (create_params i req) = cq_AppName req"
  "csp_UserID (create_params i req) = cq_UserID req"
  by (simp_all add: create_params_def)

definition created :: "UUID \<Rightarrow> CreateRequest \<Rightarrow> timestamp \<Rightarrow> Sandbox" where
  "created i req ts = new_sandbox (create_params i req) ts"

lemma created_sel [simp]:
  "sb_ID (created i req ts) = i" "sb_State (created i req ts) = StatePending"
  "sb_AppName (created i req ts) = cq_AppName req" "sb_UserID (created i req ts) = cq_UserID req"
  "version_room 1 (created i req ts)"
  by (simp_all add: created_def version_room_def int32_max_def)

lemma ListHealthyNodes_result:
  assumes "ListHealthyNodes t = (Inr ns, t')"
  shows "t' = t \<and> set ns = {n \<in> set (nodes t). n_Status n = NodeHealthy}"
  using assms by (auto simp: ListHealthyNodes_def Let_def split: if_splits)

lemma ListHealthyNodes_snd: "snd (ListHealthyNodes t) = t"
  by (simp add: ListHealthyNodes_def Let_def)

lemma ListHealthyNodes_cong:
  "nodes t = nodes t' \<Longrightarrow> fst (ListHealthyNodes t) = fst (ListHealthyNodes t')"
  by (auto simp: ListHealthyNodes_def Let_def)

lemma ListHealthyNodes_eq:
  assumes "fst (ListHealthyNodes t) = x" and "nodes t' = nodes t"
  shows "ListHealthyNodes t' = (x, t')"
  using ListHealthyNodes_cong[OF assms(2)] ListHealthyNodes_snd[of t'] assms(1) by (metis prod.collapse)

lemma Schedule_node_known:
  assumes "fst (ListHealthyNodes t) = Inr ns" and "Schedule (map to_candidate ns) req = Inr n"
  shows "node_at t n \<noteq> None"
proof -
  have "\<exists>c \<in> set (map to_candidate ns). fits req c"
    using assms(2) Schedule_not_found[of "map to_candidate ns" req]
    by (cases "ns = []") (auto simp: Schedule_def)
  then obtain c where "c \<in> set (map to_candidate ns)" "nc_ID c = n"
    using Schedule_found assms(2) leftmost_best_fits by (metis sum.inject(2))
  moreover have "set ns \<subseteq> set (nodes t)"
    using ListHealthyNodes_result[OF ListHealthyNodes_eq[OF assms(1) refl]] by auto
  ultimately show ?thesis
    by (auto simp: node_at_def row_at_None to_candidate_def)
qed

lemma recycle_none:
  "row_at sb_AppName a (sandboxes t) = None \<Longrightarrow> run_state (recycle a) (quiet t b) = (Inr (), quiet t b)"
  by (simp add: recycle_def exec)

definition the_result :: "UUID \<Rightarrow> CreateRequest \<Rightarrow> UUID \<Rightarrow> SandboxResult" where
  "the_result i req n =
    \<lparr>sr_ID = i, sr_AppName = cq_AppName req, sr_UserID = cq_UserID req, sr_State = StateStarting,
     sr_URL = ''https://'' @ cq_AppName req @ ''.myappx.live'', sr_NodeID = Some n, sr_Image = cq_Image req\<rparr>"

definition start_command :: "UUID \<Rightarrow> UUID \<Rightarrow> UUID \<Rightarrow> json \<Rightarrow> timestamp \<Rightarrow> Command" where
  "start_command c n i p ts = \<lparr>cmd_ID = c, cmd_NodeID = n, cmd_SandboxID = Some i,
     cmd_CommandType = CmdStartSandbox, cmd_Payload = p, cmd_Status = CmdPending,
     cmd_DispatchedAt = None, cmd_AckedAt = None, cmd_Result = None, cmd_TimeoutSeconds = 60,
     cmd_CreatedAt = ts\<rparr>"

definition scheduled_event :: "UUID \<Rightarrow> UUID \<Rightarrow> string \<Rightarrow> json \<Rightarrow> RecordEventParams" where
  "scheduled_event i n actor p = \<lparr>rep_SandboxID = Some i, rep_NodeID = Some n,
     rep_EventType = ''scheduled'', rep_Actor = actor, rep_PrevState = Some StatePending,
     rep_NextState = Some StateStarting, rep_Payload = p\<rparr>"

lemma create_run:
  assumes "pk_ok t" and "row_at sb_AppName (cq_AppName req) (sandboxes t) = None"
    and "sandbox_at t i = None" and "fst (ListHealthyNodes t) = Inr ns"
  shows "run_state (CreateSandbox i c req) (quiet t b) =
    (case Schedule (map to_candidate ns) (required_mb req) of
       Inl _ \<Rightarrow> (Inl ErrNoCapacity, quiet (add_sandbox (created i req (clock t)) t) b)
     | Inr n \<Rightarrow> run_state (place i c req n) (quiet (add_sandbox (created i req (clock t)) t) b))"
proof -
  have "ListHealthyNodes (add_sandbox (created i req (clock t)) t) =
      (Inr ns, add_sandbox (created i req (clock t)) t)"
    by (rule ListHealthyNodes_eq[OF assms(4)]) (simp add: frame_simps)
  with assms(2,3) show ?thesis
    by (auto simp: CreateSandbox_def recycle_none exec created_def[symmetric] split: sum.split)
qed

lemma place_run:
  assumes "pk_ok t" and "sandbox_at t i = None" and "command_at t c = None" and "node_at t n \<noteq> None"
  shows "run_state (place i c req n) (quiet (add_sandbox (created i req (clock t)) t) b) =
    (Inr (the_result i req n),
     quiet (log_event (scheduled_event i n ''control-plane'' (create_payload req))
       (add_command (start_command c n i (create_payload req) (clock t))
         (add_sandbox (assigned n None None (clock t) (created i req (clock t))) t))) b)"
  using assms
  by (simp add: place_def exec named_command_def the_result_def the_command_def start_command_def
      scheduled_event_def)

lemma recycle_some:
  assumes "row_at sb_AppName a (sandboxes t) = Some r"
  shows "run_state (recycle a) (quiet t b) =
    (if sb_State r \<notin> {StateDestroyed, StateFailed} then (Inl ErrConflict, quiet t b)
     else (case DeleteSandbox (sb_ID r) t of
       (Inl e, t') \<Rightarrow> (Inl (Wrap ''recycle destroyed sandbox: '' e), quiet t' b)
     | (Inr _, t') \<Rightarrow> (Inr (), quiet t' b)))"
  using assms by (auto simp: recycle_def exec split: prod.split sum.split)

lemma CreateSandbox_after_recycle:
  assumes "run_state (recycle (cq_AppName req)) (quiet t b) = (Inr (), quiet t' b)"
    and "row_at sb_AppName (cq_AppName req) (sandboxes t') = None"
  shows "run_state (CreateSandbox i c req) (quiet t b) = run_state (CreateSandbox i c req) (quiet t' b)"
  using assms by (simp add: CreateSandbox_def recycle_none run_monad)

lemma no_app_after_delete:
  assumes "distinct (map sb_AppName rows)" and "row_at sb_AppName a rows = Some r"
  shows "row_at sb_AppName a (filter (\<lambda>x. sb_ID x \<noteq> sb_ID r) rows) = None"
proof -
  have "x = r" if "x \<in> set rows" "sb_AppName x = a" for x
    using that assms row_at_Some[OF assms(2)] by (auto simp: distinct_map inj_on_def)
  then show ?thesis by (auto simp: row_at_None)
qed

section \<open>Acknowledgments\<close>

lemma persist_run:
  assumes "runtime_info res = Some (cid, hp)" and "cid \<noteq> ''''" and "hp \<noteq> 0"
  shows "run_state (persistRuntimeInfo i (Some res)) (quiet t b) =
    ((), quiet (snd (UpdateSandboxRuntime (Some cid) (Some hp) i t)) b)"
  using assms by (simp add: persistRuntimeInfo_def exec)

lemma notifyRouteAdd_run:
  assumes "sb_NodeID r = Some n" and "sb_HostPort r = Some p" and "node_at t n = Some nd"
  shows "run_state (notifyRouteAdd r i) (quiet t b) =
    ((), quiet t (snd (OnSandboxRunning (sb_AppName r) i (upstream_of nd p) b)))"
  using assms by (simp add: notifyRouteAdd_def exec)

lemma notifyRouteRemove_run:
  "run_state (notifyRouteRemove a) (quiet t b) = ((), quiet t (snd (OnSandboxStopped a b)))"
  by (simp add: notifyRouteRemove_def exec)

lemma HandleRestarted_run:
  "pk_ok t \<Longrightarrow> sandbox_at t i = Some r \<Longrightarrow> run_state (HandleRestarted i) (quiet t b) =
    (Inr (), quiet (put_sandbox (r\<lparr>sb_FailureCount := 0, sb_UpdatedAt := clock t\<rparr>) t) b)"
  by (simp add: HandleRestarted_def exec)

text \<open>The row of a sandbox whose container runs: the state, and the runtime data of the agent.\<close>

definition runs :: "timestamp \<Rightarrow> string \<Rightarrow> int32 \<Rightarrow> Sandbox \<Rightarrow> Sandbox" where
  "runs ts cid hp r = (if sb_State r = StateRunning then r else moved StateRunning ts r)
     \<lparr>sb_ContainerID := Some cid, sb_HostPort := Some hp, sb_UpdatedAt := ts\<rparr>"

lemma runs_sel [simp]:
  "sb_ID (runs ts cid hp r) = sb_ID r" "sb_State (runs ts cid hp r) = StateRunning"
  "sb_NodeID (runs ts cid hp r) = sb_NodeID r" "sb_AppName (runs ts cid hp r) = sb_AppName r"
  "sb_HostPort (runs ts cid hp r) = Some hp" "sb_ContainerID (runs ts cid hp r) = Some cid"
  "sb_FailureCount (runs ts cid hp r) = sb_FailureCount r"
  by (simp_all add: runs_def)

lemma ack_started_transition:
  assumes "pk_ok t" and "sandbox_at t i = Some r" and "sb_State r \<in> {StateStarting, StateFailed, StateRunning}"
    and "version_room 1 r"
  shows "run_state (ack_transition i ct st r EventStarted) (quiet t b) =
    (Inr (r, StateRunning),
     quiet (if sb_State r = StateRunning then t else put_sandbox (moved StateRunning (clock t) r) t) b)"
  using assms by (auto simp: ack_transition_def exec alreadyAtTarget_def AllStates_def)

definition started_event :: "UUID \<Rightarrow> UUID \<Rightarrow> json \<Rightarrow> RecordEventParams" where
  "started_event i n p = \<lparr>rep_SandboxID = Some i, rep_NodeID = Some n, rep_EventType = ''started'',
     rep_Actor = ''agent'', rep_PrevState = Some StateRunning, rep_NextState = Some StateRunning,
     rep_Payload = p\<rparr>"

definition recovered :: "LifecycleService \<Rightarrow> Sandbox \<Rightarrow> Sandbox" where
  "recovered ls r =
    (if ls_restartMgr ls \<and> int32_less 0 (sb_FailureCount r) then r\<lparr>sb_FailureCount := 0\<rparr> else r)"

lemma recovered_ID [simp]: "sb_ID (recovered ls r) = sb_ID r"
  by (simp add: recovered_def)

lemma ack_started_effects:
  assumes "pk_ok t" and "sandbox_at t i = Some r1" and "sb_State r1 = StateRunning"
    and "runtime_info res = Some (cid, hp)" and "cid \<noteq> ''''" and "hp \<noteq> 0"
    and "sb_NodeID r1 = Some n" and "node_at t n = Some nd"
  shows "run_state (ack_effects ls i EventStarted (Some res) r StateRunning) (quiet t b) =
    ((), quiet (put_sandbox (recovered ls (runs (clock t) cid hp r1)) (log_event (started_event i n res) t))
       (if ls_routeNotifier ls
        then snd (OnSandboxRunning (sb_AppName r1) i (upstream_of nd hp) b) else b))"
proof -
  let ?r = "runs (clock t) cid hp r1"
  have ID: "sb_ID r1 = i" using assms(2) by (rule sandbox_at_ID)
  have U: "UpdateSandboxRuntime (Some cid) (Some hp) i t = (Inr (), put_sandbox ?r t)"
    using assms(1-3) by (simp add: Runtime_eq runs_def)
  have upd: "?r\<lparr>sb_FailureCount := 0, sb_UpdatedAt := clock t\<rparr> = ?r\<lparr>sb_FailureCount := 0\<rparr>"
    by (simp add: runs_def)
  show ?thesis
    using assms ID
    by (simp add: ack_effects_def exec persist_run U notifyRouteAdd_run[where n = n and p = hp and nd = nd]
        HandleRestarted_run[where r = ?r] log_put started_event_def safePayload_def recovered_def upd)
qed

lemma HandleAck_started_run:
  assumes "pk_ok t" and "sandbox_at t i = Some r"
    and "sb_State r \<in> {StateStarting, StateFailed, StateRunning}" and "version_room 1 r"
    and "runtime_info res = Some (cid, hp)" and "cid \<noteq> ''''" and "hp \<noteq> 0"
    and "sb_NodeID r = Some n" and "node_at t n = Some nd"
  shows "run_state (HandleAck ls c i CmdStartSandbox ''success'' (Some res)) (quiet t b) =
    (Inr (), quiet (acked c CmdCompleted (Some res)
        (put_sandbox (recovered ls (runs (clock t) cid hp r)) (log_event (started_event i n res) t)))
      (if ls_routeNotifier ls
       then snd (OnSandboxRunning (sb_AppName r) i (upstream_of nd hp) b) else b))"
proof -
  let ?t = "if sb_State r = StateRunning then t else put_sandbox (moved StateRunning (clock t) r) t"
  let ?r = "if sb_State r = StateRunning then r else moved StateRunning (clock t) r"
  have ID: "sb_ID r = i" using assms(2) by (rule sandbox_at_ID)
  then have at: "pk_ok ?t" "sandbox_at ?t i = Some ?r" "sb_State ?r = StateRunning"
    "sb_NodeID ?r = Some n" "node_at ?t n = Some nd" "clock ?t = clock t" "sb_AppName ?r = sb_AppName r"
    using assms by (simp_all add: frame_simps)
  have "runs (clock t) cid hp ?r = runs (clock t) cid hp r" by (simp add: runs_def)
  moreover have "put_sandbox x (log_event a ?t) = put_sandbox x (log_event a t)" if "sb_ID x = i" for x a
    using that ID by (simp add: put_put log_put)
  ultimately have eff: "run_state (ack_effects ls i EventStarted (Some res) r StateRunning) (quiet ?t b) =
    ((), quiet (put_sandbox (recovered ls (runs (clock t) cid hp r)) (log_event (started_event i n res) t))
       (if ls_routeNotifier ls
        then snd (OnSandboxRunning (sb_AppName r) i (upstream_of nd hp) b) else b))"
    using ack_started_effects[OF at(1-3) assms(5-7) at(4,5), of ls r b] ID at(6,7) by (simp del: if_split)
  show ?thesis
    unfolding HandleAck_def
    by (simp add: exec assms(2) ack_event_def ack_started_transition[OF assms(1-4)] eff del: if_split)
qed

definition destroy_event :: "Sandbox \<Rightarrow> SandboxState \<Rightarrow> RecordEventParams" where
  "destroy_event r s = \<lparr>rep_SandboxID = Some (sb_ID r), rep_NodeID = sb_NodeID r,
     rep_EventType = ''destroy_requested'', rep_Actor = ''control-plane'',
     rep_PrevState = Some (sb_State r), rep_NextState = Some s, rep_Payload = container_payload r\<rparr>"

section \<open>Crashes\<close>

lemma HandleEvent_exit_run:
  assumes "pk_ok t" and "sandbox_at t i = Some r" and "sb_State r = StateRunning" and "version_room 1 r"
    and "agent_event ty = Some EventContainerExited" and "ls_restartMgr ls" and "ls_routeNotifier ls"
  shows "run_state (HandleEvent ls c nd i ty p) (quiet t b) =
    (let (x, w) = run_state (HandleCrash c r)
       (quiet (log_event \<lparr>rep_SandboxID = Some i, rep_NodeID = Some nd, rep_EventType = ty,
           rep_Actor = ''agent'', rep_PrevState = Some StateRunning, rep_NextState = Some StateRestarting,
           rep_Payload = safePayload p\<rparr> (put_sandbox (moved StateRestarting (clock t) r) t))
         (snd (OnSandboxStopped (sb_AppName r) b)))
     in (case x of Inl (GoPanic s) \<Rightarrow> Inl (GoPanic s) | _ \<Rightarrow> Inr (), w))"
  using assms by (simp add: HandleEvent_def exec notifyRouteRemove_run AllStates_def split: prod.split)

definition counted :: "timestamp \<Rightarrow> Sandbox \<Rightarrow> Sandbox" where
  "counted ts r = r\<lparr>sb_FailureCount := sb_FailureCount r + 1, sb_UpdatedAt := ts\<rparr>"

lemma counted_sel [simp]:
  "sb_ID (counted ts r) = sb_ID r" "sb_State (counted ts r) = sb_State r"
  "sb_StateVersion (counted ts r) = sb_StateVersion r" "sb_NodeID (counted ts r) = sb_NodeID r"
  "sb_FailureCount (counted ts r) = sb_FailureCount r + 1" "sb_AppName (counted ts r) = sb_AppName r"
  by (simp_all add: counted_def)

definition crash_command :: "UUID \<Rightarrow> UUID \<Rightarrow> Sandbox \<Rightarrow> Duration \<Rightarrow> timestamp \<Rightarrow> Command" where
  "crash_command c n r d ts = (start_command c n (sb_ID r) (crash_payload r d) ts)
     \<lparr>cmd_TimeoutSeconds := 60 + of_int \<lfloor>Seconds d\<rfloor>\<rparr>"

definition restart_event :: "Sandbox \<Rightarrow> UUID \<Rightarrow> Duration \<Rightarrow> RecordEventParams" where
  "restart_event r n d = \<lparr>rep_SandboxID = Some (sb_ID r), rep_NodeID = Some n,
     rep_EventType = ''restart_attempt'', rep_Actor = ''control-plane'',
     rep_PrevState = Some StateRestarting, rep_NextState = Some StateStarting,
     rep_Payload = crash_payload r d\<rparr>"

lemma HandleCrash_restart:
  assumes "pk_ok t" and "sandbox_at t (sb_ID r) = Some r1" and "sb_State r1 = StateRestarting"
    and "version_room 1 r1" and "0 \<le> sint (sb_FailureCount r1)" and "sint (sb_FailureCount r1) < 3"
    and "sb_NodeID r = Some n" and "node_at t n \<noteq> None" and "command_at t c = None"
  shows "run_state (HandleCrash c r) (quiet t b) =
    (let d = the (backoff (sb_FailureCount r1 + 1)) in
     (Inr \<lparr>cr_ShouldRestart = True, cr_Delay = d\<rparr>,
      quiet (log_event (restart_event r n d) (add_command (crash_command c n r d (clock t))
        (put_sandbox (moved StateStarting (clock t) (counted (clock t) r1)) t))) b))"
proof -
  let ?n = "sb_FailureCount r1 + 1"
  have ID: "sb_ID r1 = sb_ID r" using assms(2) by (rule sandbox_at_ID)
  have lt: "sint (sb_FailureCount r1) < int32_max" using assms(6) by (simp add: int32_max_def)
  then have cnt: "sint ?n = sint (sb_FailureCount r1) + 1" by (intro sint_succ_int32) simp
  then have small: "\<not> int32_less maxRestartAttempts ?n"
    using assms(6) by (simp add: int32_less_def maxRestartAttempts_def)
  have "backoff ?n \<noteq> None" using assms(5) by (simp add: backoff_def int32_less_def)
  then obtain d where d: "backoff ?n = Some d" by blast
  have inc: "IncrementSandboxFailureCount (sb_ID r) t =
      (Inr (counted (clock t) r1), put_sandbox (counted (clock t) r1) t)"
    using assms(1,2) lt by (simp add: Increment_eq counted_def Let_def)
  have room: "version_room 1 (counted (clock t) r1)" using assms(4) by (simp add: version_room_def)
  show ?thesis
    using assms ID inc small d room
    by (simp add: HandleCrash_def exec named_command_def AllStates_def crash_command_def
        start_command_def the_command_def restart_event_def)
qed

definition exit_event :: "UUID \<Rightarrow> UUID \<Rightarrow> json option \<Rightarrow> RecordEventParams" where
  "exit_event i nd p = \<lparr>rep_SandboxID = Some i, rep_NodeID = Some nd, rep_EventType = ''container_exited'',
     rep_Actor = ''agent'', rep_PrevState = Some StateRunning, rep_NextState = Some StateRestarting,
     rep_Payload = safePayload p\<rparr>"

lemma HandleEvent_crash_run:
  assumes "pk_ok t" and "sandbox_at t i = Some r" and "sb_State r = StateRunning" and "version_room 2 r"
    and "0 \<le> sint (sb_FailureCount r)" and "sint (sb_FailureCount r) < 3"
    and "sb_NodeID r = Some n" and "node_at t n \<noteq> None" and "command_at t c = None"
    and "ls_restartMgr ls" and "ls_routeNotifier ls"
  defines "d \<equiv> the (backoff (sb_FailureCount r + 1))"
  shows "run_state (HandleEvent ls c nd i ''container_exited'' p) (quiet t b) =
    (Inr (), quiet (log_event (restart_event r n d) (add_command (crash_command c n r d (clock t))
        (put_sandbox (moved StateStarting (clock t) (counted (clock t) (moved StateRestarting (clock t) r)))
          (log_event (exit_event i nd p) (put_sandbox (moved StateRestarting (clock t) r) t)))))
      (snd (OnSandboxStopped (sb_AppName r) b)))"
proof -
  let ?b = "snd (OnSandboxStopped (sb_AppName r) b)"
  let ?t1 = "log_event (exit_event i nd p) (put_sandbox (moved StateRestarting (clock t) r) t)"
  have ID: "sb_ID r = i" using assms(2) by (rule sandbox_at_ID)
  have "run_state (HandleCrash c r) (quiet ?t1 ?b) =
      (Inr \<lparr>cr_ShouldRestart = True, cr_Delay = d\<rparr>,
       quiet (log_event (restart_event r n d) (add_command (crash_command c n r d (clock t))
         (put_sandbox (moved StateStarting (clock t) (counted (clock t) (moved StateRestarting (clock t) r))) ?t1))) ?b)"
    using HandleCrash_restart[of ?t1 r "moved StateRestarting (clock t) r" n c ?b] assms ID
      version_room_moved[of 1 r StateRestarting "clock t"]
    by (simp add: frame_simps Let_def)
  then show ?thesis
    using HandleEvent_exit_run[OF assms(1-3) version_room_mono[OF assms(4)], of "''container_exited''" ls c nd p b]
      assms(10,11) by (simp add: agent_event_def exit_event_def)
qed

lemma HandleCrash_exhausted:
  assumes "pk_ok t" and "sandbox_at t (sb_ID r) = Some r1" and "sb_State r1 \<noteq> sb_State r"
    and "3 \<le> sint (sb_FailureCount r1)" and "sint (sb_FailureCount r1) < int32_max"
  shows "run_state (HandleCrash c r) (quiet t b) =
    (Inl (Wrap ''transition to failed: '' ErrNoRows), quiet (put_sandbox (counted (clock t) r1) t) b)"
proof -
  let ?n = "sb_FailureCount r1 + 1"
  have ID: "sb_ID r1 = sb_ID r" using assms(2) by (rule sandbox_at_ID)
  have "sint ?n = sint (sb_FailureCount r1) + 1" using assms(5) by (intro sint_succ_int32) simp
  then have big: "int32_less maxRestartAttempts ?n"
    using assms(4) by (simp add: int32_less_def maxRestartAttempts_def)
  have inc: "IncrementSandboxFailureCount (sb_ID r) t =
      (Inr (counted (clock t) r1), put_sandbox (counted (clock t) r1) t)"
    using assms(1,2,5) by (simp add: Increment_eq counted_def Let_def)
  show ?thesis using assms ID inc big by (simp add: HandleCrash_def exec)
qed

section \<open>Stop and wake\<close>

definition destroyed_event :: "Sandbox \<Rightarrow> json option \<Rightarrow> RecordEventParams" where
  "destroyed_event r res = \<lparr>rep_SandboxID = Some (sb_ID r), rep_NodeID = sb_NodeID r,
     rep_EventType = ''destroyed'', rep_Actor = ''agent'', rep_PrevState = Some StateDestroying,
     rep_NextState = Some StateDestroyed, rep_Payload = safePayload res\<rparr>"

definition wake_event :: "UUID \<Rightarrow> UUID \<Rightarrow> json \<Rightarrow> RecordEventParams" where
  "wake_event i n p = \<lparr>rep_SandboxID = Some i, rep_NodeID = Some n, rep_EventType = ''scheduled'',
     rep_Actor = ''control-plane-wake'', rep_PrevState = Some StateStopped,
     rep_NextState = Some StateStarting, rep_Payload = p\<rparr>"

lemma decode_resources_json: "decode_resources (resources_json r) = (r, True)"
proof -
  have "decode_int32 (JNum (of_int (sint n))) old = (n, True)" for n old
    using sint_int32_bounds[of n] scast_id[of n] unfolding scast_eq
    by (simp add: decode_int32_def int32_max_def del: of_int_sint)
  then show ?thesis
    by (simp add: decode_resources_def resources_json_def fold_eq_def lower_char_def decode_float_def
        no_resources_def del: of_int_sint)
qed

lemma map_of_env_put: "map_of (env_put k v m) = (map_of m)(k \<mapsto> v)"
  by (induction m) auto

lemma keys_env_put: "set (map fst (env_put k v m)) = insert k (set (map fst m))"
proof -
  have "dom (map_of (env_put k v m)) = insert k (dom (map_of m))" by (simp add: map_of_env_put)
  then show ?thesis by (simp add: dom_map_of_conv_image_fst)
qed

lemma sorted_env_put:
  "sorted_wrt (<) (map fst m) \<Longrightarrow> sorted_wrt (<) (map fst (env_put k v m))"
proof (induction k v m rule: env_put.induct)
  case (2 k v k' v' m)
  then show ?case using keys_env_put[of k v m] by auto
qed simp

lemma fold_env_put:
  assumes "sorted_wrt (<) (map fst m)"
  shows "sorted_wrt (<) (map fst (fold (\<lambda>(k, v). env_put k (f v)) ms m)) \<and>
    map_of (fold (\<lambda>(k, v). env_put k (f v)) ms m) =
      map_of m ++ map_of (rev (map (\<lambda>(k, v). (k, f v)) ms))"
  using assms
proof (induction ms arbitrary: m)
  case (Cons x ms)
  obtain k v where "x = (k, v)" by (cases x)
  with Cons.IH[OF sorted_env_put[OF Cons.prems, of k "f v"]] show ?case
    by (simp add: map_of_env_put map_add_upd_left[symmetric] map_add_def fun_eq_iff split: option.split)
qed simp


lemma sorted_alist_unique:
  assumes "sorted_wrt (<) (map fst m)" and "sorted_wrt (<) (map fst m')" and "map_of m = map_of m'"
  shows "m = (m' :: (string \<times> string) list)"
proof -
  have d: "distinct (map fst m)" "distinct (map fst m')"
    using assms(1,2) strict_sorted_iff by auto
  then have s: "set m = set m'" using assms(3) map_of_inject_set by blast
  then have keys: "map fst m = map fst m'"
    using assms(1,2) by (intro strict_sorted_equal) simp_all
  have rebuild: "map (\<lambda>k. (k, the (map_of l k))) (map fst l) = l" if "distinct (map fst l)" for l :: "(string \<times> string) list"
    using that by (auto intro!: map_idI)
  show ?thesis using rebuild[OF d(1)] rebuild[OF d(2)] keys assms(3) by metis
qed

lemma decode_env_perm:
  assumes "sorted_wrt (<) (map fst m)" and "mset ms = mset (map (\<lambda>(k, v). (k, JStr v)) m)"
  shows "decode_env (JObj ms) = Some m"
proof -
  let ?f = "\<lambda>v. case v of JStr s \<Rightarrow> s | _ \<Rightarrow> ''''"
  let ?ms = "map (\<lambda>(k, v). (k, ?f v)) ms"
  have "mset ?ms = mset (map (\<lambda>(k, v). (k, ?f v)) (map (\<lambda>(k, v). (k, JStr v)) m))"
    using assms(2) by (simp only: mset_map)
  then have ms: "mset (rev ?ms) = mset m" by (simp add: comp_def case_prod_unfold)
  have d: "distinct (map fst m)" using assms(1) strict_sorted_iff by auto
  moreover have "distinct (map fst (rev ?ms))"
    using d mset_distinct_map[OF ms, of fst] by blast
  ultimately have "map_of (rev ?ms) = map_of m"
    using mset_eq_setD[OF ms] by (intro map_of_set_eq)
  then have "fold (\<lambda>(k, v). env_put k (?f v)) ms [] = m"
    using fold_env_put[of "[]" ?f ms] assms(1) by (intro sorted_alist_unique) simp_all
  then show ?thesis by (simp add: decode_env_def)
qed

section \<open>Properties\<close>

definition a_request :: CreateRequest where
  "a_request = \<lparr>cq_AppName = ''shop'', cq_UserID = ''u'', cq_Image = ''img'',
     cq_Resources = \<lparr>res_CPUCores = 1, res_MemoryMB = 1024\<rparr>, cq_Env = Some [(''A'', ''1'')],
     cq_IdleTimeoutSeconds = 0, cq_Metadata = None\<rparr>"

definition a_service :: LifecycleService where
  "a_service = SetRestartManager (SetRouteNotifier New)"

lemma a_service_sel [simp]: "ls_routeNotifier a_service" "ls_restartMgr a_service"
  by (simp_all add: a_service_def SetRestartManager_def SetRouteNotifier_def New_def)



text \<open>C13. Creation on a name that is taken: a sandbox that is neither destroyed nor failed gives
  \<^verbatim>\<open>ErrConflict\<close> and nothing changes; a destroyed or failed one is deleted first and the request then
  behaves as on a free name, but only if no command was ever issued for it: otherwise the foreign
  key of the commands refuses the deletion and the request fails without any change.\<close>

theorem CreateSandbox_name_taken:
  assumes "schema_ok t" and "row_at sb_AppName (cq_AppName req) (sandboxes t) = Some r"
  shows "run_state (CreateSandbox i c req) (quiet t b) =
    (if sb_State r \<notin> {StateDestroyed, StateFailed} then (Inl ErrConflict, quiet t b)
     else if list_ex (\<lambda>x. cmd_SandboxID x = Some (sb_ID r)) (commands t)
     then (Inl (Wrap ''recycle destroyed sandbox: '' (fk_violation ''commands_sandbox_id_fkey'')), quiet t b)
     else run_state (CreateSandbox i c req)
       (quiet (t\<lparr>sandboxes := filter (\<lambda>x. sb_ID x \<noteq> sb_ID r) (sandboxes t)\<rparr>) b))"
proof -
  have r: "r \<in> set (sandboxes t)" using row_at_Some[OF assms(2)] by simp
  then have "sandbox_at t (sb_ID r) = Some r" using assms(1) by (intro in_sandbox_at) simp_all
  then have del: "DeleteSandbox (sb_ID r) t =
      (if list_ex (\<lambda>x. cmd_SandboxID x = Some (sb_ID r)) (commands t)
       then (Inl (fk_violation ''commands_sandbox_id_fkey''), t)
       else (Inr (), t\<lparr>sandboxes := filter (\<lambda>x. sb_ID x \<noteq> sb_ID r) (sandboxes t)\<rparr>))"
    by (simp add: DeleteSandbox_def list_ex_iff)
  show ?thesis
  proof (cases "sb_State r \<in> {StateDestroyed, StateFailed} \<and>
      \<not> list_ex (\<lambda>x. cmd_SandboxID x = Some (sb_ID r)) (commands t)")
    case True
    then have rec: "run_state (recycle (cq_AppName req)) (quiet t b) =
        (Inr (), quiet (t\<lparr>sandboxes := filter (\<lambda>x. sb_ID x \<noteq> sb_ID r) (sandboxes t)\<rparr>) b)"
      using recycle_some[OF assms(2), of b] del by simp
    have "row_at sb_AppName (cq_AppName req) (filter (\<lambda>x. sb_ID x \<noteq> sb_ID r) (sandboxes t)) = None"
      using assms by (intro no_app_after_delete schema_app_names)
    with True CreateSandbox_after_recycle[OF rec, of i c] show ?thesis by simp
  next
    case False
    with recycle_some[OF assms(2), of b] del show ?thesis
      by (auto simp: CreateSandbox_def run_monad)
  qed
qed

theorem CreateSandbox_name_taken_witness:
  "fst (run_state (CreateSandbox ''s2'' ''c2'' (a_request\<lparr>cq_AppName := ''app-s''\<rparr>))
      (quiet (a_db [a_sandbox ''s'' StateDestroyed 0] [a_command ''c'' ''s'']) (NewBatcher id))) =
    Inl (Wrap ''recycle destroyed sandbox: '' (fk_violation ''commands_sandbox_id_fkey''))"
  by (subst CreateSandbox_name_taken[where r = "a_sandbox ''s'' StateDestroyed 0"])
    (simp_all add: schema_ok_def concrete a_request_def named_status_def AllStates_def named_command_def)

text \<open>Creation without capacity: the answer is \<^verbatim>\<open>ErrNoCapacity\<close>, the sandbox row stays behind in
  \<^verbatim>\<open>pending\<close>, and from then on every further request for the same name is refused with \<^verbatim>\<open>ErrConflict\<close>,
  even when capacity is available again.\<close>

theorem CreateSandbox_no_capacity:
  assumes "schema_ok t" and "row_at sb_AppName (cq_AppName req) (sandboxes t) = None"
    and "sandbox_at t i = None" and "fst (ListHealthyNodes t) = Inr ns"
    and "Schedule (map to_candidate ns) (required_mb req) = Inl err"
  shows "run_state (CreateSandbox i c req) (quiet t b) =
      (Inl ErrNoCapacity, quiet (add_sandbox (created i req (clock t)) t) b) \<and>
    run_state (CreateSandbox i' c' req)
        (quiet ((add_sandbox (created i req (clock t)) t)\<lparr>nodes := ns', clock := ts\<rparr>) b') =
      (Inl ErrConflict, quiet ((add_sandbox (created i req (clock t)) t)\<lparr>nodes := ns', clock := ts\<rparr>) b')"
proof -
  have first: "run_state (CreateSandbox i c req) (quiet t b) =
      (Inl ErrNoCapacity, quiet (add_sandbox (created i req (clock t)) t) b)"
    using create_run[OF _ assms(2-4), of c b] assms(1,5) by simp
  let ?t = "(add_sandbox (created i req (clock t)) t)\<lparr>nodes := ns', clock := ts\<rparr>"
  have "row_at sb_AppName (cq_AppName req) (sandboxes ?t) = Some (created i req (clock t))"
    using assms(2) by (simp add: add_sandbox_def row_at_append)
  then have "run_state (recycle (cq_AppName req)) (quiet ?t b') = (Inl ErrConflict, quiet ?t b')"
    using recycle_some[of "cq_AppName req" ?t] by simp
  then show ?thesis using first by (simp add: CreateSandbox_def run_monad)
qed

theorem CreateSandbox_no_capacity_witness:
  "fst (run_state (CreateSandbox ''s'' ''c''
      (a_request\<lparr>cq_Resources := \<lparr>res_CPUCores = 1, res_MemoryMB = 4096\<rparr>\<rparr>)) (quiet (a_db [] []) (NewBatcher id))) =
    Inl ErrNoCapacity"
  by (subst CreateSandbox_no_capacity[where ns = "[a_node]" and err = SchedErrNoCapacity, THEN conjunct1])
    (simp_all add: concrete a_request_def required_mb_def to_candidate_def Schedule_def nc_free_def
      int32_less_def ListHealthyNodes_def Let_def in_int32_def free_mb_def schema_ok_def named_status_def)



text \<open>C5. A crash of a running sandbox with attempts left: the answer is success; the route is taken
  away, the failure is counted, and the sandbox is in \<^verbatim>\<open>starting\<close> (by way of \<^verbatim>\<open>restarting\<close>, two state
  versions on) with a start command whose delay is five seconds doubled for each earlier failure, and
  whose timeout leaves room for that delay.\<close>

theorem HandleEvent_crash_restarts:
  assumes "pk_ok t" and "sandbox_at t i = Some r" and "sb_State r = StateRunning" and "version_room 2 r"
    and "0 \<le> sint (sb_FailureCount r)" and "sint (sb_FailureCount r) < 3"
    and "sb_NodeID r = Some n" and "node_at t n \<noteq> None" and "command_at t c = None"
    and "ls_restartMgr ls" and "ls_routeNotifier ls"
  shows "let d = the (backoff (sb_FailureCount r + 1)) in
    run_state (HandleEvent ls c nd i ''container_exited'' p) (quiet t b) =
      (Inr (), quiet (log_event (restart_event r n d) (add_command (crash_command c n r d (clock t))
          (put_sandbox (moved StateStarting (clock t) (counted (clock t) (moved StateRestarting (clock t) r)))
            (log_event (exit_event i nd p) (put_sandbox (moved StateRestarting (clock t) r) t)))))
        (snd (OnSandboxStopped (sb_AppName r) b))) \<and>
    Seconds d = 5 * 2 ^ nat (sint (sb_FailureCount r)) \<and>
    sint (cmd_TimeoutSeconds (crash_command c n r d (clock t))) = 60 + \<lfloor>Seconds d\<rfloor>"
  using HandleEvent_crash_run[OF assms, of nd p b] backoff_after[OF assms(5,6) refl]
  by (simp add: Let_def crash_command_def)

theorem HandleEvent_crash_restarts_witness:
  "Seconds (the (backoff (sb_FailureCount (a_sandbox ''s'' StateRunning 2) + 1))) = 20"
proof -
  have "sb_State (a_sandbox ''s'' StateRunning 2) = StateRunning" by (simp add: a_sandbox_def)
  from HandleEvent_crash_restarts[of "a_db [a_sandbox ''s'' StateRunning 2] []" "''s''",
      OF _ _ this, where n = "''n1''" and c = "''c''" and ls = a_service]
  show ?thesis by (simp add: concrete Let_def)
qed



lemma DestroySandbox_run:
  assumes "schema_ok t" and "sandbox_at t i = Some r" and "version_room 1 r" and "command_at t c = None"
  shows "run_state (DestroySandbox c i) (quiet t b) =
    (case NextState (sb_State r) EventDestroyRequest of
       None \<Rightarrow> (Inl (ErrInvalidTransition (''cannot destroy sandbox in state '' @
                 SandboxState_string (sb_State r))), quiet t b)
     | Some s \<Rightarrow>
        (case sb_NodeID r of
           None \<Rightarrow> (Inl (Wrap ''create stop command: '' (not_null_violation ''node_id'')),
                    quiet (put_sandbox (moved s (clock t) r) t) b)
         | Some n \<Rightarrow>
            (Inr (), quiet (log_event (destroy_event r s)
               (add_command ((start_command c n i (container_payload r) (clock t))
                   \<lparr>cmd_CommandType := CmdStopSandbox\<rparr>)
                 (put_sandbox (moved s (clock t) r) t))) b)))"
proof (cases "NextState (sb_State r) EventDestroyRequest")
  case None
  with assms(2) show ?thesis by (simp add: DestroySandbox_def exec)
next
  case (Some s)
  have ID: "sb_ID r = i" using assms(2) by (rule sandbox_at_ID)
  have s: "s \<in> set AllStates" using NextState_named[OF Some] by simp
  show ?thesis
  proof (cases "sb_NodeID r")
    case None
    with assms s Some ID show ?thesis by (simp add: DestroySandbox_def exec)
  next
    case (Some n)
    then have "node_at t n \<noteq> None" using assms(1,2) schema_node by blast
    with Some assms s \<open>NextState (sb_State r) EventDestroyRequest = Some s\<close> ID show ?thesis
      by (simp add: DestroySandbox_def exec named_command_def the_command_def start_command_def
          destroy_event_def)
  qed
qed

text \<open>C10. Destruction, on every branch: a sandbox that is being or has been destroyed is refused and
  nothing changes; otherwise the sandbox moves to \<^verbatim>\<open>destroying\<close> (or straight to \<^verbatim>\<open>destroyed\<close> from
  \<^verbatim>\<open>pending\<close>, \<^verbatim>\<open>stopped\<close> and \<^verbatim>\<open>failed\<close>), and its node gets a \<^verbatim>\<open>stop_sandbox\<close> command and the log an event;
  for a sandbox without a node the command is refused by the database, so that the caller gets an error
  although the sandbox has moved.\<close>

theorem DestroySandbox_correct:
  assumes "schema_ok t" and "sandbox_at t i = Some r" and "version_room 1 r" and "command_at t c = None"
  shows "run_state (DestroySandbox c i) (quiet t b) =
    (case NextState (sb_State r) EventDestroyRequest of
       None \<Rightarrow> (Inl (ErrInvalidTransition (''cannot destroy sandbox in state '' @
                 SandboxState_string (sb_State r))), quiet t b)
     | Some s \<Rightarrow>
        (case sb_NodeID r of
           None \<Rightarrow> (Inl (Wrap ''create stop command: '' (not_null_violation ''node_id'')),
                    quiet (put_sandbox (moved s (clock t) r) t) b)
         | Some n \<Rightarrow>
            (Inr (), quiet (log_event (destroy_event r s)
               (add_command ((start_command c n i (container_payload r) (clock t))
                   \<lparr>cmd_CommandType := CmdStopSandbox\<rparr>)
                 (put_sandbox (moved s (clock t) r) t))) b)))"
  using assms by (rule DestroySandbox_run)

theorem DestroySandbox_correct_witness:
  "fst (run_state (DestroySandbox ''c'' ''s'') (quiet (a_db [a_sandbox ''s'' StateRunning 0] []) (NewBatcher id))) = Inr ()"
  by (subst DestroySandbox_correct[where r = "a_sandbox ''s'' StateRunning 0"])
    (simp_all add: schema_ok_def concrete named_status_def AllStates_def)

lemma HandleAck_stop_run:
  assumes "pk_ok t" and "sandbox_at t i = Some r" and "version_room 1 r"
  shows "run_state (HandleAck ls c i CmdStopSandbox st res) (quiet t b) =
    (Inr (),
     if st = ''success'' \<and> sb_State r = StateDestroying
     then quiet (acked c CmdCompleted res (log_event (destroyed_event r res)
            (put_sandbox (moved StateDestroyed (clock t) r) t)))
          (if ls_routeNotifier ls then snd (OnSandboxStopped (sb_AppName r) b) else b)
     else quiet (acked c (if st = ''failure'' then CmdFailed else CmdCompleted) res t) b)"
proof (cases "st = ''success'' \<and> sb_State r = StateDestroying")
  case True
  have ID: "sb_ID r = i" using assms(2) by (rule sandbox_at_ID)
  with True assms show ?thesis
    by (simp add: HandleAck_def exec ack_event_def ack_transition_def ack_effects_def AllStates_def
        notifyRouteRemove_run destroyed_event_def)
next
  case False
  with assms show ?thesis by (auto simp: HandleAck_def exec ack_event_def)
qed



text \<open>C12. Waking a stopped sandbox issues the same start command as its creation did: the resources and
  the environment survive the way through the database (whatever order the stored object lists its
  members in), and the sandbox is \<^verbatim>\<open>starting\<close> on its node with that command pending.\<close>

theorem WakeSandbox_reissues:
  assumes "pk_ok t" and "sandbox_at t i = Some r" and "sb_State r = StateStopped" and "version_room 1 r"
    and "sb_NodeID r = Some n" and "node_at t n \<noteq> None" and "command_at t c = None"
    and "sb_AppName r = cq_AppName req" and "sb_Image r = cq_Image req"
    and "sb_Resources r = resources_json (cq_Resources req)"
    and "cq_Env req = Some m" and "sorted_wrt (<) (map fst m)"
    and "sb_Env r = JObj ms" and "mset ms = mset (map (\<lambda>(k, v). (k, JStr v)) m)"
  shows "run_state (WakeSandbox c i) (quiet t b) =
    (Inr (), quiet (log_event (wake_event i n (create_payload req))
       (add_command (start_command c n i (create_payload req) (clock t))
         (put_sandbox (moved StateStarting (clock t) r) t))) b)"
proof -
  have ID: "sb_ID r = i" using assms(2) by (rule sandbox_at_ID)
  have "wake_payload r = create_payload req"
    using assms(8-10) decode_env_perm[OF assms(12,14)] assms(11,13)
    by (simp add: wake_payload_def create_payload_def decode_resources_json)
  with assms(1-7) ID show ?thesis
    by (simp add: WakeSandbox_def exec named_command_def AllStates_def the_command_def start_command_def
        wake_event_def)
qed

theorem WakeSandbox_reissues_witness:
  "fst (run_state (WakeSandbox ''c'' ''s'') (quiet (a_db [(a_sandbox ''s'' StateStopped 0)
      \<lparr>sb_AppName := ''shop'', sb_Resources := resources_json (cq_Resources a_request),
       sb_Env := JObj [(''A'', JStr ''1'')]\<rparr>] []) (NewBatcher id))) = Inr ()"
  by (subst WakeSandbox_reissues[where req = a_request and n = "''n1''" and m = "[(''A'', ''1'')]"
        and ms = "[(''A'', JStr ''1'')]" and r = "(a_sandbox ''s'' StateStopped 0)
      \<lparr>sb_AppName := ''shop'', sb_Resources := resources_json (cq_Resources a_request),
       sb_Env := JObj [(''A'', JStr ''1'')]\<rparr>"])
    (simp_all add: concrete a_request_def)

end
