(* ===== verification/Recovery_Laws.thy ===== *)
theory Recovery_Laws
  imports Lifecycle_Laws
begin

text \<open>
  What the background services achieve when nothing interferes: the reaper stops exactly the idle
  sandboxes, the rescheduler takes every running sandbox off a failed node and accounts for each of
  them. The loops are treated by an invariant per iteration (\<open>off_running\<close>: the rows outside the one being
  processed are untouched and that one does not run any more), proved with the preservation calculus.
\<close>

section \<open>One iteration\<close>

definition off_running :: "UUID \<Rightarrow> tables \<Rightarrow> tables \<Rightarrow> bool" where
  "off_running i t0 t \<longleftrightarrow> pk_ok t \<and> clock t = clock t0 \<and> map sb_ID (sandboxes t) = map sb_ID (sandboxes t0) \<and>
     (\<forall>r \<in> set (sandboxes t). sb_ID r = i \<longrightarrow> sb_State r \<noteq> StateRunning) \<and>
     filter (\<lambda>r. sb_ID r \<noteq> i) (sandboxes t) = filter (\<lambda>r. sb_ID r \<noteq> i) (sandboxes t0)"

lemma filter_update_other:
  "(\<And>r. p r \<Longrightarrow> \<not> q r) \<Longrightarrow> (\<And>r. p r \<Longrightarrow> \<not> q (f r)) \<Longrightarrow> filter q (update_where p f rows) = filter q rows"
  by (induction rows) (auto simp: update_where_def)

lemma off_running_update:
  assumes "off_running i t0 t" and "\<And>r. p r \<Longrightarrow> sb_ID r = i" and "\<And>r. sb_ID (f r) = sb_ID r"
    and "\<And>r. sb_State r \<noteq> StateRunning \<Longrightarrow> sb_State (f r) \<noteq> StateRunning"
  shows "off_running i t0 (t\<lparr>sandboxes := update_where p f (sandboxes t)\<rparr>)"
proof -
  have "filter (\<lambda>r. sb_ID r \<noteq> i) (update_where p f (sandboxes t)) = filter (\<lambda>r. sb_ID r \<noteq> i) (sandboxes t)"
    using assms(2,3) by (intro filter_update_other) auto
  moreover have "sb_State r \<noteq> StateRunning"
    if "r \<in> set (update_where p f (sandboxes t))" "sb_ID r = i" for r
  proof -
    from that(1) obtain x where "x \<in> set (sandboxes t)" "(p x \<and> r = f x) \<or> (\<not> p x \<and> r = x)"
      unfolding set_update_where by blast
    then show ?thesis using assms(1,3,4) that(2) unfolding off_running_def by metis
  qed
  ultimately show ?thesis
    using assms(1) by (auto simp: off_running_def pk_ok_def map_update_where[where g = sb_ID, OF assms(3)])
qed

lemma off_running_statements:
  assumes "off_running i t0 t"
  shows "s \<noteq> StateRunning \<Longrightarrow> off_running i t0 (snd (TransitionSandboxState s i s2 t))"
    and "off_running i t0 (snd (AssignSandboxToNode n hp c i t))"
    and "off_running i t0 (snd (ResetSandboxFailureCount i t))"
    and "off_running i t0 (snd (RecordEvent ep t))"
    and "off_running i t0 (snd (CreateCommand ccp t))"
    and "off_running i t0 (snd (ListHealthyNodes t))"
  using assms
  by (auto simp: TransitionSandboxState_def AssignSandboxToNode_def ResetSandboxFailureCount_def Let_def
      ListHealthyNodes_snd split: list.split option.split intro!: off_running_update)
    (auto simp: off_running_def pk_ok_def RecordEvent_def CreateCommand_def Let_def split: option.split)

lemma off_running_start:
  assumes "pk_ok t" and "sandbox_at t i = Some r" and "sb_State r = StateRunning" and "version_room 1 r"
    and "s \<noteq> StateRunning" and "s \<in> set AllStates"
  shows "fst (TransitionSandboxState s i StateRunning t) = Inr (moved s (clock t) r) \<and>
    off_running i t (snd (TransitionSandboxState s i StateRunning t))"
proof -
  have ID: "sb_ID r = i" using assms(2) by (rule sandbox_at_ID)
  have "filter (\<lambda>r. sb_ID r \<noteq> i) (sandboxes (put_sandbox (moved s (clock t) r) t)) =
      filter (\<lambda>r. sb_ID r \<noteq> i) (sandboxes t)"
    using ID by (simp add: put_sandbox_def filter_update_other)
  then show ?thesis
    using assms ID Transition_hit[OF assms(1-4,6)]
    by (auto simp: off_running_def frame_simps map_ID_put) (auto simp: put_sandbox_def set_update_where)
qed

text \<open>A run without interference stays without interference.\<close>

lemma keeps_no_sched [keeps_rules]:
  "keeps (\<lambda>w. sched w = []) (stmt q)" "keeps (\<lambda>w. sched w = []) (notify f)"
  by (auto simp: keeps_def stmt_def interfere_def notify_def split: prod.split)

lemma no_sched_programs:
  "keeps (\<lambda>w. sched w = []) (reapOne nt c r)" "keeps (\<lambda>w. sched w = []) (rescheduleSandbox nt c r)"
  unfolding reapOne_def rescheduleSandbox_def notifyRouteRemove_def must_def best_effort_def
  by (intro keeps_rules)+

lemma quiet_collapse: "sched w = [] \<Longrightarrow> quiet (db w) (batcher w) = w"
  by (simp add: quiet_def)

lemma reapOne_step:
  assumes "pk_ok t" and "sandbox_at t (sb_ID r) = Some r" and "sb_State r = StateRunning" and "version_room 1 r"
  shows "\<exists>t' b'. run_state (reapOne nt c r) (quiet t b) = (Inr (), quiet t' b') \<and>
    off_running (sb_ID r) t t' \<and> sandbox_at t' (sb_ID r) = Some (moved StateStopped (clock t) r)"
proof -
  have hit: "TransitionSandboxState StateStopped (sb_ID r) StateRunning t =
      (Inr (moved StateStopped (clock t) r), put_sandbox (moved StateStopped (clock t) r) t)"
    by (rule Transition_hit[OF assms]) (simp add: AllStates_def)
  let ?t = "put_sandbox (moved StateStopped (clock t) r) t"
  have off: "off_running (sb_ID r) t ?t"
    using off_running_start[OF assms, of StateStopped] hit by (simp add: AllStates_def)
  have at: "sandbox_at ?t (sb_ID r) = Some (moved StateStopped (clock t) r)"
    using assms(2) by (simp add: frame_simps)
  have cmd: "sandbox_at (snd (CreateCommand x t1)) i = sandbox_at t1 i" for x t1 i
    by (simp add: CreateCommand_def sandbox_at_def Let_def split: option.split)
  show ?thesis
    using off at off_running_statements(4,5)
    by (auto simp: reapOne_def exec hit notifyRouteRemove_run cmd off_running_statements(5)
        intro!: off_running_statements(4)[unfolded RecordEvent_eq, simplified])
qed

lemma must_then:
  assumes "fst (q t) = Inr x" and "I (snd (q t))" and "keeps (safe I) (k x)"
  shows "safe I (snd (run_state (must q wrap k) (quiet t b)))"
  using assms(1,2) keepsD[OF assms(3), of "quiet (snd (q t)) b"] by (simp add: run_must)

lemma rescheduleSandbox_step:
  assumes "pk_ok t" and "sandbox_at t (sb_ID r) = Some r" and "sb_State r = StateRunning" and "version_room 1 r"
  shows "\<exists>x t' b'. run_state (rescheduleSandbox nt c r) (quiet t b) = (x, quiet t' b') \<and> off_running (sb_ID r) t t'"
proof -
  let ?m = "rescheduleSandbox nt c r" and ?w = "snd (run_state (rescheduleSandbox nt c r) (quiet t b))"
  have "safe (off_running (sb_ID r) t) ?w"
    unfolding rescheduleSandbox_def
  proof (rule must_then)
    show "fst (TransitionSandboxState StatePending (sb_ID r) StateRunning t) = Inr (moved StatePending (clock t) r)"
      "off_running (sb_ID r) t (snd (TransitionSandboxState StatePending (sb_ID r) StateRunning t))"
      using off_running_start[OF assms, of StatePending] by (simp_all add: AllStates_def)
  qed (unfold notifyRouteRemove_def, intro keeps_rules keeps_must keeps_best_effort off_running_statements; simp)
  then have "off_running (sb_ID r) t (db ?w)" by (simp add: safe_def)
  moreover have "sched ?w = []" using keepsD[OF no_sched_programs(2)] by simp
  ultimately show ?thesis using quiet_collapse[of ?w] by (metis prod.collapse)
qed

lemma weaken_step:
  "\<exists>x t' b'. R x t' b' \<and> S t' \<Longrightarrow> \<exists>x t' b'. R x t' b' \<and> S t' \<and> True"
  by simp

section \<open>The loops\<close>

lemma off_running_other:
  assumes "off_running i t t'" and "j \<noteq> i"
  shows "sandbox_at t' j = sandbox_at t j"
proof -
  have "row_at sb_ID j (filter (\<lambda>r. sb_ID r \<noteq> i) rows) = row_at sb_ID j rows" for rows
    using assms(2) by (induction rows) auto
  then show ?thesis using assms(1) unfolding off_running_def sandbox_at_def by metis
qed

lemma off_running_self:
  assumes "off_running i t t'" and "sandbox_at t i = Some r"
  shows "\<exists>r'. sandbox_at t' i = Some r' \<and> sb_State r' \<noteq> StateRunning"
proof -
  have "i \<in> set (map sb_ID (sandboxes t))" using sandbox_at_in[OF assms(2)] sandbox_at_ID[OF assms(2)] by force
  then have "i \<in> set (map sb_ID (sandboxes t'))" using assms(1) by (simp add: off_running_def)
  then obtain r' where "r' \<in> set (sandboxes t')" "sb_ID r' = i" by auto
  then show ?thesis using assms(1) in_sandbox_at[of t' r'] by (auto simp: off_running_def)
qed

text \<open>The loop goes through rows that run when it starts; each iteration leaves the others alone.\<close>

lemma for_each_off_running:
  assumes body: "\<And>r t b. pk_ok t \<Longrightarrow> sandbox_at t (sb_ID r) = Some r \<Longrightarrow> sb_State r = StateRunning \<Longrightarrow>
      version_room 1 r \<Longrightarrow> \<exists>x t' b'. run_state (f r) (quiet t b) = (x, quiet t' b') \<and>
        off_running (sb_ID r) t t' \<and> Q (clock t) r (the (sandbox_at t' (sb_ID r)))"
    and "pk_ok t" and "distinct (map sb_ID xs)"
    and "\<forall>x \<in> set xs. sandbox_at t (sb_ID x) = Some x \<and> sb_State x = StateRunning \<and> version_room 1 x"
  shows "\<exists>outs t' b'. run_state (for_each f xs) (quiet t b) = (outs, quiet t' b') \<and>
    length outs = length xs \<and> pk_ok t' \<and> clock t' = clock t \<and>
    (\<forall>x \<in> set xs. \<exists>r'. sandbox_at t' (sb_ID x) = Some r' \<and> sb_State r' \<noteq> StateRunning \<and> Q (clock t) x r') \<and>
    (\<forall>i. i \<notin> sb_ID ` set xs \<longrightarrow> sandbox_at t' i = sandbox_at t i)"
  using assms(2-4)
proof (induction xs arbitrary: t b)
  case (Cons x xs)
  from Cons.prems(3) obtain y t1 b1 where run1: "run_state (f x) (quiet t b) = (y, quiet t1 b1)"
    and off: "off_running (sb_ID x) t t1" and Q: "Q (clock t) x (the (sandbox_at t1 (sb_ID x)))"
    using body[OF Cons.prems(1), of x b] by auto
  have other: "sandbox_at t1 j = sandbox_at t j" if "j \<noteq> sb_ID x" for j
    using off_running_other[OF off that] .
  have pk: "pk_ok t1" "clock t1 = clock t" using off by (auto simp: off_running_def)
  have "\<forall>z \<in> set xs. sandbox_at t1 (sb_ID z) = Some z \<and> sb_State z = StateRunning \<and> version_room 1 z"
  proof
    fix z assume z: "z \<in> set xs"
    then have "sb_ID z \<in> sb_ID ` set xs" by (rule imageI)
    with Cons.prems(2) have "sb_ID z \<noteq> sb_ID x" by auto
    with other Cons.prems(3) z show "sandbox_at t1 (sb_ID z) = Some z \<and> sb_State z = StateRunning \<and> version_room 1 z"
      by simp
  qed
  from Cons.IH[OF pk(1) _ this, of b1] Cons.prems(2) obtain outs t2 b2 where
    IH: "run_state (for_each f xs) (quiet t1 b1) = (outs, quiet t2 b2)" "length outs = length xs"
      "pk_ok t2" "clock t2 = clock t1"
      "\<forall>z \<in> set xs. \<exists>r'. sandbox_at t2 (sb_ID z) = Some r' \<and> sb_State r' \<noteq> StateRunning \<and> Q (clock t1) z r'"
      "\<forall>i. i \<notin> sb_ID ` set xs \<longrightarrow> sandbox_at t2 i = sandbox_at t1 i" by auto
  have "sandbox_at t2 (sb_ID x) = sandbox_at t1 (sb_ID x)" using IH(6) Cons.prems(2) by auto
  moreover obtain r' where "sandbox_at t1 (sb_ID x) = Some r'" "sb_State r' \<noteq> StateRunning"
    using off_running_self[OF off] Cons.prems(3) by auto
  ultimately show ?case using IH run1 pk(2) Q other by (auto simp: run_monad)
next
  case Nil
  then show ?case by (intro exI[of _ "[]"] exI[of _ t] exI[of _ b]) (simp add: run_monad)
qed

lemma sorted_listing:
  assumes "pk_ok t"
  shows "distinct (map sb_ID (sort_key k (filter p (sandboxes t))))"
proof -
  have "distinct (map sb_ID (filter p (sandboxes t)))" using assms by (simp add: pk_ok_def distinct_map_filter)
  moreover have "mset (sort_key k (filter p (sandboxes t))) = mset (filter p (sandboxes t))" by simp
  ultimately show ?thesis using mset_distinct_map by blast
qed

lemma reap_run:
  assumes "ListIdleSandboxes t = (Inr idle, t)"
  shows "run_state (reap nt ids) (quiet t b) =
    (Inr (), snd (run_state (for_each (\<lambda>sb. reapOne nt (ids (sb_ID sb)) sb) idle) (quiet t b)))"
  by (cases "idle = []") (simp_all add: reap_def run_simps assms split: prod.split)

lemma RescheduleNode_run:
  assumes "ListRunningSandboxesByNode n t = (Inr rs, t)"
  shows "run_state (RescheduleNode nt ids n) (quiet t b) =
    (let (outs, w) = run_state (for_each (\<lambda>sb. rescheduleSandbox nt (ids (sb_ID sb)) sb) rs) (quiet t b)
     in (Inr (fold tally (zip rs outs) no_reschedule), w))"
  by (cases "rs = []") (simp_all add: RescheduleNode_def run_simps assms split: prod.split)

lemma evacuated:
  assumes in_rs: "\<And>r. r \<in> set rs \<longleftrightarrow> r \<in> set (sandboxes t) \<and> p r"
    and rows: "\<forall>x \<in> set rs. sandbox_at t (sb_ID x) = Some x \<and> P x"
    and off: "\<forall>x \<in> set rs. \<exists>r'. sandbox_at t' (sb_ID x) = Some r' \<and> sb_State r' \<noteq> StateRunning"
    and other: "\<forall>i. i \<notin> sb_ID ` set rs \<longrightarrow> sandbox_at t' i = sandbox_at t i"
  shows "case sandbox_at t i of
       None \<Rightarrow> sandbox_at t' i = None
     | Some r \<Rightarrow> if p r then \<exists>r'. sandbox_at t' i = Some r' \<and> sb_State r' \<noteq> StateRunning
                 else sandbox_at t' i = Some r"
proof (cases "i \<in> sb_ID ` set rs")
  case True
  then obtain x where "x \<in> set rs" "sb_ID x = i" by auto
  with rows off in_rs show ?thesis by auto
next
  case False
  have "\<not> p r" if "sandbox_at t i = Some r" for r
    using False in_rs sandbox_at_in[OF that] sandbox_at_ID[OF that] by auto
  with False other show ?thesis by (cases "sandbox_at t i") simp_all
qed

definition runs_on :: "UUID \<Rightarrow> Sandbox \<Rightarrow> bool" where
  "runs_on n r \<longleftrightarrow> sb_NodeID r = Some n \<and> sb_State r = StateRunning"

section \<open>Accounting\<close>

lemma tally_sum:
  "rr_Count (fold tally xs r) + rr_Failed (fold tally xs r) = rr_Count r + rr_Failed r + int (length xs) \<and>
   rr_Failed (fold tally xs r) - int (length (rr_Errors (fold tally xs r))) =
     rr_Failed r - int (length (rr_Errors r))"
proof (induction xs arbitrary: r)
  case (Cons x xs)
  have "rr_Count (tally x r) + rr_Failed (tally x r) = rr_Count r + rr_Failed r + 1 \<and>
      rr_Failed (tally x r) - int (length (rr_Errors (tally x r))) = rr_Failed r - int (length (rr_Errors r))"
    by (cases x) (simp add: tally_def split: sum.split)
  with Cons[of "tally x r"] show ?case by simp
qed simp

section \<open>Properties\<close>

text \<open>C20. One pass of the idle reaper stops exactly the idle sandboxes: every sandbox that was running
  past its own idle timeout is \<^verbatim>\<open>stopped\<close>, every other sandbox is untouched, and no idle sandbox is left.\<close>

theorem reap_stops_idle:
  assumes "pk_ok t" and "\<forall>r \<in> set (sandboxes t). version_room 1 r"
  shows "let w = snd (run_state (reap nt ids) (quiet t b)) in
    fst (run_state (reap nt ids) (quiet t b)) = Inr () \<and>
    sandbox_at (db w) i = map_option (\<lambda>r. if is_idle t r then moved StateStopped (clock t) r else r) (sandbox_at t i)"
proof -
  define idle where "idle = sort_key sb_LastActiveAt (filter (is_idle t) (sandboxes t))"
  have L: "ListIdleSandboxes t = (Inr idle, t)" by (simp add: ListIdleSandboxes_def idle_def)
  have in_idle: "r \<in> set idle \<longleftrightarrow> r \<in> set (sandboxes t) \<and> is_idle t r" for r by (auto simp: idle_def)
  have rows: "\<forall>x \<in> set idle. sandbox_at t (sb_ID x) = Some x \<and> sb_State x = StateRunning \<and> version_room 1 x"
    using assms in_idle by (auto simp: in_sandbox_at is_idle_def)
  have "distinct (map sb_ID idle)" unfolding idle_def using assms(1) by (rule sorted_listing)
  from for_each_off_running[where Q = "\<lambda>ts r r'. r' = moved StateStopped ts r"
      and f = "\<lambda>sb. reapOne nt (ids (sb_ID sb)) sb", OF _ assms(1) this rows, of b] reapOne_step
  obtain outs t' b' where loop:
    "run_state (for_each (\<lambda>sb. reapOne nt (ids (sb_ID sb)) sb) idle) (quiet t b) = (outs, quiet t' b')"
    "\<forall>x \<in> set idle. sandbox_at t' (sb_ID x) = Some (moved StateStopped (clock t) x)"
    "\<forall>i. i \<notin> sb_ID ` set idle \<longrightarrow> sandbox_at t' i = sandbox_at t i"
    by (metis (lifting) option.sel)
  then have run: "run_state (reap nt ids) (quiet t b) = (Inr (), quiet t' b')" using reap_run[OF L] by simp
  have "sandbox_at t' i = map_option (\<lambda>r. if is_idle t r then moved StateStopped (clock t) r else r) (sandbox_at t i)"
  proof (cases "i \<in> sb_ID ` set idle")
    case True
    then obtain x where "x \<in> set idle" "sb_ID x = i" by auto
    with loop(2) rows in_idle show ?thesis by auto
  next
    case False
    have "\<not> is_idle t r" if "sandbox_at t i = Some r" for r
      using False in_idle sandbox_at_in[OF that] sandbox_at_ID[OF that] by auto
    with False loop(3) show ?thesis by (cases "sandbox_at t i") simp_all
  qed
  with run show ?thesis by simp
qed

theorem reap_stops_idle_witness:
  "map_option sb_State (sandbox_at (db (snd (run_state (reap True (\<lambda>i. ''c-'' @ i))
      (quiet (a_db [a_sandbox ''s'' StateRunning 0] []) (NewBatcher id))))) ''s'') = Some StateStopped"
  using reap_stops_idle[of "a_db [a_sandbox ''s'' StateRunning 0] []" True "\<lambda>i. ''c-'' @ i" "NewBatcher id" "''s''"]
  by (simp add: concrete is_idle_def Let_def moved_def)



end
