(* ===== verification/Control_Plane.thy ===== *)
theory Control_Plane
  imports Recovery_Laws
begin

text \<open>
  The control plane as a whole: the requests it serves, one after the other, each handler interleaved
  with arbitrary interference (\<open>sched\<close>) and database faults. The theorems hold for every such run: they
  are the facts of the locale \<open>store_invariant\<close> for its interpretations.
\<close>

section \<open>Heartbeat monitor\<close>

text \<open>One tick of \<^verbatim>\<open>monitorHeartbeats\<close> (\<^verbatim>\<open>control/cmd/forge-control/main.go\<close>): every healthy node that was not
  seen for longer than the threshold is marked unhealthy and then evacuated. \<open>now\<close> is the clock of the
  process, in the unit of the timestamps.\<close>

definition monitor_node ::
    "bool \<Rightarrow> (UUID \<Rightarrow> UUID) \<Rightarrow> timestamp \<Rightarrow> timestamp \<Rightarrow> Node \<Rightarrow> (world, unit) state" where
  "monitor_node notifier newID now threshold n =
    (if n_Status n \<noteq> NodeHealthy then State_Monad.return ()
     else if threshold < now - n_LastSeenAt n then do {
       r \<leftarrow> stmt (UpdateNodeStatus (n_ID n) NodeUnhealthy);
       case r of
         Inl _ \<Rightarrow> State_Monad.return ()
       | Inr _ \<Rightarrow> do { _ \<leftarrow> RescheduleNode notifier newID (n_ID n); State_Monad.return () } }
     else State_Monad.return ())"

definition monitorHeartbeats ::
    "bool \<Rightarrow> (UUID \<Rightarrow> UUID) \<Rightarrow> timestamp \<Rightarrow> timestamp \<Rightarrow> (world, unit) state" where
  "monitorHeartbeats notifier newID now threshold = do {
     r \<leftarrow> stmt ListNodes;
     case r of
       Inl _ \<Rightarrow> State_Monad.return ()
     | Inr ns \<Rightarrow> do {
         _ \<leftarrow> for_each (monitor_node notifier newID now threshold) ns; State_Monad.return () } }"

section \<open>Requests\<close>

datatype request =
    ReqCreate UUID UUID CreateRequest
  | ReqAck UUID UUID CommandType string "json option"
  | ReqEvent UUID UUID UUID string "json option"
  | ReqDestroy UUID UUID
  | ReqWake UUID UUID
  | ReqRestart UUID UUID
  | Reap "UUID \<Rightarrow> UUID"
  | MonitorTick "UUID \<Rightarrow> UUID" timestamp timestamp

definition discard :: "('s, 'a) state \<Rightarrow> ('s, unit) state" where
  "discard m = do { _ \<leftarrow> m; State_Monad.return () }"

fun serve :: "LifecycleService \<Rightarrow> request \<Rightarrow> (world, unit) state" where
  "serve ls (ReqCreate i c req) = discard (CreateSandbox i c req)"
| "serve ls (ReqAck c i ty st res) = discard (HandleAck ls c i ty st res)"
| "serve ls (ReqEvent c n i ty p) = discard (HandleEvent ls c n i ty p)"
| "serve ls (ReqDestroy c i) = discard (DestroySandbox c i)"
| "serve ls (ReqWake c i) = discard (WakeSandbox c i)"
| "serve ls (ReqRestart c i) = discard (RestartSandbox c i)"
| "serve ls (Reap ids) = discard (reap (ls_routeNotifier ls) ids)"
| "serve ls (MonitorTick ids now threshold) = monitorHeartbeats (ls_routeNotifier ls) ids now threshold"

definition serve_all :: "LifecycleService \<Rightarrow> request list \<Rightarrow> world \<Rightarrow> world" where
  "serve_all ls reqs w = snd (run_state (for_each (serve ls) reqs) w)"

fun creates :: "request \<Rightarrow> UUID option" where
  "creates (ReqCreate i c req) = Some i"
| "creates _ = None"

lemma keeps_discard: "keeps I m \<Longrightarrow> keeps I (discard m)"
  unfolding discard_def by (intro keeps_rules)

lemma keeps_for_each_in:
  "(\<And>x. x \<in> set xs \<Longrightarrow> keeps I (f x)) \<Longrightarrow> keeps I (for_each f xs)"
  by (induction xs) (auto intro!: keeps_rules)

context store_invariant
begin

lemma monitor_keeps: "keeps (safe I) (monitorHeartbeats nt ids now threshold)"
  unfolding monitorHeartbeats_def monitor_node_def
  by (intro calls statements Status RescheduleNode_keeps)

lemma serve_keeps:
  assumes "\<And>i. creates r = Some i \<Longrightarrow> fresh i"
  shows "keeps (safe I) (serve ls r)"
  using assms
  by (cases r) (auto intro!: keeps_discard CreateSandbox_keeps HandleAck_keeps HandleEvent_keeps
      DestroySandbox_keeps WakeSandbox_keeps RestartSandbox_keeps reap_keeps monitor_keeps)

lemma serve_all_safe:
  assumes "safe I w" and "\<And>r i. r \<in> set reqs \<Longrightarrow> creates r = Some i \<Longrightarrow> fresh i"
  shows "I (db (serve_all ls reqs w))"
proof -
  have "keeps (safe I) (for_each (serve ls) reqs)"
    using assms(2) by (intro keeps_for_each_in serve_keeps) blast
  from keepsD[OF this assms(1)] show ?thesis by (simp add: serve_all_def safe_def)
qed

end

section \<open>A tick of the monitor\<close>

definition silent :: "timestamp \<Rightarrow> timestamp \<Rightarrow> Node \<Rightarrow> bool" where
  "silent now threshold n \<longleftrightarrow> n_Status n = NodeHealthy \<and> threshold < now - n_LastSeenAt n"

definition given_up :: "UUID set \<Rightarrow> Node \<Rightarrow> Node" where
  "given_up S n = (if n_ID n \<in> S then n\<lparr>n_Status := NodeUnhealthy\<rparr> else n)"

lemma given_up_ID [simp]: "n_ID (given_up S n) = n_ID n"
  by (simp add: given_up_def)

lemma given_up_Un: "given_up S \<circ> given_up T = given_up (S \<union> T)"
  by (auto simp: given_up_def fun_eq_iff)

lemma RescheduleNode_calm: "keeps (\<lambda>w. sched w = []) (RescheduleNode nt ids n)"
  unfolding RescheduleNode_def must_def by (intro keeps_rules no_sched_programs)

lemma monitor_node_step:
  assumes "sched w = []"
  shows "sched (snd (run_state (monitor_node nt ids now thr n) w)) = []"
    and "nodes (db (snd (run_state (monitor_node nt ids now thr n) w))) =
      map (given_up (if silent now thr n then {n_ID n} else {})) (nodes (db w))"
proof -
  let ?w = "w\<lparr>db := (db w)\<lparr>nodes := map (given_up {n_ID n}) (nodes (db w))\<rparr>\<rparr>"
  let ?r = "snd (run_state (RescheduleNode nt ids (n_ID n)) ?w)"
  have "safe (\<lambda>t. nodes t = map (given_up {n_ID n}) (nodes (db w))) ?w"
    using assms by (simp add: safe_def rely_def)
  from keepsD[OF placement.RescheduleNode_keeps this]
  have kept: "nodes (db ?r) = map (given_up {n_ID n}) (nodes (db w))" by (simp add: safe_def)
  have calm: "sched ?r = []" using assms keepsD[OF RescheduleNode_calm, of ?w] by simp
  have "run_state (stmt (UpdateNodeStatus (n_ID n) NodeUnhealthy)) w = (Inr (), ?w)"
    using assms by (simp add: stmt_def interfere_def UpdateNodeStatus_def named_status_def update_where_def given_up_def[abs_def])
  then have run: "snd (run_state (monitor_node nt ids now thr n) w) = (if silent now thr n then ?r else w)"
    by (simp add: monitor_node_def silent_def split: prod.split)
  have none: "given_up {} = id" by (simp add: given_up_def fun_eq_iff)
  from run calm assms show "sched (snd (run_state (monitor_node nt ids now thr n) w)) = []" by simp
  from run kept none show "nodes (db (snd (run_state (monitor_node nt ids now thr n) w))) =
      map (given_up (if silent now thr n then {n_ID n} else {})) (nodes (db w))" by simp
qed

lemma monitor_nodes:
  "sched w = [] \<Longrightarrow> nodes (db (snd (run_state (for_each (monitor_node nt ids now thr) ns) w))) =
    map (given_up (n_ID ` {n \<in> set ns. silent now thr n})) (nodes (db w))"
proof (induction ns arbitrary: w)
  case Nil
  then show ?case by (simp add: given_up_def)
next
  case (Cons n ns)
  let ?w = "snd (run_state (monitor_node nt ids now thr n) w)"
  note step = monitor_node_step[OF Cons.prems, of nt ids now thr n]
  have "n_ID ` {m \<in> set (n # ns). silent now thr m} =
      n_ID ` {m \<in> set ns. silent now thr m} \<union> (if silent now thr n then {n_ID n} else {})" by auto
  then show ?case using Cons.IH[OF step(1)] step(2) by (simp add: given_up_Un split_beta)
qed

section \<open>Properties\<close>

text \<open>A world in which the clock moves and the connection breaks at the first statement.\<close>

definition a_world :: "SandboxState \<Rightarrow> world" where
  "a_world s = \<lparr>db = a_db [a_sandbox ''s'' s 0] [], batcher = NewBatcher id,
     sched = [\<lambda>(t, b). ((t\<lparr>clock := clock t + 1\<rparr>, b), Some (IOError ''broken pipe''))]\<rparr>"



text \<open>C22. One tick of the heartbeat monitor gives up exactly the nodes that are healthy and were last seen longer ago than the
  threshold, whatever it does with their sandboxes: every other node, and everything else about the nodes, stays as it is.\<close>

theorem monitor_gives_up_silent_nodes:
  assumes "distinct (map n_ID (nodes t))"
  shows "nodes (db (snd (run_state (monitorHeartbeats nt ids now threshold) (quiet t b)))) =
    map (\<lambda>n. if n_Status n = NodeHealthy \<and> threshold < now - n_LastSeenAt n then n\<lparr>n_Status := NodeUnhealthy\<rparr> else n) (nodes t)"
proof -
  let ?S = "n_ID ` {n \<in> set (nodes t). silent now threshold n}"
  have "given_up ?S n = (if silent now threshold n then n\<lparr>n_Status := NodeUnhealthy\<rparr> else n)" if "n \<in> set (nodes t)" for n
    using assms that by (auto simp: given_up_def distinct_map inj_on_def)
  then have "map (given_up ?S) (nodes t) = map (\<lambda>n. if silent now threshold n then n\<lparr>n_Status := NodeUnhealthy\<rparr> else n) (nodes t)"
    by simp
  moreover have "nodes (db (snd (run_state (monitorHeartbeats nt ids now threshold) (quiet t b)))) = map (given_up ?S) (nodes t)"
    using monitor_nodes[of "quiet t b" nt ids now threshold "newest_first n_RegisteredAt (nodes t)"]
    by (simp add: monitorHeartbeats_def run_simps ListNodes_def split_beta)
  ultimately show ?thesis by (simp add: silent_def)
qed

theorem monitor_gives_up_silent_nodes_witness:
  "map n_Status (nodes (db (snd (run_state (monitorHeartbeats True id (10 ^ 10 + 1) (10 ^ 10))
     (quiet ((a_db [a_sandbox ''s'' StateRunning 0] [])\<lparr>nodes := [a_node\<lparr>n_LastSeenAt := 0\<rparr>, a_node\<lparr>n_ID := ''n2'', n_LastSeenAt := 1\<rparr>]\<rparr>)
       (NewBatcher id)))))) = [NodeUnhealthy, NodeHealthy]"
  by (subst monitor_gives_up_silent_nodes) (simp_all add: a_node_def)

text \<open>Two nodes that fall silent together: the sandbox of the first is placed on the second, which is given up next, and a
  sandbox that is \<^verbatim>\<open>starting\<close> there is not evacuated.\<close>

theorem monitor_strands_sandbox:
  "(let t = (a_db [a_sandbox ''s'' StateRunning 0] [])\<lparr>nodes := [a_node, a_node\<lparr>n_ID := ''n2''\<rparr>]\<rparr>;
        t' = db (snd (run_state (monitorHeartbeats True id (10 ^ 13) (45 * second)) (quiet t (NewBatcher id))))
    in (map_option (\<lambda>r. (sb_State r, sb_NodeID r)) (sandbox_at t' ''s''), map n_Status (nodes t'))) =
   (Some (StateStarting, Some ''n2''), [NodeUnhealthy, NodeUnhealthy])"
  by code_simp

end
