(* ===== verification/Reconciler.thy ===== *)
theory Reconciler
  imports Control_Plane
begin

text \<open>
  Drift between the database and the agents: \<^verbatim>\<open>HeartbeatReconciler\<close> (\<^verbatim>\<open>heartbeat_reconciler.go\<close>), run on every
  heartbeat with the containers the agent reports, and \<^verbatim>\<open>SandboxFreshnessService\<close> (\<^verbatim>\<open>sandbox_freshness.go\<close>),
  the read-through check of a single sandbox, with the adapters and the HTTP client of \<^verbatim>\<open>forge-control/main.go\<close>. The
  replies of the agents are an argument. The lemmas turn both loops of \<^verbatim>\<open>Reconcile\<close> into one function of
  each row.
\<close>

section \<open>Heartbeat reconciler\<close>

record ContainerInfo =
  ci_AppName :: string
  ci_State :: SandboxState
  ci_HostPort :: int
  ci_ContainerID :: string

record SandboxRow =
  srow_AppName :: string
  srow_State :: SandboxState
  srow_CreatedAt :: timestamp

definition reconcilerGraceWindow :: timestamp where
  "reconcilerGraceWindow = 60 * second"

text \<open>\<open>now\<close> is \<^verbatim>\<open>time.Now()\<close> of the control process, not the clock of the database.\<close>

definition Reconcile :: "timestamp \<Rightarrow> UUID \<Rightarrow> ContainerInfo list \<Rightarrow> (world, db_error + unit) state" where
  "Reconcile now nodeID containers =
    must (ListSandboxesForNode nodeID) id (\<lambda>dbRows. do {
      _ \<leftarrow> for_each (\<lambda>c. best_effort (MarkSandboxVerified (ci_AppName c) (ci_State c))) containers;
      _ \<leftarrow> for_each (\<lambda>(appName, state, createdAt).
             if appName \<in> set (map ci_AppName containers) then State_Monad.return ()
             else if now - createdAt < reconcilerGraceWindow then State_Monad.return ()
             else best_effort (MarkSandboxAgentLost appName nodeID)) dbRows;
      State_Monad.return (Inr ()) })"

section \<open>Freshness service\<close>

datatype fresh_error = ErrSandboxNotFound | StoreErr db_error

datatype agent_error = AgentStore db_error | AgentErr string

definition row_of :: "Sandbox \<Rightarrow> SandboxRow" where
  "row_of sb = \<lparr>srow_AppName = sb_AppName sb, srow_State = sb_State sb, srow_CreatedAt = sb_CreatedAt sb\<rparr>"

text \<open>\<^verbatim>\<open>time.Since\<close> and the final \<^verbatim>\<open>time.Now()\<close> are the arguments \<open>now\<close> and \<open>later\<close>.\<close>

definition Freshness_GetSandbox ::
    "timestamp \<Rightarrow> timestamp \<Rightarrow> timestamp \<Rightarrow> (string \<Rightarrow> (world, agent_error + bool \<times> SandboxState) state) \<Rightarrow> string \<Rightarrow> bool \<Rightarrow>
      (world, fresh_error + SandboxRow \<times> timestamp) state" where
  "Freshness_GetSandbox now later freshness agent name forceRefresh =
    must (GetSandboxByAppName name) StoreErr (\<lambda>sb.
      let stale = freshness < now - sb_VerifiedAt sb in
      if \<not> stale \<and> \<not> forceRefresh then State_Monad.return (Inr (row_of sb, sb_VerifiedAt sb))
      else do {
        answer \<leftarrow> agent name;
        case answer of
          Inl err \<Rightarrow> State_Monad.return (Inr (row_of sb, sb_VerifiedAt sb))
        | Inr (exists, state) \<Rightarrow>
            if \<not> exists then do {
              best_effort (MarkSandboxDestroyed name ''agent_lost_at_freshness_check'');
              State_Monad.return (Inl ErrSandboxNotFound) }
            else do {
              best_effort (MarkSandboxVerified name state);
              State_Monad.return (Inr (row_of sb, later)) } })"

text \<open>The HTTP client that asks the agent. A reply is an error text, or a status and the body as JSON
  (\<^verbatim>\<open>None\<close> where it is not JSON).\<close>

type_synonym agent_http = "string \<Rightarrow> string + int \<times> json option"

definition container_url :: "Node \<Rightarrow> string \<Rightarrow> string" where
  "container_url node name = ''http://'' @ n_TailscaleIp node @ '':'' @ show_int (sint (n_AgentListenPort node)) @
     ''/v1/containers/'' @ name"

definition decode_exists :: "json option \<Rightarrow> (bool \<times> string) option" where
  "decode_exists b = (case b of None \<Rightarrow> None | Some j \<Rightarrow>
    (let (ms, ok) = object_members j;
         (ex, ok1) = decode_field ''exists'' decode_bool ms False;
         (app, ok2) = decode_field ''app_name'' decode_string ms '''';
         (st, ok3) = decode_field ''state'' decode_string ms '''';
         (hp, ok4) = decode_field ''host_port'' decode_int64 ms 0;
         (cid, ok5) = decode_field ''container_id'' decode_string ms ''''
     in if ok \<and> ok1 \<and> ok2 \<and> ok3 \<and> ok4 \<and> ok5 then Some (ex, st) else None))"

definition ContainerExists ::
    "agent_http \<Rightarrow> string \<Rightarrow> (world, agent_error + bool \<times> SandboxState) state" where
  "ContainerExists http name =
    must (GetSandboxByAppName name) AgentStore (\<lambda>sb.
      case sb_NodeID sb of
        None \<Rightarrow> State_Monad.return (Inl (AgentErr ''sandbox not assigned to a node''))
      | Some n \<Rightarrow>
          must (GetNode n) AgentStore (\<lambda>node.
            State_Monad.return (case http (container_url node name) of
              Inl e \<Rightarrow> Inl (AgentErr e)
            | Inr (code, body) \<Rightarrow>
                if code = 200 then
                  (case decode_exists body of
                     None \<Rightarrow> Inl (AgentErr ''invalid JSON'')
                   | Some (exists, state) \<Rightarrow> Inr (exists, SandboxState_of state))
                else if code = 404 then Inr (False, SandboxState_of '''')
                else Inl (AgentErr (''agent returned status '' @ show_int code)))))"

section \<open>One row\<close>

definition verify1 :: "timestamp \<Rightarrow> ContainerInfo \<Rightarrow> Sandbox \<Rightarrow> Sandbox" where
  "verify1 ts c r = (if sb_AppName r = ci_AppName c \<and> sb_VerifiedAt r < ts
     then r\<lparr>sb_VerifiedAt := ts, sb_State := ci_State c\<rparr> else r)"

definition lost :: "timestamp \<Rightarrow> Sandbox \<Rightarrow> Sandbox" where
  "lost ts r = r\<lparr>sb_State := StateDestroyed,
     sb_Metadata := json_concat (sb_Metadata r) (reason ''agent_lost_at_heartbeat''), sb_VerifiedAt := ts\<rparr>"

definition losable :: "timestamp \<Rightarrow> UUID \<Rightarrow> Sandbox \<Rightarrow> bool" where
  "losable ts n r \<longleftrightarrow> sb_NodeID r = Some n \<and> live_state (sb_State r) \<and> sb_CreatedAt r < ts - 60 * second"

definition lose1 :: "timestamp \<Rightarrow> UUID \<Rightarrow> string \<Rightarrow> Sandbox \<Rightarrow> Sandbox" where
  "lose1 ts n a r = (if sb_AppName r = a \<and> losable ts n r then lost ts r else r)"

lemma Verified_map:
  "ci_State c \<in> set AllStates \<Longrightarrow> MarkSandboxVerified (ci_AppName c) (ci_State c) t =
    (Inr (), t\<lparr>sandboxes := map (verify1 (clock t) c) (sandboxes t)\<rparr>)"
  by (simp add: MarkSandboxVerified_def Let_def verify1_def update_where_def)

lemma AgentLost_map:
  "MarkSandboxAgentLost a n t = (Inr (), t\<lparr>sandboxes := map (lose1 (clock t) n a) (sandboxes t)\<rparr>)"
  by (simp add: MarkSandboxAgentLost_def lose1_def losable_def lost_def update_where_def)

lemma verify_loop:
  assumes "\<forall>c \<in> set cs. ci_State c \<in> set AllStates"
  shows "snd (run_state (for_each (\<lambda>c. best_effort (MarkSandboxVerified (ci_AppName c) (ci_State c))) cs) (quiet t b)) =
    quiet (t\<lparr>sandboxes := map (fold (verify1 (clock t)) cs) (sandboxes t)\<rparr>) b"
  using assms
  by (induction cs arbitrary: t) (simp_all add: for_each_state run_best_effort Verified_map comp_def del: for_each.simps)

definition unreported :: "timestamp \<Rightarrow> string list \<Rightarrow> (string \<times> SandboxState \<times> timestamp) list \<Rightarrow> string list" where
  "unreported now apps rows = map fst (filter (\<lambda>(a, _, ct). a \<notin> set apps \<and> \<not> now - ct < reconcilerGraceWindow) rows)"

lemma lose_loop:
  "snd (run_state (for_each (\<lambda>(a, st, ct).
       if a \<in> set apps then State_Monad.return ()
       else if now - ct < reconcilerGraceWindow then State_Monad.return ()
       else best_effort (MarkSandboxAgentLost a n)) rows) (quiet t b)) =
   quiet (t\<lparr>sandboxes := map (fold (lose1 (clock t) n) (unreported now apps rows)) (sandboxes t)\<rparr>) b"
proof (induction rows arbitrary: t)
  case (Cons x rows)
  then show ?case
    by (cases x) (auto simp add: for_each_state run_simps AgentLost_map comp_def unreported_def simp del: for_each.simps)
qed (simp add: for_each_state unreported_def run_simps)

lemma verify1_fold:
  "fold (verify1 ts) cs r = (case find (\<lambda>c. ci_AppName c = sb_AppName r) cs of
     None \<Rightarrow> r
   | Some c \<Rightarrow> if sb_VerifiedAt r < ts then r\<lparr>sb_VerifiedAt := ts, sb_State := ci_State c\<rparr> else r)"
proof (induction cs arbitrary: r)
  case (Cons c cs)
  have settled: "fold (verify1 ts) cs r = r" if "\<not> sb_VerifiedAt r < ts" for r
    using that by (induction cs) (simp_all add: verify1_def)
  show ?case using Cons settled by (auto simp: verify1_def split: option.split)
qed simp

lemma lose1_fold:
  "fold (lose1 ts n) as r = (if sb_AppName r \<in> set as \<and> losable ts n r then lost ts r else r)"
proof (induction as arbitrary: r)
  case (Cons a as)
  have "\<not> losable ts n (lost ts r)" by (simp add: losable_def lost_def live_state_def)
  with Cons.IH[of r] Cons.IH[of "lost ts r"] show ?case
    by (auto simp: lose1_def[of ts n a])
qed simp

lemma verify1_fold_app: "sb_AppName (fold (verify1 ts) cs r) = sb_AppName r"
  by (simp add: verify1_fold split: option.split)

text \<open>What a heartbeat does to a row: a reported sandbox takes the reported state; a sandbox of the node
  that is not reported and past the grace window is lost.\<close>

definition reconciled :: "timestamp \<Rightarrow> UUID \<Rightarrow> ContainerInfo list \<Rightarrow> Sandbox \<Rightarrow> Sandbox" where
  "reconciled ts n cs r = (case find (\<lambda>c. ci_AppName c = sb_AppName r) cs of
     Some c \<Rightarrow> if sb_VerifiedAt r < ts then r\<lparr>sb_VerifiedAt := ts, sb_State := ci_State c\<rparr> else r
   | None \<Rightarrow> if losable ts n r then lost ts r else r)"

lemma reconciled_ID: "sb_ID (reconciled ts n cs r) = sb_ID r"
  by (simp add: reconciled_def lost_def split: option.split)

lemma unreported_rows:
  assumes "schema_ok t" and "r \<in> set (sandboxes t)"
    and "fst (ListSandboxesForNode n t) = Inr rows" and "losable (clock t) n r"
  shows "sb_AppName r \<in> set (unreported (clock t) apps rows) \<longleftrightarrow> sb_AppName r \<notin> set apps"
proof -
  have rows: "set rows = (\<lambda>r. (sb_AppName r, sb_State r, sb_CreatedAt r)) `
      {r \<in> set (sandboxes t). sb_NodeID r = Some n \<and> live_state (sb_State r)}"
    using assms(3) by (auto simp: ListSandboxesForNode_def)
  have "(sb_AppName r, sb_State r, sb_CreatedAt r) \<in> set rows"
    using assms(2,4) rows by (auto simp: losable_def)
  moreover have "\<not> clock t - sb_CreatedAt r < reconcilerGraceWindow"
    using assms(4) by (simp add: losable_def reconcilerGraceWindow_def)
  ultimately show ?thesis by (force simp: unreported_def image_iff)
qed

text \<open>A heartbeat reconciles exactly: every row becomes its \<open>reconciled\<close> version and nothing else changes.\<close>

lemma Reconcile_run:
  assumes "schema_ok t" and "\<forall>c \<in> set cs. ci_State c \<in> set AllStates"
  shows "run_state (Reconcile (clock t) n cs) (quiet t b) =
    (Inr (), quiet (t\<lparr>sandboxes := map (reconciled (clock t) n cs) (sandboxes t)\<rparr>) b)"
proof -
  obtain rows where L: "ListSandboxesForNode n t = (Inr rows, t)" by (simp add: ListSandboxesForNode_def)
  let ?apps = "map ci_AppName cs"
  let ?lost = "unreported (clock t) ?apps rows"
  have row: "fold (lose1 (clock t) n) ?lost (fold (verify1 (clock t)) cs r) = reconciled (clock t) n cs r"
    if r: "r \<in> set (sandboxes t)" for r
  proof (cases "find (\<lambda>c. ci_AppName c = sb_AppName r) cs")
    case None
    then have "sb_AppName r \<notin> set ?apps" by (auto simp: find_None_iff)
    with None unreported_rows[OF assms(1) r, of n rows ?apps] L show ?thesis
      by (auto simp: lose1_fold verify1_fold reconciled_def)
  next
    case (Some c)
    then have "sb_AppName r \<in> set ?apps" by (auto simp: find_Some_iff image_iff intro!: bexI[of _ c])
    then have "sb_AppName r \<notin> set ?lost" by (auto simp: unreported_def)
    with Some show ?thesis
      by (simp add: lose1_fold verify1_fold_app) (simp add: verify1_fold reconciled_def)
  qed
  have run: "run_state (Reconcile (clock t) n cs) (quiet t b) =
      (Inr (), quiet (t\<lparr>sandboxes := map (fold (verify1 (clock t)) cs) (sandboxes t),
         sandboxes := map (fold (lose1 (clock t) n) ?lost) (map (fold (verify1 (clock t)) cs) (sandboxes t))\<rparr>) b)"
    by (simp only: Reconcile_def run_must L fst_conv snd_conv sum.case run_bind_discard run_state_return
        verify_loop[OF assms(2)] lose_loop id_apply) simp
  show ?thesis unfolding run using row by (simp add: comp_def)
qed

section \<open>Properties\<close>

definition a_report :: "SandboxState \<Rightarrow> ContainerInfo" where
  "a_report s = \<lparr>ci_AppName = ''app-s'', ci_State = s, ci_HostPort = 30001, ci_ContainerID = ''c1''\<rparr>"

text \<open>The reported state is written without regard to the state machine: a sandbox that is
  \<^verbatim>\<open>destroyed\<close> (or \<^verbatim>\<open>destroying\<close>, or \<^verbatim>\<open>stopped\<close>) is \<^verbatim>\<open>running\<close> again after a heartbeat that still lists its container,
  also when the heartbeat comes from another node than its own.\<close>

theorem Reconcile_revives:
  assumes "schema_ok t" and "sandbox_at t i = Some r" and "sb_VerifiedAt r < clock t"
    and "ci_AppName c = sb_AppName r" and "ci_State c = StateRunning"
  shows "map_option sb_State (sandbox_at (db (snd (run_state (Reconcile (clock t) n [c]) (quiet t b)))) i) =
    Some StateRunning"
proof -
  have cs: "\<forall>x \<in> set [c]. ci_State x \<in> set AllStates" using assms(5) by (simp add: AllStates_def)
  show ?thesis
    using Reconcile_run[OF assms(1) cs, of n b] assms(2-5)
    by (simp add: sandbox_at_def row_at_map reconciled_ID) (simp add: reconciled_def)
qed

theorem Reconcile_revives_witness:
  "map_option sb_State (sandbox_at (db (snd (run_state (Reconcile (10 ^ 10) ''n2'' [a_report StateRunning])
    (quiet (a_db [a_sandbox ''s'' StateDestroyed 0] []) (NewBatcher id))))) ''s'') = Some StateRunning"
  using Reconcile_revives[of "a_db [a_sandbox ''s'' StateDestroyed 0] []" "''s''" "a_sandbox ''s'' StateDestroyed 0"
      "a_report StateRunning" "''n2''" "NewBatcher id"]
  by (simp add: schema_ok_def concrete named_status_def AllStates_def a_report_def)

text \<open>Agents report the states of Docker. Of these \<^verbatim>\<open>exited\<close> is not a state of the table, and its report changes nothing.\<close>

theorem exited_not_recorded: "snd (MarkSandboxVerified a (SandboxState_of ''exited'') t) = t"
proof -
  have "SandboxState_of ''exited'' \<notin> set AllStates" by code_simp
  moreover have "t\<lparr>sandboxes := update_where p f (sandboxes t)\<rparr> = t" if "\<forall>r \<in> set (sandboxes t). \<not> p r" for p f
    using update_where_none[of "sandboxes t" p f] that by simp
  ultimately show ?thesis by (auto simp: MarkSandboxVerified_def Let_def)
qed

text \<open>An answer of the agent that says the container is not there.\<close>

definition denies :: "string + int \<times> json option \<Rightarrow> bool" where
  "denies a \<longleftrightarrow> (case a of
     Inl _ \<Rightarrow> False
   | Inr (code, body) \<Rightarrow> code = 404 \<or> code = 200 \<and> (\<exists>st. decode_exists body = Some (False, st)))"

lemma ContainerExists_run:
  assumes "row_at sb_AppName name (sandboxes t) = Some r"
  obtains a where "run_state (ContainerExists http name) (quiet t b) = (a, quiet t b)"
    and "(\<exists>s. a = Inr (False, s)) \<longleftrightarrow>
      (\<exists>n node. sb_NodeID r = Some n \<and> node_at t n = Some node \<and> denies (http (container_url node name)))"
proof (cases "sb_NodeID r")
  case None
  with assms that show thesis by (simp add: ContainerExists_def run_simps GetSandboxByAppName_def)
next
  case (Some n)
  show thesis
  proof (cases "node_at t n")
    case None
    with assms Some that show thesis
      by (simp add: ContainerExists_def run_simps GetSandboxByAppName_def GetNode_def)
  next
    case (Some node)
    with assms \<open>sb_NodeID r = Some n\<close> show thesis
      by (intro that) (auto simp: ContainerExists_def run_simps GetSandboxByAppName_def GetNode_def denies_def
          split: sum.splits option.splits prod.splits if_splits)
  qed
qed

lemma Freshness_miss:
  "fst (run_state (Freshness_GetSandbox now later fresh (ContainerExists http) name force) (quiet t b)) = Inl ErrSandboxNotFound
    \<longleftrightarrow> (\<exists>r n node. row_at sb_AppName name (sandboxes t) = Some r \<and> (fresh < now - sb_VerifiedAt r \<or> force) \<and>
         sb_NodeID r = Some n \<and> node_at t n = Some node \<and> denies (http (container_url node name)))"
proof (cases "row_at sb_AppName name (sandboxes t)")
  case None
  then show ?thesis by (simp add: Freshness_GetSandbox_def run_simps GetSandboxByAppName_def)
next
  case (Some r)
  from ContainerExists_run[OF this, of http b] obtain a
    where "run_state (ContainerExists http name) (quiet t b) = (a, quiet t b)"
      and "(\<exists>s. a = Inr (False, s)) \<longleftrightarrow>
        (\<exists>n node. sb_NodeID r = Some n \<and> node_at t n = Some node \<and> denies (http (container_url node name)))" .
  with Some show ?thesis
    by (auto simp: Freshness_GetSandbox_def run_simps GetSandboxByAppName_def Let_def split: sum.split)
qed


end
