(* ===== verification/Paths.thy ===== *)
theory Paths
  imports Forge_Prelude
begin

text \<open>
  Strings and slash-separated paths as the agent uses them: \<^verbatim>\<open>strings.Split\<close>, \<^verbatim>\<open>strings.Join\<close>,
  \<^verbatim>\<open>strings.HasPrefix\<close> and \<^verbatim>\<open>TrimPrefix\<close>, and \<^verbatim>\<open>filepath.Clean\<close>, \<^verbatim>\<open>Join\<close>, \<^verbatim>\<open>Dir\<close> and \<^verbatim>\<open>IsAbs\<close> of the Go library on
  Unix. \<open>Clean\<close> is the lexical processing the library documents: the components are pushed on a stack,
  \<^verbatim>\<open>.\<close> and empty components are dropped, \<^verbatim>\<open>..\<close> pops the component before it. The lemmas show when appending a
  path to a directory stays below the directory.
\<close>

section \<open>Splitting and joining\<close>

fun split_on :: "char \<Rightarrow> string \<Rightarrow> string list" where
  "split_on c [] = [[]]"
| "split_on c (x # xs) =
    (if x = c then [] # split_on c xs
     else (case split_on c xs of [] \<Rightarrow> [[x]] | w # ws \<Rightarrow> (x # w) # ws))"

fun join_with :: "string \<Rightarrow> string list \<Rightarrow> string" where
  "join_with sep [] = []"
| "join_with sep [w] = w"
| "join_with sep (w # v # vs) = w @ sep @ join_with sep (v # vs)"

definition trim_prefix :: "string \<Rightarrow> string \<Rightarrow> string" where
  "trim_prefix p s = (if prefix p s then drop (length p) s else s)"

lemma split_on_not_Nil [simp]: "split_on c s \<noteq> []"
  by (induction s) (auto split: list.split)

lemma split_on_append: "split_on c (a @ c # b) = split_on c a @ split_on c b"
proof (induction a)
  case (Cons x a)
  then show ?case by (cases "split_on c a") auto
qed simp

lemma split_on_plain: "c \<notin> set s \<Longrightarrow> split_on c s = [s]"
  by (induction s) auto

lemma split_on_parts: "w \<in> set (split_on c s) \<Longrightarrow> c \<notin> set w"
proof (induction s arbitrary: w)
  case (Cons x s)
  then show ?case by (cases "split_on c s") (auto split: if_splits)
qed simp

lemma split_join:
  assumes "ws \<noteq> []" and "\<forall>w \<in> set ws. c \<notin> set w"
  shows "split_on c (join_with [c] ws) = ws"
  using assms
proof (induction "[c]" ws rule: join_with.induct)
  case (3 w v vs)
  then show ?case by (simp add: split_on_append split_on_plain)
qed (simp_all add: split_on_plain)

lemma join_split: "join_with [c] (split_on c s) = s"
proof (induction s)
  case (Cons x s)
  then show ?case by (cases "split_on c s"; cases "tl (split_on c s)") auto
qed simp

lemma join_with_append:
  "join_with s (xs @ ys) = (if xs = [] then join_with s ys else if ys = [] then join_with s xs
     else join_with s xs @ s @ join_with s ys)"
proof (induction s xs rule: join_with.induct)
  case (2 s w)
  then show ?case by (cases ys) auto
qed auto

section \<open>Lexical cleaning\<close>

definition dotdot :: string where "dotdot = ''..''"

definition clean_step :: "bool \<Rightarrow> string \<Rightarrow> string list \<Rightarrow> string list" where
  "clean_step rooted part stack =
    (if part = '''' \<or> part = ''.'' then stack
     else if part = dotdot then
       (case stack of
          [] \<Rightarrow> if rooted then [] else [dotdot]
        | s # below \<Rightarrow> if s = dotdot then dotdot # stack else below)
     else part # stack)"

definition clean_comps :: "bool \<Rightarrow> string list \<Rightarrow> string list \<Rightarrow> string list" where
  "clean_comps rooted comps stack = fold (clean_step rooted) comps stack"

definition IsAbs :: "string \<Rightarrow> bool" where
  "IsAbs p \<longleftrightarrow> prefix ''/'' p"

abbreviation slashes :: "string \<Rightarrow> string list" where
  "slashes \<equiv> split_on (CHR ''/'')"

text \<open>The components of a path after cleaning, the innermost last.\<close>

definition parts :: "string \<Rightarrow> string list" where
  "parts p = rev (clean_comps (IsAbs p) (slashes p) [])"

definition path_string :: "bool \<Rightarrow> string list \<Rightarrow> string" where
  "path_string rooted ps =
    (if rooted then CHR ''/'' # join_with ''/'' ps else if ps = [] then ''.'' else join_with ''/'' ps)"

definition Clean :: "string \<Rightarrow> string" where
  "Clean p = (if p = '''' then ''.'' else path_string (IsAbs p) (parts p))"

fun Path_Join :: "string list \<Rightarrow> string" where
  "Path_Join [] = ''''"
| "Path_Join (e # es) = (if e = '''' then Path_Join es else Clean (join_with ''/'' (e # es)))"

definition upto_last_slash :: "string \<Rightarrow> string" where
  "upto_last_slash p = rev (dropWhile (\<lambda>c. c \<noteq> CHR ''/'') (rev p))"

definition Dir :: "string \<Rightarrow> string" where
  "Dir p = Clean (upto_last_slash p)"

section \<open>What cleaning gives\<close>

definition proper :: "string \<Rightarrow> bool" where
  "proper w \<longleftrightarrow> w \<noteq> '''' \<and> w \<noteq> ''.'' \<and> CHR ''/'' \<notin> set w"

lemma clean_comps_simps [simp]:
  "clean_comps r [] st = st" "clean_comps r (p # ps) st = clean_comps r ps (clean_step r p st)"
  "clean_comps r (ps @ qs) st = clean_comps r qs (clean_comps r ps st)"
  by (simp_all add: clean_comps_def)

lemma clean_comps_proper:
  "\<forall>w \<in> set ps. CHR ''/'' \<notin> set w \<Longrightarrow> \<forall>w \<in> set st. proper w \<Longrightarrow> \<forall>w \<in> set (clean_comps r ps st). proper w"
proof (induction ps arbitrary: st)
  case (Cons p ps)
  have "\<forall>w \<in> set (clean_step r p st). proper w"
    using Cons.prems by (auto simp: clean_step_def proper_def dotdot_def split: list.splits)
  with Cons show ?case by simp
qed simp

lemma parts_proper: "w \<in> set (parts p) \<Longrightarrow> proper w"
  using clean_comps_proper[of "slashes p" "[]"] split_on_parts by (auto simp: parts_def)

lemma dotdot_persists: "dotdot \<in> set st \<Longrightarrow> dotdot \<in> set (clean_comps r ps st)"
proof (induction ps arbitrary: st)
  case (Cons p ps)
  then have "dotdot \<in> set (clean_step r p st)" by (cases st) (auto simp: clean_step_def)
  then show ?case using Cons.IH by simp
qed simp

text \<open>Components that never climb above their start leave the stack below them alone.\<close>

lemma clean_comps_frame:
  "dotdot \<notin> set (clean_comps False ps st) \<Longrightarrow> clean_comps r ps (st @ below) = clean_comps False ps st @ below"
proof (induction ps arbitrary: st)
  case (Cons p ps)
  then have "dotdot \<notin> set (clean_step False p st)" using dotdot_persists by auto
  then have "clean_step r p (st @ below) = clean_step False p st @ below"
    by (cases st) (auto simp: clean_step_def dotdot_def split: if_splits)
  with Cons show ?case by simp
qed simp

lemma slashes_path_string:
  assumes "\<forall>w \<in> set ps. proper w"
  shows "slashes (path_string False ps) = (if ps = [] then [''.''] else ps)"
  using split_join[of ps "CHR ''/''"] assms by (auto simp: path_string_def proper_def split_on_plain)

lemma IsAbs_path_string:
  assumes "\<forall>w \<in> set ps. proper w"
  shows "IsAbs (path_string r ps) = r"
proof (cases "r \<or> ps = []")
  case False
  then obtain w ws where "ps = w # ws" by (cases ps) auto
  moreover from this assms obtain c cs where "w = c # cs" "c \<noteq> CHR ''/''" by (cases w) (auto simp: proper_def)
  ultimately show ?thesis using False by (cases ws) (auto simp: IsAbs_def path_string_def)
qed (auto simp: IsAbs_def path_string_def)

lemma clean_step_proper: "proper w \<Longrightarrow> w \<noteq> dotdot \<Longrightarrow> clean_step r w st = w # st"
  by (simp add: clean_step_def proper_def)

lemma clean_comps_plain:
  "\<forall>w \<in> set ps. proper w \<and> w \<noteq> dotdot \<Longrightarrow> clean_comps r ps st = rev ps @ st"
  by (induction ps arbitrary: st) (simp_all add: clean_step_proper)

section \<open>Appending a path to a directory\<close>

lemma Path_Join_parts:
  assumes "d \<noteq> ''''" and "\<not> IsAbs p" and "dotdot \<notin> set (parts p)"
  shows "Path_Join [d, p] = path_string (IsAbs d) (parts d @ parts p)"
proof -
  have abs: "IsAbs (d @ CHR ''/'' # p) = IsAbs d" using assms(1) by (cases d) (auto simp: IsAbs_def)
  have "dotdot \<notin> set (clean_comps False (slashes p) [])" using assms(2,3) by (simp add: parts_def)
  from clean_comps_frame[OF this, of "IsAbs d" "clean_comps (IsAbs d) (slashes d) []"] assms(2)
  have "parts (d @ CHR ''/'' # p) = parts d @ parts p"
    by (simp add: parts_def abs split_on_append)
  with assms(1) show ?thesis by (simp add: Clean_def abs)
qed

text \<open>\<open>q\<close> is the directory \<open>d\<close>, or a file or directory below it.\<close>

definition at_or_below :: "string \<Rightarrow> string \<Rightarrow> bool" where
  "at_or_below d q \<longleftrightarrow> (\<exists>ps. q = path_string (IsAbs d) (parts d @ ps) \<and> (\<forall>w \<in> set ps. proper w \<and> w \<noteq> dotdot))"

lemma Path_Join_at_or_below:
  assumes "d \<noteq> ''''" and "\<not> IsAbs p" and "dotdot \<notin> set (parts p)"
  shows "at_or_below d (Path_Join [d, p])"
  using Path_Join_parts[OF assms] parts_proper assms(3) unfolding at_or_below_def by metis

lemma upto_last_slash_append: "CHR ''/'' \<notin> set w \<Longrightarrow> upto_last_slash (a @ ''/'' @ w) = a @ ''/''"
proof -
  assume "CHR ''/'' \<notin> set w"
  then have "dropWhile (\<lambda>c. c \<noteq> CHR ''/'') (rev w @ CHR ''/'' # rev a) = CHR ''/'' # rev a"
    by (intro dropWhile_append2[THEN trans]) auto
  then show ?thesis by (simp add: upto_last_slash_def)
qed

section \<open>Clean paths and their directories\<close>

definition normal :: "bool \<Rightarrow> string list \<Rightarrow> bool" where
  "normal r ps \<longleftrightarrow> (\<forall>w \<in> set ps. proper w) \<and> clean_comps r ps [] = rev ps"

lemma normal_snoc: "normal r (ps @ [w]) \<longleftrightarrow> normal r ps \<and> proper w \<and> clean_step r w (rev ps) = w # rev ps"
proof
  assume n: "normal r (ps @ [w])"
  then have w: "proper w" and s: "clean_step r w (clean_comps r ps []) = w # rev ps" by (simp_all add: normal_def)
  have "clean_comps r ps [] = rev ps"
  proof (cases "w = dotdot")
    case False
    with w s show ?thesis by (simp add: clean_step_proper)
  next
    case True
    have "length (clean_comps r ps st) \<le> length ps + length st" for st
    proof (induction ps arbitrary: st)
      case (Cons p ps)
      have "length (clean_step r p st) \<le> Suc (length st)" by (auto simp: clean_step_def split: list.split)
      with Cons[of "clean_step r p st"] show ?case by simp
    qed simp
    from this[of "[]"] True s show ?thesis
      by (auto simp: clean_step_def dotdot_def split: list.splits if_splits)
  qed
  with n w s show "normal r ps \<and> proper w \<and> clean_step r w (rev ps) = w # rev ps" by (simp add: normal_def)
qed (auto simp: normal_def)

lemma normal_step:
  assumes "normal r (rev st)" and "CHR ''/'' \<notin> set p"
  shows "normal r (rev (clean_step r p st))"
proof (cases st)
  case Nil
  then show ?thesis using assms
    by (auto simp: normal_def clean_step_def proper_def dotdot_def)
next
  case (Cons s below)
  with assms(1) have "normal r (rev below @ [s])" by simp
  then have b: "normal r (rev below)" and s: "clean_step r s below = s # below" "proper s"
    unfolding normal_snoc by simp_all
  show ?thesis
  proof (cases "p = '''' \<or> p = ''.''")
    case False
    with assms(2) have p: "proper p" by (simp add: proper_def)
    show ?thesis
    proof (cases "p = dotdot \<and> s \<noteq> dotdot")
      case True
      with b Cons False show ?thesis by (simp add: clean_step_def)
    next
      case False
      with p have "clean_step r p st = p # st" using Cons by (auto simp: clean_step_def proper_def)
      with assms(1) p show ?thesis by (simp add: normal_snoc)
    qed
  qed (use assms(1) in \<open>auto simp: clean_step_def\<close>)
qed

lemma parts_normal: "normal (IsAbs p) (parts p)"
proof -
  have "normal r (rev (clean_comps r ps st))" if "normal r (rev st)" "\<forall>w \<in> set ps. CHR ''/'' \<notin> set w" for r ps st
    using that by (induction ps arbitrary: st) (simp_all add: normal_step)
  from this[of "IsAbs p" "[]" "slashes p"] show ?thesis
    using split_on_parts[of _ "CHR ''/''" p] by (auto simp: parts_def normal_def)
qed

lemma normal_append:
  assumes "normal r ps" and "\<forall>w \<in> set qs. proper w \<and> w \<noteq> dotdot"
  shows "normal r (ps @ qs)"
  using assms by (auto simp: normal_def clean_comps_plain)

lemma parts_path_string:
  assumes "normal r ps" and "sfx = '''' \<or> sfx = ''/'' \<and> ps \<noteq> []"
  shows "parts (path_string r ps @ sfx) = ps \<and> IsAbs (path_string r ps @ sfx) = r"
proof -
  have pr: "\<forall>w \<in> set ps. proper w" using assms(1) by (simp add: normal_def)
  have ne: "path_string r ps \<noteq> ''''" using pr by (cases ps rule: rev_cases)
      (auto simp: path_string_def proper_def join_with_append)
  have abs: "IsAbs (path_string r ps @ sfx) = r"
    using IsAbs_path_string[OF pr, of r] ne by (cases "path_string r ps") (auto simp: IsAbs_def)
  have sl: "slashes (path_string r ps @ sfx) = slashes (path_string r ps) @ (if sfx = '''' then [] else [''''])"
    using assms(2) split_on_append[of "CHR ''/''" "path_string r ps" "''''"] by auto
  have "clean_comps r (slashes (path_string r ps)) [] = clean_comps r ps []"
  proof (cases r)
    case True
    have "slashes (path_string True ps) = '''' # slashes (join_with ''/'' ps)" by (simp add: path_string_def)
    with True split_join[of ps "CHR ''/''"] pr show ?thesis
      by (cases "ps = []") (auto simp: proper_def clean_step_def)
  next
    case False
    with slashes_path_string[OF pr] show ?thesis by (simp add: clean_step_def)
  qed
  with assms(1) show ?thesis by (simp add: parts_def abs sl normal_def) (simp add: clean_step_def)
qed

lemma Clean_path_string:
  assumes "normal r ps" and "sfx = '''' \<or> sfx = ''/'' \<and> ps \<noteq> []"
  shows "Clean (path_string r ps @ sfx) = path_string r ps"
proof -
  have "path_string r ps @ sfx \<noteq> ''''"
  proof
    assume "path_string r ps @ sfx = ''''"
    then have "ps \<noteq> []" and j: "join_with ''/'' ps = ''''" by (auto simp: path_string_def split: if_splits)
    have "\<forall>w \<in> set ps. CHR ''/'' \<notin> set w" using assms(1) by (auto simp: normal_def proper_def)
    from split_join[OF \<open>ps \<noteq> []\<close> this] j have "ps = ['''']" by simp
    with assms(1) show False by (simp add: normal_def proper_def)
  qed
  with parts_path_string[OF assms] show ?thesis unfolding Clean_def by auto
qed

lemma Clean_idem [simp]: "Clean (Clean p) = Clean p"
  using Clean_path_string[OF parts_normal, of "''''" p] Clean_path_string[of False "[]" "''''"]
  by (auto simp: Clean_def[of p] normal_def path_string_def)

lemma Dir_path_string:
  assumes "normal r (ps @ [w])"
  shows "Dir (path_string r (ps @ [w])) = path_string r ps"
proof -
  have n: "normal r ps" and "CHR ''/'' \<notin> set w" using assms by (simp_all add: normal_snoc proper_def)
  then show ?thesis
  proof (cases "ps = []")
    case True
    have "upto_last_slash w = ''''" using \<open>CHR ''/'' \<notin> set w\<close> by (auto simp: upto_last_slash_def)
    moreover have "Clean ''/'' = ''/''" by code_simp
    ultimately show ?thesis using True \<open>CHR ''/'' \<notin> set w\<close> upto_last_slash_append[of w "''''"]
      by (auto simp: Dir_def path_string_def Clean_def)
  next
    case False
    then have "path_string r (ps @ [w]) = path_string r ps @ ''/'' @ w"
      by (simp add: path_string_def join_with_append)
    with \<open>CHR ''/'' \<notin> set w\<close> n False show ?thesis
      using upto_last_slash_append[of w "path_string r ps"] Clean_path_string[OF n, of "''/''"] by (simp add: Dir_def)
  qed
qed

text \<open>The directory of a path at or below \<open>d\<close> is at or below \<open>d\<close> again, unless the path is \<open>d\<close> itself.\<close>

lemma Dir_at_or_below:
  assumes "at_or_below d q" and "d \<noteq> ''''"
  shows "q = Clean d \<or> at_or_below d (Dir q)"
proof -
  from assms(1) obtain ps where q: "q = path_string (IsAbs d) (parts d @ ps)" and
    ps: "\<forall>w \<in> set ps. proper w \<and> w \<noteq> dotdot" by (auto simp: at_or_below_def)
  show ?thesis
  proof (cases ps rule: rev_cases)
    case Nil
    with q assms(2) show ?thesis by (simp add: Clean_def)
  next
    case (snoc qs w)
    have "normal (IsAbs d) ((parts d @ qs) @ [w])" using normal_append[OF parts_normal ps, of d] snoc by simp
    from Dir_path_string[OF this] q snoc ps show ?thesis
      by (auto simp: at_or_below_def)
  qed
qed

end
