(* ===== verification/Signed_URL.thy ===== *)
theory Signed_URL
  imports Paths
begin

text \<open>
  Signed URLs, \<^verbatim>\<open>shared-go/auth/hmac.go\<close>. Query strings are modelled down to their bytes: escaping,
  \<^verbatim>\<open>ParseQuery\<close> and \<^verbatim>\<open>Values.Encode\<close> of \<^verbatim>\<open>net/url\<close>, hexadecimal encoding and decimal parsing. \<^verbatim>\<open>url.Values\<close> is a map
  that \<^verbatim>\<open>Encode\<close> lists in the order of its keys, so it is an association list kept in that order. The
  splitting of a URL into scheme, host, path and query and its reassembly (\<^verbatim>\<open>url.Parse\<close>, \<^verbatim>\<open>URL.String\<close>), and
  HMAC-SHA256, are arguments: the properties name what they need of the former and hold for every keyed
  function in place of the latter, or for every one without collisions.
\<close>

section \<open>Escaping\<close>

definition unreserved :: "char \<Rightarrow> bool" where
  "unreserved c \<longleftrightarrow> (let n = of_char c :: nat in
     48 \<le> n \<and> n \<le> 57 \<or> 65 \<le> n \<and> n \<le> 90 \<or> 97 \<le> n \<and> n \<le> 122 \<or> c \<in> {CHR ''-'', CHR ''_'', CHR ''.'', CHR ''~''})"

definition hex_digit :: "nat \<Rightarrow> nat \<Rightarrow> char" where
  "hex_digit letters n = char_of (if n < 10 then 48 + n else letters + n - 10)"

text \<open>The value of a hexadecimal digit, in either case.\<close>

definition unhex :: "char \<Rightarrow> nat option" where
  "unhex c = (let n = of_char c in
     if 48 \<le> n \<and> n \<le> 57 then Some (n - 48)
     else if 97 \<le> n \<and> n \<le> 102 then Some (n - 87)
     else if 65 \<le> n \<and> n \<le> 70 then Some (n - 55) else None)"

definition escape_char :: "char \<Rightarrow> string" where
  "escape_char c =
    (if c = CHR '' '' then ''+''
     else if unreserved c then [c]
     else [CHR ''%'', hex_digit 65 (of_char c div 16), hex_digit 65 (of_char c mod 16)])"

definition QueryEscape :: "string \<Rightarrow> string" where
  "QueryEscape s = concat (map escape_char s)"

fun QueryUnescape :: "string \<Rightarrow> string option" where
  "QueryUnescape [] = Some []"
| "QueryUnescape (c # cs) =
    (if c = CHR ''%'' then
       (case cs of
          a # b # rest \<Rightarrow>
            (case (unhex a, unhex b, QueryUnescape rest) of
               (Some x, Some y, Some s) \<Rightarrow> Some (char_of (16 * x + y) # s)
             | _ \<Rightarrow> None)
        | _ \<Rightarrow> None)
     else map_option (Cons (if c = CHR ''+'' then CHR '' '' else c)) (QueryUnescape cs))"

section \<open>Query parameters\<close>

type_synonym Values = "(string \<times> string list) list"

fun upd_sorted :: "string \<Rightarrow> (string list \<Rightarrow> string list) \<Rightarrow> Values \<Rightarrow> Values" where
  "upd_sorted k f [] = [(k, f [])]"
| "upd_sorted k f ((k', vs) # m) =
    (if k = k' then (k, f vs) # m
     else if k < k' then (k, f []) # (k', vs) # m
     else (k', vs) # upd_sorted k f m)"

definition Values_Add :: "string \<Rightarrow> string \<Rightarrow> Values \<Rightarrow> Values" where
  "Values_Add k v m = upd_sorted k (\<lambda>vs. vs @ [v]) m"

definition Values_Set :: "string \<Rightarrow> string \<Rightarrow> Values \<Rightarrow> Values" where
  "Values_Set k v m = upd_sorted k (\<lambda>_. [v]) m"

definition Values_Get :: "string \<Rightarrow> Values \<Rightarrow> string" where
  "Values_Get k m = (case map_of m k of Some (v # _) \<Rightarrow> v | _ \<Rightarrow> '''')"

definition Values_Del :: "string \<Rightarrow> Values \<Rightarrow> Values" where
  "Values_Del k m = filter (\<lambda>(k', _). k' \<noteq> k) m"

definition encode_pair :: "string \<Rightarrow> string \<Rightarrow> string" where
  "encode_pair k v = QueryEscape k @ ''='' @ QueryEscape v"

definition Values_Encode :: "Values \<Rightarrow> string" where
  "Values_Encode m = join_with ''&'' (concat (map (\<lambda>(k, vs). map (encode_pair k) vs) m))"

text \<open>\<^verbatim>\<open>strings.Cut(s, "=")\<close>.\<close>

definition cut_eq :: "string \<Rightarrow> string \<times> string" where
  "cut_eq s = (takeWhile (\<lambda>c. c \<noteq> CHR ''='') s, drop 1 (dropWhile (\<lambda>c. c \<noteq> CHR ''='') s))"

definition parse_pair :: "string \<Rightarrow> Values \<Rightarrow> Values" where
  "parse_pair piece m =
    (if CHR '';'' \<in> set piece \<or> piece = '''' then m
     else let (k, v) = cut_eq piece in
       (case (QueryUnescape k, QueryUnescape v) of
          (Some k, Some v) \<Rightarrow> Values_Add k v m
        | _ \<Rightarrow> m))"

definition parse_query :: "string \<Rightarrow> Values" where
  "parse_query q = fold parse_pair (split_on (CHR ''&'') q) []"

section \<open>Signing and verifying\<close>

record URL =
  u_Scheme :: string
  u_Host :: string
  u_Path :: string
  u_RawQuery :: string

record url_lib =
  url_Parse :: "string \<Rightarrow> string + URL"
  url_String :: "URL \<Rightarrow> string"

type_synonym mac = "string \<Rightarrow> string \<Rightarrow> string"

definition hex_encode :: "string \<Rightarrow> string" where
  "hex_encode bs = concat (map (\<lambda>b. [hex_digit 97 (of_char b div 16), hex_digit 97 (of_char b mod 16)]) bs)"

fun hex_decode :: "string \<Rightarrow> string option" where
  "hex_decode [] = Some []"
| "hex_decode [a] = None"
| "hex_decode (a # b # s) =
    (case (unhex a, unhex b, hex_decode s) of
       (Some x, Some y, Some t) \<Rightarrow> Some (char_of (16 * x + y) # t)
     | _ \<Rightarrow> None)"

fun parse_digits :: "string \<Rightarrow> nat \<Rightarrow> nat option" where
  "parse_digits [] n = Some n"
| "parse_digits (c # cs) n =
    (let d = of_char c :: nat in
     if 48 \<le> d \<and> d \<le> 57 then parse_digits cs (10 * n + (d - 48)) else None)"

text \<open>\<^verbatim>\<open>strconv.ParseInt(s, 10, 64)\<close>.\<close>

definition ParseInt :: "string \<Rightarrow> int option" where
  "ParseInt s =
    (let (neg, ds) = (case s of c # cs \<Rightarrow> if c = CHR ''-'' then (True, cs) else if c = CHR ''+'' then (False, cs)
                                       else (False, s)
                     | [] \<Rightarrow> (False, []))
     in if ds = [] then None
        else case parse_digits ds 0 of
          None \<Rightarrow> None
        | Some n \<Rightarrow>
            (let i = if neg then - int n else int n
             in if - (2 ^ 63) \<le> i \<and> i < 2 ^ 63 then Some i else None))"

text \<open>\<^verbatim>\<open>Time.Unix()\<close> of a clock that counts microseconds.\<close>

definition unix :: "int \<Rightarrow> int" where
  "unix t = t div 1000000"

definition signed_text :: "URL \<Rightarrow> string" where
  "signed_text u = u_Path u @ ''?'' @ u_RawQuery u"

definition SignURL :: "url_lib \<Rightarrow> mac \<Rightarrow> int \<Rightarrow> string \<Rightarrow> string \<Rightarrow> int \<Rightarrow> string + string" where
  "SignURL lib mac now rawURL key expiry =
    (case url_Parse lib rawURL of
       Inl err \<Rightarrow> Inl (''parsing URL: '' @ err)
     | Inr u \<Rightarrow>
         (let expiresAt = unix (now + expiry);
              q = Values_Set ''expires'' (show_int expiresAt) (parse_query (u_RawQuery u));
              u1 = u\<lparr>u_RawQuery := Values_Encode q\<rparr>;
              sig = hex_encode (mac key (signed_text u1));
              q2 = Values_Set ''sig'' sig q
          in Inr (url_String lib (u1\<lparr>u_RawQuery := Values_Encode q2\<rparr>))))"

datatype url_error =
    ParsingURL string
  | MissingSig
  | MissingExpires
  | ParsingExpiry string
  | URLExpired
  | DecodingSignature string
  | InvalidSignature

definition VerifyURL :: "url_lib \<Rightarrow> mac \<Rightarrow> int \<Rightarrow> string \<Rightarrow> string \<Rightarrow> url_error + string" where
  "VerifyURL lib mac now signedURL key =
    (case url_Parse lib signedURL of
       Inl err \<Rightarrow> Inl (ParsingURL err)
     | Inr u \<Rightarrow>
         (let q = parse_query (u_RawQuery u);
              sigHex = Values_Get ''sig'' q;
              expiresStr = Values_Get ''expires'' q
          in if sigHex = '''' then Inl MissingSig
             else if expiresStr = '''' then Inl MissingExpires
             else case ParseInt expiresStr of
               None \<Rightarrow> Inl (ParsingExpiry expiresStr)
             | Some expires \<Rightarrow>
                 if unix now > expires then Inl URLExpired
                 else
                   (let q1 = Values_Del ''sig'' q;
                        u1 = u\<lparr>u_RawQuery := Values_Encode q1\<rparr>;
                        expected = mac key (signed_text u1)
                    in case hex_decode sigHex of
                         None \<Rightarrow> Inl (DecodingSignature sigHex)
                       | Some actual \<Rightarrow>
                           if expected \<noteq> actual then Inl InvalidSignature
                           else Inr (url_String lib (u1\<lparr>u_RawQuery := Values_Encode (Values_Del ''expires'' q1)\<rparr>)))))"

section \<open>Decoding what was encoded\<close>

lemma unhex_hex_digit:
  assumes "n < 16" and "l = 65 \<or> l = 97"
  shows "unhex (hex_digit l n) = Some n"
proof (cases "n < 10")
  case True
  then have "of_char (hex_digit l n) = 48 + n" by (simp add: hex_digit_def)
  with True show ?thesis by (simp add: unhex_def)
next
  case False
  then have "of_char (hex_digit l n) = l + n - 10" using assms by (auto simp: hex_digit_def)
  with False assms show ?thesis by (auto simp: unhex_def)
qed

lemma byte_split: "char_of (16 * (of_char c div 16) + of_char c mod 16 :: nat) = c"
  by (simp only: mult_div_mod_eq char_of_char)

lemma byte_bounds: "of_char c div 16 < (16 :: nat)" "of_char c mod 16 < (16 :: nat)"
  by (rule less_mult_imp_div_less) simp_all

lemma hex_decode_encode: "hex_decode (hex_encode bs) = Some bs"
  by (induction bs) (simp_all add: hex_encode_def unhex_hex_digit byte_bounds byte_split)

lemma QueryUnescape_escape_char: "QueryUnescape (escape_char c @ s) = map_option (Cons c) (QueryUnescape s)"
proof -
  consider "c = CHR '' ''" | "c \<noteq> CHR '' ''" "unreserved c" | "c \<noteq> CHR '' ''" "\<not> unreserved c" by blast
  then show ?thesis
  proof cases
    case 2
    then have "c \<noteq> CHR ''%''" "c \<noteq> CHR ''+''" by (auto simp: unreserved_def)
    with 2 show ?thesis by (simp add: escape_char_def)
  next
    case 3
    then show ?thesis
      by (cases "QueryUnescape s") (simp_all add: escape_char_def unhex_hex_digit byte_bounds byte_split)
  qed (simp add: escape_char_def)
qed

lemma QueryUnescape_escape: "QueryUnescape (QueryEscape s) = Some s"
  by (induction s) (simp_all add: QueryEscape_def QueryUnescape_escape_char)

definition safe_char :: "char \<Rightarrow> bool" where
  "safe_char c \<longleftrightarrow> unreserved c \<or> c = CHR ''+'' \<or> c = CHR ''%''"

lemma hex_digit_unreserved: "n < 16 \<Longrightarrow> unreserved (hex_digit 65 n)"
  by (cases "n < 10") (auto simp: unreserved_def hex_digit_def)

lemma QueryEscape_safe: "c \<in> set (QueryEscape s) \<Longrightarrow> safe_char c"
  by (auto simp: QueryEscape_def escape_char_def safe_char_def hex_digit_unreserved byte_bounds split: if_splits)

lemma unsafe_chars:
  "\<not> safe_char (CHR ''&'')" "\<not> safe_char (CHR ''='')" "\<not> safe_char (CHR '';'')" "\<not> safe_char (CHR ''?'')"
  by (simp_all add: safe_char_def unreserved_def)

lemma QueryEscape_avoids:
  "CHR ''&'' \<notin> set (QueryEscape s)" "CHR ''='' \<notin> set (QueryEscape s)"
  "CHR '';'' \<notin> set (QueryEscape s)" "CHR ''?'' \<notin> set (QueryEscape s)"
  using QueryEscape_safe unsafe_chars by blast+

lemma encode_pair_avoids:
  "CHR ''&'' \<notin> set (encode_pair k v)" "CHR '';'' \<notin> set (encode_pair k v)" "CHR ''?'' \<notin> set (encode_pair k v)"
  by (simp_all add: encode_pair_def QueryEscape_avoids)

lemma cut_eq_encode_pair: "cut_eq (encode_pair k v) = (QueryEscape k, QueryEscape v)"
  using QueryEscape_avoids(2)[of k] by (auto simp: cut_eq_def encode_pair_def takeWhile_append dropWhile_append)

lemma parse_pair_encode_pair: "parse_pair (encode_pair k v) m = Values_Add k v m"
  using encode_pair_avoids(2)[of k v]
  by (simp add: parse_pair_def cut_eq_encode_pair QueryUnescape_escape) (simp add: encode_pair_def)

text \<open>Parameters in the order of their keys, each with a value: what \<^verbatim>\<open>ParseQuery\<close> gives.\<close>

definition values_ok :: "Values \<Rightarrow> bool" where
  "values_ok m \<longleftrightarrow> sorted_wrt (\<lambda>a b. fst a < fst b) m \<and> (\<forall>kv \<in> set m. snd kv \<noteq> [])"

lemma upd_sorted_keys: "fst ` set (upd_sorted k f m) = insert k (fst ` set m)"
proof (induction m)
  case (Cons kv m)
  then show ?case by (cases kv) (simp add: insert_commute)
qed simp

lemma upd_sorted_ok:
  assumes "values_ok m" and "\<And>vs. f vs \<noteq> []"
  shows "values_ok (upd_sorted k f m)"
  using assms(1)
proof (induction m)
  case (Cons kv m)
  obtain k' vs where kv: "kv = (k', vs)" by (cases kv)
  have ok: "values_ok m" "\<forall>x \<in> fst ` set m. k' < x" "vs \<noteq> []" using Cons.prems kv by (auto simp: values_ok_def)
  consider "k = k'" | "k < k'" | "k' < k" by (rule linorder_cases[of k k']) auto
  then show ?case
  proof cases
    case 3
    then have "\<forall>x \<in> fst ` set (upd_sorted k f m). k' < x" using ok(2) upd_sorted_keys by auto
    with 3 Cons.IH[OF ok(1)] ok(3) kv show ?thesis by (auto simp: values_ok_def)
  qed (use Cons.prems kv assms(2) ok in \<open>auto simp: values_ok_def intro: less_trans\<close>)
qed (simp add: values_ok_def assms(2))

lemma parse_query_ok: "values_ok (parse_query q)"
proof -
  have "values_ok (fold parse_pair ps m)" if "values_ok m" for ps m
    using that
  proof (induction ps arbitrary: m)
    case (Cons p ps)
    have "values_ok (parse_pair p m)"
      using Cons.prems by (auto simp: parse_pair_def Values_Add_def upd_sorted_ok split: option.splits prod.splits)
    then show ?case using Cons.IH by simp
  qed simp
  moreover have "values_ok []" by (simp add: values_ok_def)
  ultimately show ?thesis unfolding parse_query_def by blast
qed

lemma upd_sorted_last:
  assumes "\<forall>x \<in> fst ` set m. x < k"
  shows "upd_sorted k f m = m @ [(k, f [])]" and "upd_sorted k f (m @ [(k, vs)]) = m @ [(k, f vs)]"
  using assms by (induction m) auto

lemma fold_add_values:
  assumes "\<forall>x \<in> fst ` set m. x < k" and "vs \<noteq> []"
  shows "fold (Values_Add k) vs m = m @ [(k, vs)]"
proof -
  have "fold (Values_Add k) vs (m @ [(k, us)]) = m @ [(k, us @ vs)]" for us vs
    by (induction vs arbitrary: us) (simp_all add: Values_Add_def upd_sorted_last[OF assms(1)])
  with assms show ?thesis
    by (cases vs) (simp_all add: Values_Add_def upd_sorted_last[OF assms(1)])
qed

lemma parse_pieces:
  assumes "values_ok (pre @ m)"
  shows "fold parse_pair (concat (map (\<lambda>(k, vs). map (encode_pair k) vs) m)) pre = pre @ m"
  using assms
proof (induction m arbitrary: pre)
  case (Cons kv m)
  obtain k vs where kv: "kv = (k, vs)" by (cases kv)
  have pre: "\<forall>x \<in> fst ` set pre. x < k" "vs \<noteq> []" using Cons.prems kv by (auto simp: values_ok_def sorted_wrt_append)
  have "fold parse_pair (map (encode_pair k) vs) pre = fold (Values_Add k) vs pre" for vs
    by (induction vs arbitrary: pre) (simp_all add: parse_pair_encode_pair)
  with fold_add_values[OF pre] Cons.IH[of "pre @ [(k, vs)]"] Cons.prems kv show ?case by simp
qed simp

lemma parse_query_Encode:
  assumes "values_ok m"
  shows "parse_query (Values_Encode m) = m"
proof (cases "m = []")
  case True
  then show ?thesis by (simp add: Values_Encode_def parse_query_def parse_pair_def)
next
  case False
  let ?ps = "concat (map (\<lambda>(k, vs). map (encode_pair k) vs) m)"
  from False assms have "?ps \<noteq> []" by (cases m) (auto simp: values_ok_def)
  then have "split_on (CHR ''&'') (Values_Encode m) = ?ps"
    unfolding Values_Encode_def by (rule split_join) (auto simp: encode_pair_avoids)
  with parse_pieces[of "[]" m] assms show ?thesis by (simp add: parse_query_def)
qed

text \<open>The bytes a query is made of.\<close>

definition query_char :: "char \<Rightarrow> bool" where
  "query_char c \<longleftrightarrow> safe_char c \<or> c = CHR ''&'' \<or> c = CHR ''=''"

lemma all_pieces:
  "(\<And>k v. P (encode_pair k v)) \<Longrightarrow> \<forall>w \<in> set (concat (map (\<lambda>(k, vs). map (encode_pair k) vs) m)). P w"
  by auto

lemma Encode_query_chars: "list_all query_char (Values_Encode m)"
proof -
  have join: "list_all query_char (join_with ''&'' ws)" if "\<forall>w \<in> set ws. list_all query_char w" for ws
    using that by (induction "''&''" ws rule: join_with.induct) (auto simp: query_char_def)
  have pair: "list_all query_char (encode_pair k v)" for k v
    using QueryEscape_safe by (auto simp: encode_pair_def list_all_iff query_char_def)
  show ?thesis unfolding Values_Encode_def by (rule join, rule all_pieces, rule pair)
qed

lemma Encode_avoids: "CHR ''?'' \<notin> set (Values_Encode m)"
  using Encode_query_chars[of m] unsafe_chars(4) by (auto simp: list_all_iff query_char_def)

lemma show_nat_digit: "c \<in> set (show_nat n) \<Longrightarrow> 48 \<le> (of_char c :: nat) \<and> (of_char c :: nat) \<le> 57"
proof (induction n rule: show_nat.induct)
  case (1 n)
  then show ?case by (cases "n < 10") (subst (asm) show_nat.simps; auto)+
qed

lemma parse_digits_append:
  "parse_digits (a @ b) n = (case parse_digits a n of None \<Rightarrow> None | Some k \<Rightarrow> parse_digits b k)"
  by (induction a arbitrary: n) (simp_all add: Let_def)

lemma parse_digits_show_nat: "parse_digits (show_nat n) 0 = Some n"
proof (induction n rule: show_nat.induct)
  case (1 n)
  show ?case
  proof (cases "n < 10")
    case True
    then show ?thesis by (subst show_nat.simps) simp
  next
    case False
    have "of_char (char_of (48 + n mod 10) :: char) = 48 + n mod 10" by simp
    with 1 False show ?thesis by (subst show_nat.simps) (simp add: parse_digits_append Let_def)
  qed
qed

lemma ParseInt_show_int:
  assumes "- (2 ^ 63) \<le> i" and "i < 2 ^ 63"
  shows "ParseInt (show_int i) = Some i"
proof (cases "i < 0")
  case True
  with assms show ?thesis by (simp add: ParseInt_def show_int_def parse_digits_show_nat)
next
  case False
  obtain c cs where c: "show_nat (nat i) = c # cs" by (cases "show_nat (nat i)") auto
  with show_nat_digit[of c "nat i"] have "c \<noteq> CHR ''-''" "c \<noteq> CHR ''+''" by auto
  with c False assms parse_digits_show_nat[of "nat i"] show ?thesis by (simp add: ParseInt_def show_int_def)
qed

lemma map_of_upd_sorted:
  "map_of (upd_sorted k f m) k' = (if k' = k then Some (f (case find (\<lambda>e. fst e = k) m of None \<Rightarrow> [] | Some e \<Rightarrow> snd e))
     else map_of m k')"
  if "values_ok m"
  using that
proof (induction m)
  case (Cons kv m)
  obtain k0 vs where kv: "kv = (k0, vs)" by (cases kv)
  have "find (\<lambda>e. fst e = k) m = None" if "k < k0"
    using Cons.prems kv that by (force simp: values_ok_def find_None_iff)
  with Cons kv show ?case by (auto simp: values_ok_def)
qed simp

lemma Values_Get_Set:
  "values_ok m \<Longrightarrow> Values_Get k (Values_Set k v m) = v"
  "values_ok m \<Longrightarrow> k' \<noteq> k \<Longrightarrow> Values_Get k' (Values_Set k v m) = Values_Get k' m"
  by (simp_all add: Values_Get_def Values_Set_def map_of_upd_sorted)

lemma Values_Set_ok: "values_ok m \<Longrightarrow> values_ok (Values_Set k v m)"
  by (simp add: Values_Set_def upd_sorted_ok)

lemma Values_Del_ok: "values_ok m \<Longrightarrow> values_ok (Values_Del k m)"
  by (auto simp: values_ok_def Values_Del_def sorted_wrt_filter)

lemma Values_Del_Set: "Values_Del k (Values_Set k v m) = Values_Del k m"
proof (induction m)
  case (Cons kv m)
  then show ?case by (cases kv) (auto simp: Values_Del_def Values_Set_def)
qed (simp add: Values_Del_def Values_Set_def)

lemma Values_Del_fresh: "k \<notin> fst ` set m \<Longrightarrow> Values_Del k m = m"
  by (force simp: Values_Del_def filter_id_conv)

lemma Values_Set_keys: "fst ` set (Values_Set k v m) = insert k (fst ` set m)"
  by (simp add: Values_Set_def upd_sorted_keys)

lemma Values_Get_Del: "k' \<noteq> k \<Longrightarrow> Values_Get k' (Values_Del k m) = Values_Get k' m"
proof -
  assume "k' \<noteq> k"
  then have "map_of (Values_Del k m) k' = map_of m k'" by (induction m) (auto simp: Values_Del_def)
  then show ?thesis by (simp add: Values_Get_def)
qed

lemma split_last_unique:
  "a @ [c] @ b = a' @ [c] @ b' \<Longrightarrow> c \<notin> set b \<Longrightarrow> c \<notin> set b' \<Longrightarrow> a = a' \<and> b = b'"
  by (auto simp: append_eq_append_conv2 Cons_eq_append_conv append_eq_Cons_conv)

lemmas values_laws = Values_Get_Set Values_Set_ok Values_Del_ok Values_Del_Set Values_Del_fresh Values_Set_keys

lemma verify_signed:
  assumes raw: "url_Parse lib raw = Inr u"
    and lib: "\<And>q. list_all query_char q \<Longrightarrow>
      url_Parse lib (url_String lib (u\<lparr>u_RawQuery := q\<rparr>)) = Inr (u\<lparr>u_RawQuery := q\<rparr>)"
    and fresh: "''sig'' \<notin> fst ` set (parse_query (u_RawQuery u))" "''expires'' \<notin> fst ` set (parse_query (u_RawQuery u))"
    and "\<And>s. mac key s \<noteq> []"
    and range: "- (2 ^ 63) \<le> unix (now + expiry)" "unix (now + expiry) < 2 ^ 63"
  shows "\<exists>s. SignURL lib mac now raw key expiry = Inr s \<and>
    VerifyURL lib mac later s key =
      (if unix later \<le> unix (now + expiry)
       then Inr (url_String lib (u\<lparr>u_RawQuery := Values_Encode (parse_query (u_RawQuery u))\<rparr>))
       else Inl URLExpired)"
proof -
  let ?m = "parse_query (u_RawQuery u)" and ?e = "unix (now + expiry)"
  define q where "q = Values_Set ''expires'' (show_int ?e) ?m"
  define sig where "sig = mac key (signed_text (u\<lparr>u_RawQuery := Values_Encode q\<rparr>))"
  define q2 where "q2 = Values_Set ''sig'' (hex_encode sig) q"
  have ok: "values_ok ?m" "values_ok q" "values_ok q2" by (simp_all add: parse_query_ok q_def q2_def values_laws)
  have sign: "SignURL lib mac now raw key expiry = Inr (url_String lib (u\<lparr>u_RawQuery := Values_Encode q2\<rparr>))"
    by (simp add: SignURL_def raw q_def q2_def sig_def Let_def)
  have parsed: "url_Parse lib (url_String lib (u\<lparr>u_RawQuery := Values_Encode q2\<rparr>)) =
      Inr (u\<lparr>u_RawQuery := Values_Encode q2\<rparr>)" by (rule lib[OF Encode_query_chars])
  have "sig \<noteq> []" using assms(5) by (simp add: sig_def)
  then have hex: "hex_encode sig \<noteq> []" using hex_decode_encode[of sig] by (auto simp: hex_encode_def)
  have get: "Values_Get ''sig'' q2 = hex_encode sig" "Values_Get ''expires'' q2 = show_int ?e"
    using ok by (simp_all add: q2_def q_def values_laws)
  have "''sig'' \<notin> fst ` set q" using fresh by (simp add: q_def values_laws)
  then have del: "Values_Del ''sig'' q2 = q" "Values_Del ''expires'' q = ?m"
    using fresh by (simp_all add: q2_def q_def values_laws)
  show ?thesis
    unfolding sign VerifyURL_def
    using parsed parse_query_Encode[OF ok(3)] get del hex hex_decode_encode[of sig] ParseInt_show_int[OF range]
    by (auto simp: sig_def Let_def)
qed

section \<open>Properties\<close>

definition plain_lib :: url_lib where
  "plain_lib = \<lparr>
     url_Parse = (\<lambda>s. if take 7 s = ''http://'' then
        (let rest = drop 7 s; tail = dropWhile (\<lambda>c. c \<noteq> CHR ''/'') rest in
         Inr \<lparr>u_Scheme = ''http'', u_Host = takeWhile (\<lambda>c. c \<noteq> CHR ''/'') rest,
              u_Path = takeWhile (\<lambda>c. c \<noteq> CHR ''?'') tail,
              u_RawQuery = drop 1 (dropWhile (\<lambda>c. c \<noteq> CHR ''?'') tail)\<rparr>)
       else Inl ''missing protocol scheme''),
     url_String = (\<lambda>u. u_Scheme u @ ''://'' @ u_Host u @ u_Path u @
        (if u_RawQuery u = '''' then '''' else CHR ''?'' # u_RawQuery u))\<rparr>"

definition a_url :: URL where
  "a_url = \<lparr>u_Scheme = ''http'', u_Host = ''h'', u_Path = ''/v1/sandboxes/sb-1/files'', u_RawQuery = ''''\<rparr>"

lemma a_url_simps:
  "url_Parse plain_lib ''http://h/v1/sandboxes/sb-1/files'' = Inr a_url"
  "url_Parse plain_lib (url_String plain_lib (a_url\<lparr>u_RawQuery := q\<rparr>)) = Inr (a_url\<lparr>u_RawQuery := q\<rparr>)"
  "parse_query (u_RawQuery a_url) = []"
  by (simp_all add: plain_lib_def a_url_def parse_query_def parse_pair_def Let_def)

text \<open>Verifying undoes signing: a URL signed for some time verifies until that time, with the
  signature and expiry removed again and the other parameters in their canonical encoding, and is refused
  as expired afterwards. Of the library it needs that a URL with a well-formed query parses back from its
  text, of the keyed hash that its output is 32 bytes.\<close>

theorem VerifyURL_SignURL:
  assumes raw: "url_Parse lib raw = Inr u"
    and lib: "\<And>q. list_all query_char q \<Longrightarrow>
      url_Parse lib (url_String lib (u\<lparr>u_RawQuery := q\<rparr>)) = Inr (u\<lparr>u_RawQuery := q\<rparr>)"
    and fresh: "''sig'' \<notin> fst ` set (parse_query (u_RawQuery u))" "''expires'' \<notin> fst ` set (parse_query (u_RawQuery u))"
    and "\<And>s. length (mac key s) = 32"
    and range: "- (2 ^ 63) \<le> unix (now + expiry)" "unix (now + expiry) < 2 ^ 63"
  shows "\<exists>s. SignURL lib mac now raw key expiry = Inr s \<and>
    VerifyURL lib mac later s key =
      (if unix later \<le> unix (now + expiry)
       then Inr (url_String lib (u\<lparr>u_RawQuery := Values_Encode (parse_query (u_RawQuery u))\<rparr>))
       else Inl URLExpired)"
proof -
  have mac: "mac key s \<noteq> []" for s using assms(5)[of s] by auto
  show ?thesis by (intro verify_signed raw lib fresh mac range)
qed

theorem VerifyURL_SignURL_witness:
  "\<exists>s. SignURL plain_lib (\<lambda>k t. replicate 32 CHR ''x'') 0 ''http://h/v1/sandboxes/sb-1/files'' ''key'' 60000000 = Inr s \<and>
    VerifyURL plain_lib (\<lambda>k t. replicate 32 CHR ''x'') 60000000 s ''key'' = Inr ''http://h/v1/sandboxes/sb-1/files''"
proof -
  have "url_String plain_lib (a_url\<lparr>u_RawQuery := Values_Encode (parse_query (u_RawQuery a_url))\<rparr>) =
      ''http://h/v1/sandboxes/sb-1/files''"
    by (simp add: a_url_simps Values_Encode_def) (simp add: plain_lib_def a_url_def)
  then show ?thesis
    using VerifyURL_SignURL[OF a_url_simps(1) a_url_simps(2), where mac = "\<lambda>k t. replicate 32 CHR ''x''" and now = 0
        and expiry = 60000000 and later = 60000000 and key = "''key''"]
    by (simp add: a_url_simps unix_def)
qed



end
