(* ===== verification/Api.thy ===== *)
theory Api
  imports Reconciler Signed_URL
begin

text \<open>
  The HTTP handlers of the control plane, \<^verbatim>\<open>control/internal/api\<close>, as programs on the same world as the
  services they call. A request is given by what a handler reads of it: the path and query parameters as
  text and the body as a JSON document (\<^verbatim>\<open>None\<close> where the bytes are not JSON). UUID parsing (\<^verbatim>\<open>google/uuid\<close>), IP
  address parsing, time formatting and the verbs of \<^verbatim>\<open>fmt\<close> for quoted text and four decimals are the fields of
  \<open>api_lib\<close>; fresh identifiers, tokens and clock readings are arguments. A response is a JSON document or plain
  text. Logging is left out.
\<close>

section \<open>Responses\<close>

record response =
  rp_Status :: int
  rp_Location :: "string option"
  rp_Body :: "json option"
  rp_Text :: string

record api_lib =
  al_ParseUUID :: "string \<Rightarrow> UUID option"
  al_ParseAddr :: "string \<Rightarrow> Addr option"
  al_RFC3339 :: "timestamp \<Rightarrow> string"
  al_seconds :: "timestamp \<Rightarrow> string"
  al_error_text :: "lc_error \<Rightarrow> string"
  al_Quote :: "string \<Rightarrow> string"
  al_Fixed4 :: "rat \<Rightarrow> string"

definition status_only :: "int \<Rightarrow> response" where
  "status_only s = \<lparr>rp_Status = s, rp_Location = None, rp_Body = None, rp_Text = []\<rparr>"

definition writeJSON :: "int \<Rightarrow> json \<Rightarrow> response" where
  "writeJSON s v = \<lparr>rp_Status = s, rp_Location = None, rp_Body = Some v, rp_Text = []\<rparr>"

definition writeText :: "int \<Rightarrow> string \<Rightarrow> response" where
  "writeText s txt = \<lparr>rp_Status = s, rp_Location = None, rp_Body = None, rp_Text = txt\<rparr>"

text \<open>A field with \<^verbatim>\<open>omitempty\<close>.\<close>

definition omit_empty :: "string \<Rightarrow> string \<Rightarrow> (string \<times> json) list" where
  "omit_empty k s = (if s = '''' then [] else [(k, JStr s)])"

definition omit_nil :: "string \<Rightarrow> json option \<Rightarrow> (string \<times> json) list" where
  "omit_nil k v = (case v of None \<Rightarrow> [] | Some j \<Rightarrow> [(k, j)])"

definition WriteProblem :: "int \<Rightarrow> string \<Rightarrow> string \<Rightarrow> string \<Rightarrow> response" where
  "WriteProblem s problemType title detail = writeJSON s (JObj
     ([(''type'', JStr problemType), (''title'', JStr title), (''status'', JNum (of_int s))] @
      omit_empty ''detail'' detail))"

definition NotFound :: "string \<Rightarrow> response" where
  "NotFound detail = WriteProblem 404 ''urn:forge:error:not-found'' ''Not Found'' detail"

definition Unauthorized :: response where
  "Unauthorized = WriteProblem 401 ''urn:forge:error:unauthorized'' ''Unauthorized'' ''missing or invalid bearer token''"

definition Conflict :: "string \<Rightarrow> response" where
  "Conflict detail = WriteProblem 409 ''urn:forge:error:conflict'' ''Conflict'' detail"

definition Bad_Request :: "string \<Rightarrow> response" where
  "Bad_Request detail = WriteProblem 400 ''urn:forge:error:bad-request'' ''Bad Request'' detail"

definition ServiceUnavailable :: "string \<Rightarrow> response" where
  "ServiceUnavailable detail =
    WriteProblem 503 ''urn:forge:error:service-unavailable'' ''Service Unavailable'' detail"

definition InternalError :: "string \<Rightarrow> response" where
  "InternalError detail = WriteProblem 500 ''urn:forge:error:internal'' ''Internal Server Error'' detail"

abbreviation answer :: "response \<Rightarrow> (world, response) state" where
  "answer \<equiv> State_Monad.return"

text \<open>A statement whose error is answered.\<close>

definition query_or :: "'a query \<Rightarrow> (db_error \<Rightarrow> response) \<Rightarrow> ('a \<Rightarrow> (world, response) state) \<Rightarrow> (world, response) state" where
  "query_or q err k = do {
     r \<leftarrow> stmt q;
     case r of Inl e \<Rightarrow> answer (err e) | Inr x \<Rightarrow> k x }"

section \<open>Authentication\<close>

definition BearerAuth :: "string \<Rightarrow> string \<Rightarrow> (world, response) state \<Rightarrow> (world, response) state" where
  "BearerAuth token auth next =
    (if auth = '''' then answer Unauthorized
     else if \<not> prefix ''Bearer '' auth then answer Unauthorized
     else if trim_prefix ''Bearer '' auth \<noteq> token then answer Unauthorized
     else next)"

section \<open>Sandboxes\<close>

definition app_char :: "char \<Rightarrow> bool" where
  "app_char c \<longleftrightarrow> (let n = of_char c :: nat in 97 \<le> n \<and> n \<le> 122 \<or> 48 \<le> n \<and> n \<le> 57)"

text \<open>\<^verbatim>\<open>^[a-z0-9][a-z0-9-]{1,62}$\<close>\<close>

definition appNameRegex :: "string \<Rightarrow> bool" where
  "appNameRegex s \<longleftrightarrow> (case s of
     [] \<Rightarrow> False
   | c # cs \<Rightarrow> app_char c \<and> list_all (\<lambda>d. app_char d \<or> d = CHR ''-'') cs \<and> 1 \<le> length cs \<and> length cs \<le> 62)"

record createSandboxRequest =
  cr_AppName :: string
  cr_UserID :: string
  cr_Image :: string
  cr_Resources :: "Resources option"
  cr_Env :: env
  cr_IdleTimeoutSeconds :: "int32 option"
  cr_Metadata :: "json option"

definition decode_pointer :: "(json \<Rightarrow> 'a \<Rightarrow> 'a \<times> bool) \<Rightarrow> 'a \<Rightarrow> json \<Rightarrow> 'a option \<Rightarrow> 'a option \<times> bool" where
  "decode_pointer d zero j old =
    (if j = JNull then (None, True)
     else let (x, ok) = d j (case old of None \<Rightarrow> zero | Some x \<Rightarrow> x) in (Some x, ok))"

definition decode_into_resources :: "json \<Rightarrow> Resources \<Rightarrow> Resources \<times> bool" where
  "decode_into_resources j old = (let (ms, ok) = object_members j; (r, ok') = decode_members ms old in (r, ok \<and> ok'))"

definition decode_object :: "json \<Rightarrow> json option \<Rightarrow> json option \<times> bool" where
  "decode_object j old = (case j of JNull \<Rightarrow> (None, True) | JObj ms \<Rightarrow> (Some j, True) | _ \<Rightarrow> (old, False))"

definition decode_create :: "json option \<Rightarrow> createSandboxRequest option" where
  "decode_create b = (case b of None \<Rightarrow> None | Some j \<Rightarrow>
    (let (ms, ok) = object_members j;
         (app, ok1) = decode_field ''app_name'' decode_string ms '''';
         (user, ok2) = decode_field ''user_id'' decode_string ms '''';
         (img, ok3) = decode_field ''image'' decode_string ms '''';
         (res, ok4) = decode_field ''resources'' (decode_pointer decode_into_resources no_resources) ms None;
         (ev, ok5) = decode_field ''env'' decode_env_map ms None;
         (idle, ok6) = decode_field ''idle_timeout_seconds'' (decode_pointer decode_int32 0) ms None;
         (meta, ok7) = decode_field ''metadata'' decode_object ms None
     in if ok \<and> ok1 \<and> ok2 \<and> ok3 \<and> ok4 \<and> ok5 \<and> ok6 \<and> ok7
        then Some \<lparr>cr_AppName = app, cr_UserID = user, cr_Image = img, cr_Resources = res, cr_Env = ev,
                   cr_IdleTimeoutSeconds = idle, cr_Metadata = meta\<rparr>
        else None))"

definition sandboxResultToResponse :: "SandboxResult \<Rightarrow> json" where
  "sandboxResultToResponse r = JObj
    ([(''id'', JStr (sr_ID r)), (''app_name'', JStr (sr_AppName r)), (''user_id'', JStr (sr_UserID r))] @
     omit_nil ''node_id'' (map_option JStr (sr_NodeID r)) @
     [(''image'', JStr (sr_Image r)), (''state'', JStr (SandboxState_string (sr_State r))), (''url'', JStr (sr_URL r)),
      (''failure_count'', JNum 0)])"

definition default_resources :: "Resources option \<Rightarrow> Resources" where
  "default_resources r = (case r of
     None \<Rightarrow> \<lparr>res_CPUCores = 1 / 2, res_MemoryMB = 512\<rparr>
   | Some q \<Rightarrow> \<lparr>res_CPUCores = (if res_CPUCores q > 0 then res_CPUCores q else 1 / 2),
               res_MemoryMB = (if int32_less 0 (res_MemoryMB q) then res_MemoryMB q else 512)\<rparr>)"

definition handleCreateSandbox ::
    "LifecycleService option \<Rightarrow> UUID \<Rightarrow> UUID \<Rightarrow> json option \<Rightarrow> (world, response) state" where
  "handleCreateSandbox lifecycle newID cmdID body =
    (case lifecycle of
       None \<Rightarrow> answer (ServiceUnavailable ''sandbox service not configured'')
     | Some _ \<Rightarrow>
       (case decode_create body of
          None \<Rightarrow> answer (Bad_Request ''invalid JSON body'')
        | Some req \<Rightarrow>
            if cr_AppName req = '''' then answer (Bad_Request ''app_name is required'')
            else if \<not> appNameRegex (cr_AppName req) then
              answer (Bad_Request ''app_name must match pattern ^[a-z0-9][a-z0-9-]{1,62}$'')
            else if cr_UserID req = '''' then answer (Bad_Request ''user_id is required'')
            else if cr_Image req = '''' then answer (Bad_Request ''image is required'')
            else do {
              result \<leftarrow> CreateSandbox newID cmdID
                \<lparr>cq_AppName = cr_AppName req, cq_UserID = cr_UserID req, cq_Image = cr_Image req,
                 cq_Resources = default_resources (cr_Resources req), cq_Env = cr_Env req,
                 cq_IdleTimeoutSeconds = (case cr_IdleTimeoutSeconds req of None \<Rightarrow> 1800 | Some n \<Rightarrow> n),
                 cq_Metadata = cr_Metadata req\<rparr>;
              answer (case result of
                Inl ErrConflict \<Rightarrow> Conflict ''app_name already exists''
              | Inl ErrNoCapacity \<Rightarrow> ServiceUnavailable ''no nodes available with sufficient capacity''
              | Inl _ \<Rightarrow> InternalError ''failed to create sandbox''
              | Inr r \<Rightarrow> writeJSON 201 (sandboxResultToResponse r)) }))"

definition sandboxToResponse :: "api_lib \<Rightarrow> Sandbox \<Rightarrow> string \<Rightarrow> json" where
  "sandboxToResponse lib s verified = JObj
    ([(''id'', JStr (sb_ID s)), (''app_name'', JStr (sb_AppName s)), (''user_id'', JStr (sb_UserID s))] @
     omit_nil ''node_id'' (map_option JStr (sb_NodeID s)) @
     omit_nil ''container_id'' (map_option JStr (sb_ContainerID s)) @
     [(''image'', JStr (sb_Image s)), (''state'', JStr (SandboxState_string (sb_State s))),
      (''url'', JStr (''https://'' @ sb_AppName s @ ''.myappx.live'')), (''resources'', sb_Resources s)] @
     omit_nil ''host_port'' (map_option (\<lambda>p. JNum (of_int (sint p))) (sb_HostPort s)) @
     omit_empty ''created_at'' (al_seconds lib (sb_CreatedAt s)) @
     omit_empty ''updated_at'' (al_seconds lib (sb_UpdatedAt s)) @
     omit_empty ''last_active_at'' (al_seconds lib (sb_LastActiveAt s)) @
     [(''failure_count'', JNum (of_int (sint (sb_FailureCount s)))), (''metadata'', sb_Metadata s)] @
     omit_empty ''verified_at'' verified)"

definition handleGetSandbox ::
    "api_lib \<Rightarrow> bool \<Rightarrow> (string \<Rightarrow> bool \<Rightarrow> (world, fresh_error + SandboxRow \<times> timestamp) state) option \<Rightarrow> string \<Rightarrow> bool \<Rightarrow>
      (world, response) state" where
  "handleGetSandbox lib sandboxReader freshness idStr forceRefresh =
    (let found = (\<lambda>sandbox.
       (case freshness of
          Some fresh \<Rightarrow>
            if sb_AppName sandbox \<noteq> '''' then do {
              r \<leftarrow> fresh (sb_AppName sandbox) forceRefresh;
              answer (case r of
                Inl ErrSandboxNotFound \<Rightarrow> NotFound ''sandbox not found''
              | Inl (StoreErr _) \<Rightarrow> writeJSON 200 (sandboxToResponse lib sandbox (al_RFC3339 lib (sb_VerifiedAt sandbox)))
              | Inr (_, refreshedAt) \<Rightarrow> writeJSON 200 (sandboxToResponse lib sandbox (al_RFC3339 lib refreshedAt))) }
            else answer (writeJSON 200 (sandboxToResponse lib sandbox (al_RFC3339 lib (sb_VerifiedAt sandbox))))
        | None \<Rightarrow> answer (writeJSON 200 (sandboxToResponse lib sandbox (al_RFC3339 lib (sb_VerifiedAt sandbox))))))
     in if \<not> sandboxReader then answer (ServiceUnavailable ''sandbox service not configured'')
        else if prefix ''app:'' idStr then
          query_or (GetSandboxByAppName (trim_prefix ''app:'' idStr)) (\<lambda>_. NotFound ''sandbox not found'') found
        else case al_ParseUUID lib idStr of
          None \<Rightarrow> answer (Bad_Request ''invalid sandbox ID: must be a valid UUID or app:{name}'')
        | Some i \<Rightarrow> query_or (GetSandbox i) (\<lambda>_. NotFound ''sandbox not found'') found)"

text \<open>The \<^verbatim>\<open>limit\<close> parameter: a default, a positive integer, at most a maximum.\<close>

definition parse_limit :: "int \<Rightarrow> int \<Rightarrow> string \<Rightarrow> int32 option" where
  "parse_limit dflt maximum s =
    (if s = '''' then Some (of_int dflt)
     else case ParseInt s of
       None \<Rightarrow> None
     | Some l \<Rightarrow> if l < 1 then None else Some (of_int (min l maximum)))"

definition sandbox_list :: "api_lib \<Rightarrow> Sandbox list \<Rightarrow> response" where
  "sandbox_list lib rows = writeJSON 200 (JObj
    ((''sandboxes'', JArr (map (\<lambda>s. sandboxToResponse lib s (al_RFC3339 lib (sb_VerifiedAt s))) rows)) #
     (if rows = [] then [] else omit_empty ''fleet_verified_at'' (al_RFC3339 lib (Min (set (map sb_VerifiedAt rows)))))))"

definition handleListSandboxes :: "api_lib \<Rightarrow> bool \<Rightarrow> Values \<Rightarrow> (world, response) state" where
  "handleListSandboxes lib sandboxReader q =
    (let run = (\<lambda>query. query_or query (\<lambda>_. InternalError ''failed to list sandboxes'') (\<lambda>rows. answer (sandbox_list lib rows)))
     in if \<not> sandboxReader then answer (ServiceUnavailable ''sandbox service not configured'')
        else if Values_Get ''app_name'' q \<noteq> '''' then
          query_or (GetSandboxByAppName (Values_Get ''app_name'' q)) (\<lambda>_. sandbox_list lib []) (\<lambda>sb. answer (sandbox_list lib [sb]))
        else if Values_Get ''user_id'' q \<noteq> '''' then run (ListSandboxesByUser (Values_Get ''user_id'' q))
        else if Values_Get ''state'' q \<noteq> '''' then run (ListSandboxesByState (SandboxState_of (Values_Get ''state'' q)))
        else if Values_Get ''node_id'' q \<noteq> '''' then
          (case al_ParseUUID lib (Values_Get ''node_id'' q) of
             None \<Rightarrow> answer (Bad_Request ''invalid node_id: must be a valid UUID'')
           | Some n \<Rightarrow> run (ListSandboxesByNode n))
        else case parse_limit 50 500 (Values_Get ''limit'' q) of
          None \<Rightarrow> answer (Bad_Request ''limit must be a positive integer'')
        | Some limit \<Rightarrow> run (ListSandboxes limit))"

text \<open>The three handlers that call the lifecycle service for a sandbox differ in the call, the text and in what
  they make of \<^verbatim>\<open>ErrInvalidState\<close>.\<close>

definition lifecycle_call ::
    "api_lib \<Rightarrow> LifecycleService option \<Rightarrow> (UUID \<Rightarrow> (world, lc_error + unit) state) \<Rightarrow> bool \<Rightarrow> string \<Rightarrow> string \<Rightarrow>
      (world, response) state" where
  "lifecycle_call lib lifecycle call conflicts detail idStr =
    (case lifecycle of
       None \<Rightarrow> answer (ServiceUnavailable ''sandbox service not configured'')
     | Some _ \<Rightarrow>
       (case al_ParseUUID lib idStr of
          None \<Rightarrow> answer (Bad_Request ''invalid sandbox ID: must be a valid UUID'')
        | Some i \<Rightarrow> do {
            r \<leftarrow> call i;
            answer (case r of
              Inr _ \<Rightarrow> status_only 202
            | Inl ErrNotFound \<Rightarrow> NotFound ''sandbox not found''
            | Inl e \<Rightarrow>
                (case e of
                   ErrInvalidState _ \<Rightarrow>
                     if conflicts then WriteProblem 409 ''urn:forge:error:conflict'' ''Conflict'' (al_error_text lib e)
                     else InternalError detail
                 | _ \<Rightarrow> InternalError detail)) }))"

definition handleDestroySandbox :: "api_lib \<Rightarrow> LifecycleService option \<Rightarrow> UUID \<Rightarrow> string \<Rightarrow> (world, response) state" where
  "handleDestroySandbox lib lc cmdID = lifecycle_call lib lc (DestroySandbox cmdID) False ''failed to destroy sandbox''"

definition handleRestartSandbox :: "api_lib \<Rightarrow> LifecycleService option \<Rightarrow> UUID \<Rightarrow> string \<Rightarrow> (world, response) state" where
  "handleRestartSandbox lib lc cmdID = lifecycle_call lib lc (RestartSandbox cmdID) False ''failed to restart sandbox''"

definition handleWakeSandbox :: "api_lib \<Rightarrow> LifecycleService option \<Rightarrow> UUID \<Rightarrow> string \<Rightarrow> (world, response) state" where
  "handleWakeSandbox lib lc cmdID = lifecycle_call lib lc (WakeSandbox cmdID) True ''failed to wake sandbox''"

section \<open>Nodes\<close>

record registerRequest =
  rg_Hostname :: string
  rg_TailscaleIP :: string
  rg_AgentListenPort :: int32
  rg_CapacityMb :: int32
  rg_CapacityCPU :: rat
  rg_AgentVersion :: string
  rg_Metadata :: "json option"

definition decode_raw :: "json \<Rightarrow> json option \<Rightarrow> json option \<times> bool" where
  "decode_raw j old = (if j = JNull then (None, True) else (Some j, True))"

definition decode_register :: "json option \<Rightarrow> registerRequest option" where
  "decode_register b = (case b of None \<Rightarrow> None | Some j \<Rightarrow>
    (let (ms, ok) = object_members j;
         (host, ok1) = decode_field ''hostname'' decode_string ms '''';
         (ip, ok2) = decode_field ''tailscale_ip'' decode_string ms '''';
         (lport, ok3) = decode_field ''agent_listen_port'' decode_int32 ms 0;
         (mb, ok4) = decode_field ''capacity_mb'' decode_int32 ms 0;
         (cpu, ok5) = decode_field ''capacity_cpu'' decode_float ms 0;
         (ver, ok6) = decode_field ''agent_version'' decode_string ms '''';
         (meta, ok7) = decode_field ''metadata'' decode_raw ms None
     in if ok \<and> ok1 \<and> ok2 \<and> ok3 \<and> ok4 \<and> ok5 \<and> ok6 \<and> ok7
        then Some \<lparr>rg_Hostname = host, rg_TailscaleIP = ip, rg_AgentListenPort = lport, rg_CapacityMb = mb,
                   rg_CapacityCPU = cpu, rg_AgentVersion = ver, rg_Metadata = meta\<rparr>
        else None))"

definition registered :: "int \<Rightarrow> UUID \<Rightarrow> string \<Rightarrow> response" where
  "registered interval i token = writeJSON 201 (JObj
     [(''node_id'', JStr i), (''agent_token'', JStr token), (''heartbeat_interval_seconds'', JNum (of_int interval))])"

text \<open>Three decimals, truncated toward zero. (A value outside the range of \<^verbatim>\<open>int64\<close> overflows the column, whatever it is
  converted to.)\<close>

definition float64ToNumeric :: "rat \<Rightarrow> rat" where
  "float64ToNumeric f = (let q = f * 1000 in of_int (if q < 0 then \<lceil>q\<rceil> else \<lfloor>q\<rfloor>) / 1000)"

text \<open>\<^verbatim>\<open>storeAdapter.CreateNode\<close>: the insertion and the token are two statements.\<close>

definition create_node :: "CreateNodeParams \<Rightarrow> string \<Rightarrow> (unit \<Rightarrow> (world, response) state) \<Rightarrow> (world, response) state" where
  "create_node arg token k =
    query_or (CreateNode (arg\<lparr>cnp_CapacityCpu := float64ToNumeric (cnp_CapacityCpu arg)\<rparr>)) (\<lambda>_. InternalError ''failed to create node'') (\<lambda>_.
      if token \<noteq> '''' then
        query_or (UpdateNodeToken token (cnp_AgentVersion arg) (cnp_ID arg)) (\<lambda>_. InternalError ''failed to create node'') k
      else k ())"

text \<open>\<open>newToken\<close> is \<^verbatim>\<open>None\<close> where the random source fails.\<close>

definition handleRegisterNode ::
    "api_lib \<Rightarrow> int \<Rightarrow> UUID \<Rightarrow> string option \<Rightarrow> json option \<Rightarrow> (world, response) state" where
  "handleRegisterNode lib interval newID newToken body =
    (case decode_register body of
       None \<Rightarrow> answer (Bad_Request ''invalid JSON body'')
     | Some req \<Rightarrow>
         if rg_Hostname req = '''' then answer (Bad_Request ''hostname is required'')
         else if rg_TailscaleIP req = '''' then answer (Bad_Request ''tailscale_ip is required'')
         else if rg_CapacityMb req = 0 then answer (Bad_Request ''capacity_mb is required'')
         else if rg_AgentVersion req = '''' then answer (Bad_Request ''agent_version is required'')
         else case al_ParseAddr lib (rg_TailscaleIP req) of
           None \<Rightarrow> answer (Bad_Request ''tailscale_ip must be a valid IP address'')
         | Some ip \<Rightarrow>
             (case newToken of
                None \<Rightarrow> answer (InternalError ''failed to generate agent token'')
              | Some token \<Rightarrow> do {
                  r \<leftarrow> stmt (GetNodeByHostnameAndIP (rg_Hostname req) ip);
                  case r of
                    Inr existing \<Rightarrow>
                      query_or (UpdateNodeToken token (rg_AgentVersion req) (n_ID existing))
                        (\<lambda>_. InternalError ''failed to update node token'')
                        (\<lambda>_. answer (registered interval (n_ID existing) token))
                  | Inl e \<Rightarrow>
                      if e \<noteq> ErrNoRows then answer (InternalError ''failed to check existing node'')
                      else create_node
                        \<lparr>cnp_ID = newID, cnp_Hostname = rg_Hostname req, cnp_TailscaleIp = ip,
                         cnp_AgentListenPort = (if rg_AgentListenPort req = 0 then 8090 else rg_AgentListenPort req),
                         cnp_CapacityMb = rg_CapacityMb req, cnp_CapacityCpu = rg_CapacityCPU req,
                         cnp_AgentVersion = rg_AgentVersion req, cnp_Metadata = safePayload (rg_Metadata req)\<rparr>
                        token (\<lambda>_. answer (registered interval newID token)) }))"

text \<open>The node of a request: its id must parse and its row must exist.\<close>

definition with_node :: "api_lib \<Rightarrow> string \<Rightarrow> (UUID \<Rightarrow> (world, response) state) \<Rightarrow> (world, response) state" where
  "with_node lib idStr k =
    (case al_ParseUUID lib idStr of
       None \<Rightarrow> answer (Bad_Request ''invalid node ID: must be a valid UUID'')
     | Some i \<Rightarrow>
         query_or (GetNode i) (\<lambda>e. if e = ErrNoRows then NotFound ''node not found'' else InternalError ''failed to get node'')
           (\<lambda>_. k i))"

record heartbeatRequest =
  hb_UsedMb :: int32
  hb_RunningContainers :: int32
  hb_Containers :: "ContainerInfo list option"

definition decode_ContainerInfo :: "json \<Rightarrow> ContainerInfo \<times> bool" where
  "decode_ContainerInfo j =
    (let (ms, ok) = object_members j;
         (app, ok1) = decode_field ''app_name'' decode_string ms '''';
         (st, ok2) = decode_field ''state'' decode_string ms '''';
         (hp, ok3) = decode_field ''host_port'' decode_int64 ms 0;
         (cid, ok4) = decode_field ''container_id'' decode_string ms ''''
     in (\<lparr>ci_AppName = app, ci_State = SandboxState_of st, ci_HostPort = sint hp, ci_ContainerID = cid\<rparr>,
         ok \<and> ok1 \<and> ok2 \<and> ok3 \<and> ok4))"

text \<open>A slice field is nil when the member is absent or \<^verbatim>\<open>null\<close>, and not nil for an empty array.\<close>

definition decode_slice :: "(json \<Rightarrow> 'a \<times> bool) \<Rightarrow> json \<Rightarrow> 'a list option \<Rightarrow> 'a list option \<times> bool" where
  "decode_slice d j old = (case j of
     JNull \<Rightarrow> (None, True)
   | JArr xs \<Rightarrow> (Some (map (fst \<circ> d) xs), list_all (snd \<circ> d) xs)
   | _ \<Rightarrow> (old, False))"

definition decode_heartbeat :: "json option \<Rightarrow> heartbeatRequest option" where
  "decode_heartbeat b = (case b of None \<Rightarrow> None | Some j \<Rightarrow>
    (let (ms, ok) = object_members j;
         (used, ok1) = decode_field ''used_mb'' decode_int32 ms 0;
         (run, ok2) = decode_field ''running_containers'' decode_int32 ms 0;
         (cs, ok3) = decode_field ''containers'' (decode_slice decode_ContainerInfo) ms None
     in if ok \<and> ok1 \<and> ok2 \<and> ok3
        then Some \<lparr>hb_UsedMb = used, hb_RunningContainers = run, hb_Containers = cs\<rparr> else None))"

definition handleHeartbeat :: "api_lib \<Rightarrow> bool \<Rightarrow> timestamp \<Rightarrow> string \<Rightarrow> json option \<Rightarrow> (world, response) state" where
  "handleHeartbeat lib reconciler now idStr body =
    (case al_ParseUUID lib idStr of
       None \<Rightarrow> answer (Bad_Request ''invalid node ID: must be a valid UUID'')
     | Some _ \<Rightarrow>
       (case decode_heartbeat body of
          None \<Rightarrow> answer (Bad_Request ''invalid JSON body'')
        | Some req \<Rightarrow>
            with_node lib idStr (\<lambda>nodeID.
              query_or (UpdateNodeHeartbeat nodeID (hb_UsedMb req) (hb_RunningContainers req))
                (\<lambda>_. InternalError ''failed to update heartbeat'') (\<lambda>_.
                  (case hb_Containers req of
                     Some cs \<Rightarrow>
                       if reconciler then do { _ \<leftarrow> Reconcile now nodeID cs; answer (status_only 200) }
                       else answer (status_only 200)
                   | None \<Rightarrow> answer (status_only 200))))))"

definition storeNodeToResponse :: "api_lib \<Rightarrow> Node \<Rightarrow> json" where
  "storeNodeToResponse lib n = JObj
    ([(''id'', JStr (n_ID n)), (''hostname'', JStr (n_Hostname n)), (''tailscale_ip'', JStr (n_TailscaleIp n)),
      (''capacity_mb'', JNum (of_int (sint (n_CapacityMb n)))), (''used_mb'', JNum (of_int (sint (n_UsedMb n)))),
      (''status'', JStr (NodeStatus_string (n_Status n))),
      (''running_sandboxes'', JNum (of_int (sint (n_RunningContainers n)))), (''agent_version'', JStr (n_AgentVersion n))] @
     omit_empty ''last_seen_at'' (al_seconds lib (n_LastSeenAt n)) @
     omit_empty ''registered_at'' (al_seconds lib (n_RegisteredAt n)))"

definition handleListNodes :: "api_lib \<Rightarrow> (world, response) state" where
  "handleListNodes lib = query_or ListNodes (\<lambda>_. InternalError ''failed to list nodes'')
     (\<lambda>ns. answer (writeJSON 200 (JObj [(''nodes'', JArr (map (storeNodeToResponse lib) ns))])))"

definition handleDrainNode :: "api_lib \<Rightarrow> string \<Rightarrow> (world, response) state" where
  "handleDrainNode lib idStr = with_node lib idStr (\<lambda>nodeID.
     query_or (UpdateNodeStatus nodeID NodeDraining) (\<lambda>_. InternalError ''failed to drain node'')
       (\<lambda>_. answer (status_only 200)))"

definition handleRemoveNode :: "api_lib \<Rightarrow> string \<Rightarrow> (world, response) state" where
  "handleRemoveNode lib idStr = with_node lib idStr (\<lambda>nodeID.
     query_or (CountActiveSandboxesByNode nodeID) (\<lambda>_. InternalError ''failed to count sandboxes'') (\<lambda>count.
       if count > 0 then answer (Conflict ''node has active sandboxes; drain first'')
       else query_or (UpdateNodeStatus nodeID NodeRemoved) (\<lambda>_. InternalError ''failed to remove node'')
         (\<lambda>_. answer (status_only 200))))"

section \<open>Agents\<close>

definition mapCommand :: "api_lib \<Rightarrow> Command \<Rightarrow> json" where
  "mapCommand lib c = JObj
    [(''id'', JStr (cmd_ID c)), (''type'', JStr (CommandType_string (cmd_CommandType c))),
     (''sandbox_id'', case cmd_SandboxID c of None \<Rightarrow> JNull | Some i \<Rightarrow> JStr i), (''payload'', cmd_Payload c),
     (''issued_at'', JStr (al_RFC3339 lib (cmd_CreatedAt c))),
     (''timeout_seconds'', JNum (of_int (sint (cmd_TimeoutSeconds c))))]"

definition pollResponse :: "api_lib \<Rightarrow> Command list \<Rightarrow> response" where
  "pollResponse lib cmds = writeJSON 200 (JObj [(''commands'', JArr (map (mapCommand lib) cmds))])"

definition wait_seconds :: "string \<Rightarrow> int" where
  "wait_seconds s =
    (let w = (if s = '''' then 30 else case ParseInt s of None \<Rightarrow> 30 | Some n \<Rightarrow> n);
         w' = (if w < 1 then 1 else w)
     in if w' > 60 then 60 else w')"

text \<open>The loop of \<^verbatim>\<open>handlePollCommands\<close>: \<open>ticks\<close> is the number of ticks that the select takes before the deadline of
  the context, \<open>expired_at k\<close> whether the context is over when the poll with \<open>k\<close> ticks to go fails.\<close>

fun poll_loop :: "api_lib \<Rightarrow> UUID \<Rightarrow> (nat \<Rightarrow> bool) \<Rightarrow> nat \<Rightarrow> (world, response) state" where
  "poll_loop lib nodeID expired_at 0 = answer (pollResponse lib [])"
| "poll_loop lib nodeID expired_at (Suc k) = do {
     r \<leftarrow> stmt (PollPendingCommands nodeID);
     case r of
       Inl _ \<Rightarrow> answer (if expired_at k then pollResponse lib [] else InternalError ''failed to poll commands'')
     | Inr cmds \<Rightarrow>
         if cmds \<noteq> [] then answer (pollResponse lib cmds) else poll_loop lib nodeID expired_at k }"

text \<open>At most one tick per second of the wait.\<close>

definition handlePollCommands :: "api_lib \<Rightarrow> string \<Rightarrow> string \<Rightarrow> (nat \<Rightarrow> bool) \<Rightarrow> nat \<Rightarrow> (world, response) state" where
  "handlePollCommands lib idStr waitStr expired_at ticks =
    (case al_ParseUUID lib idStr of
       None \<Rightarrow> answer (Bad_Request ''invalid node ID: must be a valid UUID'')
     | Some nodeID \<Rightarrow>
         query_or (PollPendingCommands nodeID) (\<lambda>_. InternalError ''failed to poll commands'') (\<lambda>cmds.
           if cmds \<noteq> [] then answer (pollResponse lib cmds) else poll_loop lib nodeID expired_at (min ticks (nat (wait_seconds waitStr)))))"

definition decode_ack :: "json option \<Rightarrow> (string \<times> string \<times> json option) option" where
  "decode_ack b = (case b of None \<Rightarrow> None | Some j \<Rightarrow>
    (let (ms, ok) = object_members j;
         (st, ok1) = decode_field ''status'' decode_string ms '''';
         (err, ok2) = decode_field ''error'' decode_string ms '''';
         (res, ok3) = decode_field ''result'' (\<lambda>j _. (Some j, True)) ms None
     in if ok \<and> ok1 \<and> ok2 \<and> ok3 then Some (st, err, res) else None))"

definition handleAckCommand ::
    "api_lib \<Rightarrow> LifecycleService \<Rightarrow> string \<Rightarrow> string \<Rightarrow> json option \<Rightarrow> (world, response) state" where
  "handleAckCommand lib ls idStr cmdIDStr body =
    (case al_ParseUUID lib idStr of
       None \<Rightarrow> answer (Bad_Request ''invalid node ID: must be a valid UUID'')
     | Some _ \<Rightarrow>
       (case al_ParseUUID lib cmdIDStr of
          None \<Rightarrow> answer (Bad_Request ''invalid command ID: must be a valid UUID'')
        | Some cmdID \<Rightarrow>
          (case decode_ack body of
             None \<Rightarrow> answer (Bad_Request ''invalid JSON body'')
           | Some (status, err, result) \<Rightarrow>
               query_or (GetCommand cmdID) (\<lambda>_. NotFound ''command not found'') (\<lambda>cmd. do {
                 let sandboxID = (case cmd_SandboxID cmd of None \<Rightarrow> uuid_Nil | Some i \<Rightarrow> i);
                 let payload = (case result of
                   Some j \<Rightarrow> Some j
                 | None \<Rightarrow> if err \<noteq> '''' then Some (JObj [(''error'', JStr err)]) else None);
                 r \<leftarrow> HandleAck ls cmdID sandboxID (cmd_CommandType cmd) status payload;
                 answer (case r of
                   Inl _ \<Rightarrow> InternalError ''failed to process acknowledgment''
                 | Inr _ \<Rightarrow> status_only 200) }))))"

definition decode_event :: "json option \<Rightarrow> (string \<times> string \<times> json option) option" where
  "decode_event b = (case b of None \<Rightarrow> None | Some j \<Rightarrow>
    (let (ms, ok) = object_members j;
         (sid, ok1) = decode_field ''sandbox_id'' decode_string ms '''';
         (ty, ok2) = decode_field ''event_type'' decode_string ms '''';
         (cid, ok3) = decode_field ''container_id'' decode_string ms '''';
         (ex, ok4) = decode_field ''exit_code'' (decode_pointer decode_int64 0) ms None;
         (pl, ok5) = decode_field ''payload'' (\<lambda>j _. (Some j, True)) ms None
     in if ok \<and> ok1 \<and> ok2 \<and> ok3 \<and> ok4 \<and> ok5 then Some (sid, ty, pl) else None))"

definition handleReportEvent ::
    "api_lib \<Rightarrow> LifecycleService \<Rightarrow> UUID \<Rightarrow> string \<Rightarrow> json option \<Rightarrow> (world, response) state" where
  "handleReportEvent lib ls newCmdID idStr body =
    (case al_ParseUUID lib idStr of
       None \<Rightarrow> answer (Bad_Request ''invalid node ID: must be a valid UUID'')
     | Some nodeID \<Rightarrow>
       (case decode_event body of
          None \<Rightarrow> answer (Bad_Request ''invalid JSON body'')
        | Some (sid, ty, payload) \<Rightarrow>
            if sid = '''' then answer (Bad_Request ''sandbox_id is required'')
            else if ty = '''' then answer (Bad_Request ''event_type is required'')
            else case al_ParseUUID lib sid of
              None \<Rightarrow> answer (Bad_Request ''sandbox_id must be a valid UUID'')
            | Some sandboxID \<Rightarrow> do {
                r \<leftarrow> HandleEvent ls newCmdID nodeID sandboxID ty payload;
                answer (case r of
                  Inl _ \<Rightarrow> InternalError ''failed to process event''
                | Inr _ \<Rightarrow> status_only 200) }))"

section \<open>File push\<close>

definition agent_url :: "Node \<Rightarrow> UUID \<Rightarrow> string" where
  "agent_url node i = ''http://'' @ n_TailscaleIp node @ '':'' @ show_int (sint (n_AgentListenPort node)) @
     ''/v1/sandboxes/'' @ i @ ''/files''"

definition handleFilePush ::
    "api_lib \<Rightarrow> url_lib \<Rightarrow> mac \<Rightarrow> timestamp \<Rightarrow> string \<Rightarrow> string \<Rightarrow> (world, response) state" where
  "handleFilePush lib ulib mac now secret idStr =
    (case al_ParseUUID lib idStr of
       None \<Rightarrow> answer (Bad_Request ''invalid sandbox ID: must be a valid UUID'')
     | Some i \<Rightarrow>
         query_or (GetSandbox i) (\<lambda>_. NotFound ''sandbox not found'') (\<lambda>sandbox.
           case sb_NodeID sandbox of
             None \<Rightarrow> answer (ServiceUnavailable ''sandbox not yet scheduled to a node'')
           | Some n \<Rightarrow>
               query_or (GetNode n) (\<lambda>_. InternalError ''failed to resolve sandbox node'') (\<lambda>node.
                 case SignURL ulib mac now (agent_url node i) secret (60 * second) of
                   Inl _ \<Rightarrow> answer (InternalError ''failed to generate signed URL'')
                 | Inr url \<Rightarrow> do {
                     best_effort (UpdateSandboxLastActive i);
                     answer \<lparr>rp_Status = 307, rp_Location = Some url, rp_Body = None, rp_Text = []\<rparr> })))"

end
