(* ===== verification/Api_Laws.thy ===== *)
theory Api_Laws
  imports Api
begin

text \<open>
  What the handlers of \<^verbatim>\<open>control/internal/api\<close> answer and what they leave in the database: which requests reach
  the lifecycle service, which status codes its errors become, and the exact effect of a heartbeat.
\<close>

section \<open>Runs of the handlers\<close>

lemma run_query_or [run_simps]:
  "run_state (query_or q err k) (quiet t b) =
    (case fst (q t) of Inl e \<Rightarrow> (err e, quiet (snd (q t)) b)
                     | Inr x \<Rightarrow> run_state (k x) (quiet (snd (q t)) b))"
  by (simp add: query_or_def run_stmt split: sum.split)

lemma status_simps [simp]:
  "rp_Status (status_only s) = s" "rp_Status (writeJSON s v) = s"
  "rp_Status (WriteProblem s ty ti d) = s" "rp_Status (NotFound d) = 404" "rp_Status Unauthorized = 401"
  "rp_Status (Conflict d) = 409" "rp_Status (Bad_Request d) = 400" "rp_Status (ServiceUnavailable d) = 503"
  "rp_Status (InternalError d) = 500"
  by (simp_all add: status_only_def writeJSON_def WriteProblem_def NotFound_def Unauthorized_def Conflict_def
      Bad_Request_def ServiceUnavailable_def InternalError_def)

section \<open>Sandbox requests\<close>

text \<open>A body that \<^verbatim>\<open>POST /v1/sandboxes\<close> accepts, and what the lifecycle service may rely on.\<close>

definition valid_create :: "json option \<Rightarrow> bool" where
  "valid_create body = (case decode_create body of
     None \<Rightarrow> False
   | Some req \<Rightarrow> appNameRegex (cr_AppName req) \<and> cr_UserID req \<noteq> '''' \<and> cr_Image req \<noteq> '''')"

definition sound_request :: "CreateRequest \<Rightarrow> bool" where
  "sound_request q \<longleftrightarrow> appNameRegex (cq_AppName q) \<and> cq_UserID q \<noteq> '''' \<and> cq_Image q \<noteq> '''' \<and>
     0 < res_CPUCores (cq_Resources q) \<and> 0 < sint (res_MemoryMB (cq_Resources q))"

lemma default_resources_positive:
  "0 < res_CPUCores (default_resources r)" "0 < sint (res_MemoryMB (default_resources r))"
  by (auto simp: default_resources_def int32_less_def split: option.split)

lemma appNameRegex_nonempty: "appNameRegex s \<Longrightarrow> s \<noteq> ''''"
  by (auto simp: appNameRegex_def)

text \<open>The errors that the calls of the lifecycle service can give: never \<^verbatim>\<open>ErrNotFound\<close>.\<close>

lemma must_result:
  "fst (run_state (must q wrap k) w) = Inl e \<Longrightarrow>
    (\<exists>d. e = wrap d) \<or> (\<exists>x w'. fst (run_state (k x) w') = Inl e)"
  by (auto simp: must_def split: sum.splits prod.splits)

lemma discard_result: "fst (run_state (do { _ \<leftarrow> m; State_Monad.return x }) w) = x"
  by (simp split: prod.split)

lemma never_ErrNotFound:
  "fst (run_state (DestroySandbox c i) w) \<noteq> Inl ErrNotFound"
  "fst (run_state (RestartSandbox c i) w) \<noteq> Inl ErrNotFound"
  "fst (run_state (WakeSandbox c i) w) \<noteq> Inl ErrNotFound"
  unfolding DestroySandbox_def RestartSandbox_def WakeSandbox_def
  by (rule notI; auto dest!: must_result simp: discard_result split: if_splits option.splits prod.splits)+

section \<open>Heartbeats\<close>

text \<open>The node row after a heartbeat, and the body of a heartbeat as the agent writes it.\<close>

definition beaten :: "timestamp \<Rightarrow> UUID \<Rightarrow> int32 \<Rightarrow> int32 \<Rightarrow> Node \<Rightarrow> Node" where
  "beaten ts i used running n = (if n_ID n = i
     then n\<lparr>n_UsedMb := used, n_RunningContainers := running, n_Status := NodeHealthy, n_LastSeenAt := ts\<rparr> else n)"

lemma Heartbeat_map:
  "UpdateNodeHeartbeat i used running t =
    (Inr (), t\<lparr>nodes := map (beaten (clock t) i used running) (nodes t)\<rparr>)"
  by (simp add: UpdateNodeHeartbeat_def beaten_def update_where_def)

lemma handleHeartbeat_run:
  assumes "schema_ok t" and "al_ParseUUID lib idStr = Some i" and "node_at t i \<noteq> None"
    and "decode_heartbeat body = Some \<lparr>hb_UsedMb = used, hb_RunningContainers = running, hb_Containers = Some cs\<rparr>"
    and "\<forall>c \<in> set cs. ci_State c \<in> set AllStates"
  shows "run_state (handleHeartbeat lib True (clock t) idStr body) (quiet t b) =
    (status_only 200,
     quiet (t\<lparr>nodes := map (beaten (clock t) i used running) (nodes t),
              sandboxes := map (reconciled (clock t) i cs) (sandboxes t)\<rparr>) b)"
proof -
  let ?t = "t\<lparr>nodes := map (beaten (clock t) i used running) (nodes t)\<rparr>"
  have ok: "schema_ok ?t" using schema_Heartbeat[OF assms(1)] by (simp add: Heartbeat_map)
  have "run_state (Reconcile (clock t) i cs) (quiet ?t b) =
      (Inr (), quiet (?t\<lparr>sandboxes := map (reconciled (clock t) i cs) (sandboxes ?t)\<rparr>) b)"
    using Reconcile_run[OF ok assms(5)] by simp
  with assms(2-4) show ?thesis
    by (auto simp: handleHeartbeat_def with_node_def exec run_query_or Heartbeat_map split: option.split)
qed

section \<open>Properties\<close>

definition a_lib :: api_lib where
  "a_lib = \<lparr>al_ParseUUID = (\<lambda>s. if s = '''' then None else Some s), al_ParseAddr = (\<lambda>s. if s = '''' then None else Some s),
     al_RFC3339 = show_int, al_seconds = show_int, al_error_text = (\<lambda>_. ''invalid state''), al_Quote = (\<lambda>s. CHR 0x22 # s @ [CHR 0x22]),
     al_Fixed4 = (\<lambda>q. show_int \<lfloor>q\<rfloor> @ ''.0000'')\<rparr>"

text \<open>C32. \<^verbatim>\<open>POST /v1/sandboxes\<close> guards the lifecycle service: a body that is not valid is answered with 400 and
  changes nothing, whatever else goes on; a valid one reaches \<^verbatim>\<open>CreateSandbox\<close> with a name of the allowed
  pattern, a user, an image and positive resources, and is answered with 201, 409, 500 or 503.\<close>

theorem handleCreateSandbox_guards:
  "if valid_create body
   then \<exists>q. sound_request q \<and>
          snd (run_state (handleCreateSandbox (Some ls) newID cmdID body) w) = snd (run_state (CreateSandbox newID cmdID q) w) \<and>
          rp_Status (fst (run_state (handleCreateSandbox (Some ls) newID cmdID body) w)) \<in> {201, 409, 500, 503}
   else snd (run_state (handleCreateSandbox (Some ls) newID cmdID body) w) = w \<and>
        rp_Status (fst (run_state (handleCreateSandbox (Some ls) newID cmdID body) w)) = 400"
proof (cases "decode_create body")
  case None
  then show ?thesis by (simp add: valid_create_def handleCreateSandbox_def)
next
  case (Some req)
  show ?thesis
  proof (cases "valid_create body")
    case False
    with Some show ?thesis by (auto simp: valid_create_def handleCreateSandbox_def)
  next
    case True
    let ?q = "\<lparr>cq_AppName = cr_AppName req, cq_UserID = cr_UserID req, cq_Image = cr_Image req,
      cq_Resources = default_resources (cr_Resources req), cq_Env = cr_Env req,
      cq_IdleTimeoutSeconds = (case cr_IdleTimeoutSeconds req of None \<Rightarrow> 1800 | Some n \<Rightarrow> n),
      cq_Metadata = cr_Metadata req\<rparr>"
    obtain r w' where run: "run_state (CreateSandbox newID cmdID ?q) w = (r, w')" by fastforce
    have "sound_request ?q" using True Some
      by (simp add: valid_create_def sound_request_def default_resources_positive)
    moreover have "run_state (handleCreateSandbox (Some ls) newID cmdID body) w =
        (case r of
           Inl ErrConflict \<Rightarrow> Conflict ''app_name already exists''
         | Inl ErrNoCapacity \<Rightarrow> ServiceUnavailable ''no nodes available with sufficient capacity''
         | Inl _ \<Rightarrow> InternalError ''failed to create sandbox''
         | Inr r \<Rightarrow> writeJSON 201 (sandboxResultToResponse r), w')"
      using True Some appNameRegex_nonempty[of "cr_AppName req"]
      by (simp add: valid_create_def handleCreateSandbox_def run)
    ultimately show ?thesis using True run
      by (intro if_bool_eq_conj[THEN iffD2] conjI impI exI[of _ ?q])
        (auto split: sum.split lc_error.split)
  qed
qed

text \<open>A sandbox that does not exist is an internal error: \<^verbatim>\<open>DELETE\<close>, \<^verbatim>\<open>restart\<close> and \<^verbatim>\<open>wake\<close> answer 500 for an
  unknown id and change nothing, and under no circumstances 404, since the lifecycle service wraps the
  error of the lookup and never returns \<^verbatim>\<open>ErrNotFound\<close>.\<close>

theorem unknown_sandbox_is_500:
  assumes "h \<in> {handleDestroySandbox, handleRestartSandbox, handleWakeSandbox}"
    and "al_ParseUUID lib idStr = Some i" and "sandbox_at t i = None"
  shows "rp_Status (fst (run_state (h lib (Some ls) cmdID idStr) (quiet t b))) = 500 \<and>
    snd (run_state (h lib (Some ls) cmdID idStr) (quiet t b)) = quiet t b \<and>
    rp_Status (fst (run_state (h lib lc cmdID anyStr) w)) \<noteq> 404"
proof -
  have never: "rp_Status (fst (run_state (lifecycle_call lib lc call cf d anyStr) w)) \<noteq> 404"
    if "\<And>i w. fst (run_state (call i) w) \<noteq> Inl ErrNotFound" for call cf d
    using that[of _ w]
    by (auto simp: lifecycle_call_def split: option.split prod.split sum.split lc_error.split) (metis fst_conv)
  from assms show ?thesis
    unfolding handleDestroySandbox_def handleRestartSandbox_def handleWakeSandbox_def
    by (auto simp: never never_ErrNotFound)
      (auto simp: lifecycle_call_def DestroySandbox_def RestartSandbox_def WakeSandbox_def exec)
qed

theorem unknown_sandbox_is_500_witness:
  "rp_Status (fst (run_state (handleDestroySandbox a_lib (Some a_service) ''c'' ''s'') (quiet (a_db [] []) (NewBatcher id)))) = 500"
  using unknown_sandbox_is_500[of handleDestroySandbox a_lib "''s''" "''s''" "a_db [] []" a_service "''c''" "NewBatcher id"]
  by (simp add: a_lib_def concrete)

text \<open>C31. A heartbeat that lists its containers, exactly: the node takes the reported usage and becomes
  \<^verbatim>\<open>healthy\<close>, also when an operator had it drained or removed; every sandbox is reconciled with the
  report; nothing else changes, and the answer is 200.\<close>

theorem handleHeartbeat_exact:
  assumes "schema_ok t" and "al_ParseUUID lib idStr = Some i" and "node_at t i \<noteq> None"
    and "decode_heartbeat body = Some \<lparr>hb_UsedMb = used, hb_RunningContainers = running, hb_Containers = Some cs\<rparr>"
    and "\<forall>c \<in> set cs. ci_State c \<in> set AllStates"
  shows "run_state (handleHeartbeat lib True (clock t) idStr body) (quiet t b) =
    (status_only 200,
     quiet (t\<lparr>nodes := map (beaten (clock t) i used running) (nodes t),
              sandboxes := map (reconciled (clock t) i cs) (sandboxes t)\<rparr>) b)"
  by (rule handleHeartbeat_run[OF assms])

definition a_heartbeat :: json where
  "a_heartbeat = JObj [(''used_mb'', JNum 512), (''running_containers'', JNum 1),
     (''containers'', JArr [JObj [(''app_name'', JStr ''app-s''), (''state'', JStr ''running''),
        (''host_port'', JNum 30001), (''container_id'', JStr ''c1'')]])]"

lemma a_heartbeat_decoded:
  "decode_heartbeat (Some a_heartbeat) =
    Some \<lparr>hb_UsedMb = 512, hb_RunningContainers = 1, hb_Containers = Some [a_report StateRunning]\<rparr>"
  by code_simp

theorem handleHeartbeat_exact_witness:
  "fst (run_state (handleHeartbeat a_lib True (10 ^ 10) ''n1'' (Some a_heartbeat))
     (quiet (a_db [a_sandbox ''s'' StateStarting 0] []) (NewBatcher id))) = status_only 200"
  using handleHeartbeat_exact[of "a_db [a_sandbox ''s'' StateStarting 0] []" a_lib "''n1''" "''n1''" "Some a_heartbeat"
      512 1 "[a_report StateRunning]" "NewBatcher id"]
  by (simp add: a_heartbeat_decoded) (simp add: a_lib_def schema_ok_def concrete named_status_def AllStates_def a_report_def)

end
