(* ===== verification/Server.thy ===== *)
theory Server
  imports Api_Laws
begin

text \<open>
  The HTTP server of the control plane: the handlers for events, routes, logs, health and metrics, the collaborators of
  \<^verbatim>\<open>server.go\<close> and the route table of \<^verbatim>\<open>routes.go\<close> with its authentication. A request is one constructor per
  entry of the route table, with the path parameters, the query and the body it carries; the matching of
  methods and paths is done by \<^verbatim>\<open>go-chi/chi\<close>. \<open>serve_api_keeps\<close> collects what every request keeps.
\<close>

section \<open>Events, routes and logs\<close>

definition storeEventToResponse :: "api_lib \<Rightarrow> Event \<Rightarrow> json" where
  "storeEventToResponse lib e = JObj
    ([(''id'', JNum (of_int (ev_ID e)))] @
     (case ev_SandboxID e of None \<Rightarrow> [] | Some i \<Rightarrow> omit_empty ''sandbox_id'' i) @
     (case ev_NodeID e of None \<Rightarrow> [] | Some i \<Rightarrow> omit_empty ''node_id'' i) @
     [(''event_type'', JStr (ev_EventType e)), (''actor'', JStr (ev_Actor e))] @
     (case ev_PrevState e of None \<Rightarrow> [] | Some s \<Rightarrow> omit_empty ''prev_state'' (SandboxState_string s)) @
     (case ev_NextState e of None \<Rightarrow> [] | Some s \<Rightarrow> omit_empty ''next_state'' (SandboxState_string s)) @
     [(''payload'', ev_Payload e)] @
     omit_empty ''created_at'' (al_seconds lib (ev_CreatedAt e)))"

definition handleListEvents :: "api_lib \<Rightarrow> bool \<Rightarrow> Values \<Rightarrow> (world, response) state" where
  "handleListEvents lib eventStore q =
    (if \<not> eventStore then answer (ServiceUnavailable ''event service not configured'')
     else case parse_limit 100 1000 (Values_Get ''limit'' q) of
       None \<Rightarrow> answer (Bad_Request ''limit must be a positive integer'')
     | Some limit \<Rightarrow>
         (let run = (\<lambda>query. query_or query (\<lambda>_. InternalError ''failed to list events'')
                (\<lambda>es. answer (writeJSON 200 (JObj [(''events'', JArr (map (storeEventToResponse lib) es))]))))
          in if Values_Get ''sandbox_id'' q \<noteq> '''' then
               (case al_ParseUUID lib (Values_Get ''sandbox_id'' q) of
                  None \<Rightarrow> answer (Bad_Request ''invalid sandbox_id: must be a valid UUID'')
                | Some i \<Rightarrow> run (ListEventsBySandbox i limit))
             else if Values_Get ''event_type'' q \<noteq> '''' then run (ListEventsByType (Values_Get ''event_type'' q) limit)
             else run (ListRecentEvents limit)))"

text \<open>The routes that the proxy lists are an argument; \<open>None\<close> without a route fetcher.\<close>

definition handleListRoutes :: "(string + Route list) option \<Rightarrow> (world, response) state" where
  "handleListRoutes listed = answer (case listed of
     None \<Rightarrow> ServiceUnavailable ''route service not configured''
   | Some (Inl _) \<Rightarrow> InternalError ''failed to list routes''
   | Some (Inr routes) \<Rightarrow> writeJSON 200 (JObj [(''routes'', JArr (map (\<lambda>r. JObj
       [(''app_name'', JStr (rt_AppName r)), (''sandbox_id'', JStr (rt_SandboxID r)), (''upstream'', JStr (rt_Upstream r))]) routes))]))"

text \<open>The log proxy: the status of the agent's reply and its text are copied.\<close>

definition logs_url :: "Node \<Rightarrow> UUID \<Rightarrow> Values \<Rightarrow> string" where
  "logs_url node i q =
    (let params = (if Values_Get ''tail'' q \<noteq> '''' then [''tail='' @ Values_Get ''tail'' q] else []) @
                  (if Values_Get ''follow'' q \<noteq> '''' then [''follow='' @ Values_Get ''follow'' q] else [])
     in ''http://'' @ n_TailscaleIp node @ '':'' @ show_int (sint (n_AgentListenPort node)) @ ''/sandboxes/'' @ i @ ''/logs'' @
        (if params = [] then '''' else ''?'' @ join_with ''&'' params))"

datatype log_reply = BadURL | Unreachable | Replied int string

definition handleGetLogs :: "api_lib \<Rightarrow> (string \<Rightarrow> log_reply) option \<Rightarrow> string \<Rightarrow> Values \<Rightarrow> (world, response) state" where
  "handleGetLogs lib logProxy idStr q =
    (case logProxy of
       None \<Rightarrow> answer (ServiceUnavailable ''log proxy not configured'')
     | Some http \<Rightarrow>
         if prefix ''app:'' idStr then answer (Bad_Request ''log endpoint requires sandbox UUID, not app:{name}'')
         else case al_ParseUUID lib idStr of
           None \<Rightarrow> answer (Bad_Request ''invalid sandbox ID: must be a valid UUID'')
         | Some i \<Rightarrow>
             query_or (GetSandbox i) (\<lambda>_. NotFound ''sandbox not found'') (\<lambda>sandbox.
               case sb_NodeID sandbox of
                 None \<Rightarrow> answer (ServiceUnavailable ''sandbox not assigned to a node'')
               | Some n \<Rightarrow>
                   query_or (GetNode n) (\<lambda>_. InternalError ''failed to resolve sandbox node'') (\<lambda>node.
                     answer (case http (logs_url node i q) of
                       BadURL \<Rightarrow> InternalError ''failed to create proxy request''
                     | Unreachable \<Rightarrow> WriteProblem 502 ''urn:forge:error:bad-gateway'' ''Bad Gateway'' ''failed to reach agent''
                     | Replied code txt \<Rightarrow> writeText code txt))))"

section \<open>Health and metrics\<close>

text \<open>\<open>ping\<close> tells whether the database answers within two seconds, \<open>uptime\<close> is the time since the start in seconds.\<close>

definition handleHealthz :: "bool \<Rightarrow> int \<Rightarrow> (world, response) state" where
  "handleHealthz ping uptime = answer (writeJSON (if ping then 200 else 503) (JObj
     [(''status'', JStr (if ping then ''ok'' else ''error'')), (''postgres'', JStr (if ping then ''ok'' else ''unreachable'')),
      (''uptime_seconds'', JNum (of_int uptime))]))"

text \<open>\<^verbatim>\<open>http.Error\<close> ends its text with a newline.\<close>

definition http_Error :: "string \<Rightarrow> int \<Rightarrow> response" where
  "http_Error txt code = writeText code (txt @ [CHR 0x0A])"

definition utilization :: "Node \<Rightarrow> rat" where
  "utilization n = (if int32_less 0 (n_CapacityMb n) then of_int (sint (n_UsedMb n)) / of_int (sint (n_CapacityMb n)) else 0)"

definition metrics_text :: "api_lib \<Rightarrow> (SandboxState \<times> nat) list \<Rightarrow> Node list \<Rightarrow> string list" where
  "metrics_text lib counts ns =
    [''# HELP forge_sandbox_count Number of sandboxes by state'', ''# TYPE forge_sandbox_count gauge''] @
    map (\<lambda>(st, k). ''forge_sandbox_count{state='' @ al_Quote lib (SandboxState_string st) @ ''} '' @ show_nat k) counts @
    [''# HELP forge_node_utilization_ratio Memory utilization ratio per node (used_mb / capacity_mb)'',
     ''# TYPE forge_node_utilization_ratio gauge''] @
    map (\<lambda>n. ''forge_node_utilization_ratio{node='' @ al_Quote lib (n_Hostname n) @ ''} '' @ al_Fixed4 lib (utilization n)) ns"

definition handleMetrics :: "api_lib \<Rightarrow> bool \<Rightarrow> (world, response) state" where
  "handleMetrics lib metricsStore =
    (if \<not> metricsStore then answer (http_Error ''metrics not configured'' 503)
     else query_or CountSandboxesByState (\<lambda>_. http_Error ''internal error'' 500) (\<lambda>counts.
       query_or ListNodes (\<lambda>_. http_Error ''internal error'' 500) (\<lambda>ns.
         answer (writeText 200 (concat (map (\<lambda>l. l @ [CHR 0x0A]) (metrics_text lib counts ns)))))))"

section \<open>The server and its routes\<close>

text \<open>The collaborators of the server that may be missing, and the settings the handlers read. \<open>sv_config\<close> is the
  API token and the HMAC secret.\<close>

record server =
  sv_config :: "(string \<times> string) option"
  sv_sandboxReader :: bool
  sv_lifecycle :: "LifecycleService option"
  sv_agentLifecycle :: LifecycleService
  sv_reconciler :: bool
  sv_freshness :: "timestamp option"
  sv_eventStore :: bool
  sv_metricsStore :: bool
  sv_interval :: int

text \<open>What a request finds around it: identifiers, tokens, clocks, the agents and the proxy.\<close>

record ambient =
  am_newID :: UUID
  am_cmdID :: UUID
  am_token :: "string option"
  am_now :: timestamp
  am_later :: timestamp
  am_agents :: agent_http
  am_logs :: "(string \<Rightarrow> log_reply) option"
  am_routes :: "(string + Route list) option"
  am_ticks :: nat
  am_ping :: bool
  am_uptime :: int
  am_expired :: "nat \<Rightarrow> bool"
  am_lib :: api_lib
  am_url :: url_lib
  am_mac :: mac

datatype api_request =
    RegisterNode "json option"
  | Healthz
  | Metrics
  | ListNodesReq
  | HeartbeatReq string "json option"
  | DrainNode string
  | RemoveNode string
  | PostSandbox "json option"
  | ListSandboxesReq Values
  | GetSandboxReq string bool
  | DestroyReq string
  | RestartReq string
  | WakeReq string
  | FilePush string
  | GetLogsReq string Values
  | ListRoutesReq
  | ListEventsReq Values
  | PollReq string string
  | AckReq string string "json option"
  | ReportReq string "json option"

fun route :: "server \<Rightarrow> ambient \<Rightarrow> string \<Rightarrow> api_request \<Rightarrow> (world, response) state" where
  "route s a secret (RegisterNode body) =
     handleRegisterNode (am_lib a) (sv_interval s) (am_newID a) (am_token a) body"
| "route s a secret Healthz = handleHealthz (am_ping a) (am_uptime a)"
| "route s a secret Metrics = handleMetrics (am_lib a) (sv_metricsStore s)"
| "route s a secret ListNodesReq = handleListNodes (am_lib a)"
| "route s a secret (HeartbeatReq i body) = handleHeartbeat (am_lib a) (sv_reconciler s) (am_now a) i body"
| "route s a secret (DrainNode i) = handleDrainNode (am_lib a) i"
| "route s a secret (RemoveNode i) = handleRemoveNode (am_lib a) i"
| "route s a secret (PostSandbox body) = handleCreateSandbox (sv_lifecycle s) (am_newID a) (am_cmdID a) body"
| "route s a secret (ListSandboxesReq q) = handleListSandboxes (am_lib a) (sv_sandboxReader s) q"
| "route s a secret (GetSandboxReq i force) =
     handleGetSandbox (am_lib a) (sv_sandboxReader s)
       (map_option (\<lambda>fresh. Freshness_GetSandbox (am_now a) (am_later a) fresh (ContainerExists (am_agents a))) (sv_freshness s))
       i force"
| "route s a secret (DestroyReq i) = handleDestroySandbox (am_lib a) (sv_lifecycle s) (am_cmdID a) i"
| "route s a secret (RestartReq i) = handleRestartSandbox (am_lib a) (sv_lifecycle s) (am_cmdID a) i"
| "route s a secret (WakeReq i) = handleWakeSandbox (am_lib a) (sv_lifecycle s) (am_cmdID a) i"
| "route s a secret (FilePush i) = handleFilePush (am_lib a) (am_url a) (am_mac a) (am_now a) secret i"
| "route s a secret (GetLogsReq i q) = handleGetLogs (am_lib a) (am_logs a) i q"
| "route s a secret ListRoutesReq = handleListRoutes (am_routes a)"
| "route s a secret (ListEventsReq q) = handleListEvents (am_lib a) (sv_eventStore s) q"
| "route s a secret (PollReq i wait) = handlePollCommands (am_lib a) i wait (am_expired a) (am_ticks a)"
| "route s a secret (AckReq i c body) = handleAckCommand (am_lib a) (sv_agentLifecycle s) i c body"
| "route s a secret (ReportReq i body) = handleReportEvent (am_lib a) (sv_agentLifecycle s) (am_cmdID a) i body"

fun public :: "api_request \<Rightarrow> bool" where
  "public (RegisterNode body) = True"
| "public Healthz = True"
| "public Metrics = True"
| "public req = False"

definition page_not_found :: response where
  "page_not_found = http_Error ''404 page not found'' 404"

text \<open>\<^verbatim>\<open>RegisterRoutes\<close>: health, metrics and registration are public; everything else is behind \<^verbatim>\<open>BearerAuth\<close>, and not routed at all
  (the router's 404) without an API token. \<open>auth\<close> is the \<^verbatim>\<open>Authorization\<close> header.\<close>

definition RegisterRoutes :: "server \<Rightarrow> ambient \<Rightarrow> string \<Rightarrow> api_request \<Rightarrow> (world, response) state" where
  "RegisterRoutes s a auth req =
    (if public req then route s a '''' req
     else case sv_config s of
       None \<Rightarrow> answer page_not_found
     | Some (apiToken, hmacSecret) \<Rightarrow>
         if apiToken = '''' then answer page_not_found
         else BearerAuth apiToken auth (route s a hmacSecret req))"

section \<open>What every request keeps\<close>

lemma keeps_query_or:
  assumes "\<And>t. I t \<Longrightarrow> I (snd (q t))" and "\<And>x. keeps (safe I) (k x)"
  shows "keeps (safe I) (query_or q err k)"
  unfolding query_or_def by (intro keeps_rules keeps_stmt assms)

text \<open>The contract of the store for the API: what \<open>store_invariant\<close> asks for, and the statements that only the
  handlers of the API issue.\<close>

locale api_invariant = store_invariant +
  assumes LastActive: "I t \<Longrightarrow> I (snd (UpdateSandboxLastActive i t))"
    and Verified: "I t \<Longrightarrow> I (snd (MarkSandboxVerified app s t))"
    and AgentLost: "I t \<Longrightarrow> I (snd (MarkSandboxAgentLost app n t))"
    and Missing: "I t \<Longrightarrow> I (snd (MarkSandboxDestroyed app why t))"
    and Register: "I t \<Longrightarrow> I (snd (CreateNode cnp t))"
    and Heartbeat: "I t \<Longrightarrow> I (snd (UpdateNodeHeartbeat i used running t))"
    and Token: "I t \<Longrightarrow> I (snd (UpdateNodeToken token ver i t))"
    and Poll: "I t \<Longrightarrow> I (snd (PollPendingCommands n t))"
begin

lemma listings:
  "I t \<Longrightarrow> I (snd (ListSandboxesForNode n t))" "I t \<Longrightarrow> I (snd (ListSandboxesByUser u t))"
  "I t \<Longrightarrow> I (snd (ListSandboxesByState s t))" "I t \<Longrightarrow> I (snd (ListSandboxesByNode n t))"
  "I t \<Longrightarrow> I (snd (ListSandboxes lm t))" "I t \<Longrightarrow> I (snd (GetNodeByHostnameAndIP h ip t))"
  "I t \<Longrightarrow> I (snd (CountActiveSandboxesByNode n t))" "I t \<Longrightarrow> I (snd (GetCommand c t))"
  "I t \<Longrightarrow> I (snd (ListEventsBySandbox i lm t))" "I t \<Longrightarrow> I (snd (ListEventsByType ty lm t))"
  "I t \<Longrightarrow> I (snd (ListRecentEvents lm t))" "I t \<Longrightarrow> I (snd (CountSandboxesByState t))"
  by (simp_all add: ListSandboxesForNode_def ListSandboxesByUser_def ListSandboxesByState_def ListSandboxesByNode_def
      ListSandboxes_def GetNodeByHostnameAndIP_def CountActiveSandboxesByNode_def GetCommand_def
      ListEventsBySandbox_def ListEventsByType_def ListRecentEvents_def CountSandboxesByState_def Let_def
      split: option.split list.split)

lemmas api_statements = Status statements LastActive Verified AgentLost Missing Register Heartbeat Token Poll listings

lemmas api_calls = calls keeps_query_or

lemma sandbox_handlers_keep:
  "keeps (safe I) (handleListSandboxes lib sr q)"
  "keeps (safe I) (handleDestroySandbox lib lc c idStr)"
  "keeps (safe I) (handleRestartSandbox lib lc c idStr)"
  "keeps (safe I) (handleWakeSandbox lib lc c idStr)"
  unfolding handleListSandboxes_def handleDestroySandbox_def handleRestartSandbox_def handleWakeSandbox_def
    lifecycle_call_def Let_def
  by (intro api_calls api_statements DestroySandbox_keeps RestartSandbox_keeps WakeSandbox_keeps; assumption)+

lemma handleCreateSandbox_keeps:
  "fresh newID \<Longrightarrow> keeps (safe I) (handleCreateSandbox lc newID cmdID body)"
  unfolding handleCreateSandbox_def by (intro api_calls CreateSandbox_keeps; assumption)

lemma handleGetSandbox_keeps:
  "keeps (safe I) (handleGetSandbox lib sr (map_option (\<lambda>f. Freshness_GetSandbox now later f (ContainerExists http)) fr) idStr force)"
  unfolding handleGetSandbox_def Freshness_GetSandbox_def ContainerExists_def Let_def
  by (cases fr; simp only: option.map option.case; intro api_calls api_statements; assumption)

lemma node_handlers_keep:
  "keeps (safe I) (handleRegisterNode lib iv i tok body)"
  "keeps (safe I) (handleHeartbeat lib rc now idStr body)"
  "keeps (safe I) (handleListNodes lib)" "keeps (safe I) (handleDrainNode lib idStr)"
  "keeps (safe I) (handleRemoveNode lib idStr)"
  unfolding handleRegisterNode_def create_node_def handleHeartbeat_def Reconcile_def with_node_def handleListNodes_def
    handleDrainNode_def handleRemoveNode_def
  by (intro api_calls api_statements; assumption)+

lemma poll_loop_keeps: "keeps (safe I) (poll_loop lib n ex k)"
  by (induction k) (simp_all only: poll_loop.simps, (intro api_calls api_statements | assumption)+)

lemma agent_handlers_keep:
  "keeps (safe I) (handlePollCommands lib idStr ws ex k)"
  "keeps (safe I) (handleAckCommand lib ls idStr c body)"
  "keeps (safe I) (handleReportEvent lib ls c idStr body)"
  "keeps (safe I) (handleFilePush lib ul mac now secret idStr)"
  unfolding handlePollCommands_def handleAckCommand_def handleReportEvent_def handleFilePush_def
  by (intro api_calls api_statements poll_loop_keeps HandleAck_keeps HandleEvent_keeps; assumption)+

lemma other_handlers_keep:
  "keeps (safe I) (handleListEvents lib es q)" "keeps (safe I) (handleListRoutes rs)"
  "keeps (safe I) (handleGetLogs lib lp idStr q)" "keeps (safe I) (handleHealthz ping up)"
  "keeps (safe I) (handleMetrics lib ms)"
  unfolding handleListEvents_def handleListRoutes_def handleGetLogs_def handleHealthz_def handleMetrics_def Let_def
  by (intro api_calls api_statements; assumption)+

lemma route_keeps:
  assumes "\<And>body. req = PostSandbox body \<Longrightarrow> fresh (am_newID a)"
  shows "keeps (safe I) (route s a secret req)"
  using assms
  by (cases req) (simp_all add: sandbox_handlers_keep handleCreateSandbox_keeps handleGetSandbox_keeps node_handlers_keep
      agent_handlers_keep other_handlers_keep)

lemma RegisterRoutes_keeps:
  assumes "\<And>body. req = PostSandbox body \<Longrightarrow> fresh (am_newID a)"
  shows "keeps (safe I) (RegisterRoutes s a auth req)"
  unfolding RegisterRoutes_def BearerAuth_def by (intro api_calls route_keeps assms)

end

section \<open>Runs of the server\<close>

text \<open>The control plane as a whole: HTTP requests, and the work it does on its own (the idle reaper and the
  heartbeat monitor).\<close>

datatype activity = Http ambient string api_request | Background request

fun act :: "server \<Rightarrow> activity \<Rightarrow> (world, unit) state" where
  "act s (Http a auth req) = discard (RegisterRoutes s a auth req)"
| "act s (Background r) = serve (sv_agentLifecycle s) r"

definition run_server :: "server \<Rightarrow> activity list \<Rightarrow> world \<Rightarrow> world" where
  "run_server s acts w = snd (run_state (for_each (act s) acts) w)"

fun new_sandbox_of :: "activity \<Rightarrow> UUID option" where
  "new_sandbox_of (Http a auth (PostSandbox body)) = Some (am_newID a)"
| "new_sandbox_of (Http a auth req) = None"
| "new_sandbox_of (Background r) = creates r"

context api_invariant
begin

lemma act_keeps:
  assumes "\<And>i. new_sandbox_of x = Some i \<Longrightarrow> fresh i"
  shows "keeps (safe I) (act s x)"
proof (cases x)
  case (Http a auth req)
  show ?thesis unfolding Http act.simps
    by (intro keeps_discard RegisterRoutes_keeps) (use assms Http in simp)
next
  case (Background r)
  with assms show ?thesis by (simp add: serve_keeps)
qed

lemma run_server_safe:
  assumes "safe I w" and "\<And>x i. x \<in> set acts \<Longrightarrow> new_sandbox_of x = Some i \<Longrightarrow> fresh i"
  shows "I (db (run_server s acts w))"
proof -
  have "keeps (safe I) (for_each (act s) acts)"
    using assms(2) by (intro keeps_for_each_in act_keeps) blast
  from keepsD[OF this assms(1)] show ?thesis by (simp add: run_server_def safe_def)
qed

end

interpretation api_schema: api_invariant schema_ok "\<lambda>_. True"
  by unfold_locales (simp_all add: schema_statements)

lemma api_events_frame:
  "events (snd (UpdateSandboxLastActive i t)) = events t" "events (snd (MarkSandboxVerified app s t)) = events t"
  "events (snd (MarkSandboxAgentLost app n t)) = events t" "events (snd (MarkSandboxDestroyed app why t)) = events t"
  "events (snd (CreateNode cnp t)) = events t" "events (snd (UpdateNodeHeartbeat i used running t)) = events t"
  "events (snd (UpdateNodeToken token ver i t)) = events t" "events (snd (PollPendingCommands n t)) = events t"
  by (simp_all add: UpdateSandboxLastActive_def MarkSandboxVerified_def MarkSandboxAgentLost_def MarkSandboxDestroyed_def
      CreateNode_def UpdateNodeHeartbeat_def UpdateNodeToken_def PollPendingCommands_def Let_def
      split: option.split list.split)

interpretation api_audit: api_invariant "log_extends es" "\<lambda>_. True"
  by unfold_locales (simp_all add: log_extends_def api_events_frame)

lemma Bearer_iff: "prefix ''Bearer '' auth \<and> trim_prefix ''Bearer '' auth = token \<longleftrightarrow> auth = ''Bearer '' @ token"
  by (auto simp: trim_prefix_def prefix_def)

section \<open>Properties\<close>

definition an_ambient :: ambient where
  "an_ambient = \<lparr>am_newID = ''s2'', am_cmdID = ''c2'', am_token = Some ''tok'', am_now = 10 ^ 10, am_later = 10 ^ 10,
     am_agents = (\<lambda>_. Inl ''unreachable''), am_logs = None, am_routes = None, am_ticks = 3, am_ping = True, am_uptime = 3723, am_expired = (\<lambda>_. False),
     am_lib = a_lib, am_url = plain_lib, am_mac = (\<lambda>_ s. s)\<rparr>"

definition a_server :: server where
  "a_server = \<lparr>sv_config = Some (''key'', ''secret''), sv_sandboxReader = True, sv_lifecycle = Some a_service,
     sv_agentLifecycle = a_service, sv_reconciler = True, sv_freshness = Some (10 * second), sv_eventStore = True, sv_metricsStore = True, sv_interval = 15\<rparr>"

text \<open>The control plane keeps the schema of its database, whatever requests it is sent over HTTP and in
  whatever order, whatever the reaper and the monitor do, whatever others do between two of its statements
  and whichever statements fail.\<close>

theorem control_plane_keeps_schema:
  assumes "schema_ok (db w)" and "rely schema_ok w"
  shows "schema_ok (db (run_server s acts w))"
  using assms by (intro api_schema.run_server_safe) (simp_all add: safe_def)

theorem control_plane_keeps_schema_witness:
  "schema_ok (db (run_server a_server
     [Http an_ambient ''Bearer key'' (HeartbeatReq ''n1'' (Some a_heartbeat)), Background (Reap id)] (a_world StateRunning)))"
  by (rule control_plane_keeps_schema)
    (simp_all add: a_world_def rely_def schema_clock schema_ok_def concrete named_status_def AllStates_def)

text \<open>The audit log is append-only: no HTTP request, no background pass, no interleaving and no fault
  removes or rewrites an event that was recorded, as long as nobody else does.\<close>

theorem control_plane_log_append_only:
  assumes "rely (log_extends (events (db w))) w"
  shows "prefix (events (db w)) (events (db (run_server s acts w)))"
  using api_audit.run_server_safe[of "events (db w)" w acts s] assms
  by (simp add: safe_def log_extends_def)

theorem control_plane_log_append_only_witness:
  "prefix (events (db (a_world StateRunning)))
    (events (db (run_server a_server [Http an_ambient ''Bearer key'' (DestroyReq ''s''), Background (Reap id)] (a_world StateRunning))))"
  by (rule control_plane_log_append_only) (simp add: a_world_def rely_def log_extends_def)



end
