(* ===== verification/Ports.thy ===== *)
theory Ports
  imports Forge_Prelude
begin

text \<open>
  The port pool of an agent, \<^verbatim>\<open>agent/internal/ports/allocator.go\<close>. The two maps with value \<^verbatim>\<open>true\<close> are sets;
  \<^verbatim>\<open>Allocate\<close> takes the first port that the iteration of a map yields, which Go leaves open: the argument
  \<open>hint\<close> is that port (if it is not a key of the map, the smallest key stands for it, so that every choice
  is covered and none is outside the map). The mutex makes every operation atomic. The locale \<open>port_pool\<close> is what a client of the
  pool relies on; it is interpreted on the allocator.
\<close>

section \<open>Operations\<close>

record Allocator =
  available :: "int set"
  allocated :: "int set"
  min_port :: int
  max_port :: int

definition NewAllocator :: "int \<Rightarrow> int \<Rightarrow> Allocator" where
  "NewAllocator lo hi = \<lparr>available = {lo..hi}, allocated = {}, min_port = lo, max_port = hi\<rparr>"

definition range_text :: "Allocator \<Rightarrow> string" where
  "range_text a = ''range ['' @ show_int (min_port a) @ '', '' @ show_int (max_port a) @ '']''"

definition first_key :: "int \<Rightarrow> int set \<Rightarrow> int" where
  "first_key hint S = (if hint \<in> S then hint else Min S)"

definition Allocate :: "int \<Rightarrow> Allocator \<Rightarrow> (string + int) \<times> Allocator" where
  "Allocate hint a =
    (if available a = {} then (Inl (''port allocator: no ports available in '' @ range_text a), a)
     else let port = first_key hint (available a) in
       (Inr port, a\<lparr>available := available a - {port}, allocated := insert port (allocated a)\<rparr>))"

definition AllocateSpecific :: "int \<Rightarrow> Allocator \<Rightarrow> (string + unit) \<times> Allocator" where
  "AllocateSpecific port a =
    (if port < min_port a \<or> port > max_port a then
       (Inl (''port allocator: port '' @ show_int port @ '' is outside '' @ range_text a), a)
     else if port \<in> allocated a then
       (Inl (''port allocator: port '' @ show_int port @ '' is already allocated''), a)
     else if port \<notin> available a then
       (Inl (''port allocator: port '' @ show_int port @ '' is not available''), a)
     else (Inr (), a\<lparr>available := available a - {port}, allocated := insert port (allocated a)\<rparr>))"

definition Release :: "int \<Rightarrow> Allocator \<Rightarrow> (string + unit) \<times> Allocator" where
  "Release port a =
    (if port \<notin> allocated a then
       (Inl (''port allocator: port '' @ show_int port @ '' is not currently allocated''), a)
     else (Inr (), a\<lparr>allocated := allocated a - {port}, available := insert port (available a)\<rparr>))"

definition InUse :: "Allocator \<Rightarrow> nat" where
  "InUse a = card (allocated a)"

definition Available :: "Allocator \<Rightarrow> nat" where
  "Available a = card (available a)"

section \<open>The contract of a pool\<close>

text \<open>A pool hands out ports that are not in use; everything else about it is hidden behind \<open>used\<close>.\<close>

locale port_pool =
  fixes take_port :: "'s \<Rightarrow> ('e + int) \<times> 's" and give_back :: "int \<Rightarrow> 's \<Rightarrow> ('f + unit) \<times> 's"
    and used :: "'s \<Rightarrow> int set" and ok :: "'s \<Rightarrow> bool"
  assumes take_ok: "ok s \<Longrightarrow> ok (snd (take_port s))"
    and take_fresh: "ok s \<Longrightarrow> take_port s = (Inr p, s') \<Longrightarrow> p \<notin> used s \<and> used s' = insert p (used s)"
    and take_full: "ok s \<Longrightarrow> take_port s = (Inl e, s') \<Longrightarrow> s' = s"
    and give_ok: "ok s \<Longrightarrow> ok (snd (give_back p s))"
    and give_used: "ok s \<Longrightarrow> used (snd (give_back p s)) = used s - {p}"
begin

text \<open>Taking a port and giving it back leaves the ports in use as they were.\<close>

lemma take_give:
  assumes "ok s" and "take_port s = (Inr p, s')"
  shows "used (snd (give_back p s')) = used s"
proof -
  have "ok s'" using take_ok[OF assms(1)] assms(2) by simp
  then show ?thesis using give_used[of s' p] take_fresh[OF assms] by auto
qed

end

definition alloc_ok :: "Allocator \<Rightarrow> bool" where
  "alloc_ok a \<longleftrightarrow> available a \<inter> allocated a = {} \<and> available a \<union> allocated a = {min_port a..max_port a}"

lemma alloc_ok_New: "alloc_ok (NewAllocator lo hi)"
  by (simp add: alloc_ok_def NewAllocator_def)

lemma first_key_in: "alloc_ok a \<Longrightarrow> available a \<noteq> {} \<Longrightarrow> first_key hint (available a) \<in> available a"
proof -
  assume a: "alloc_ok a" "available a \<noteq> {}"
  have "available a \<subseteq> {min_port a..max_port a}" using a(1) by (auto simp: alloc_ok_def)
  then have "finite (available a)" by (rule finite_subset) simp
  with a(2) show ?thesis by (simp add: first_key_def)
qed

lemma Allocate_cases:
  assumes "alloc_ok a"
  obtains (full) "available a = {}" "Allocate hint a = (Inl (''port allocator: no ports available in '' @ range_text a), a)"
    | (got) p where "p \<in> available a" "Allocate hint a =
        (Inr p, a\<lparr>available := available a - {p}, allocated := insert p (allocated a)\<rparr>)"
proof (cases "available a = {}")
  case True
  then show ?thesis by (intro full) (simp_all add: Allocate_def)
next
  case False
  with first_key_in[OF assms False, of hint] show ?thesis
    by (intro got[of "first_key hint (available a)"]) (simp_all add: Allocate_def Let_def)
qed

lemma alloc_ok_move:
  "alloc_ok a \<Longrightarrow> p \<in> available a \<Longrightarrow>
    alloc_ok (a\<lparr>available := available a - {p}, allocated := insert p (allocated a)\<rparr>)"
  by (auto simp: alloc_ok_def)

lemma alloc_ok_Allocate: "alloc_ok a \<Longrightarrow> alloc_ok (snd (Allocate hint a))"
  by (cases a rule: Allocate_cases[where hint = hint]) (simp_all add: alloc_ok_move)

lemma alloc_ok_AllocateSpecific: "alloc_ok a \<Longrightarrow> alloc_ok (snd (AllocateSpecific p a))"
  by (simp add: AllocateSpecific_def alloc_ok_move)

lemma alloc_ok_Release: "alloc_ok a \<Longrightarrow> alloc_ok (snd (Release p a))"
  by (auto simp: alloc_ok_def Release_def)

text \<open>The allocator is a pool, whatever the map iteration yields.\<close>

interpretation pool: port_pool "Allocate hint" Release allocated alloc_ok
proof
  fix a p a' assume a: "alloc_ok a"
  show "alloc_ok (snd (Allocate hint a))" "alloc_ok (snd (Release p a))"
    using a by (simp_all add: alloc_ok_Allocate alloc_ok_Release)
  show "allocated (snd (Release p a)) = allocated a - {p}" by (simp add: Release_def)
  show "p \<notin> allocated a \<and> allocated a' = insert p (allocated a)" if "Allocate hint a = (Inr p, a')"
    using a
  proof (cases rule: Allocate_cases[where hint = hint])
    case (got q)
    with that a show ?thesis by (auto simp: alloc_ok_def)
  qed (use that in simp)
  show "a' = a" if "Allocate hint a = (Inl e, a')" for e
    using a by (cases rule: Allocate_cases[where hint = hint]) (use that in simp_all)
qed

section \<open>Properties\<close>

datatype pool_op = OpAllocate int | OpSpecific int | OpRelease int

fun pool_run :: "pool_op list \<Rightarrow> Allocator \<Rightarrow> Allocator" where
  "pool_run [] a = a"
| "pool_run (OpAllocate h # ops) a = pool_run ops (snd (Allocate h a))"
| "pool_run (OpSpecific p # ops) a = pool_run ops (snd (AllocateSpecific p a))"
| "pool_run (OpRelease p # ops) a = pool_run ops (snd (Release p a))"

lemma pool_run_ok: "alloc_ok a \<Longrightarrow> alloc_ok (pool_run ops a)"
  by (induction ops a rule: pool_run.induct)
    (simp_all add: alloc_ok_Allocate alloc_ok_AllocateSpecific alloc_ok_Release)

lemma pool_run_range:
  "min_port (pool_run ops a) = min_port a \<and> max_port (pool_run ops a) = max_port a"
  by (induction ops a rule: pool_run.induct)
    (simp_all add: Allocate_def AllocateSpecific_def Release_def Let_def)

text \<open>The pool never hands out a port twice: after any sequence of operations the ports in use and
  the free ports partition the configured range (so their numbers add up to its size), an allocation
  fails exactly when no port is free, and a port it returns was in the range and not in use.\<close>

theorem Allocator_exclusive:
  "let a = pool_run ops (NewAllocator lo hi) in
    available a \<inter> allocated a = {} \<and> available a \<union> allocated a = {lo..hi} \<and>
    InUse a + Available a = nat (hi - lo + 1) \<and>
    (case fst (Allocate hint a) of
       Inl _ \<Rightarrow> allocated a = {lo..hi}
     | Inr p \<Rightarrow> lo \<le> p \<and> p \<le> hi \<and> p \<notin> allocated a)"
proof -
  define a where "a = pool_run ops (NewAllocator lo hi)"
  have ok: "alloc_ok a" unfolding a_def by (rule pool_run_ok[OF alloc_ok_New])
  have r: "min_port a = lo" "max_port a = hi"
    using pool_run_range[of ops "NewAllocator lo hi"] by (simp_all add: a_def NewAllocator_def)
  have part: "available a \<inter> allocated a = {}" "available a \<union> allocated a = {lo..hi}"
    using ok r by (simp_all add: alloc_ok_def)
  then have "finite (available a)" "finite (allocated a)" by (metis finite_Un finite_atLeastAtMost_int)+
  then have "InUse a + Available a = card {lo..hi}"
    using card_Un_disjoint[of "available a" "allocated a"] part by (simp add: InUse_def Available_def)
  moreover have "case fst (Allocate hint a) of
       Inl _ \<Rightarrow> allocated a = {lo..hi}
     | Inr p \<Rightarrow> lo \<le> p \<and> p \<le> hi \<and> p \<notin> allocated a"
    using ok by (cases rule: Allocate_cases[where hint = hint]) (use part in auto)
  ultimately show ?thesis unfolding a_def[symmetric] using part by (simp add: Let_def)
qed

end
