(* ===== verification/Executor.thy ===== *)
theory Executor
  imports Ports Lifecycle
begin

text \<open>
  The command executor of an agent, \<^verbatim>\<open>agent/internal/agent/executor.go\<close>. The Docker client and the
  acknowledgment call are interfaces of the source (\<^verbatim>\<open>docker.Client\<close>, \<^verbatim>\<open>ackReporter\<close>): they are the fields of
  \<open>agent_env\<close>, functions on an arbitrary outside state that may answer anything. The text of a JSON error
  is a field as well. \<open>ex_acks\<close> lists the acknowledgments sent so far. The executor works through its
  commands one at a time; the clock and the port that the map iteration of the allocator yields are
  arguments of a command's execution.
\<close>

section \<open>State\<close>

record sandboxInfo =
  si_ContainerID :: string
  si_HostPort :: int
  si_AppName :: string

record SandboxSpec =
  sp_SandboxID :: string
  sp_AppName :: string
  sp_Image :: string
  sp_HostPort :: int
  sp_CPUCores :: rat
  sp_MemoryMB :: "64 word"
  sp_Env :: env
  sp_SandboxDir :: string
  sp_SeccompPath :: string

record AgentCommand =
  ac_ID :: string
  ac_Type :: string
  ac_SandboxID :: string
  ac_Payload :: "json option"
  ac_IssuedAt :: timestamp
  ac_TimeoutSeconds :: int

record AckRequest =
  ar_Status :: string
  ar_Error :: string
  ar_Result :: "json option"

record 'e agent_env =
  x_CreateContainer :: "SandboxSpec \<Rightarrow> 'e \<Rightarrow> (string + string) \<times> 'e"
  x_StopContainer :: "string \<Rightarrow> int \<Rightarrow> 'e \<Rightarrow> (string + unit) \<times> 'e"
  x_RemoveContainer :: "string \<Rightarrow> 'e \<Rightarrow> (string + unit) \<times> 'e"
  x_RestartContainer :: "string \<Rightarrow> int \<Rightarrow> 'e \<Rightarrow> (string + unit) \<times> 'e"
  x_GetLogs :: "string \<Rightarrow> int \<Rightarrow> bool \<Rightarrow> 'e \<Rightarrow> (string + (string + string)) \<times> 'e"
  x_AckCommand :: "string \<Rightarrow> AckRequest \<Rightarrow> 'e \<Rightarrow> (string + unit) \<times> 'e"
  x_json_error :: "json option \<Rightarrow> string"

record 'e executor =
  ex_outside :: 'e
  ex_ports :: Allocator
  ex_sandboxes :: "(string \<times> sandboxInfo) list"
  ex_sandboxDir :: string
  ex_acks :: "(string \<times> AckRequest) list"

definition NewCommandExecutor :: "'e \<Rightarrow> Allocator \<Rightarrow> string \<Rightarrow> 'e executor" where
  "NewCommandExecutor e a dir = \<lparr>ex_outside = e, ex_ports = a, ex_sandboxes = [], ex_sandboxDir = dir,
     ex_acks = []\<rparr>"

definition outside :: "('e \<Rightarrow> 'a \<times> 'e) \<Rightarrow> ('e executor, 'a) state" where
  "outside f = State (\<lambda>x. let (r, e) = f (ex_outside x) in (r, x\<lparr>ex_outside := e\<rparr>))"

definition on_ports :: "(Allocator \<Rightarrow> 'a \<times> Allocator) \<Rightarrow> ('e executor, 'a) state" where
  "on_ports f = State (\<lambda>x. let (r, a) = f (ex_ports x) in (r, x\<lparr>ex_ports := a\<rparr>))"

section \<open>Payloads\<close>

record resourceSpec =
  rs_CPUCores :: rat
  rs_MemoryMB :: "64 word"

definition decode_resourceSpec :: "json \<Rightarrow> resourceSpec \<Rightarrow> resourceSpec \<times> bool" where
  "decode_resourceSpec j old =
    (let (ms, ok) = object_members j;
         (cpu, ok1) = decode_field ''cpu_cores'' decode_float ms (rs_CPUCores old);
         (mem, ok2) = decode_field ''memory_mb'' decode_int64 ms (rs_MemoryMB old)
     in (\<lparr>rs_CPUCores = cpu, rs_MemoryMB = mem\<rparr>, ok \<and> ok1 \<and> ok2))"

record startSandboxPayload =
  st_AppName :: string
  st_Image :: string
  st_Resources :: resourceSpec
  st_Env :: env

text \<open>A payload that is absent (no bytes) is not valid JSON.\<close>

definition decode_start :: "json option \<Rightarrow> startSandboxPayload option" where
  "decode_start p = (case p of None \<Rightarrow> None | Some j \<Rightarrow>
    (let (ms, ok) = object_members j;
         (app, ok1) = decode_field ''app_name'' decode_string ms '''';
         (img, ok2) = decode_field ''image'' decode_string ms '''';
         (res, ok3) = decode_field ''resources'' decode_resourceSpec ms \<lparr>rs_CPUCores = 0, rs_MemoryMB = 0\<rparr>;
         (ev, ok4) = decode_field ''env'' decode_env_map ms None
     in if ok \<and> ok1 \<and> ok2 \<and> ok3 \<and> ok4
        then Some \<lparr>st_AppName = app, st_Image = img, st_Resources = res, st_Env = ev\<rparr> else None))"

definition decode_container :: "json option \<Rightarrow> string option" where
  "decode_container p = (case p of None \<Rightarrow> None | Some j \<Rightarrow>
    (let (ms, ok) = object_members j; (c, ok1) = decode_field ''container_id'' decode_string ms ''''
     in if ok \<and> ok1 then Some c else None))"

definition decode_logs :: "json option \<Rightarrow> (string \<times> int \<times> bool) option" where
  "decode_logs p = (case p of None \<Rightarrow> None | Some j \<Rightarrow>
    (let (ms, ok) = object_members j;
         (c, ok1) = decode_field ''container_id'' decode_string ms '''';
         (n, ok2) = decode_field ''tail'' decode_int64 ms 0;
         (f, ok3) = decode_field ''follow'' decode_bool ms False
     in if ok \<and> ok1 \<and> ok2 \<and> ok3 then Some (c, sint n, f) else None))"

section \<open>Commands\<close>

definition send_ack :: "'e agent_env \<Rightarrow> string \<Rightarrow> AckRequest \<Rightarrow> ('e executor, string + unit) state" where
  "send_ack env cmdID ack = do {
     _ \<leftarrow> State (\<lambda>x. ((), x\<lparr>ex_acks := ex_acks x @ [(cmdID, ack)]\<rparr>));
     outside (x_AckCommand env cmdID ack) }"

definition ackSuccess :: "'e agent_env \<Rightarrow> string \<Rightarrow> json \<Rightarrow> ('e executor, string + unit) state" where
  "ackSuccess env cmdID result =
    send_ack env cmdID \<lparr>ar_Status = ''success'', ar_Error = '''', ar_Result = Some result\<rparr>"

definition ackFailure :: "'e agent_env \<Rightarrow> string \<Rightarrow> string \<Rightarrow> ('e executor, string + unit) state" where
  "ackFailure env cmdID errMsg =
    send_ack env cmdID \<lparr>ar_Status = ''failure'', ar_Error = errMsg, ar_Result = None\<rparr>"

definition start_spec :: "AgentCommand \<Rightarrow> startSandboxPayload \<Rightarrow> int \<Rightarrow> string \<Rightarrow> SandboxSpec" where
  "start_spec cmd payload hostPort dir =
    \<lparr>sp_SandboxID = ac_SandboxID cmd, sp_AppName = st_AppName payload, sp_Image = st_Image payload,
     sp_HostPort = hostPort, sp_CPUCores = rs_CPUCores (st_Resources payload),
     sp_MemoryMB = rs_MemoryMB (st_Resources payload), sp_Env = st_Env payload, sp_SandboxDir = dir,
     sp_SeccompPath = ''''\<rparr>"

definition executeStartSandbox ::
    "'e agent_env \<Rightarrow> int \<Rightarrow> AgentCommand \<Rightarrow> ('e executor, string + unit) state" where
  "executeStartSandbox env hint cmd =
    (case decode_start (ac_Payload cmd) of
       None \<Rightarrow> ackFailure env (ac_ID cmd) (''invalid start_sandbox payload: '' @ x_json_error env (ac_Payload cmd))
     | Some payload \<Rightarrow> do {
         p \<leftarrow> on_ports (Allocate hint);
         case p of
           Inl err \<Rightarrow> ackFailure env (ac_ID cmd) (''port allocation failed: '' @ err)
         | Inr hostPort \<Rightarrow> do {
             dir \<leftarrow> State (\<lambda>x. (ex_sandboxDir x, x));
             c \<leftarrow> outside (x_CreateContainer env (start_spec cmd payload hostPort dir));
             case c of
               Inl err \<Rightarrow> do {
                 _ \<leftarrow> on_ports (Release hostPort);
                 ackFailure env (ac_ID cmd) (''container creation failed: '' @ err) }
             | Inr containerID \<Rightarrow> do {
                 _ \<leftarrow> State (\<lambda>x. ((), x\<lparr>ex_sandboxes := AList.update (ac_SandboxID cmd)
                        \<lparr>si_ContainerID = containerID, si_HostPort = hostPort, si_AppName = st_AppName payload\<rparr>
                        (ex_sandboxes x)\<rparr>));
                 ackSuccess env (ac_ID cmd) (JObj [(''container_id'', JStr containerID),
                   (''host_port'', JNum (of_int hostPort))]) } } })"

definition executeStopSandbox :: "'e agent_env \<Rightarrow> AgentCommand \<Rightarrow> ('e executor, string + unit) state" where
  "executeStopSandbox env cmd =
    (case decode_container (ac_Payload cmd) of
       None \<Rightarrow> ackFailure env (ac_ID cmd) (''invalid stop_sandbox payload: '' @ x_json_error env (ac_Payload cmd))
     | Some containerID \<Rightarrow> do {
         s \<leftarrow> outside (x_StopContainer env containerID (10 * second));
         case s of
           Inl err \<Rightarrow> ackFailure env (ac_ID cmd) (''stop container failed: '' @ err)
         | Inr _ \<Rightarrow> do {
             r \<leftarrow> outside (x_RemoveContainer env containerID);
             case r of
               Inl err \<Rightarrow> ackFailure env (ac_ID cmd) (''remove container failed: '' @ err)
             | Inr _ \<Rightarrow> do {
                 _ \<leftarrow> State (\<lambda>x. ((), case map_of (ex_sandboxes x) (ac_SandboxID cmd) of
                        None \<Rightarrow> x
                      | Some info \<Rightarrow> x\<lparr>ex_ports := snd (Release (si_HostPort info) (ex_ports x)),
                          ex_sandboxes := AList.delete (ac_SandboxID cmd) (ex_sandboxes x)\<rparr>));
                 ackSuccess env (ac_ID cmd) JEmpty } } })"

definition executeRestartSandbox :: "'e agent_env \<Rightarrow> AgentCommand \<Rightarrow> ('e executor, string + unit) state" where
  "executeRestartSandbox env cmd =
    (case decode_container (ac_Payload cmd) of
       None \<Rightarrow> ackFailure env (ac_ID cmd) (''invalid restart_sandbox payload: '' @ x_json_error env (ac_Payload cmd))
     | Some containerID \<Rightarrow> do {
         s \<leftarrow> outside (x_RestartContainer env containerID (10 * second));
         case s of
           Inl err \<Rightarrow> ackFailure env (ac_ID cmd) (''restart container failed: '' @ err)
         | Inr _ \<Rightarrow> ackSuccess env (ac_ID cmd) JEmpty })"

definition executeGetLogs :: "'e agent_env \<Rightarrow> AgentCommand \<Rightarrow> ('e executor, string + unit) state" where
  "executeGetLogs env cmd =
    (case decode_logs (ac_Payload cmd) of
       None \<Rightarrow> ackFailure env (ac_ID cmd) (''invalid get_logs payload: '' @ x_json_error env (ac_Payload cmd))
     | Some (containerID, tail, follow) \<Rightarrow> do {
         s \<leftarrow> outside (x_GetLogs env containerID tail follow);
         case s of
           Inl err \<Rightarrow> ackFailure env (ac_ID cmd) (''get logs failed: '' @ err)
         | Inr (Inl err) \<Rightarrow> ackFailure env (ac_ID cmd) (''read logs failed: '' @ err)
         | Inr (Inr logs) \<Rightarrow> ackSuccess env (ac_ID cmd) (JObj [(''logs'', JStr logs)]) })"

definition executePrune :: "'e agent_env \<Rightarrow> AgentCommand \<Rightarrow> ('e executor, string + unit) state" where
  "executePrune env cmd = ackSuccess env (ac_ID cmd) JEmpty"

text \<open>A duration is a signed 64-bit number of nanoseconds, and the multiplication wraps around; the
  clock of the model counts microseconds.\<close>

definition expired :: "timestamp \<Rightarrow> AgentCommand \<Rightarrow> bool" where
  "expired now cmd \<longleftrightarrow> 0 < ac_TimeoutSeconds cmd \<and> 
     ac_IssuedAt cmd * 1000 + sint (word_of_int (ac_TimeoutSeconds cmd * 1000000000) :: 64 word) < now * 1000"

definition Execute ::
    "'e agent_env \<Rightarrow> timestamp \<Rightarrow> int \<Rightarrow> AgentCommand \<Rightarrow> ('e executor, string + unit) state" where
  "Execute env now hint cmd =
    (if expired now cmd then ackFailure env (ac_ID cmd) ''command timed out before execution''
     else if ac_Type cmd = ''start_sandbox'' then executeStartSandbox env hint cmd
     else if ac_Type cmd = ''stop_sandbox'' then executeStopSandbox env cmd
     else if ac_Type cmd = ''restart_sandbox'' then executeRestartSandbox env cmd
     else if ac_Type cmd = ''get_logs'' then executeGetLogs env cmd
     else if ac_Type cmd = ''prune'' then executePrune env cmd
     else ackFailure env (ac_ID cmd) (''unknown command type: '' @ ac_Type cmd))"

definition CodeDir :: "string \<Rightarrow> 'e executor \<Rightarrow> string + string" where
  "CodeDir sandboxID x = (case map_of (ex_sandboxes x) sandboxID of
     None \<Rightarrow> Inl (''sandbox '' @ sandboxID @ '' not found on this node'')
   | Some info \<Rightarrow> Inr (ex_sandboxDir x @ ''/'' @ si_AppName info @ ''/code''))"

section \<open>Symbolic execution\<close>

lemma run_outside: "run_state (outside f) x = (fst (f (ex_outside x)), x\<lparr>ex_outside := snd (f (ex_outside x))\<rparr>)"
  by (simp add: outside_def split: prod.split)

lemma run_on_ports: "run_state (on_ports f) x = (fst (f (ex_ports x)), x\<lparr>ex_ports := snd (f (ex_ports x))\<rparr>)"
  by (simp add: on_ports_def split: prod.split)

lemma run_send_ack:
  "snd (run_state (send_ack env i a) x) = x\<lparr>ex_acks := ex_acks x @ [(i, a)],
     ex_outside := snd (x_AckCommand env i a (ex_outside x))\<rparr>"
  by (simp add: send_ack_def run_outside)

lemmas run_exec = run_outside run_on_ports run_send_ack ackSuccess_def ackFailure_def

text \<open>What a step leaves alone: everything but the outside and one acknowledgment of the command.\<close>

definition only_acks :: "string \<Rightarrow> 'e executor \<Rightarrow> 'e executor \<Rightarrow> bool" where
  "only_acks i x x' \<longleftrightarrow> ex_ports x' = ex_ports x \<and> ex_sandboxes x' = ex_sandboxes x \<and>
     ex_sandboxDir x' = ex_sandboxDir x \<and> map fst (ex_acks x') = map fst (ex_acks x) @ [i]"

definition starts :: "AgentCommand \<Rightarrow> 'e executor \<Rightarrow> 'e executor \<Rightarrow> bool" where
  "starts cmd x x' \<longleftrightarrow> (\<exists>info. si_HostPort info \<in> available (ex_ports x) \<and>
     ex_ports x' = (ex_ports x)\<lparr>available := available (ex_ports x) - {si_HostPort info},
        allocated := insert (si_HostPort info) (allocated (ex_ports x))\<rparr> \<and>
     ex_sandboxes x' = AList.update (ac_SandboxID cmd) info (ex_sandboxes x) \<and> ex_sandboxDir x' = ex_sandboxDir x \<and>
     map fst (ex_acks x') = map fst (ex_acks x) @ [ac_ID cmd])"

definition stops :: "AgentCommand \<Rightarrow> 'e executor \<Rightarrow> 'e executor \<Rightarrow> bool" where
  "stops cmd x x' \<longleftrightarrow> (\<exists>info. map_of (ex_sandboxes x) (ac_SandboxID cmd) = Some info \<and>
     ex_ports x' = snd (Release (si_HostPort info) (ex_ports x)) \<and>
     ex_sandboxes x' = AList.delete (ac_SandboxID cmd) (ex_sandboxes x) \<and> ex_sandboxDir x' = ex_sandboxDir x \<and>
     map fst (ex_acks x') = map fst (ex_acks x) @ [ac_ID cmd])"

lemma ack_only: "only_acks i x (snd (run_state (send_ack env i a) x))"
  by (simp add: only_acks_def run_send_ack)

lemma release_allocated:
  assumes "alloc_ok a" and "p \<in> available a"
  shows "snd (Release p (a\<lparr>available := available a - {p}, allocated := insert p (allocated a)\<rparr>)) = a"
proof -
  have "p \<notin> allocated a" using assms by (auto simp: alloc_ok_def)
  then have "insert p (allocated a) - {p} = allocated a" by simp
  moreover have "insert p (available a - {p}) = available a" using assms(2) by auto
  ultimately show ?thesis by (simp add: Release_def)
qed

lemma start_outcome:
  assumes "alloc_ok (ex_ports x)"
  shows "only_acks (ac_ID cmd) x (snd (run_state (executeStartSandbox env hint cmd) x)) \<or>
    starts cmd x (snd (run_state (executeStartSandbox env hint cmd) x))"
proof (cases "decode_start (ac_Payload cmd)")
  case None
  then show ?thesis by (simp add: executeStartSandbox_def ackFailure_def ack_only)
next
  case (Some payload)
  from assms show ?thesis
  proof (cases rule: Allocate_cases[where hint = hint])
    case full
    with Some show ?thesis by (simp add: executeStartSandbox_def run_exec only_acks_def)
  next
    case (got p)
    let ?c = "x_CreateContainer env (start_spec cmd payload p (ex_sandboxDir x)) (ex_outside x)"
    show ?thesis
    proof (cases "fst ?c")
      case (Inl err)
      with Some got release_allocated[OF assms got(1)] show ?thesis
        by (simp add: executeStartSandbox_def run_exec only_acks_def)
    next
      case (Inr cid)
      let ?info = "\<lparr>si_ContainerID = cid, si_HostPort = p, si_AppName = st_AppName payload\<rparr>"
      have "starts cmd x (snd (run_state (executeStartSandbox env hint cmd) x))"
        unfolding starts_def using Some got Inr
        by (intro exI[of _ ?info]) (simp_all add: executeStartSandbox_def run_exec)
      then show ?thesis ..
    qed
  qed
qed

lemma start_tracks:
  assumes "alloc_ok (ex_ports x)" and "ac_Type cmd = ''start_sandbox''" and "decode_start (ac_Payload cmd) = Some payload"
    and "map_of (ex_sandboxes x) (ac_SandboxID cmd) = None"
    and tracked: "map_of (ex_sandboxes (snd (run_state (Execute env now hint cmd) x))) (ac_SandboxID cmd) = Some info"
  shows "\<exists>p cid. fst (x_CreateContainer env (start_spec cmd payload p (ex_sandboxDir x)) (ex_outside x)) = Inr cid \<and>
    info = \<lparr>si_ContainerID = cid, si_HostPort = p, si_AppName = st_AppName payload\<rparr>"
proof -
  have run: "Execute env now hint cmd = executeStartSandbox env hint cmd"
    using assms(2,4) tracked by (auto simp: Execute_def run_exec)
  from assms(1) show ?thesis
  proof (cases rule: Allocate_cases[where hint = hint])
    case full
    with assms(3,4) tracked show ?thesis by (simp add: run executeStartSandbox_def run_exec)
  next
    case (got p)
    let ?c = "x_CreateContainer env (start_spec cmd payload p (ex_sandboxDir x)) (ex_outside x)"
    show ?thesis
    proof (cases "fst ?c")
      case (Inl err)
      with assms(3,4) tracked got show ?thesis by (simp add: run executeStartSandbox_def run_exec)
    next
      case (Inr cid)
      with assms(3) tracked got have "info = \<lparr>si_ContainerID = cid, si_HostPort = p, si_AppName = st_AppName payload\<rparr>"
        by (simp add: run executeStartSandbox_def run_exec update_Some_unfold)
      with Inr show ?thesis by blast
    qed
  qed
qed

lemma stop_outcome:
  "only_acks (ac_ID cmd) x (snd (run_state (executeStopSandbox env cmd) x)) \<or>
   stops cmd x (snd (run_state (executeStopSandbox env cmd) x))"
  by (auto simp: executeStopSandbox_def run_exec only_acks_def stops_def split: option.split sum.split)

lemma other_outcome:
  "only_acks (ac_ID cmd) x (snd (run_state (executeRestartSandbox env cmd) x))"
  "only_acks (ac_ID cmd) x (snd (run_state (executeGetLogs env cmd) x))"
  "only_acks (ac_ID cmd) x (snd (run_state (executePrune env cmd) x))"
  by (auto simp: executeRestartSandbox_def executeGetLogs_def executePrune_def run_exec only_acks_def
      split: option.split sum.split)

text \<open>A command starts a sandbox, stops one, or does nothing but acknowledge.\<close>

lemma Execute_outcome:
  assumes "alloc_ok (ex_ports x)"
  shows "only_acks (ac_ID cmd) x (snd (run_state (Execute env now hint cmd) x)) \<or>
    starts cmd x (snd (run_state (Execute env now hint cmd) x)) \<or>
    stops cmd x (snd (run_state (Execute env now hint cmd) x))"
  using start_outcome[OF assms, of cmd env hint] stop_outcome[of cmd x env] other_outcome[of cmd x env]
    ack_only[of "ac_ID cmd" x env]
  unfolding Execute_def ackFailure_def by (auto split: if_split)

lemma Execute_sandboxDir:
  "alloc_ok (ex_ports x) \<Longrightarrow> ex_sandboxDir (snd (run_state (Execute env now hint cmd) x)) = ex_sandboxDir x"
  using Execute_outcome[of x cmd env now hint] by (auto simp: only_acks_def starts_def stops_def)

section \<open>Invariant\<close>

definition tracked_ports :: "'e executor \<Rightarrow> int list" where
  "tracked_ports x = map (si_HostPort \<circ> snd) (ex_sandboxes x)"

text \<open>No two tracked sandboxes share a port, and every tracked port is allocated.\<close>

definition executor_ok :: "'e executor \<Rightarrow> bool" where
  "executor_ok x \<longleftrightarrow> alloc_ok (ex_ports x) \<and> distinct (map fst (ex_sandboxes x)) \<and>
     distinct (tracked_ports x) \<and> set (tracked_ports x) \<subseteq> allocated (ex_ports x)"

lemma executor_ok_only: "only_acks i x x' \<Longrightarrow> executor_ok x \<Longrightarrow> executor_ok x'"
  by (simp add: only_acks_def executor_ok_def tracked_ports_def)

lemma update_values:
  assumes "distinct (map (g \<circ> snd) m)" and "g v \<notin> set (map (g \<circ> snd) m)"
  shows "distinct (map (g \<circ> snd) (AList.update k v m)) \<and>
    set (map (g \<circ> snd) (AList.update k v m)) \<subseteq> insert (g v) (set (map (g \<circ> snd) m))"
  using assms
proof (induction m)
  case (Cons x m)
  then show ?case by (cases x) auto
qed simp

lemma set_update_values: "set (map (g \<circ> snd) (AList.update k v m)) \<subseteq> insert (g v) (set (map (g \<circ> snd) m))"
  by (induction m) auto

lemma set_delete_subset: "set (AList.delete k m) \<subseteq> set m"
  by (induction m) auto

lemma executor_ok_starts:
  assumes "starts cmd x x'" and "executor_ok x"
  shows "executor_ok x'"
proof -
  from assms(1) obtain info where i: "si_HostPort info \<in> available (ex_ports x)"
    "ex_ports x' = (ex_ports x)\<lparr>available := available (ex_ports x) - {si_HostPort info},
        allocated := insert (si_HostPort info) (allocated (ex_ports x))\<rparr>"
    "ex_sandboxes x' = AList.update (ac_SandboxID cmd) info (ex_sandboxes x)" unfolding starts_def by blast
  have "alloc_ok (ex_ports x)" and sub: "set (tracked_ports x) \<subseteq> allocated (ex_ports x)"
    using assms(2) by (simp_all add: executor_ok_def)
  then have "si_HostPort info \<notin> set (tracked_ports x)" using i(1) by (auto simp: alloc_ok_def)
  with update_values[of si_HostPort "ex_sandboxes x" info "ac_SandboxID cmd"] i assms(2) sub show ?thesis
    by (auto simp: executor_ok_def tracked_ports_def alloc_ok_move distinct_update)
qed

lemma executor_ok_stops:
  assumes "stops cmd x x'" and "executor_ok x"
  shows "executor_ok x'"
proof -
  from assms(1) obtain info where i: "map_of (ex_sandboxes x) (ac_SandboxID cmd) = Some info"
    "ex_ports x' = snd (Release (si_HostPort info) (ex_ports x))"
    "ex_sandboxes x' = AList.delete (ac_SandboxID cmd) (ex_sandboxes x)" unfolding stops_def by blast
  have d: "AList.delete k m = filter (\<lambda>y. fst y \<noteq> k) m" for k :: string and m :: "(string \<times> sandboxInfo) list"
    by (induction m) auto
  have ok: "alloc_ok (ex_ports x)" "distinct (map (si_HostPort \<circ> snd) (ex_sandboxes x))"
    "set (tracked_ports x) \<subseteq> allocated (ex_ports x)" "distinct (map fst (ex_sandboxes x))"
    using assms(2) by (simp_all add: executor_ok_def tracked_ports_def)
  have "si_HostPort (snd y) \<noteq> si_HostPort info" if "y \<in> set (ex_sandboxes x)" "fst y \<noteq> ac_SandboxID cmd" for y
    using ok(2) that map_of_SomeD[OF i(1)] by (auto simp: distinct_map inj_on_def)
  with ok i show ?thesis
    by (auto simp: executor_ok_def tracked_ports_def d alloc_ok_Release pool.give_used distinct_map_filter)
qed

lemma Execute_ok:
  assumes "executor_ok x"
  shows "executor_ok (snd (run_state (Execute env now hint cmd) x))"
proof -
  have "alloc_ok (ex_ports x)" using assms by (simp add: executor_ok_def)
  from Execute_outcome[OF this, of cmd env now hint] assms show ?thesis
    using executor_ok_only executor_ok_starts executor_ok_stops by blast
qed

fun run_commands ::
    "'e agent_env \<Rightarrow> (timestamp \<times> int \<times> AgentCommand) list \<Rightarrow> 'e executor \<Rightarrow> 'e executor" where
  "run_commands env [] x = x"
| "run_commands env ((now, hint, cmd) # cs) x = run_commands env cs (snd (run_state (Execute env now hint cmd) x))"

lemma run_commands_ok: "executor_ok x \<Longrightarrow> executor_ok (run_commands env cs x)"
  by (induction env cs x rule: run_commands.induct) (simp_all add: Execute_ok)

lemma run_commands_acks:
  "executor_ok x \<Longrightarrow>
    map fst (ex_acks (run_commands env cs x)) = map fst (ex_acks x) @ map (ac_ID \<circ> snd \<circ> snd) cs"
proof (induction env cs x rule: run_commands.induct)
  case (2 env now hint cmd cs x)
  have "alloc_ok (ex_ports x)" using 2(2) by (simp add: executor_ok_def)
  from Execute_outcome[OF this, of cmd env now hint]
  have "map fst (ex_acks (snd (run_state (Execute env now hint cmd) x))) = map fst (ex_acks x) @ [ac_ID cmd]"
    by (auto simp: only_acks_def starts_def stops_def)
  with 2 show ?case by (simp add: Execute_ok)
qed simp

lemma Execute_range:
  assumes "executor_ok x"
  shows "min_port (ex_ports (snd (run_state (Execute env now hint cmd) x))) = min_port (ex_ports x)"
    "max_port (ex_ports (snd (run_state (Execute env now hint cmd) x))) = max_port (ex_ports x)"
proof -
  have "alloc_ok (ex_ports x)" using assms by (simp add: executor_ok_def)
  from Execute_outcome[OF this, of cmd env now hint]
  show "min_port (ex_ports (snd (run_state (Execute env now hint cmd) x))) = min_port (ex_ports x)"
    "max_port (ex_ports (snd (run_state (Execute env now hint cmd) x))) = max_port (ex_ports x)"
    by (auto simp: only_acks_def starts_def stops_def Release_def)
qed

lemma run_commands_range:
  "executor_ok x \<Longrightarrow> min_port (ex_ports (run_commands env cs x)) = min_port (ex_ports x) \<and>
    max_port (ex_ports (run_commands env cs x)) = max_port (ex_ports x)"
  by (induction env cs x rule: run_commands.induct) (simp_all add: Execute_ok Execute_range)

lemma executor_ok_New: "executor_ok (NewCommandExecutor e (NewAllocator lo hi) dir)"
  by (simp add: executor_ok_def NewCommandExecutor_def tracked_ports_def alloc_ok_New)

definition an_env :: "unit agent_env" where
  "an_env = \<lparr>x_CreateContainer = (\<lambda>spec e. (Inr ''c-1'', e)), x_StopContainer = (\<lambda>c t e. (Inr (), e)),
     x_RemoveContainer = (\<lambda>c e. (Inr (), e)), x_RestartContainer = (\<lambda>c t e. (Inr (), e)),
     x_GetLogs = (\<lambda>c n f e. (Inr (Inr ''''), e)), x_AckCommand = (\<lambda>i a e. (Inr (), e)),
     x_json_error = (\<lambda>p. ''unexpected end of JSON input'')\<rparr>"

definition a_start :: AgentCommand where
  "a_start = \<lparr>ac_ID = ''cmd-1'', ac_Type = ''start_sandbox'', ac_SandboxID = ''sb-1'',
     ac_Payload = Some (JObj [(''app_name'', JStr ''shop''), (''image'', JStr ''expo'')]), ac_IssuedAt = 0,
     ac_TimeoutSeconds = 60\<rparr>"

definition a_stop :: AgentCommand where
  "a_stop = \<lparr>ac_ID = ''cmd-2'', ac_Type = ''stop_sandbox'', ac_SandboxID = ''sb-1'',
     ac_Payload = Some (JObj [(''container_id'', JStr ''c-1'')]), ac_IssuedAt = 0, ac_TimeoutSeconds = 0\<rparr>"

definition an_executor :: "unit executor" where
  "an_executor = NewCommandExecutor () (NewAllocator 8001 8002) ''/var/forge''"

definition a_busy_executor :: "unit executor" where
  "a_busy_executor = snd (run_state (Execute an_env 0 8001 a_start) an_executor)"

lemma a_start_simps:
  "\<not> expired 0 a_start" "ac_Type a_start = ''start_sandbox''" "ac_SandboxID a_start = ''sb-1''"
  "decode_start (ac_Payload a_start) = Some \<lparr>st_AppName = ''shop'', st_Image = ''expo'',
     st_Resources = \<lparr>rs_CPUCores = 0, rs_MemoryMB = 0\<rparr>, st_Env = None\<rparr>"
  by code_simp+

lemma a_stop_simps:
  "\<not> expired 0 a_stop" "ac_Type a_stop = ''stop_sandbox''" "ac_SandboxID a_stop = ''sb-1''"
  "decode_container (ac_Payload a_stop) = Some ''c-1''"
  by code_simp+

lemma an_env_simps:
  "\<exists>c. fst (x_CreateContainer an_env spec e) = Inr c" "fst (x_StopContainer an_env c t e) = Inr ()"
  "fst (x_RemoveContainer an_env c e) = Inr ()"
  by (simp_all add: an_env_def)

lemma an_executor_simps:
  "executor_ok an_executor" "map_of (ex_sandboxes an_executor) ''sb-1'' = None"
  "available (ex_ports an_executor) \<noteq> {}"
  by (simp_all add: an_executor_def executor_ok_New)
    (simp_all add: NewCommandExecutor_def NewAllocator_def)

lemma a_busy_executor_simps:
  "executor_ok a_busy_executor" "available (ex_ports a_busy_executor) \<noteq> {}"
  "map_of (ex_sandboxes a_busy_executor) (ac_SandboxID a_start) =
    Some \<lparr>si_ContainerID = ''c-1'', si_HostPort = 8001, si_AppName = ''shop''\<rparr>"
  unfolding a_busy_executor_def using an_executor_simps(1) 
  subgoal by (rule Execute_ok)
  subgoal by code_simp
  subgoal by code_simp
  done

section \<open>Properties\<close>


lemma start_success:
  assumes ok: "executor_ok x" and free: "available (ex_ports x) \<noteq> {}"
    and cmd: "\<not> expired now cmd" "ac_Type cmd = ''start_sandbox''" "decode_start (ac_Payload cmd) = Some payload"
    and docker: "\<And>spec e. \<exists>cid. fst (x_CreateContainer env spec e) = Inr cid"
  obtains cid p where "p \<in> available (ex_ports x)"
    "ex_ports (snd (run_state (Execute env now hint cmd) x)) = (ex_ports x)\<lparr>
       available := available (ex_ports x) - {p}, allocated := insert p (allocated (ex_ports x))\<rparr>"
    "ex_sandboxes (snd (run_state (Execute env now hint cmd) x)) = AList.update (ac_SandboxID cmd)
       \<lparr>si_ContainerID = cid, si_HostPort = p, si_AppName = st_AppName payload\<rparr> (ex_sandboxes x)"
    "ex_sandboxDir (snd (run_state (Execute env now hint cmd) x)) = ex_sandboxDir x"
    "ex_acks (snd (run_state (Execute env now hint cmd) x)) = ex_acks x @ [(ac_ID cmd, \<lparr>ar_Status = ''success'',
       ar_Error = '''', ar_Result = Some (JObj [(''container_id'', JStr cid), (''host_port'', JNum (of_int p))])\<rparr>)]"
proof -
  have "alloc_ok (ex_ports x)" using ok by (simp add: executor_ok_def)
  then show ?thesis
  proof (cases rule: Allocate_cases[where hint = hint])
    case full
    with free show ?thesis by simp
  next
    case (got p)
    obtain cid where "fst (x_CreateContainer env (start_spec cmd payload p (ex_sandboxDir x)) (ex_outside x)) = Inr cid"
      using docker by blast
    with cmd got show ?thesis
      by (intro that[of p cid]) (simp_all add: Execute_def executeStartSandbox_def run_exec)
  qed
qed

lemma stop_success:
  assumes cmd: "\<not> expired now cmd" "ac_Type cmd = ''stop_sandbox''" "decode_container (ac_Payload cmd) = Some cid"
    and info: "map_of (ex_sandboxes x) (ac_SandboxID cmd) = Some info"
    and docker: "\<And>c t e. fst (x_StopContainer env c t e) = Inr ()" "\<And>c e. fst (x_RemoveContainer env c e) = Inr ()"
  shows "ex_ports (snd (run_state (Execute env now hint cmd) x)) = snd (Release (si_HostPort info) (ex_ports x))"
    "ex_sandboxes (snd (run_state (Execute env now hint cmd) x)) = AList.delete (ac_SandboxID cmd) (ex_sandboxes x)"
  using assms by (simp_all add: Execute_def executeStopSandbox_def run_exec)

text \<open>C26. A start that Docker accepts followed by a stop of the same sandbox is neutral for the agent: in
  between the sandbox is tracked, its code directory is \<open><sandboxDir>/<appName>/code\<close> and the acknowledgment
  reports its container and port; afterwards exactly the ports and sandboxes of before remain, whatever the
  map iteration order of the allocator.\<close>

theorem start_then_stop:
  assumes ok: "executor_ok x" and fresh: "map_of (ex_sandboxes x) sid = None" and "available (ex_ports x) \<noteq> {}"
    and "\<not> expired n1 c1" "ac_Type c1 = ''start_sandbox''" "decode_start (ac_Payload c1) = Some payload"
    and "ac_SandboxID c1 = sid" "ac_SandboxID c2 = sid"
    and stop: "\<not> expired n2 c2" "ac_Type c2 = ''stop_sandbox''" "decode_container (ac_Payload c2) = Some cid"
    and "\<And>spec e. \<exists>c. fst (x_CreateContainer env spec e) = Inr c"
    and docker: "\<And>c t e. fst (x_StopContainer env c t e) = Inr ()" "\<And>c e. fst (x_RemoveContainer env c e) = Inr ()"
  shows "let x1 = snd (run_state (Execute env n1 h1 c1) x); x2 = snd (run_state (Execute env n2 h2 c2) x1) in
    (\<exists>p c. p \<in> available (ex_ports x) \<and> p \<in> allocated (ex_ports x1) \<and>
       last (ex_acks x1) = (ac_ID c1, \<lparr>ar_Status = ''success'', ar_Error = '''',
         ar_Result = Some (JObj [(''container_id'', JStr c), (''host_port'', JNum (of_int p))])\<rparr>)) \<and>
    CodeDir sid x1 = Inr (ex_sandboxDir x @ ''/'' @ st_AppName payload @ ''/code'') \<and>
    ex_ports x2 = ex_ports x \<and> ex_sandboxes x2 = ex_sandboxes x"
proof -
  define x1 where "x1 = snd (run_state (Execute env n1 h1 c1) x)"
  from start_success[OF assms(1,3-6,12), of h1] obtain c p where s: "p \<in> available (ex_ports x)"
    "ex_ports x1 = (ex_ports x)\<lparr>available := available (ex_ports x) - {p}, allocated := insert p (allocated (ex_ports x))\<rparr>"
    "ex_sandboxes x1 = AList.update sid \<lparr>si_ContainerID = c, si_HostPort = p, si_AppName = st_AppName payload\<rparr>
       (ex_sandboxes x)"
    "ex_sandboxDir x1 = ex_sandboxDir x"
    "ex_acks x1 = ex_acks x @ [(ac_ID c1, \<lparr>ar_Status = ''success'', ar_Error = '''',
       ar_Result = Some (JObj [(''container_id'', JStr c), (''host_port'', JNum (of_int p))])\<rparr>)]"
    unfolding x1_def assms(7) by blast
  have info: "map_of (ex_sandboxes x1) (ac_SandboxID c2) =
      Some \<lparr>si_ContainerID = c, si_HostPort = p, si_AppName = st_AppName payload\<rparr>"
    by (simp add: s(3) assms(8) update_Some_unfold)
  have "alloc_ok (ex_ports x)" using ok by (simp add: executor_ok_def)
  with stop_success(1)[OF stop info docker, of h2] s
  have "ex_ports (snd (run_state (Execute env n2 h2 c2) x1)) = ex_ports x"
    by (simp add: release_allocated)
  moreover have "AList.delete sid (ex_sandboxes x1) = ex_sandboxes x"
    using fresh by (simp add: s(3) delete_update_same map_of_eq_None_iff delete_id)
  ultimately show ?thesis
    using s info stop_success(2)[OF stop info docker, of h2]
    unfolding Let_def x1_def[symmetric] by (auto simp: assms(8) CodeDir_def)
qed

theorem start_then_stop_witness:
  "let x1 = snd (run_state (Execute an_env 0 8002 a_start) an_executor);
       x2 = snd (run_state (Execute an_env 0 0 a_stop) x1) in
    CodeDir ''sb-1'' x1 = Inr ''/var/forge/shop/code'' \<and>
    ex_ports x2 = ex_ports an_executor \<and> ex_sandboxes x2 = ex_sandboxes an_executor"
  using start_then_stop[OF an_executor_simps(1,2,3) a_start_simps(1,2,4,3) a_stop_simps(3,1,2,4) an_env_simps,
      of 8002 0]
  by (simp add: Let_def an_executor_def NewCommandExecutor_def)

text \<open>A port that is allocated but belongs to no tracked sandbox.\<close>

definition leaked :: "int \<Rightarrow> 'e executor \<Rightarrow> bool" where
  "leaked p x \<longleftrightarrow> p \<in> allocated (ex_ports x) \<and> p \<notin> set (tracked_ports x)"

lemma leaked_Execute:
  assumes "executor_ok x" and p: "leaked p x"
  shows "leaked p (snd (run_state (Execute env now hint cmd) x))" (is "leaked p ?x")
proof -
  have ok: "alloc_ok (ex_ports x)" "distinct (tracked_ports x)" using assms by (simp_all add: executor_ok_def)
  consider "only_acks (ac_ID cmd) x ?x" | "starts cmd x ?x" | "stops cmd x ?x"
    using Execute_outcome[OF ok(1)] by blast
  then show ?thesis
  proof cases
    case 1
    with p show ?thesis by (simp add: only_acks_def leaked_def tracked_ports_def)
  next
    case 2
    then obtain info where i: "si_HostPort info \<in> available (ex_ports x)"
      "allocated (ex_ports ?x) = insert (si_HostPort info) (allocated (ex_ports x))"
      "ex_sandboxes ?x = AList.update (ac_SandboxID cmd) info (ex_sandboxes x)" by (auto simp: starts_def)
    have "p \<noteq> si_HostPort info" using ok(1) p i(1) by (auto simp: leaked_def alloc_ok_def)
    with p i set_update_values[of si_HostPort "ac_SandboxID cmd" info "ex_sandboxes x"] show ?thesis
      by (auto simp: leaked_def tracked_ports_def)
  next
    case 3
    then obtain info where i: "map_of (ex_sandboxes x) (ac_SandboxID cmd) = Some info"
      "ex_ports ?x = snd (Release (si_HostPort info) (ex_ports x))"
      "ex_sandboxes ?x = AList.delete (ac_SandboxID cmd) (ex_sandboxes x)" by (auto simp: stops_def)
    have "si_HostPort info \<in> set (tracked_ports x)" using map_of_SomeD[OF i(1)] by (force simp: tracked_ports_def)
    then have "p \<noteq> si_HostPort info" using p by (auto simp: leaked_def)
    with p i show ?thesis
      using set_delete_subset[of "ac_SandboxID cmd" "ex_sandboxes x"]
      by (auto simp: leaked_def tracked_ports_def Release_def)
  qed
qed

lemma leaked_run_commands: "executor_ok x \<Longrightarrow> leaked p x \<Longrightarrow> leaked p (run_commands env cs x)"
  by (induction env cs x rule: run_commands.induct) (simp_all add: Execute_ok leaked_Execute)

lemma map_of_update_value:
  assumes "distinct (map (g \<circ> snd) m)" and "map_of m k = Some w" and "g v \<notin> set (map (g \<circ> snd) m)"
  shows "g w \<notin> set (map (g \<circ> snd) (AList.update k v m))"
  using assms
proof (induction m)
  case (Cons y m)
  then show ?case
    using map_of_SomeD[of m k w] by (cases y) (force split: if_splits)
qed simp

text \<open>Starting a sandbox the agent already tracks (which a crash restart does) overwrites its entry without
  releasing the old port: the port stays allocated although no tracked sandbox holds it, and no sequence
  of later commands ever gives it back.\<close>

theorem restart_leaks_port:
  assumes ok: "executor_ok x" and old: "map_of (ex_sandboxes x) (ac_SandboxID cmd) = Some info"
    and "available (ex_ports x) \<noteq> {}"
    and "\<not> expired now cmd" "ac_Type cmd = ''start_sandbox''" "decode_start (ac_Payload cmd) = Some payload"
    and "\<And>spec e. \<exists>c. fst (x_CreateContainer env spec e) = Inr c"
  shows "\<not> leaked (si_HostPort info) x \<and> leaked (si_HostPort info) (run_commands env ((now, hint, cmd) # cs) x)"
proof -
  define x1 where "x1 = snd (run_state (Execute env now hint cmd) x)"
  from start_success[OF assms(1,3-7), of hint] obtain c p where s: "p \<in> available (ex_ports x)"
    "ex_ports x1 = (ex_ports x)\<lparr>available := available (ex_ports x) - {p}, allocated := insert p (allocated (ex_ports x))\<rparr>"
    "ex_sandboxes x1 = AList.update (ac_SandboxID cmd)
       \<lparr>si_ContainerID = c, si_HostPort = p, si_AppName = st_AppName payload\<rparr> (ex_sandboxes x)"
    unfolding x1_def by blast
  have tr: "distinct (tracked_ports x)" "set (tracked_ports x) \<subseteq> allocated (ex_ports x)" "p \<notin> set (tracked_ports x)"
    using ok s(1) by (auto simp: executor_ok_def alloc_ok_def)
  have mem: "si_HostPort info \<in> set (tracked_ports x)" using map_of_SomeD[OF old] by (force simp: tracked_ports_def)
  have "leaked (si_HostPort info) x1"
    using map_of_update_value[of si_HostPort, OF _ old] tr mem s by (auto simp: leaked_def tracked_ports_def)
  moreover have "executor_ok x1" unfolding x1_def by (rule Execute_ok[OF ok])
  ultimately show ?thesis
    using mem leaked_run_commands[of x1] by (simp add: x1_def leaked_def[of _ x])
qed

theorem restart_leaks_port_witness:
  "leaked 8001 (run_commands an_env [(0, 8002, a_start), (0, 0, a_stop)] a_busy_executor)"
  using restart_leaks_port[OF a_busy_executor_simps(1,3,2) a_start_simps(1,2,4) an_env_simps(1), of 8002
      "[(0, 0, a_stop)]"]
  by simp

end
