(* ===== verification/Control_Client.thy ===== *)
theory Control_Client
  imports Executor
begin

text \<open>
  The agent's client of the control plane, \<^verbatim>\<open>agent/internal/controlclient\<close>. The network is a record of functions
  on an arbitrary outside state: \<open>nw_Do\<close> is \<^verbatim>\<open>http.Client.Do\<close>, \<open>nw_wait\<close> waits for a duration and tells whether
  the context was cancelled meanwhile, \<open>nw_invalid\<close> is the error of \<^verbatim>\<open>http.NewRequestWithContext\<close>, if any, and
  \<open>nw_time\<close> parses a time stamp. A reply carries its body as text and, where the body is JSON, as a
  document. \<open>cl_sent\<close> and \<open>cl_waits\<close> record the requests and the pauses of a run; they are not state of the code.
\<close>

section \<open>Messages\<close>

record RegisterRequest =
  rr_Hostname :: string
  rr_TailscaleIP :: string
  rr_AgentListenPort :: int
  rr_CapacityMB :: int
  rr_CapacityCPU :: rat
  rr_AgentVersion :: string

record RegisterResponse =
  rs_NodeID :: string
  rs_AgentToken :: string
  rs_HeartbeatIntervalSeconds :: "64 word"

record container_info =
  hc_AppName :: string
  hc_State :: string
  hc_HostPort :: int
  hc_ContainerID :: string

record HeartbeatRequest =
  hr_UsedMB :: int
  hr_RunningContainers :: int
  hr_Containers :: "container_info list"

record EventReport =
  er_SandboxID :: string
  er_EventType :: string
  er_ContainerID :: string
  er_ExitCode :: int
  er_Payload :: "json option"

definition opt_string :: "string \<Rightarrow> string \<Rightarrow> (string \<times> json) list" where
  "opt_string k s = (if s = '''' then [] else [(k, JStr s)])"

definition opt_json :: "string \<Rightarrow> json option \<Rightarrow> (string \<times> json) list" where
  "opt_json k v = (case v of None \<Rightarrow> [] | Some j \<Rightarrow> [(k, j)])"

definition register_json :: "RegisterRequest \<Rightarrow> json" where
  "register_json r = JObj
    [(''hostname'', JStr (rr_Hostname r)), (''tailscale_ip'', JStr (rr_TailscaleIP r)),
     (''agent_listen_port'', JNum (of_int (rr_AgentListenPort r))), (''capacity_mb'', JNum (of_int (rr_CapacityMB r))),
     (''capacity_cpu'', JNum (rr_CapacityCPU r)), (''agent_version'', JStr (rr_AgentVersion r))]"

definition decode_registered :: "json option \<Rightarrow> RegisterResponse option" where
  "decode_registered b = (case b of None \<Rightarrow> None | Some j \<Rightarrow>
    (let (ms, ok) = object_members j;
         (nid, ok1) = decode_field ''node_id'' decode_string ms '''';
         (tok, ok2) = decode_field ''agent_token'' decode_string ms '''';
         (iv, ok3) = decode_field ''heartbeat_interval_seconds'' decode_int64 ms 0
     in if ok \<and> ok1 \<and> ok2 \<and> ok3
        then Some \<lparr>rs_NodeID = nid, rs_AgentToken = tok, rs_HeartbeatIntervalSeconds = iv\<rparr> else None))"

definition container_json :: "container_info \<Rightarrow> json" where
  "container_json c = JObj
    [(''app_name'', JStr (hc_AppName c)), (''state'', JStr (hc_State c)), (''host_port'', JNum (of_int (hc_HostPort c))),
     (''container_id'', JStr (hc_ContainerID c))]"

definition heartbeat_json :: "HeartbeatRequest \<Rightarrow> json" where
  "heartbeat_json r = JObj
    [(''used_mb'', JNum (of_int (hr_UsedMB r))), (''running_containers'', JNum (of_int (hr_RunningContainers r))),
     (''containers'', JArr (map container_json (hr_Containers r)))]"

definition ack_json :: "AckRequest \<Rightarrow> json" where
  "ack_json a = JObj ([(''status'', JStr (ar_Status a))] @ opt_string ''error'' (ar_Error a) @ opt_json ''result'' (ar_Result a))"

definition event_json :: "EventReport \<Rightarrow> json" where
  "event_json e = JObj
    ([(''sandbox_id'', JStr (er_SandboxID e)), (''event_type'', JStr (er_EventType e))] @
     opt_string ''container_id'' (er_ContainerID e) @
     (if er_ExitCode e = 0 then [] else [(''exit_code'', JNum (of_int (er_ExitCode e)))]) @
     opt_json ''payload'' (er_Payload e))"

section \<open>Network and client\<close>

record http_request =
  hq_Method :: string
  hq_URL :: string
  hq_Auth :: "string option"
  hq_Body :: "json option"

datatype http_reply = NotSent string | NoReply string | Reply int string "json option"

record 'n network =
  nw_Do :: "http_request \<Rightarrow> 'n \<Rightarrow> http_reply \<times> 'n"
  nw_wait :: "Duration \<Rightarrow> 'n \<Rightarrow> bool \<times> 'n"
  nw_invalid :: "string \<Rightarrow> string option"
  nw_time :: "string \<Rightarrow> timestamp option"

record 'n Client =
  cl_baseURL :: string
  cl_nodeID :: string
  cl_token :: string
  cl_apiToken :: string
  cl_regReq :: RegisterRequest
  cl_net :: 'n
  cl_sent :: "http_request list"
  cl_waits :: "Duration list"

definition NewClient :: "'n \<Rightarrow> string \<Rightarrow> RegisterRequest \<Rightarrow> string \<Rightarrow> 'n Client" where
  "NewClient outer baseURL regReq apiToken = \<lparr>cl_baseURL = baseURL, cl_nodeID = '''', cl_token = '''', cl_apiToken = apiToken,
     cl_regReq = regReq, cl_net = outer, cl_sent = [], cl_waits = []\<rparr>"

definition authToken :: "'n Client \<Rightarrow> string" where
  "authToken c = (if cl_apiToken c \<noteq> '''' then cl_apiToken c else cl_token c)"

definition http_do :: "'n network \<Rightarrow> http_request \<Rightarrow> ('n Client, http_reply) state" where
  "http_do net q = State (\<lambda>c. case nw_invalid net (hq_URL q) of
     Some e \<Rightarrow> (NotSent e, c)
   | None \<Rightarrow> (let (r, s) = nw_Do net q (cl_net c) in (r, c\<lparr>cl_net := s, cl_sent := cl_sent c @ [q]\<rparr>)))"

definition pause :: "'n network \<Rightarrow> Duration \<Rightarrow> ('n Client, bool) state" where
  "pause net d = State (\<lambda>c. let (r, s) = nw_wait net d (cl_net c) in (r, c\<lparr>cl_net := s, cl_waits := cl_waits c @ [d]\<rparr>))"

definition doAuthRequest ::
    "'n network \<Rightarrow> string \<Rightarrow> string \<Rightarrow> json option \<Rightarrow> ('n Client, string + int \<times> string \<times> json option) state" where
  "doAuthRequest net method path body = do {
     c \<leftarrow> State_Monad.get;
     r \<leftarrow> http_do net \<lparr>hq_Method = method, hq_URL = cl_baseURL c @ path, hq_Auth = Some (''Bearer '' @ authToken c), hq_Body = body\<rparr>;
     State_Monad.return (case r of
       NotSent e \<Rightarrow> Inl (''create request: '' @ e)
     | NoReply e \<Rightarrow> Inl e
     | Reply code txt j \<Rightarrow> Inr (code, txt, j)) }"

section \<open>Registration\<close>

definition register_request :: "'n Client \<Rightarrow> http_request" where
  "register_request c = \<lparr>hq_Method = ''POST'', hq_URL = cl_baseURL c @ ''/v1/nodes/register'', hq_Auth = None,
     hq_Body = Some (register_json (cl_regReq c))\<rparr>"

text \<open>What one attempt says: the loop ends with a result, or tries again with this error for the last attempt.\<close>

datatype attempt = Done "string + int \<times> string \<times> json option" | Again string

definition attempt_of :: "http_reply \<Rightarrow> attempt" where
  "attempt_of r = (case r of
     NotSent e \<Rightarrow> Done (Inl (''create register request: '' @ e))
   | NoReply e \<Rightarrow> Again (''register request failed after 5 attempts: '' @ e)
   | Reply code txt j \<Rightarrow>
       if code \<ge> 500 then Again (''register returned '' @ show_int code @ '' after 5 attempts'')
       else Done (Inr (code, txt, j)))"

definition time_Second :: Duration where
  "time_Second = 1000000000"

definition next_backoff :: "Duration \<Rightarrow> Duration" where
  "next_backoff d = (let d' = d * 2 in if sint (8 * time_Second) < sint d' then 8 * time_Second else d')"

text \<open>The loop, by the number of attempts that follow this one.\<close>

fun register_loop ::
    "'n network \<Rightarrow> http_request \<Rightarrow> nat \<Rightarrow> Duration \<Rightarrow> ('n Client, string + int \<times> string \<times> json option) state" where
  "register_loop net q 0 delay = do {
     r \<leftarrow> http_do net q;
     State_Monad.return (case attempt_of r of Done x \<Rightarrow> x | Again e \<Rightarrow> Inl e) }"
| "register_loop net q (Suc left) delay = do {
     r \<leftarrow> http_do net q;
     case attempt_of r of
       Done x \<Rightarrow> State_Monad.return x
     | Again e \<Rightarrow> do {
         cancelled \<leftarrow> pause net delay;
         if cancelled then State_Monad.return (Inl ''context canceled'')
         else register_loop net q left (next_backoff delay) } }"

definition register_result :: "int \<times> string \<times> json option \<Rightarrow> string + RegisterResponse" where
  "register_result r = (case r of (code, txt, j) \<Rightarrow>
    if code \<noteq> 201 \<and> code \<noteq> 200 then Inl (''register returned '' @ show_int code @ '': '' @ txt)
    else case decode_registered j of None \<Rightarrow> Inl ''decode register response'' | Some resp \<Rightarrow> Inr resp)"

definition Register :: "'n network \<Rightarrow> ('n Client, string + RegisterResponse) state" where
  "Register net = do {
     c \<leftarrow> State_Monad.get;
     r \<leftarrow> register_loop net (register_request c) 4 time_Second;
     case r of
       Inl e \<Rightarrow> State_Monad.return (Inl e)
     | Inr x \<Rightarrow>
         (case register_result x of
            Inl e \<Rightarrow> State_Monad.return (Inl e)
          | Inr resp \<Rightarrow> do {
              State_Monad.update (\<lambda>c. c\<lparr>cl_nodeID := rs_NodeID resp, cl_token := rs_AgentToken resp\<rparr>);
              State_Monad.return (Inr resp) }) }"

section \<open>Requests with re-registration\<close>

text \<open>A request for the node id of the moment. When the control plane refuses it with the given status the agent
  registers again and repeats it once with the new id; the result tells whether it was repeated.\<close>

definition reregister_on ::
    "'n network \<Rightarrow> int \<Rightarrow> (bool \<Rightarrow> string \<Rightarrow> ('n Client, string + int \<times> string \<times> json option) state) \<Rightarrow>
      ('n Client, string + bool \<times> int \<times> string \<times> json option) state" where
  "reregister_on net refused request = do {
     c \<leftarrow> State_Monad.get;
     r \<leftarrow> request False (cl_nodeID c);
     case r of
       Inl e \<Rightarrow> State_Monad.return (Inl e)
     | Inr (code, rest) \<Rightarrow>
         if code \<noteq> refused then State_Monad.return (Inr (False, code, rest))
         else do {
           reg \<leftarrow> Register net;
           case reg of
             Inl e \<Rightarrow> State_Monad.return (Inl (''re-register after '' @ show_int refused @ '': '' @ e))
           | Inr _ \<Rightarrow> do {
               c' \<leftarrow> State_Monad.get;
               r' \<leftarrow> request True (cl_nodeID c');
               State_Monad.return (case r' of Inl e \<Rightarrow> Inl e | Inr x \<Rightarrow> Inr (True, x)) } } }"

definition expect_success :: "string \<Rightarrow> string + bool \<times> int \<times> string \<times> json option \<Rightarrow> string + unit" where
  "expect_success what r = (case r of
     Inl e \<Rightarrow> Inl e
   | Inr (retried, code, txt, _) \<Rightarrow>
       if code \<ge> 400 then Inl (what @ (if retried then '' retry'' else '''') @ '' returned '' @ show_int code @ '': '' @ txt)
       else Inr ())"

definition Heartbeat :: "'n network \<Rightarrow> HeartbeatRequest \<Rightarrow> ('n Client, string + unit) state" where
  "Heartbeat net req = do {
     r \<leftarrow> reregister_on net 404 (\<lambda>_ nodeID.
       doAuthRequest net ''POST'' (''/v1/nodes/'' @ nodeID @ ''/heartbeat'') (Some (heartbeat_json req)));
     State_Monad.return (expect_success ''heartbeat'' r) }"

definition Client_AckCommand :: "'n network \<Rightarrow> string \<Rightarrow> AckRequest \<Rightarrow> ('n Client, string + unit) state" where
  "Client_AckCommand net cmdID ack = do {
     r \<leftarrow> reregister_on net 401 (\<lambda>_ nodeID.
       doAuthRequest net ''POST'' (''/v1/agents/'' @ nodeID @ ''/commands/'' @ cmdID @ ''/ack'') (Some (ack_json ack)));
     State_Monad.return (expect_success ''ack'' r) }"

section \<open>Polling\<close>

definition decode_time :: "'n network \<Rightarrow> json \<Rightarrow> timestamp \<Rightarrow> timestamp \<times> bool" where
  "decode_time net j old = (case j of
     JNull \<Rightarrow> (old, True)
   | JStr s \<Rightarrow> (case nw_time net s of None \<Rightarrow> (old, False) | Some t \<Rightarrow> (t, True))
   | _ \<Rightarrow> (old, False))"

definition zero_time :: timestamp where
  "zero_time = - 62135596800000000"

definition decode_command :: "'n network \<Rightarrow> json \<Rightarrow> AgentCommand \<times> bool" where
  "decode_command net j =
    (let (ms, ok) = object_members j;
         (i, ok1) = decode_field ''id'' decode_string ms '''';
         (ty, ok2) = decode_field ''type'' decode_string ms '''';
         (sid, ok3) = decode_field ''sandbox_id'' decode_string ms '''';
         (pl, ok4) = decode_field ''payload'' (\<lambda>j _. (Some j, True)) ms None;
         (ts, ok5) = decode_field ''issued_at'' (decode_time net) ms zero_time;
         (to, ok6) = decode_field ''timeout_seconds'' decode_int64 ms 0
     in (\<lparr>ac_ID = i, ac_Type = ty, ac_SandboxID = sid, ac_Payload = pl, ac_IssuedAt = ts, ac_TimeoutSeconds = sint to\<rparr>,
         ok \<and> ok1 \<and> ok2 \<and> ok3 \<and> ok4 \<and> ok5 \<and> ok6))"

definition parseCommands :: "'n network \<Rightarrow> int \<times> string \<times> json option \<Rightarrow> string + AgentCommand list" where
  "parseCommands net r = (case r of (code, txt, body) \<Rightarrow>
    if code \<ge> 400 then Inl (''poll commands returned '' @ show_int code @ '': '' @ txt)
    else case body of
      None \<Rightarrow> Inl ''decode commands response''
    | Some j \<Rightarrow>
        (let (ms, ok) = object_members j;
             (cmds, ok') = decode_field ''commands'' (decode_list (decode_command net)) ms []
         in if ok \<and> ok' then Inr cmds else Inl ''decode commands response''))"

definition poll_request ::
    "'n network \<Rightarrow> int \<Rightarrow> bool \<Rightarrow> string \<Rightarrow> ('n Client, string + int \<times> string \<times> json option) state" where
  "poll_request net waitSeconds retried nodeID = do {
     c \<leftarrow> State_Monad.get;
     r \<leftarrow> http_do net \<lparr>hq_Method = ''GET'',
       hq_URL = cl_baseURL c @ ''/v1/agents/'' @ nodeID @ ''/commands?wait='' @ show_int waitSeconds,
       hq_Auth = Some (''Bearer '' @ authToken c), hq_Body = None\<rparr>;
     State_Monad.return (case r of
       NotSent e \<Rightarrow> Inl ((if retried then ''create poll retry request: '' else ''create poll request: '') @ e)
     | NoReply e \<Rightarrow> Inl ((if retried then ''poll commands retry: '' else ''poll commands: '') @ e)
     | Reply code txt j \<Rightarrow> Inr (code, txt, j)) }"

definition PollCommands :: "'n network \<Rightarrow> int \<Rightarrow> ('n Client, string + AgentCommand list) state" where
  "PollCommands net waitSeconds = do {
     r \<leftarrow> reregister_on net 401 (poll_request net waitSeconds);
     State_Monad.return (case r of Inl e \<Rightarrow> Inl e | Inr (_, x) \<Rightarrow> parseCommands net x) }"

section \<open>Events\<close>

definition ReportEvent :: "'n network \<Rightarrow> EventReport \<Rightarrow> ('n Client, string + unit) state" where
  "ReportEvent net event = do {
     r \<leftarrow> reregister_on net 401 (\<lambda>retried nodeID.
       let send = doAuthRequest net ''POST'' (''/v1/agents/'' @ nodeID @ ''/events'') (Some (event_json event)) in
       if retried then do {
         r \<leftarrow> send;
         State_Monad.return (case r of Inl e \<Rightarrow> Inl (''event report retry after re-register: '' @ e) | Inr x \<Rightarrow> Inr x) }
       else do {
         r \<leftarrow> send;
         case r of
           Inr x \<Rightarrow> State_Monad.return (Inr x)
         | Inl _ \<Rightarrow> do {
             r \<leftarrow> send;
             State_Monad.return (case r of Inl e \<Rightarrow> Inl (''event report failed after retry: '' @ e) | Inr x \<Rightarrow> Inr x) } });
     State_Monad.return (case r of Inl e \<Rightarrow> Inl e | Inr _ \<Rightarrow> Inr ()) }"

section \<open>Properties\<close>

text \<open>A network that answers the \<open>n\<close>-th request with \<open>f n\<close> and never cancels.\<close>

definition answering :: "(nat \<Rightarrow> http_reply) \<Rightarrow> nat network" where
  "answering f = \<lparr>nw_Do = (\<lambda>q n. (f n, Suc n)), nw_wait = (\<lambda>d n. (False, n)), nw_invalid = (\<lambda>_. None), nw_time = (\<lambda>_. None)\<rparr>"

lemma run_answering:
  "run_state (http_do (answering f) q) c = (f (cl_net c), c\<lparr>cl_net := Suc (cl_net c), cl_sent := cl_sent c @ [q]\<rparr>)"
  "run_state (pause (answering f) d) c = (False, c\<lparr>cl_waits := cl_waits c @ [d]\<rparr>)"
  by (simp_all add: http_do_def pause_def answering_def)

text \<open>The first of the next five replies that is not a reason to try again, and the client after it.\<close>

definition settled :: "http_reply \<Rightarrow> bool" where
  "settled r = (case r of NotSent _ \<Rightarrow> True | NoReply _ \<Rightarrow> False | Reply code _ _ \<Rightarrow> code < 500)"

definition backoffs :: "Duration list" where
  "backoffs = map (\<lambda>n. n * time_Second) [1, 2, 4, 8]"

lemma attempt_settled: "settled r \<longleftrightarrow> (\<exists>x. attempt_of r = Done x)"
  by (auto simp: settled_def attempt_of_def split: http_reply.split)

lemma register_loop_run:
  "run_state (register_loop (answering f) q left d) c =
    (case find (\<lambda>k. settled (f (cl_net c + k))) [0..<Suc left] of
       Some k \<Rightarrow> ((case attempt_of (f (cl_net c + k)) of Done x \<Rightarrow> x | Again e \<Rightarrow> Inl e),
         c\<lparr>cl_net := cl_net c + Suc k, cl_sent := cl_sent c @ replicate (Suc k) q,
           cl_waits := cl_waits c @ map (\<lambda>i. (next_backoff ^^ i) d) [0..<k]\<rparr>)
     | None \<Rightarrow> ((case attempt_of (f (cl_net c + left)) of Done x \<Rightarrow> x | Again e \<Rightarrow> Inl e),
         c\<lparr>cl_net := cl_net c + Suc left, cl_sent := cl_sent c @ replicate (Suc left) q,
           cl_waits := cl_waits c @ map (\<lambda>i. (next_backoff ^^ i) d) [0..<left]\<rparr>))"
proof (induction left arbitrary: d c)
  case 0
  then show ?case by (simp add: run_answering)
next
  case (Suc left)
  have up: "[0..<Suc (Suc left)] = 0 # map Suc [0..<Suc left]" by (simp add: map_Suc_upt upt_conv_Cons del: upt_Suc)
  have upk: "[0..<Suc k] = 0 # map Suc [0..<k]" for k by (simp add: map_Suc_upt upt_conv_Cons del: upt_Suc)
  have find_Suc: "find p (map Suc xs) = map_option Suc (find (\<lambda>k. p (Suc k)) xs)" for p xs
    by (induction xs) simp_all
  have wait: "map (\<lambda>i. (next_backoff ^^ i) d) [0..<Suc k] = d # map (\<lambda>i. (next_backoff ^^ i) (next_backoff d)) [0..<k]" for k
    by (simp only: upk list.map map_map comp_def funpow_Suc_right funpow_0 o_apply)
  show ?case
  proof (cases "attempt_of (f (cl_net c))")
    case (Done x)
    then have "settled (f (cl_net c))" by (simp add: attempt_settled)
    with Done show ?thesis by (simp add: run_answering up del: upt_Suc)
  next
    case (Again e)
    then have "\<not> settled (f (cl_net c))" by (simp add: attempt_settled)
    with Again show ?thesis
      by (simp add: run_answering Suc.IH up find_Suc wait del: upt_Suc split: option.split)
  qed
qed

definition outcome :: "http_reply \<Rightarrow> string + RegisterResponse" where
  "outcome r = (case attempt_of r of Done (Inr x) \<Rightarrow> register_result x | Done (Inl e) \<Rightarrow> Inl e | Again e \<Rightarrow> Inl e)"

definition enrolled :: "string + RegisterResponse \<Rightarrow> 'n Client \<Rightarrow> 'n Client" where
  "enrolled r c = (case r of Inl _ \<Rightarrow> c | Inr resp \<Rightarrow> c\<lparr>cl_nodeID := rs_NodeID resp, cl_token := rs_AgentToken resp\<rparr>)"

lemma register_waits: "k \<le> 4 \<Longrightarrow> map (\<lambda>i. (next_backoff ^^ i) time_Second) [0..<k] = take k backoffs"
proof -
  have all: "map (\<lambda>i. (next_backoff ^^ i) time_Second) [0..<4] = backoffs" by code_simp
  show "k \<le> 4 \<Longrightarrow> map (\<lambda>i. (next_backoff ^^ i) time_Second) [0..<k] = take k backoffs"
    unfolding all[symmetric] by (simp only: take_map take_upt add_0)
qed


end
