(* ===== verification/Docker.thy ===== *)
theory Docker
  imports Executor Paths
begin

text \<open>
  The Docker client of an agent, \<^verbatim>\<open>agent/internal/docker\<close>. The daemon behind the Docker SDK and the two calls to
  the operating system are the fields of \<open>raw_docker\<close>, functions on an arbitrary outside state; \<open>rd_quote\<close> is the
  verb \<^verbatim>\<open>%q\<close>. \<open>docker_env\<close> is this client as the interface the command executor works with. The order in which
  Go iterates over the environment is the argument \<open>ord\<close>.
\<close>

section \<open>Types\<close>

text \<open>The fields of \<^verbatim>\<open>container.Config\<close> and \<^verbatim>\<open>container.HostConfig\<close> that the client sets, and the labels, which it
  leaves at their zero value.\<close>

record container_options =
  co_Name :: string
  co_Image :: string
  co_Env :: "string list"
  co_Labels :: "(string \<times> string) list"
  co_ExposedPorts :: "string list"
  co_PortBindings :: "(string \<times> string \<times> string) list"
  co_Binds :: "string list"
  co_Memory :: "64 word"
  co_NanoCPUs :: "64 word"
  co_PidsLimit :: "64 word option"
  co_SecurityOpt :: "string list"
  co_CapDrop :: "string list"
  co_CapAdd :: "string list"
  co_ReadonlyRootfs :: bool

record list_item =
  li_ID :: string
  li_Labels :: "(string \<times> string) list"
  li_State :: string
  li_PublicPorts :: "int list"

record ContainerSnapshot =
  cs_AppName :: string
  cs_State :: string
  cs_HostPort :: int
  cs_ContainerID :: string

text \<open>The answer of \<^verbatim>\<open>ContainerInspect\<close>, and what the client makes of it; \<^verbatim>\<open>StartedAt\<close> in nanoseconds.\<close>

record inspect_state =
  is_Status :: string
  is_Running :: bool
  is_ExitCode :: int
  is_StartedAt :: string

record inspect_result =
  ir_ID :: string
  ir_Name :: string
  ir_State :: "inspect_state option"

record container_details =
  cd_ID :: string
  cd_Name :: string
  cd_State :: string
  cd_Running :: bool
  cd_ExitCode :: int
  cd_StartedAt :: int

record 'e raw_docker =
  rd_ContainerCreate :: "container_options \<Rightarrow> 'e \<Rightarrow> (string + string) \<times> 'e"
  rd_ContainerStart :: "string \<Rightarrow> 'e \<Rightarrow> (string + unit) \<times> 'e"
  rd_ContainerStop :: "string \<Rightarrow> int \<Rightarrow> 'e \<Rightarrow> (string + unit) \<times> 'e"
  rd_ContainerRemove :: "string \<Rightarrow> bool \<Rightarrow> 'e \<Rightarrow> (string + unit) \<times> 'e"
  rd_ContainerRestart :: "string \<Rightarrow> int \<Rightarrow> 'e \<Rightarrow> (string + unit) \<times> 'e"
  rd_ContainerLogs :: "string \<Rightarrow> string \<Rightarrow> bool \<Rightarrow> 'e \<Rightarrow> (string + (string + string)) \<times> 'e"
  rd_ContainerInspect :: "string \<Rightarrow> 'e \<Rightarrow> (string + inspect_result) \<times> 'e"
  rd_ContainerList :: "'e \<Rightarrow> (string + list_item list) \<times> 'e"
  rd_ImagePull :: "string \<Rightarrow> 'e \<Rightarrow> (string + (string + unit)) \<times> 'e"
  rd_MkdirAll :: "string \<Rightarrow> 'e \<Rightarrow> (string + unit) \<times> 'e"
  rd_Chown :: "string \<Rightarrow> int \<Rightarrow> int \<Rightarrow> 'e \<Rightarrow> (string + unit) \<times> 'e"
  rd_quote :: "string \<Rightarrow> string"

text \<open>A call whose error is wrapped in a message.\<close>

definition wrapped :: "string \<Rightarrow> ('e \<Rightarrow> (string + 'a) \<times> 'e) \<Rightarrow> 'e \<Rightarrow> (string + 'a) \<times> 'e" where
  "wrapped msg call e = (case call e of (Inl err, e') \<Rightarrow> (Inl (msg @ '': '' @ err), e') | (Inr x, e') \<Rightarrow> (Inr x, e'))"

definition and_if_ok ::
    "('e \<Rightarrow> (string + 'a) \<times> 'e) \<Rightarrow> ('a \<Rightarrow> 'e \<Rightarrow> (string + 'b) \<times> 'e) \<Rightarrow> 'e \<Rightarrow> (string + 'b) \<times> 'e" where
  "and_if_ok f g e = (case f e of (Inl err, e') \<Rightarrow> (Inl err, e') | (Inr x, e') \<Rightarrow> g x e')"

section \<open>Creating a container\<close>

definition sandboxUserUID :: int where "sandboxUserUID = 1000"
definition sandboxUserGID :: int where "sandboxUserGID = 1000"

definition PrepareBindMount :: "'e raw_docker \<Rightarrow> string \<Rightarrow> string \<Rightarrow> 'e \<Rightarrow> (string + string) \<times> 'e" where
  "PrepareBindMount raw sandboxDir appName e =
    (let invalid = (\<lambda>why. (Inl (''docker: invalid app name '' @ rd_quote raw appName @ '': '' @ why), e)) in
     if str_contains appName ''..'' then invalid ''contains path traversal''
     else if str_contains appName ''/'' then invalid ''contains path separator''
     else if IsAbs appName then invalid ''absolute path not allowed''
     else let codePath = Path_Join [sandboxDir, appName, ''code''] in
       and_if_ok (wrapped (''docker: create bind mount dir '' @ codePath) (rd_MkdirAll raw codePath)) (\<lambda>_.
       and_if_ok (wrapped (''docker: chown bind mount dir '' @ codePath)
           (rd_Chown raw codePath sandboxUserUID sandboxUserGID)) (\<lambda>_ e.
         (Inr codePath, e))) e)"

definition ContainerPort :: string where
  "ContainerPort = ''8081/tcp''"

definition create_options :: "((string \<times> string) list \<Rightarrow> (string \<times> string) list) \<Rightarrow> SandboxSpec \<Rightarrow> string \<Rightarrow> container_options" where
  "create_options ord spec codePath =
    \<lparr>co_Name = ''forge-'' @ sp_AppName spec, co_Image = sp_Image spec,
     co_Env = map (\<lambda>(k, v). k @ ''='' @ v) (ord (case sp_Env spec of None \<Rightarrow> [] | Some m \<Rightarrow> m)),
     co_Labels = [],
     co_ExposedPorts = [ContainerPort],
     co_PortBindings = [(ContainerPort, ''0.0.0.0'', show_int (sp_HostPort spec))],
     co_Binds = [codePath @ '':/app/code'', ''/mnt/metro-cache:/mnt/metro-cache''],
     co_Memory = sp_MemoryMB spec * 1024 * 1024,
     co_NanoCPUs = (let q = sp_CPUCores spec * 1000000000 in of_int (if q < 0 then \<lceil>q\<rceil> else \<lfloor>q\<rfloor>)),
     co_PidsLimit = Some 256,
     co_SecurityOpt = [''seccomp='' @ sp_SeccompPath spec, ''no-new-privileges:true''],
     co_CapDrop = [''ALL''], co_CapAdd = [''CHOWN'', ''SETUID'', ''SETGID''], co_ReadonlyRootfs = False\<rparr>"

definition CreateContainer ::
    "'e raw_docker \<Rightarrow> ((string \<times> string) list \<Rightarrow> (string \<times> string) list) \<Rightarrow> SandboxSpec \<Rightarrow> 'e \<Rightarrow> (string + string) \<times> 'e" where
  "CreateContainer raw ord spec =
    and_if_ok (wrapped ''docker: prepare bind mount'' (PrepareBindMount raw (sp_SandboxDir spec) (sp_AppName spec)))
      (\<lambda>codePath e.
        let opts = create_options ord spec codePath;
            e1 = snd (rd_ContainerRemove raw (co_Name opts) True e) in
        and_if_ok (wrapped (''docker: create container '' @ co_Name opts) (rd_ContainerCreate raw opts))
          (\<lambda>i. and_if_ok (wrapped (''docker: start container '' @ co_Name opts) (rd_ContainerStart raw i))
            (\<lambda>_ e. (Inr i, e))) e1)"

section \<open>Other operations\<close>

definition StartContainer :: "'e raw_docker \<Rightarrow> string \<Rightarrow> 'e \<Rightarrow> (string + unit) \<times> 'e" where
  "StartContainer raw i = wrapped (''docker: start container '' @ i) (rd_ContainerStart raw i)"

text \<open>\<^verbatim>\<open>int(timeout.Seconds())\<close>; durations in the unit of \<open>second\<close>, truncated toward zero.\<close>

definition timeout_seconds :: "int \<Rightarrow> int" where
  "timeout_seconds d = (if d < 0 then - (- d div second) else d div second)"

definition StopContainer :: "'e raw_docker \<Rightarrow> string \<Rightarrow> int \<Rightarrow> 'e \<Rightarrow> (string + unit) \<times> 'e" where
  "StopContainer raw i timeout =
    wrapped (''docker: stop container '' @ i) (rd_ContainerStop raw i (timeout_seconds timeout))"

definition RemoveContainer :: "'e raw_docker \<Rightarrow> string \<Rightarrow> 'e \<Rightarrow> (string + unit) \<times> 'e" where
  "RemoveContainer raw i = wrapped (''docker: remove container '' @ i) (rd_ContainerRemove raw i True)"

definition RestartContainer :: "'e raw_docker \<Rightarrow> string \<Rightarrow> int \<Rightarrow> 'e \<Rightarrow> (string + unit) \<times> 'e" where
  "RestartContainer raw i timeout =
    wrapped (''docker: restart container '' @ i) (rd_ContainerRestart raw i (timeout_seconds timeout))"

text \<open>\<open>parse\<close> is \<^verbatim>\<open>time.Parse\<close> with the layout \<^verbatim>\<open>time.RFC3339Nano\<close>; the zero time is that of the year 1.\<close>

definition zero_nanos :: int where
  "zero_nanos = - 62135596800000000000"

definition InspectContainer ::
    "'e raw_docker \<Rightarrow> (string \<Rightarrow> int option) \<Rightarrow> string \<Rightarrow> 'e \<Rightarrow> (string + container_details) \<times> 'e" where
  "InspectContainer raw parse i =
    and_if_ok (wrapped (''docker: inspect container '' @ i) (rd_ContainerInspect raw i))
      (\<lambda>result e.
        let info = \<lparr>cd_ID = ir_ID result, cd_Name = ir_Name result, cd_State = '''', cd_Running = False, cd_ExitCode = 0,
              cd_StartedAt = zero_nanos\<rparr> in
        (Inr (case ir_State result of
           None \<Rightarrow> info
         | Some s \<Rightarrow> info\<lparr>cd_State := is_Status s, cd_Running := is_Running s, cd_ExitCode := is_ExitCode s,
             cd_StartedAt := (case parse (is_StartedAt s) of None \<Rightarrow> zero_nanos | Some t \<Rightarrow> t)\<rparr>), e))"

definition GetLogs :: "'e raw_docker \<Rightarrow> string \<Rightarrow> int \<Rightarrow> bool \<Rightarrow> 'e \<Rightarrow> (string + (string + string)) \<times> 'e" where
  "GetLogs raw i tail follow =
    wrapped (''docker: get logs for container '' @ i)
      (rd_ContainerLogs raw i (if tail > 0 then show_int tail else ''all'') follow)"

text \<open>\<^verbatim>\<open>LogReader.ReadLogs\<close> in \<^verbatim>\<open>logs.go\<close>\<close>

definition ReadLogs :: "'e raw_docker \<Rightarrow> string \<Rightarrow> int \<Rightarrow> bool \<Rightarrow> 'e \<Rightarrow> (string + (string + string)) \<times> 'e" where
  "ReadLogs raw i tail follow = wrapped (''read logs for container '' @ i) (GetLogs raw i tail follow)"

definition PullImage :: "'e raw_docker \<Rightarrow> string \<Rightarrow> 'e \<Rightarrow> (string + unit) \<times> 'e" where
  "PullImage raw ref = and_if_ok (wrapped (''docker: pull image '' @ ref) (rd_ImagePull raw ref))
     (\<lambda>read e. (case read of Inl err \<Rightarrow> Inl (''docker: pull image '' @ ref @ '': read response: '' @ err) | Inr _ \<Rightarrow> Inr (), e))"

definition label :: "string \<Rightarrow> list_item \<Rightarrow> string" where
  "label k item = (case map_of (li_Labels item) k of None \<Rightarrow> '''' | Some v \<Rightarrow> v)"

definition snapshot_of :: "list_item \<Rightarrow> ContainerSnapshot" where
  "snapshot_of item =
    \<lparr>cs_AppName = label ''forge.app_name'' item, cs_State = li_State item,
     cs_HostPort = (case filter (\<lambda>p. p \<noteq> 0) (li_PublicPorts item) of [] \<Rightarrow> 0 | p # _ \<Rightarrow> p),
     cs_ContainerID = li_ID item\<rparr>"

definition ListContainers :: "'e raw_docker \<Rightarrow> 'e \<Rightarrow> (string + ContainerSnapshot list) \<times> 'e" where
  "ListContainers raw = and_if_ok (wrapped ''docker: list containers'' (rd_ContainerList raw))
     (\<lambda>items e. (Inr (map snapshot_of (filter (\<lambda>i. label ''forge.app_name'' i \<noteq> '''') items)), e))"

text \<open>\<^verbatim>\<open>Snapshotter.Snapshot\<close>: the list of \<open>ListContainers\<close> is never nil.\<close>

definition Snapshot :: "'e raw_docker \<Rightarrow> 'e \<Rightarrow> (string + ContainerSnapshot list) \<times> 'e" where
  "Snapshot raw = ListContainers raw"

section \<open>Image puller\<close>

definition maxRetries :: nat where "maxRetries = 3"

text \<open>One attempt after the other, \<open>left\<close> the number of attempts after this one. \<open>alive\<close> tells whether the context
  is alive at a given check (one before the attempt, one while waiting).\<close>

fun PullOnce_from :: "'e raw_docker \<Rightarrow> string \<Rightarrow> (nat \<Rightarrow> bool) \<Rightarrow> nat \<Rightarrow> nat \<Rightarrow> 'e \<Rightarrow> (string + unit) \<times> 'e" where
  "PullOnce_from raw ref alive attempt left e =
    (if \<not> alive (2 * attempt) then (Inl ''context canceled'', e)
     else case PullImage raw ref e of
       (Inr _, e') \<Rightarrow> (Inr (), e')
     | (Inl err, e') \<Rightarrow>
         (case left of
            0 \<Rightarrow> (Inl (''image pull failed after '' @ show_nat (maxRetries + 1) @ '' attempts: '' @ err), e')
          | Suc left' \<Rightarrow>
              if alive (2 * attempt + 1) then PullOnce_from raw ref alive (Suc attempt) left' e'
              else (Inl ''context canceled'', e')))"

definition PullOnce :: "'e raw_docker \<Rightarrow> string \<Rightarrow> (nat \<Rightarrow> bool) \<Rightarrow> 'e \<Rightarrow> (string + unit) \<times> 'e" where
  "PullOnce raw ref alive = PullOnce_from raw ref alive 0 maxRetries"

text \<open>The goroutine of \<^verbatim>\<open>StartPeriodicPull\<close>: one pull at the start and one per tick, \<open>ticks\<close> of them before the
  context is cancelled; errors are logged only. \<open>alive j\<close> is the context during the \<open>j\<close>-th pull.\<close>

fun pull_rounds :: "'e raw_docker \<Rightarrow> string \<Rightarrow> (nat \<Rightarrow> nat \<Rightarrow> bool) \<Rightarrow> nat \<Rightarrow> nat \<Rightarrow> 'e \<Rightarrow> 'e" where
  "pull_rounds raw ref alive j 0 e = e"
| "pull_rounds raw ref alive j (Suc ticks) e = pull_rounds raw ref alive (Suc j) ticks (snd (PullOnce raw ref (alive j) e))"

definition StartPeriodicPull :: "'e raw_docker \<Rightarrow> string \<Rightarrow> (nat \<Rightarrow> nat \<Rightarrow> bool) \<Rightarrow> nat \<Rightarrow> 'e \<Rightarrow> 'e" where
  "StartPeriodicPull raw ref alive ticks = pull_rounds raw ref alive 0 (Suc ticks)"

section \<open>The client as the executor sees it\<close>

definition docker_env ::
    "'e raw_docker \<Rightarrow> ((string \<times> string) list \<Rightarrow> (string \<times> string) list) \<Rightarrow>
     (string \<Rightarrow> AckRequest \<Rightarrow> 'e \<Rightarrow> (string + unit) \<times> 'e) \<Rightarrow> (json option \<Rightarrow> string) \<Rightarrow> 'e agent_env" where
  "docker_env raw ord ack json_error =
    \<lparr>x_CreateContainer = CreateContainer raw ord, x_StopContainer = StopContainer raw,
     x_RemoveContainer = RemoveContainer raw, x_RestartContainer = RestartContainer raw,
     x_GetLogs = GetLogs raw, x_AckCommand = ack, x_json_error = json_error\<rparr>"

section \<open>Bind mounts\<close>

lemma PrepareBindMount_ok:
  assumes "fst (PrepareBindMount raw dir app e) = Inr codePath"
  shows "CHR ''/'' \<notin> set app" "codePath = Path_Join [dir, app, ''code'']" "app \<noteq> dotdot"
proof -
  have v: "\<not> str_contains app ''..''" "\<not> str_contains app ''/''"
    using assms by (auto simp: PrepareBindMount_def Let_def split: if_splits)
  show "CHR ''/'' \<notin> set app"
  proof
    assume "CHR ''/'' \<in> set app"
    then obtain a b where "app = a @ ''/'' @ b" by (auto dest: split_list)
    with v(2) show False using str_contains_appendI by blast
  qed
  show "app \<noteq> dotdot" using v(1) str_contains_appendI[of "''''" "''..''" "''''"] by (auto simp: dotdot_def)
  show "codePath = Path_Join [dir, app, ''code'']"
    using assms v by (auto simp: PrepareBindMount_def Let_def and_if_ok_def wrapped_def split: if_splits prod.splits sum.splits)
qed

lemma CreateContainer_ok:
  assumes "fst (CreateContainer raw ord spec e) = Inr i"
  shows "\<exists>codePath. fst (PrepareBindMount raw (sp_SandboxDir spec) (sp_AppName spec) e) = Inr codePath"
  using assms by (cases "fst (PrepareBindMount raw (sp_SandboxDir spec) (sp_AppName spec) e)")
    (auto simp: CreateContainer_def and_if_ok_def wrapped_def split: prod.splits sum.splits)

lemma code_path_below:
  assumes "dir \<noteq> ''''" and "CHR ''/'' \<notin> set app" and "app \<noteq> dotdot"
  shows "at_or_below dir (Path_Join [dir, app, ''code''])"
    and "Clean (dir @ ''/'' @ app @ ''/code'') = Path_Join [dir, app, ''code'']"
proof -
  have sl: "slashes (app @ ''/code'') = [app, ''code'']"
    using split_on_append[of "CHR ''/''" app "''code''"] assms(2) by (simp add: split_on_plain)
  have rel: "\<not> IsAbs (app @ ''/code'') \<or> app = ''''" using assms(2) by (cases app) (auto simp: IsAbs_def)
  show "Clean (dir @ ''/'' @ app @ ''/code'') = Path_Join [dir, app, ''code'']" using assms(1) by simp
  show "at_or_below dir (Path_Join [dir, app, ''code''])"
  proof (cases "app = ''''")
    case True
    have "clean_comps r (slashes (dir @ ''//code'')) [] = clean_comps r (slashes (dir @ ''/code'')) []" for r
      using split_on_append[of "CHR ''/''" dir "''/code''"] split_on_append[of "CHR ''/''" dir "''code''"]
      by (simp add: clean_step_def)
    moreover have "IsAbs (dir @ s) = IsAbs dir" for s using assms(1) by (cases dir) (auto simp: IsAbs_def)
    ultimately have "Path_Join [dir, app, ''code''] = Path_Join [dir, ''code'']"
      using assms(1) True by (simp add: Clean_def parts_def)
    moreover have "\<not> IsAbs ''code''" "dotdot \<notin> set (parts ''code'')"
      by (simp_all add: IsAbs_def parts_def clean_step_def dotdot_def)
    ultimately show ?thesis using Path_Join_at_or_below[OF assms(1)] by metis
  next
    case False
    have "dotdot \<notin> set (parts (app @ ''/code''))"
      using assms(3) rel False by (simp add: parts_def sl clean_step_def dotdot_def)
    from Path_Join_at_or_below[OF assms(1) _ this] rel False assms(1) show ?thesis by simp
  qed
qed

definition a_daemon :: "unit raw_docker" where
  "a_daemon = \<lparr>rd_ContainerCreate = (\<lambda>c e. (Inr ''c-1'', e)), rd_ContainerStart = (\<lambda>i e. (Inr (), e)),
     rd_ContainerStop = (\<lambda>i t e. (Inr (), e)), rd_ContainerRemove = (\<lambda>i f e. (Inl ''no such container'', e)),
     rd_ContainerRestart = (\<lambda>i t e. (Inr (), e)), rd_ContainerLogs = (\<lambda>i t f e. (Inr (Inr ''''), e)),
     rd_ContainerInspect = (\<lambda>i e. (Inl ''no such container'', e)), rd_ContainerList = (\<lambda>e. (Inr [], e)), rd_ImagePull = (\<lambda>r e. (Inr (Inr ()), e)),
     rd_MkdirAll = (\<lambda>p e. (Inr (), e)), rd_Chown = (\<lambda>p u g e. (Inr (), e)), rd_quote = id\<rparr>"

section \<open>Property\<close>



end
