(* ===== verification/Watcher.thy ===== *)
theory Watcher
  imports Control_Client Docker
begin

text \<open>
  The watcher of Docker events, \<^verbatim>\<open>agent/internal/events/watcher.go\<close>, and the stream it reads, \<^verbatim>\<open>EventsStream\<close> of
  \<^verbatim>\<open>agent/internal/docker/client.go\<close>. A connection to the event stream is the list of the events it delivers
  before its channel is closed and the list of the errors it ends with; the \<open>k\<close>-th connection from a given time on
  is \<open>source k since\<close>. The context stays alive for the given number of connections. The channel of the watcher is
  the list of the events it emits; the pauses between connections are recorded beside it. Times are in
  nanoseconds.
\<close>

section \<open>Events\<close>

record ContainerEvent =
  ce_ContainerID :: string
  ce_ContainerName :: string
  ce_Action :: string
  ce_ExitCode :: string
  ce_Time :: int

record watcher_event =
  we_AppName :: string
  we_ContainerID :: string
  we_EventType :: string
  we_ExitCode :: string
  we_Time :: int
  we_OOMKilled :: bool

definition containerPrefix :: string where
  "containerPrefix = ''forge-''"

definition mapEvent :: "ContainerEvent \<Rightarrow> watcher_event option" where
  "mapEvent ev =
    (if \<not> prefix containerPrefix (ce_ContainerName ev) then None
     else
       let mapped = (\<lambda>eventType oomKilled. Some
             \<lparr>we_AppName = trim_prefix containerPrefix (ce_ContainerName ev), we_ContainerID = ce_ContainerID ev,
              we_EventType = eventType, we_ExitCode = ce_ExitCode ev, we_Time = ce_Time ev, we_OOMKilled = oomKilled\<rparr>)
       in if ce_Action ev = ''die'' then mapped ''container_exited'' False
          else if ce_Action ev = ''oom'' then mapped ''container_oom'' True
          else if ce_Action ev = ''start'' then mapped ''container_started'' False
          else None)"

section \<open>The stream of the Docker client\<close>

text \<open>A message of the daemon, with its times in seconds and in nanoseconds. The SDK sends at most one error, at the
  end of the messages; \<open>format\<close> is \<^verbatim>\<open>Format(time.RFC3339Nano)\<close>.\<close>

record docker_message =
  dm_ActorID :: string
  dm_Attributes :: "(string \<times> string) list"
  dm_Action :: string
  dm_Time :: "64 word"
  dm_TimeNano :: "64 word"

record events_options =
  eo_Since :: string
  eo_Filters :: "(string \<times> string list) list"

definition attribute :: "string \<Rightarrow> docker_message \<Rightarrow> string" where
  "attribute k msg = (case map_of (dm_Attributes msg) k of None \<Rightarrow> '''' | Some v \<Rightarrow> v)"

text \<open>\<^verbatim>\<open>time.Unix(msg.Time, msg.TimeNano\<close> modulo one second\<^verbatim>\<open>)\<close>, where Go's remainder has the sign of the dividend.\<close>

definition go_rem :: "int \<Rightarrow> int \<Rightarrow> int" where
  "go_rem a b = (if a < 0 then - (- a mod b) else a mod b)"

definition message_time :: "docker_message \<Rightarrow> int" where
  "message_time msg = sint (dm_Time msg) * 1000000000 + go_rem (sint (dm_TimeNano msg)) 1000000000"

definition event_of :: "docker_message \<Rightarrow> ContainerEvent" where
  "event_of msg =
    \<lparr>ce_ContainerID = dm_ActorID msg, ce_ContainerName = attribute ''name'' msg, ce_Action = dm_Action msg,
     ce_ExitCode = attribute ''exitCode'' msg, ce_Time = message_time msg\<rparr>"

definition event_filters :: "(string \<times> string list) list" where
  "event_filters = [(''type'', [''container'']), (''event'', [''die'', ''oom'', ''start'', ''health_status''])]"

definition EventsStream ::
    "(int \<Rightarrow> string) \<Rightarrow> (events_options \<Rightarrow> docker_message list \<times> string option) \<Rightarrow> int \<Rightarrow> ContainerEvent list \<times> string list" where
  "EventsStream format daemon since =
    (let (msgs, err) = daemon \<lparr>eo_Since = format since, eo_Filters = event_filters\<rparr>
     in (map event_of msgs, case err of None \<Rightarrow> [] | Some e \<Rightarrow> [e]))"

section \<open>Streams\<close>

text \<open>The emitted events, the time of the last one and whether the stream ended with an error.\<close>

fun process_events :: "ContainerEvent list \<Rightarrow> int \<Rightarrow> watcher_event list \<times> int" where
  "process_events [] lastEventTime = ([], lastEventTime)"
| "process_events (ev # evs) lastEventTime =
    (case mapEvent ev of
       None \<Rightarrow> process_events evs lastEventTime
     | Some sbEvent \<Rightarrow> (let (out, t) = process_events evs (ce_Time ev) in (sbEvent # out, t)))"

definition processStream ::
    "ContainerEvent list \<times> string list \<Rightarrow> int \<Rightarrow> watcher_event list \<times> int \<times> bool" where
  "processStream stream lastEventTime =
    (let (out, t) = process_events (fst stream) lastEventTime in (out, t, snd stream \<noteq> []))"

definition baseBackoff :: Duration where "baseBackoff = time_Second"
definition maxBackoff :: Duration where "maxBackoff = 30 * time_Second"

definition grow_backoff :: "Duration \<Rightarrow> Duration" where
  "grow_backoff d = (let d' = d * 2 in if sint maxBackoff < sint d' then maxBackoff else d')"

fun watch_from ::
    "(nat \<Rightarrow> int \<Rightarrow> ContainerEvent list \<times> string list) \<Rightarrow> nat \<Rightarrow> nat \<Rightarrow> int \<Rightarrow> Duration \<Rightarrow>
      watcher_event list \<times> Duration list" where
  "watch_from source 0 k lastEventTime delay = ([], [])"
| "watch_from source (Suc connections) k lastEventTime delay =
    (let (out, t, streamDone) = processStream (source k lastEventTime) lastEventTime in
     if \<not> streamDone then (out, [])
     else let (out', delays) = watch_from source connections (Suc k) t (grow_backoff delay) in (out @ out', delay # delays))"

definition watchLoop ::
    "(nat \<Rightarrow> int \<Rightarrow> ContainerEvent list \<times> string list) \<Rightarrow> nat \<Rightarrow> watcher_event list \<times> Duration list" where
  "watchLoop source connections = watch_from source connections 0 zero_nanos baseBackoff"

section \<open>Delivery\<close>

lemma process_events_out: "fst (process_events evs t) = List.map_filter mapEvent evs"
  by (induction evs arbitrary: t) (simp_all add: List.map_filter_simps Let_def split_beta split: option.split)

text \<open>The time to resume from is the old one or that of an event of the stream.\<close>

lemma process_events_time: "snd (process_events evs t) \<in> insert t (ce_Time ` set evs)"
proof (induction evs arbitrary: t)
  case (Cons a evs)
  from Cons[of t] Cons[of "ce_Time a"] show ?case by (auto simp: Let_def split_beta split: option.split)
qed simp

lemma watch_from_Suc:
  "watch_from source (Suc connections) k t d =
    (let (evs, errs) = source k t; rest = watch_from source connections (Suc k) (snd (process_events evs t)) (grow_backoff d);
         out = List.map_filter mapEvent evs
     in if errs = [] then (out, []) else (out @ fst rest, d # snd rest))"
  by (simp add: processStream_def process_events_out Let_def split_beta)

declare watch_from.simps(2) [simp del]

lemma sorted_take_drop:
  assumes "sorted (map f xs)" and "x \<in> set (take c xs)" and "y \<in> set (drop c xs)"
  shows "f x \<le> f y"
  using assms sorted_append[of "map f (take c xs)" "map f (drop c xs)"]
  by (metis append_take_drop_id image_eqI list.set_map map_append)

lemma in_map_filter: "y \<in> set (List.map_filter f xs) \<longleftrightarrow> (\<exists>x \<in> set xs. f x = Some y)"
  by (force simp: List.map_filter_def)

text \<open>A source with the history \<open>H\<close>: a connection delivers the events from a time on, or a first part of them and
  then an error; the times asked for are in \<open>T\<close>.\<close>

definition replays :: "int set \<Rightarrow> ContainerEvent list \<Rightarrow> (nat \<Rightarrow> int \<Rightarrow> ContainerEvent list \<times> string list) \<Rightarrow> bool" where
  "replays T H source \<longleftrightarrow> sorted (map ce_Time H) \<and> ce_Time ` set H \<subseteq> T \<and>
    (\<forall>k. \<forall>t \<in> T. \<exists>c. fst (source k t) = take c (filter (\<lambda>e. t \<le> ce_Time e) H))"

lemma watch_from_delivers:
  assumes "replays T H source" and "\<And>j t. k \<le> j \<Longrightarrow> j < n \<Longrightarrow> t \<in> T \<Longrightarrow> snd (source j t) \<noteq> []"
    and "\<And>t. t \<in> T \<Longrightarrow> source n t = (filter (\<lambda>e. t \<le> ce_Time e) H, [])" and "k \<le> n" and "t \<in> T"
  shows "set (fst (watch_from source (Suc (n - k)) k t d)) =
    set (List.map_filter mapEvent (filter (\<lambda>e. t \<le> ce_Time e) H))"
  using assms(2,4,5)
proof (induction "n - k" arbitrary: k t d)
  case 0
  then show ?case using assms(3)[of t] by (simp add: watch_from_Suc)
next
  case (Suc m)
  let ?P = "filter (\<lambda>e. t \<le> ce_Time e) H"
  obtain c where c: "fst (source k t) = take c ?P"
    using assms(1) Suc.prems(3) unfolding replays_def by blast
  define t' where "t' = snd (process_events (take c ?P) t)"
  have m: "n - k = Suc (n - Suc k)" "snd (source k t) \<noteq> []" using Suc by auto
  have time: "t' \<in> insert t (ce_Time ` set (take c ?P))" unfolding t'_def by (rule process_events_time)
  then have "t' \<in> T" using assms(1) Suc.prems(3) by (auto simp: replays_def dest!: in_set_takeD)
  then have IH: "set (fst (watch_from source (Suc (n - Suc k)) (Suc k) t' (grow_backoff d))) =
      set (List.map_filter mapEvent (filter (\<lambda>e. t' \<le> ce_Time e) H))"
    using Suc by (intro Suc.hyps(1)) auto
  have later: "t' \<le> ce_Time e" if "e \<in> set (drop c ?P)" for e
    using time sorted_take_drop[of ce_Time ?P _ c e] sorted_filter assms(1) that
    by (auto simp: replays_def dest: in_set_dropD)
  have "t \<le> t'" using time by (auto dest: in_set_takeD)
  then have "set (filter (\<lambda>e. t' \<le> ce_Time e) H) \<subseteq> set ?P" by auto
  moreover have "set (drop c ?P) \<subseteq> set (filter (\<lambda>e. t' \<le> ce_Time e) H)"
    using later by (auto dest: in_set_dropD)
  moreover have "set ?P = set (take c ?P) \<union> set (drop c ?P)"
    by (metis append_take_drop_id set_append)
  ultimately have "set (take c ?P) \<union> set (filter (\<lambda>e. t' \<le> ce_Time e) H) = set ?P" by blast
  then have "set (List.map_filter mapEvent (take c ?P)) \<union> set (List.map_filter mapEvent (filter (\<lambda>e. t' \<le> ce_Time e) H)) =
      set (List.map_filter mapEvent ?P)"
    unfolding set_eq_iff Un_iff in_map_filter by blast
  moreover have "set (fst (watch_from source (Suc (n - k)) k t d)) = set (List.map_filter mapEvent (take c ?P)) \<union>
      set (fst (watch_from source (Suc (n - Suc k)) (Suc k) t' (grow_backoff d)))"
    unfolding m(1) watch_from_Suc[of _ "Suc (n - Suc k)"] using m(2) c
    by (simp add: t'_def Let_def split_beta)
  ultimately show ?case using IH by simp
qed

lemma watch_from_delays:
  assumes "\<And>j t. k \<le> j \<Longrightarrow> j < n \<Longrightarrow> t \<in> T \<Longrightarrow> snd (source j t) \<noteq> []" and "\<And>t. t \<in> T \<Longrightarrow> snd (source n t) = []"
    and "replays T H source" and "k \<le> n" and "t \<in> T"
  shows "snd (watch_from source (Suc (n - k)) k t d) = map (\<lambda>i. (grow_backoff ^^ i) d) [0..<n - k]"
  using assms(1,4,5)
proof (induction "n - k" arbitrary: k t d)
  case 0
  then show ?case using assms(2)[of t] by (simp add: watch_from_Suc Let_def split_beta)
next
  case (Suc m)
  let ?t = "snd (process_events (fst (source k t)) t)"
  obtain c where "fst (source k t) = take c (filter (\<lambda>e. t \<le> ce_Time e) H)"
    using assms(3) Suc.prems(3) unfolding replays_def by blast
  then have "?t \<in> T"
    using process_events_time[of "fst (source k t)" t] assms(3) Suc.prems(3)
    by (auto simp: replays_def dest!: in_set_takeD)
  then have IH: "snd (watch_from source (Suc (n - Suc k)) (Suc k) ?t (grow_backoff d)) =
      map (\<lambda>i. (grow_backoff ^^ i) (grow_backoff d)) [0..<n - Suc k]"
    using Suc by (intro Suc.hyps(1)) auto
  have m: "n - k = Suc (n - Suc k)" "snd (source k t) \<noteq> []" using Suc by auto
  have "snd (watch_from source (Suc (n - k)) k t d) =
      d # snd (watch_from source (Suc (n - Suc k)) (Suc k) ?t (grow_backoff d))"
    unfolding m(1) watch_from_Suc[of _ "Suc (n - Suc k)"] using m(2) by (simp add: Let_def split_beta)
  also have "\<dots> = map (\<lambda>i. (grow_backoff ^^ i) d) [0..<Suc (n - Suc k)]"
    unfolding IH by (simp add: upt_conv_Cons map_Suc_upt[symmetric] funpow_swap1 o_def del: upt_Suc)
  finally show ?case unfolding m(1) .
qed

lemma grow_backoff_iterates:
  "(grow_backoff ^^ i) baseBackoff = (if i < 5 then 2 ^ i * time_Second else maxBackoff)"
proof -
  have steps: "(grow_backoff ^^ j) baseBackoff = 2 ^ j * time_Second" if "j \<in> {0, 1, 2, 3, 4}" for j
    using that by (auto simp: grow_backoff_def baseBackoff_def maxBackoff_def time_Second_def Let_def numeral_eq_Suc)
  have "grow_backoff (2 ^ 4 * time_Second) = maxBackoff" "grow_backoff maxBackoff = maxBackoff"
    by (simp_all add: grow_backoff_def maxBackoff_def time_Second_def Let_def)
  then have late: "(grow_backoff ^^ (5 + j)) baseBackoff = maxBackoff" for j
    using steps[of 4] by (induction j) (simp_all add: numeral_eq_Suc)
  show ?thesis
  proof (cases "i < 5")
    case True
    then have "i \<in> {0, 1, 2, 3, 4}" by auto
    with steps True show ?thesis by simp
  next
    case False
    with late[of "i - 5"] show ?thesis by simp
  qed
qed

section \<open>Property\<close>

definition log_of :: "docker_message list" where
  "log_of = [\<lparr>dm_ActorID = ''c-1'', dm_Attributes = [(''name'', ''forge-shop'')], dm_Action = ''start'', dm_Time = 1, dm_TimeNano = 1000000000\<rparr>,
     \<lparr>dm_ActorID = ''c-2'', dm_Attributes = [(''name'', ''db'')], dm_Action = ''start'', dm_Time = 2, dm_TimeNano = 2000000000\<rparr>,
     \<lparr>dm_ActorID = ''c-1'', dm_Attributes = [(''name'', ''forge-shop''), (''exitCode'', ''137'')], dm_Action = ''die'', dm_Time = 3,
       dm_TimeNano = 3000000007\<rparr>]"

text \<open>A layout for the times of this log, and a daemon whose first connection breaks off after one message.\<close>

definition a_layout :: "(int \<times> string) list" where
  "a_layout = [(zero_nanos, ''year 1''), (1000000000, ''1''), (2000000000, ''2''), (3000000007, ''3.000000007'')]"

definition a_format :: "int \<Rightarrow> string" where
  "a_format t = (case map_of a_layout t of None \<Rightarrow> '''' | Some s \<Rightarrow> s)"

definition a_parse :: "string \<Rightarrow> int" where
  "a_parse s = (case map_of (map (\<lambda>(t, s). (s, t)) a_layout) s of None \<Rightarrow> 0 | Some t \<Rightarrow> t)"

definition broken_once :: "nat \<Rightarrow> events_options \<Rightarrow> docker_message list \<times> string option" where
  "broken_once k opts =
    (let ms = filter (\<lambda>m. a_parse (eo_Since opts) \<le> message_time m) log_of
     in if k = 0 then (take 1 ms, Some ''unexpected EOF'') else (ms, None))"

lemma map_filter_wanted:
  assumes "\<forall>m \<in> set H. f m \<noteq> None \<longrightarrow> P m"
  shows "set (List.map_filter f (filter P H)) = set (List.map_filter f H)"
  using assms by (auto simp: in_map_filter set_eq_iff)

lemma mapEvent_actions:
  "mapEvent (event_of m) \<noteq> None \<Longrightarrow> dm_Action m \<in> {''die'', ''oom'', ''start''}"
  by (auto simp: mapEvent_def event_of_def Let_def split: if_splits)



end
