(* ===== verification/Agent.thy ===== *)
theory Agent
  imports Watcher
begin

text \<open>
  The agent around its executor: the heartbeat sender (\<^verbatim>\<open>agent/internal/health/heartbeat.go\<close>), the handler of
  \<^verbatim>\<open>GET /v1/containers/{name}\<close> (\<^verbatim>\<open>containers_handler.go\<close>) and, of \<^verbatim>\<open>agent.go\<close>, the resource collector, the
  resolution and forwarding of container events and the poll loop. The agent's outside state is the Docker
  daemon with the client of the control plane, so that every call of the executor is a call of the modelled
  Docker client or of the modelled control client. The goroutines of an agent share these; a definition here
  is one of them at work.
\<close>

section \<open>The outside of an agent\<close>

definition on_daemon :: "('d \<Rightarrow> 'a \<times> 'd) \<Rightarrow> 'd \<times> 'c \<Rightarrow> 'a \<times> 'd \<times> 'c" where
  "on_daemon f dc = (case dc of (d, c) \<Rightarrow> let (x, d') = f d in (x, d', c))"

definition on_client :: "('c, 'a) state \<Rightarrow> 'd \<times> 'c \<Rightarrow> 'a \<times> 'd \<times> 'c" where
  "on_client m dc = (case dc of (d, c) \<Rightarrow> let (x, c') = run_state m c in (x, d, c'))"

definition wired ::
    "'d raw_docker \<Rightarrow> ((string \<times> string) list \<Rightarrow> (string \<times> string) list) \<Rightarrow> 'n network \<Rightarrow> (json option \<Rightarrow> string) \<Rightarrow>
      ('d \<times> 'n Client) agent_env" where
  "wired raw ord net json_error =
    \<lparr>x_CreateContainer = (\<lambda>spec. on_daemon (CreateContainer raw ord spec)),
     x_StopContainer = (\<lambda>i d. on_daemon (StopContainer raw i d)),
     x_RemoveContainer = (\<lambda>i. on_daemon (RemoveContainer raw i)),
     x_RestartContainer = (\<lambda>i d. on_daemon (RestartContainer raw i d)),
     x_GetLogs = (\<lambda>i tail follow. on_daemon (GetLogs raw i tail follow)),
     x_AckCommand = (\<lambda>i a. on_client (Client_AckCommand net i a)), x_json_error = json_error\<rparr>"

section \<open>Heartbeats\<close>

text \<open>\<^verbatim>\<open>dockerResourceCollector.Collect\<close>\<close>

definition Collect :: "int \<times> int" where
  "Collect = (0, 0)"

definition heartbeat_of :: "ContainerSnapshot list \<Rightarrow> HeartbeatRequest" where
  "heartbeat_of snapshots =
    (let (usedMB, runningContainers) = Collect in
     \<lparr>hr_UsedMB = usedMB, hr_RunningContainers = runningContainers,
      hr_Containers = map (\<lambda>s. \<lparr>hc_AppName = cs_AppName s, hc_State = cs_State s, hc_HostPort = cs_HostPort s,
        hc_ContainerID = cs_ContainerID s\<rparr>) snapshots\<rparr>)"

definition sendHeartbeat :: "'d raw_docker \<Rightarrow> 'n network \<Rightarrow> ('d \<times> 'n Client, unit) state" where
  "sendHeartbeat raw net = do {
     snap \<leftarrow> State (on_daemon (Snapshot raw));
     case snap of
       Inl _ \<Rightarrow> State_Monad.return ()
     | Inr snapshots \<Rightarrow> do {
         _ \<leftarrow> State (on_client (Heartbeat net (heartbeat_of snapshots)));
         State_Monad.return () } }"

section \<open>Existence of a container\<close>

text \<open>The answer is a status and, where it is JSON, its body.\<close>

definition exists_json :: "ContainerSnapshot \<Rightarrow> json" where
  "exists_json c = JObj
    ([(''exists'', JBool True), (''app_name'', JStr (cs_AppName c))] @ opt_string ''state'' (cs_State c) @
     (if cs_HostPort c = 0 then [] else [(''host_port'', JNum (of_int (cs_HostPort c)))]) @
     opt_string ''container_id'' (cs_ContainerID c))"

definition containers_ServeHTTP :: "'d raw_docker \<Rightarrow> string \<Rightarrow> 'd \<Rightarrow> (int \<times> json option) \<times> 'd" where
  "containers_ServeHTTP raw name d =
    (if name = '''' then ((400, None), d)
     else case Snapshot raw d of
       (Inl _, d') \<Rightarrow> ((500, None), d')
     | (Inr containers, d') \<Rightarrow>
         ((case find (\<lambda>c. cs_AppName c = name) containers of
             Some c \<Rightarrow> (200, Some (exists_json c))
           | None \<Rightarrow> (404, Some (JObj [(''exists'', JBool False), (''app_name'', JStr name)]))), d'))"

section \<open>Container events\<close>

text \<open>\<open>ord\<close> is the order in which Go iterates over the map of sandboxes. The time of an event is not reported.\<close>

definition resolveSandboxID :: "((string \<times> sandboxInfo) list \<Rightarrow> (string \<times> sandboxInfo) list) \<Rightarrow> 'e executor \<Rightarrow> string \<Rightarrow> string" where
  "resolveSandboxID ord x appName =
    (case find (\<lambda>(i, info). si_AppName info = appName) (ord (ex_sandboxes x)) of
       Some (i, _) \<Rightarrow> i
     | None \<Rightarrow> appName)"

text \<open>\<^verbatim>\<open>fmt.Sscanf(s, "%d", ...)\<close> of an exit code is \<open>sscanf\<close>, 0 where it fails.\<close>

definition event_report ::
    "((string \<times> sandboxInfo) list \<Rightarrow> (string \<times> sandboxInfo) list) \<Rightarrow> (string \<Rightarrow> int) \<Rightarrow> 'e executor \<Rightarrow> watcher_event \<Rightarrow> EventReport" where
  "event_report ord sscanf x ev =
    \<lparr>er_SandboxID = resolveSandboxID ord x (we_AppName ev), er_EventType = we_EventType ev, er_ContainerID = we_ContainerID ev,
     er_ExitCode = (if we_ExitCode ev \<noteq> '''' then sscanf (we_ExitCode ev) else 0),
     er_Payload = (if we_OOMKilled ev then Some (JObj [(''oom_killed'', JBool True)]) else None)\<rparr>"

definition forwardEvents ::
    "((string \<times> sandboxInfo) list \<Rightarrow> (string \<times> sandboxInfo) list) \<Rightarrow> (string \<Rightarrow> int) \<Rightarrow> 'n network \<Rightarrow> watcher_event list \<Rightarrow>
      (('d \<times> 'n Client) executor, unit) state" where
  "forwardEvents ord sscanf net evs = do {
     _ \<leftarrow> for_each (\<lambda>ev. do {
       x \<leftarrow> State_Monad.get;
       _ \<leftarrow> outside (on_client (ReportEvent net (event_report ord sscanf x ev)));
       State_Monad.return () }) evs;
     State_Monad.return () }"

section \<open>The poll loop\<close>

text \<open>\<open>rounds\<close> is the number of rounds before the context is cancelled; \<open>now\<close> and \<open>hint\<close> give the clock and the port
  that the allocator's iteration meets first when a command is executed. An error of \<^verbatim>\<open>Execute\<close> is logged.\<close>

fun pollLoop ::
    "'d raw_docker \<Rightarrow> ((string \<times> string) list \<Rightarrow> (string \<times> string) list) \<Rightarrow> 'n network \<Rightarrow> (json option \<Rightarrow> string) \<Rightarrow>
      (AgentCommand \<Rightarrow> timestamp) \<Rightarrow> (AgentCommand \<Rightarrow> int) \<Rightarrow> nat \<Rightarrow> (('d \<times> 'n Client) executor, unit) state" where
  "pollLoop raw ord net je now hint 0 = State_Monad.return ()"
| "pollLoop raw ord net je now hint (Suc rounds) = do {
     r \<leftarrow> outside (on_client (PollCommands net 30));
     (case r of
        Inl _ \<Rightarrow> do {
          _ \<leftarrow> outside (on_client (pause net (2 * time_Second)));
          State_Monad.return () }
      | Inr cmds \<Rightarrow> do {
          _ \<leftarrow> for_each (\<lambda>cmd. Execute (wired raw ord net je) (now cmd) (hint cmd) cmd) cmds;
          State_Monad.return () });
     pollLoop raw ord net je now hint rounds }"

section \<open>The executor's invariant\<close>

text \<open>Polling, pausing and reporting change only the outside, so that the invariant of the executor survives the
  whole agent.\<close>

definition of_executor :: "('e executor \<Rightarrow> bool) \<Rightarrow> bool" where
  "of_executor I \<longleftrightarrow> (\<forall>x e. I x \<longrightarrow> I (x\<lparr>ex_outside := e\<rparr>)) \<and>
     (\<forall>env now hint cmd. keeps I (Execute env now hint cmd))"

lemma outside_keeps: "of_executor I \<Longrightarrow> keeps I (outside f)"
  by (simp add: of_executor_def keeps_def outside_def split: prod.split)

lemma pollLoop_keeps: "of_executor I \<Longrightarrow> keeps I (pollLoop raw ord net je now hint rounds)"
proof (induction rounds)
  case (Suc rounds)
  then show ?case
    unfolding pollLoop.simps by (intro keeps_rules outside_keeps) (simp_all add: of_executor_def)
qed (simp add: keeps_return)

lemma forwardEvents_keeps: "of_executor I \<Longrightarrow> keeps I (forwardEvents ord sscanf net evs)"
proof -
  assume I: "of_executor I"
  have get: "keeps I State_Monad.get"
    by (simp add: keeps_def State_Monad.get_def)
  show ?thesis unfolding forwardEvents_def by (intro keeps_rules outside_keeps I get)
qed

section \<open>What an agent reports of its containers\<close>

text \<open>Containers whose labels are the ones \<^verbatim>\<open>CreateContainer\<close> gave them.\<close>

definition created_here :: "list_item \<Rightarrow> bool" where
  "created_here item \<longleftrightarrow> (\<exists>ord spec codePath. li_Labels item = co_Labels (create_options ord spec codePath))"

lemma created_here_iff: "created_here item \<longleftrightarrow> li_Labels item = []"
  by (simp add: created_here_def create_options_def)

lemma Snapshot_created_here:
  assumes "fst (rd_ContainerList raw d) = Inr items" and "list_all created_here items"
  shows "fst (Snapshot raw d) = Inr []"
  using assms by (auto simp: Snapshot_def ListContainers_def and_if_ok_def wrapped_def label_def created_here_iff
      list_all_iff filter_empty_conv split: prod.split)

lemma containers_ServeHTTP_created_here:
  assumes "fst (rd_ContainerList raw d) = Inr items" and "list_all created_here items" and "name \<noteq> ''''"
  shows "fst (fst (containers_ServeHTTP raw name d)) = 404"
  using Snapshot_created_here[OF assms(1,2)] assms(3)
  by (auto simp: containers_ServeHTTP_def split: prod.split)

end
