(* ===== verification/Protocol.thy ===== *)
theory Protocol
  imports Server Agent
begin

text \<open>
  The protocol between agents and the control plane. First the messages: what the agent's client writes
  (\<^verbatim>\<open>agent/internal/controlclient/types.go\<close>) is what the handlers of the API read, and the commands of a poll
  response (\<^verbatim>\<open>mapCommands\<close>) are what the agent decodes. Then the transport: the route table of \<^verbatim>\<open>routes.go\<close> as a function of
  method and path, and the control plane as the network of an agent. Last the way of a start command from the
  queue over the agent and Docker back to the database.
\<close>

section \<open>Messages\<close>

definition fits_int32 :: "int \<Rightarrow> bool" where
  "fits_int32 i \<longleftrightarrow> - 2147483648 \<le> i \<and> i \<le> 2147483647"

definition fits_int64 :: "int \<Rightarrow> bool" where
  "fits_int64 i \<longleftrightarrow> - (2 ^ 63) \<le> i \<and> i < 2 ^ 63"

lemma decode_int32_of_int: "decode_int32 (JNum (of_int i)) old = (if fits_int32 i then (of_int i, True) else (old, False))"
  by (simp add: decode_int32_def fits_int32_def)

lemma decode_int64_of_int: "decode_int64 (JNum (of_int i)) old = (if fits_int64 i then (of_int i, True) else (old, False))"
  by (simp add: decode_int64_def fits_int64_def)

lemma sint_of_int64: "fits_int64 i \<Longrightarrow> sint (word_of_int i :: 64 word) = i"
  by (simp add: fits_int64_def sint_sbintrunc' signed_take_bit_int_eq_self)

lemmas decode_simps = fold_eq_def lower_char_def object_members_def decode_string_def decode_float_def Let_def
  decode_int32_of_int decode_int64_of_int

text \<open>What the control plane makes of a registration and of a heartbeat.\<close>

definition as_registered :: "RegisterRequest \<Rightarrow> registerRequest" where
  "as_registered r = \<lparr>rg_Hostname = rr_Hostname r, rg_TailscaleIP = rr_TailscaleIP r,
     rg_AgentListenPort = of_int (rr_AgentListenPort r), rg_CapacityMb = of_int (rr_CapacityMB r),
     rg_CapacityCPU = rr_CapacityCPU r, rg_AgentVersion = rr_AgentVersion r, rg_Metadata = None\<rparr>"

definition as_container :: "container_info \<Rightarrow> ContainerInfo" where
  "as_container c = \<lparr>ci_AppName = hc_AppName c, ci_State = SandboxState_of (hc_State c), ci_HostPort = hc_HostPort c,
     ci_ContainerID = hc_ContainerID c\<rparr>"

lemma decode_register_json:
  "decode_register (Some (register_json r)) =
    (if fits_int32 (rr_AgentListenPort r) \<and> fits_int32 (rr_CapacityMB r) then Some (as_registered r) else None)"
  by (simp add: decode_register_def register_json_def as_registered_def decode_simps)

lemma decode_container_json:
  "decode_ContainerInfo (container_json c) =
    (if fits_int64 (hc_HostPort c) then (as_container c, True) else (as_container (c\<lparr>hc_HostPort := 0\<rparr>), False))"
  by (simp add: decode_ContainerInfo_def container_json_def as_container_def decode_simps sint_of_int64)

lemma decode_heartbeat_json:
  "decode_heartbeat (Some (heartbeat_json h)) =
    (if fits_int32 (hr_UsedMB h) \<and> fits_int32 (hr_RunningContainers h) \<and> list_all (\<lambda>c. fits_int64 (hc_HostPort c)) (hr_Containers h)
     then Some \<lparr>hb_UsedMb = of_int (hr_UsedMB h), hb_RunningContainers = of_int (hr_RunningContainers h),
       hb_Containers = Some (map as_container (hr_Containers h))\<rparr> else None)"
proof -
  have "list_all (snd \<circ> decode_ContainerInfo) (map container_json cs) = list_all (\<lambda>c. fits_int64 (hc_HostPort c)) cs"
    "list_all (\<lambda>c. fits_int64 (hc_HostPort c)) cs \<Longrightarrow> map (fst \<circ> decode_ContainerInfo \<circ> container_json) cs = map as_container cs" for cs
    by (simp_all add: list_all_iff decode_container_json split: if_splits)
  then show ?thesis by (simp add: decode_heartbeat_def heartbeat_json_def decode_slice_def decode_simps)
qed

lemma decode_ack_json: "decode_ack (Some (ack_json a)) = Some (ar_Status a, ar_Error a, ar_Result a)"
  by (simp add: decode_ack_def ack_json_def opt_string_def opt_json_def decode_simps split: option.split)

lemma decode_event_json:
  "decode_event (Some (event_json e)) =
    (if fits_int64 (er_ExitCode e) then Some (er_SandboxID e, er_EventType e, er_Payload e) else None)"
proof -
  have "fits_int64 0" by (simp add: fits_int64_def)
  then show ?thesis
    by (simp add: decode_event_def event_json_def opt_string_def opt_json_def decode_pointer_def decode_simps split: option.split)
qed

text \<open>What an agent makes of a queued command. The time stamp is formatted to whole seconds.\<close>

definition received :: "Command \<Rightarrow> AgentCommand" where
  "received c = \<lparr>ac_ID = cmd_ID c, ac_Type = CommandType_string (cmd_CommandType c),
     ac_SandboxID = (case cmd_SandboxID c of None \<Rightarrow> '''' | Some i \<Rightarrow> i), ac_Payload = Some (cmd_Payload c),
     ac_IssuedAt = second * (cmd_CreatedAt c div second), ac_TimeoutSeconds = sint (cmd_TimeoutSeconds c)\<rparr>"

lemma fits_int32_sint: "fits_int32 (sint (w :: int32))"
  using sint_int32_bounds[of w] by (simp add: fits_int32_def int32_max_def)

lemma fits_int64_int32: "fits_int32 i \<Longrightarrow> fits_int64 i"
  by (simp add: fits_int32_def fits_int64_def)

lemma decode_command_map:
  assumes "nw_time net (al_RFC3339 lib (cmd_CreatedAt c)) = Some (second * (cmd_CreatedAt c div second))"
  shows "decode_command net (mapCommand lib c) = (received c, True)"
  using assms fits_int64_int32[OF fits_int32_sint, of "cmd_TimeoutSeconds c"]
  by (cases "cmd_SandboxID c")
    (simp_all add: decode_command_def mapCommand_def received_def decode_time_def decode_simps sint_of_int64 del: of_int_sint)

lemma parseCommands_pollResponse:
  assumes "\<And>c. c \<in> set cs \<Longrightarrow> nw_time net (al_RFC3339 lib (cmd_CreatedAt c)) = Some (second * (cmd_CreatedAt c div second))"
  shows "parseCommands net (rp_Status (pollResponse lib cs), txt, rp_Body (pollResponse lib cs)) = Inr (map received cs)"
proof -
  have "map (fst \<circ> decode_command net) (map (mapCommand lib) cs) = map received cs"
    "list_all (snd \<circ> decode_command net) (map (mapCommand lib) cs)"
    using assms by (simp_all add: decode_command_map list_all_iff)
  then show ?thesis by (simp add: parseCommands_def pollResponse_def writeJSON_def decode_list_def decode_simps)
qed

section \<open>Transport\<close>

text \<open>The route table by path, as pairs of a method and a request. A parameter at the end of a path is not empty.\<close>

definition public_routes :: "string \<Rightarrow> json option \<Rightarrow> (string \<times> api_request) list" where
  "public_routes path body =
    (if path = ''/v1/healthz'' then [(''GET'', Healthz)]
     else if path = ''/v1/metrics'' then [(''GET'', Metrics)]
     else if path = ''/v1/nodes/register'' then [(''POST'', RegisterNode body)]
     else [])"

definition v1_routes :: "string list \<Rightarrow> Values \<Rightarrow> json option \<Rightarrow> (string \<times> api_request) list" where
  "v1_routes p q body =
    (case p of
       [a] \<Rightarrow>
         if a = ''nodes'' then [(''GET'', ListNodesReq)]
         else if a = ''sandboxes'' then [(''POST'', PostSandbox body), (''GET'', ListSandboxesReq q)]
         else if a = ''routes'' then [(''GET'', ListRoutesReq)]
         else if a = ''events'' then [(''GET'', ListEventsReq q)]
         else []
     | [a, i] \<Rightarrow>
         if i = '''' then []
         else if a = ''nodes'' then [(''DELETE'', RemoveNode i)]
         else if a = ''sandboxes'' then
           [(''GET'', GetSandboxReq i (Values_Get ''force_refresh'' q = ''true'')), (''DELETE'', DestroyReq i)]
         else []
     | [a, i, b] \<Rightarrow>
         if a = ''nodes'' \<and> b = ''heartbeat'' then [(''POST'', HeartbeatReq i body)]
         else if a = ''nodes'' \<and> b = ''drain'' then [(''POST'', DrainNode i)]
         else if a = ''sandboxes'' \<and> b = ''restart'' then [(''POST'', RestartReq i)]
         else if a = ''sandboxes'' \<and> b = ''wake'' then [(''POST'', WakeReq i)]
         else if a = ''sandboxes'' \<and> b = ''files'' then [(''POST'', FilePush i)]
         else if a = ''sandboxes'' \<and> b = ''logs'' then [(''GET'', GetLogsReq i q)]
         else if a = ''agents'' \<and> b = ''commands'' then [(''GET'', PollReq i (Values_Get ''wait'' q))]
         else if a = ''agents'' \<and> b = ''events'' then [(''POST'', ReportReq i body)]
         else []
     | [a, i, b, c, d] \<Rightarrow>
         if a = ''agents'' \<and> b = ''commands'' \<and> d = ''ack'' then [(''POST'', AckReq i c body)] else []
     | _ \<Rightarrow> [])"

text \<open>The router: a public route, or else what is mounted at \<^verbatim>\<open>/v1\<close> behind \<^verbatim>\<open>BearerAuth\<close>, which also guards the paths under it that
  have no route; 405 where the path has routes for other methods only.\<close>

definition unrouted :: "'a list \<Rightarrow> (world, response) state" where
  "unrouted others = answer (if others = [] then page_not_found else status_only 405)"

definition serve_http ::
    "server \<Rightarrow> ambient \<Rightarrow> string \<Rightarrow> string \<Rightarrow> string \<Rightarrow> string \<Rightarrow> json option \<Rightarrow> (world, response) state" where
  "serve_http s a method path rawQuery auth body =
    (case map_of (public_routes path body) method of
       Some req \<Rightarrow> RegisterRoutes s a auth req
     | None \<Rightarrow>
         let v1 = v1_routes (drop 2 (slashes path)) (parse_query rawQuery) body in
         (case sv_config s of
            Some (apiToken, hmacSecret) \<Rightarrow>
              if apiToken \<noteq> '''' \<and> (path = ''/v1'' \<or> prefix ''/v1/'' path) then
                (case map_of v1 method of
                   Some req \<Rightarrow> RegisterRoutes s a auth req
                 | None \<Rightarrow> BearerAuth apiToken auth (unrouted v1))
              else unrouted (public_routes path body)
          | None \<Rightarrow> unrouted (public_routes path body)))"

text \<open>The target of a request: the path and the query of a URL under the base URL.\<close>

definition target :: "string \<Rightarrow> string \<Rightarrow> (string \<times> string) option" where
  "target base url =
    (if prefix base url then
       let t = drop (length base) url
       in Some (takeWhile (\<lambda>c. c \<noteq> CHR ''?'') t, drop 1 (dropWhile (\<lambda>c. c \<noteq> CHR ''?'') t))
     else None)"

text \<open>The control plane as a network, with the surroundings that a request finds (\<open>amb\<close>), the rendering of JSON (\<open>render\<close>) and
  the parser of times (\<open>parse\<close>). A request outside the base URL finds no server; waiting never ends early.\<close>

definition deliver ::
    "server \<Rightarrow> (world \<Rightarrow> ambient) \<Rightarrow> (json \<Rightarrow> string) \<Rightarrow> string \<Rightarrow> http_request \<Rightarrow> world \<Rightarrow> http_reply \<times> world" where
  "deliver s amb render base q w =
    (case target base (hq_URL q) of
       None \<Rightarrow> (NoReply ''no such host'', w)
     | Some (path, query) \<Rightarrow>
         let auth = (case hq_Auth q of None \<Rightarrow> '''' | Some h \<Rightarrow> h);
             (r, w') = run_state (serve_http s (amb w) (hq_Method q) path query auth (hq_Body q)) w
         in (Reply (rp_Status r) (case rp_Body r of None \<Rightarrow> rp_Text r | Some j \<Rightarrow> render j) (rp_Body r), w'))"

definition control_net ::
    "server \<Rightarrow> (world \<Rightarrow> ambient) \<Rightarrow> (json \<Rightarrow> string) \<Rightarrow> (string \<Rightarrow> timestamp option) \<Rightarrow> string \<Rightarrow> world network" where
  "control_net s amb render parse base =
    \<lparr>nw_Do = deliver s amb render base, nw_wait = (\<lambda>d w. (False, w)), nw_invalid = (\<lambda>_. None), nw_time = parse\<rparr>"

section \<open>Requests that arrive\<close>

lemma run_http_control:
  "run_state (http_do (control_net s amb render parse base) q) c =
    (let (r, w) = deliver s amb render base q (cl_net c) in (r, c\<lparr>cl_net := w, cl_sent := cl_sent c @ [q]\<rparr>))"
  by (simp add: http_do_def control_net_def)

lemma target_base:
  "CHR ''?'' \<notin> set path \<Longrightarrow> target base (base @ path) = Some (path, '''')"
  "CHR ''?'' \<notin> set path \<Longrightarrow> target base (base @ path @ CHR ''?'' # query) = Some (path, query)"
proof -
  assume "CHR ''?'' \<notin> set path"
  then have path: "\<forall>c \<in> set path. c \<noteq> CHR ''?''" by auto
  then have "dropWhile (\<lambda>c. c \<noteq> CHR ''?'') path = []" by (simp only: dropWhile_eq_Nil_conv)
  with path show "target base (base @ path) = Some (path, '''')"
    by (simp only: target_def Let_def append_eq_conv_conj drop_append) (simp del: dropWhile_eq_Nil_conv)
  show "target base (base @ path @ CHR ''?'' # query) = Some (path, query)"
    using path by (simp add: target_def Let_def)
qed

text \<open>What a reply carries.\<close>

definition reply_of :: "(json \<Rightarrow> string) \<Rightarrow> response \<Rightarrow> http_reply" where
  "reply_of render r = Reply (rp_Status r) (case rp_Body r of None \<Rightarrow> rp_Text r | Some j \<Rightarrow> render j) (rp_Body r)"

text \<open>A request with the API token for a route that is not public reaches its handler.\<close>

lemma deliver_routed:
  assumes "target base (hq_URL q) = Some (''/v1/'' @ rest, query)" and "hq_Auth q = Some (''Bearer '' @ token)"
    and "sv_config s = Some (token, secret)" and "token \<noteq> ''''"
    and "public_routes (''/v1/'' @ rest) (hq_Body q) = []"
    and "map_of (v1_routes (slashes rest) (parse_query query) (hq_Body q)) (hq_Method q) = Some req" and "\<not> public req"
  shows "deliver s amb render base q w =
    (let (r, w') = run_state (route s (amb w) secret req) w in (reply_of render r, w'))"
proof -
  have "serve_http s a (hq_Method q) (''/v1/'' @ rest) query (''Bearer '' @ token) (hq_Body q) = route s a secret req" for a
    using assms(3-) by (simp add: serve_http_def RegisterRoutes_def BearerAuth_def trim_prefix_def)
  with assms(1,2) show ?thesis
    by (simp only: deliver_def reply_of_def option.case prod.case Let_def)
qed

definition plain :: "string \<Rightarrow> bool" where
  "plain i \<longleftrightarrow> i \<noteq> '''' \<and> CHR ''/'' \<notin> set i \<and> CHR ''?'' \<notin> set i"

lemma agent_paths:
  assumes "plain i" and "plain c"
  shows "slashes (''agents/'' @ i @ ''/commands'') = [''agents'', i, ''commands'']"
    "slashes (''agents/'' @ i @ ''/commands/'' @ c @ ''/ack'') = [''agents'', i, ''commands'', c, ''ack'']"
    "public_routes (''/v1/agents/'' @ p) body = []"
proof -
  have i: "slashes (i @ CHR ''/'' # s) = i # slashes s" for s
    using assms(1) split_on_append[of "CHR ''/''" i s] by (simp add: plain_def split_on_plain)
  have c: "slashes (c @ CHR ''/'' # s) = c # slashes s" for s
    using assms(2) split_on_append[of "CHR ''/''" c s] by (simp add: plain_def split_on_plain)
  show "slashes (''agents/'' @ i @ ''/commands'') = [''agents'', i, ''commands'']" using i by simp
  show "slashes (''agents/'' @ i @ ''/commands/'' @ c @ ''/ack'') = [''agents'', i, ''commands'', c, ''ack'']"
    using i c by simp
  show "public_routes (''/v1/agents/'' @ p) body = []" by (simp add: public_routes_def)
qed

lemma v1_agent_routes:
  "v1_routes [''agents'', i, ''commands''] q body = [(''GET'', PollReq i (Values_Get ''wait'' q))]"
  "v1_routes [''agents'', i, ''commands'', c, ''ack''] q body = [(''POST'', AckReq i c body)]"
  by (simp_all add: v1_routes_def)

text \<open>An agent whose token the control plane knows.\<close>

definition linked :: "server \<Rightarrow> string \<Rightarrow> 'n Client \<Rightarrow> bool" where
  "linked s base c \<longleftrightarrow> cl_baseURL c = base \<and> authToken c \<noteq> '''' \<and> (\<exists>secret. sv_config s = Some (authToken c, secret))"

definition authorized :: "'n Client \<Rightarrow> string \<Rightarrow> string \<Rightarrow> json option \<Rightarrow> http_request" where
  "authorized c method path body =
    \<lparr>hq_Method = method, hq_URL = cl_baseURL c @ path, hq_Auth = Some (''Bearer '' @ authToken c), hq_Body = body\<rparr>"

definition received_reply :: "(json \<Rightarrow> string) \<Rightarrow> response \<Rightarrow> int \<times> string \<times> json option" where
  "received_reply render r = (rp_Status r, (case rp_Body r of None \<Rightarrow> rp_Text r | Some j \<Rightarrow> render j), rp_Body r)"

lemma poll_arrives:
  assumes "linked s base c" and "plain (cl_nodeID c)"
  shows "run_state (poll_request (control_net s amb render parse base) 30 retried (cl_nodeID c)) c =
    (let a = amb (cl_net c);
         (r, w) = run_state (handlePollCommands (am_lib a) (cl_nodeID c) ''30'' (am_expired a) (am_ticks a)) (cl_net c)
     in (Inr (received_reply render r), c\<lparr>cl_net := w,
           cl_sent := cl_sent c @ [authorized c ''GET'' (''/v1/agents/'' @ cl_nodeID c @ ''/commands?wait=30'') None]\<rparr>))"
proof -
  obtain secret where cfg: "sv_config s = Some (authToken c, secret)" "authToken c \<noteq> ''''" "cl_baseURL c = base"
    using assms(1) by (auto simp: linked_def)
  let ?q = "authorized c ''GET'' (''/v1/agents/'' @ cl_nodeID c @ ''/commands?wait=30'') None"
  have "Values_Get ''wait'' (parse_query ''wait=30'') = ''30''" by code_simp
  moreover have "target base (hq_URL ?q) = Some (''/v1/'' @ ''agents/'' @ cl_nodeID c @ ''/commands'', ''wait=30'')"
    using target_base(2)[of "''/v1/agents/'' @ cl_nodeID c @ ''/commands''" base "''wait=30''"] assms(2) cfg(3)
    by (simp add: plain_def authorized_def)
  moreover have "public_routes (''/v1/'' @ ''agents/'' @ cl_nodeID c @ ''/commands'') (hq_Body ?q) = []"
    by (simp add: public_routes_def)
  ultimately have "deliver s amb render base ?q w =
      (let (r, w') = run_state (route s (amb w) secret (PollReq (cl_nodeID c) ''30'')) w in (reply_of render r, w'))" for w
    using cfg by (intro deliver_routed[where rest = "''agents/'' @ cl_nodeID c @ ''/commands''" and query = "''wait=30''"])
      (simp_all only: agent_paths[OF assms(2,2)] v1_agent_routes authorized_def http_request.select_convs map_of.simps
        fst_conv snd_conv fun_upd_same public.simps not_False_eq_True)
  moreover have "show_int 30 = ''30''" by (simp add: show_int_def show_nat.simps char_of_def bit_0)
  ultimately show ?thesis
    using cfg(3) by (simp add: poll_request_def run_http_control reply_of_def received_reply_def authorized_def Let_def split_beta)
qed

lemma ack_arrives:
  assumes "linked s base c" and "plain (cl_nodeID c)" and "plain i"
  shows "run_state (doAuthRequest (control_net s amb render parse base) ''POST''
      (''/v1/agents/'' @ cl_nodeID c @ ''/commands/'' @ i @ ''/ack'') (Some body)) c =
    (let (r, w) = run_state (handleAckCommand (am_lib (amb (cl_net c))) (sv_agentLifecycle s) (cl_nodeID c) i (Some body)) (cl_net c)
     in (Inr (received_reply render r), c\<lparr>cl_net := w, cl_sent := cl_sent c @
          [authorized c ''POST'' (''/v1/agents/'' @ cl_nodeID c @ ''/commands/'' @ i @ ''/ack'') (Some body)]\<rparr>))"
proof -
  obtain secret where cfg: "sv_config s = Some (authToken c, secret)" "authToken c \<noteq> ''''" "cl_baseURL c = base"
    using assms(1) by (auto simp: linked_def)
  let ?rest = "''agents/'' @ cl_nodeID c @ ''/commands/'' @ i @ ''/ack''"
  let ?q = "authorized c ''POST'' (''/v1/agents/'' @ cl_nodeID c @ ''/commands/'' @ i @ ''/ack'') (Some body)"
  have "target base (hq_URL ?q) = Some (''/v1/'' @ ?rest, '''')"
    using target_base(1)[of "''/v1/'' @ ?rest" base] assms(2,3) cfg(3) by (simp add: plain_def authorized_def)
  moreover have "public_routes (''/v1/'' @ ?rest) (hq_Body ?q) = []" by (simp add: public_routes_def)
  ultimately have "deliver s amb render base ?q w =
      (let (r, w') = run_state (route s (amb w) secret (AckReq (cl_nodeID c) i (Some body))) w in (reply_of render r, w'))" for w
    using cfg by (intro deliver_routed[where rest = ?rest and query = "''''"])
      (simp_all only: agent_paths[OF assms(2,3)] v1_agent_routes authorized_def http_request.select_convs map_of.simps
        fst_conv snd_conv fun_upd_same public.simps not_False_eq_True)
  then show ?thesis
    using cfg(3) by (simp add: doAuthRequest_def run_http_control reply_of_def received_reply_def authorized_def Let_def split_beta)
qed

lemma reregister_not_refused:
  assumes "run_state (request False (cl_nodeID c)) c = (Inr (code, rest), c')" and "code \<noteq> refused"
  shows "run_state (reregister_on net refused request) c = (Inr (False, code, rest), c')"
  using assms by (simp add: reregister_on_def)

text \<open>A poll of an agent for which commands are pending.\<close>

lemma PollCommands_pending:
  assumes "linked s base c" and "plain (cl_nodeID c)" and "cl_net c = quiet t b"
    and "al_ParseUUID (am_lib (amb (quiet t b))) (cl_nodeID c) = Some n" and "PollPendingCommands n t = (Inr cs, t')" and "cs \<noteq> []"
    and "\<And>x. x \<in> set cs \<Longrightarrow> parse (al_RFC3339 (am_lib (amb (quiet t b))) (cmd_CreatedAt x)) = Some (second * (cmd_CreatedAt x div second))"
  shows "run_state (PollCommands (control_net s amb render parse base) 30) c =
    (Inr (map received cs), c\<lparr>cl_net := quiet t' b,
      cl_sent := cl_sent c @ [authorized c ''GET'' (''/v1/agents/'' @ cl_nodeID c @ ''/commands?wait=30'') None]\<rparr>)"
proof -
  let ?net = "control_net s amb render parse base" and ?lib = "am_lib (amb (quiet t b))"
  have run: "run_state (handlePollCommands ?lib (cl_nodeID c) ''30'' ex k) (quiet t b) = (pollResponse ?lib cs, quiet t' b)" for ex k
    using assms(4-6) by (simp add: handlePollCommands_def exec run_query_or)
  have "run_state (poll_request ?net 30 False (cl_nodeID c)) c =
      (Inr (rp_Status (pollResponse ?lib cs), snd (received_reply render (pollResponse ?lib cs))), c\<lparr>cl_net := quiet t' b,
        cl_sent := cl_sent c @ [authorized c ''GET'' (''/v1/agents/'' @ cl_nodeID c @ ''/commands?wait=30'') None]\<rparr>)"
    unfolding poll_arrives[OF assms(1,2)] assms(3) Let_def run by (simp add: received_reply_def)
  from reregister_not_refused[where request = "poll_request ?net 30", OF this]
  have "run_state (reregister_on ?net 401 (poll_request ?net 30)) c =
      (Inr (False, received_reply render (pollResponse ?lib cs)), c\<lparr>cl_net := quiet t' b,
        cl_sent := cl_sent c @ [authorized c ''GET'' (''/v1/agents/'' @ cl_nodeID c @ ''/commands?wait=30'') None]\<rparr>)"
    by (simp add: pollResponse_def writeJSON_def received_reply_def)
  moreover have "parseCommands ?net (received_reply render (pollResponse ?lib cs)) = Inr (map received cs)"
    unfolding received_reply_def using assms(7) by (intro parseCommands_pollResponse) (simp add: control_net_def)
  ultimately show ?thesis by (simp add: PollCommands_def)
qed

lemma Client_Ack:
  assumes "linked s base c" and "plain (cl_nodeID c)" and "plain k" and "cl_net c = quiet t b"
    and lib: "al_ParseUUID (am_lib (amb (quiet t b))) (cl_nodeID c) = Some n" "al_ParseUUID (am_lib (amb (quiet t b))) k = Some k"
    and cmd: "command_at t k = Some cmd" "cmd_SandboxID cmd = Some i"
    and run: "run_state (HandleAck (sv_agentLifecycle s) k i (cmd_CommandType cmd) ''success'' (Some res)) (quiet t b) = (Inr (), w)"
  shows "run_state (Client_AckCommand (control_net s amb render parse base) k
      \<lparr>ar_Status = ''success'', ar_Error = '''', ar_Result = Some res\<rparr>) c =
    (Inr (), c\<lparr>cl_net := w, cl_sent := cl_sent c @
      [authorized c ''POST'' (''/v1/agents/'' @ cl_nodeID c @ ''/commands/'' @ k @ ''/ack'')
        (Some (ack_json \<lparr>ar_Status = ''success'', ar_Error = '''', ar_Result = Some res\<rparr>))]\<rparr>)"
proof -
  let ?net = "control_net s amb render parse base" and ?lib = "am_lib (amb (quiet t b))"
  let ?a = "\<lparr>ar_Status = ''success'', ar_Error = '''', ar_Result = Some res\<rparr>"
  let ?req = "\<lambda>_ nodeID. doAuthRequest ?net ''POST'' (''/v1/agents/'' @ nodeID @ ''/commands/'' @ k @ ''/ack'') (Some (ack_json ?a))"
  let ?c' = "c\<lparr>cl_net := w, cl_sent := cl_sent c @
      [authorized c ''POST'' (''/v1/agents/'' @ cl_nodeID c @ ''/commands/'' @ k @ ''/ack'') (Some (ack_json ?a))]\<rparr>"
  have handled: "run_state (handleAckCommand ?lib (sv_agentLifecycle s) (cl_nodeID c) k (Some (ack_json ?a))) (quiet t b) =
      (status_only 200, w)"
    using lib cmd run by (simp add: handleAckCommand_def decode_ack_json exec run_query_or GetCommand_def)
  have "received_reply render (status_only 200) = (200, '''', None)" by (simp add: received_reply_def status_only_def)
  then have "run_state (?req False (cl_nodeID c)) c = (Inr (200, '''', None), ?c')"
    by (simp only: ack_arrives[OF assms(1,2,3)] assms(4) handled Let_def prod.case)
  then have "run_state (reregister_on ?net 401 ?req) c = (Inr (False, 200, '''', None), ?c')"
    by (rule reregister_not_refused[where request = ?req and c = c]) simp
  then show ?thesis by (simp add: Client_AckCommand_def expect_success_def)
qed

section \<open>The way of a start command\<close>

definition started_json :: "string \<Rightarrow> int \<Rightarrow> json" where
  "started_json cid p = JObj [(''container_id'', JStr cid), (''host_port'', JNum (of_int p))]"

lemma runtime_info_started: "fits_int32 p \<Longrightarrow> runtime_info (started_json cid p) = Some (cid, of_int p)"
  by (simp add: runtime_info_def started_json_def decode_simps)

text \<open>The database and the router after the acknowledgment of a start.\<close>

definition acknowledged :: "LifecycleService \<Rightarrow> UUID \<Rightarrow> Sandbox \<Rightarrow> UUID \<Rightarrow> Node \<Rightarrow> string \<Rightarrow> int \<Rightarrow> tables \<Rightarrow> Batcher \<Rightarrow> world" where
  "acknowledged ls c r n nd cid p t b = quiet (acked c CmdCompleted (Some (started_json cid p))
      (put_sandbox (recovered ls (runs (clock t) cid (of_int p) r)) (log_event (started_event (sb_ID r) n (started_json cid p)) t)))
    (if ls_routeNotifier ls then snd (OnSandboxRunning (sb_AppName r) (sb_ID r) (upstream_of nd (of_int p)) b) else b)"

lemma Client_Ack_started:
  assumes "linked s base c" and "plain (cl_nodeID c)" and "plain k" and "cl_net c = quiet t b"
    and lib: "al_ParseUUID (am_lib (amb (quiet t b))) (cl_nodeID c) = Some n" "al_ParseUUID (am_lib (amb (quiet t b))) k = Some k"
    and cmd: "command_at t k = Some cmd" "cmd_SandboxID cmd = Some i" "cmd_CommandType cmd = CmdStartSandbox"
    and row: "pk_ok t" "sandbox_at t i = Some r" "sb_State r \<in> {StateStarting, StateFailed, StateRunning}" "version_room 1 r"
      "sb_NodeID r = Some m" "node_at t m = Some nd"
    and run: "cid \<noteq> ''''" "fits_int32 p" "p \<noteq> 0"
  shows "run_state (Client_AckCommand (control_net s amb render parse base) k
      \<lparr>ar_Status = ''success'', ar_Error = '''', ar_Result = Some (started_json cid p)\<rparr>) c =
    (Inr (), c\<lparr>cl_net := acknowledged (sv_agentLifecycle s) k r m nd cid p t b, cl_sent := cl_sent c @
      [authorized c ''POST'' (''/v1/agents/'' @ cl_nodeID c @ ''/commands/'' @ k @ ''/ack'')
        (Some (ack_json \<lparr>ar_Status = ''success'', ar_Error = '''', ar_Result = Some (started_json cid p)\<rparr>))]\<rparr>)"
proof -
  have "(of_int p :: int32) \<noteq> 0"
  proof
    assume "(of_int p :: int32) = 0"
    then have "sint (word_of_int p :: int32) = 0" by simp
    then show False using run(2,3) by (simp add: fits_int32_def sint_sbintrunc' signed_take_bit_int_eq_self)
  qed
  then have "run_state (HandleAck (sv_agentLifecycle s) k i CmdStartSandbox ''success'' (Some (started_json cid p))) (quiet t b) =
      (Inr (), acknowledged (sv_agentLifecycle s) k r m nd cid p t b)"
    using HandleAck_started_run[OF row(1-4) runtime_info_started[OF run(2)] run(1) _ row(5,6), of "sv_agentLifecycle s" k b]
      sandbox_at_ID[OF row(2)] by (simp add: acknowledged_def)
  with cmd(3) show ?thesis by (intro Client_Ack[where amb = amb, OF assms(1-4) lib cmd(1,2)]) simp
qed

text \<open>An agent that can start a container for an application: a port is free, the ports are real ones, and Docker creates
  what it is asked to.\<close>

definition can_start :: "'d raw_docker \<Rightarrow> ((string \<times> string) list \<Rightarrow> (string \<times> string) list) \<Rightarrow> string \<Rightarrow> 'e executor \<Rightarrow> bool" where
  "can_start raw ord app x \<longleftrightarrow> executor_ok x \<and> available (ex_ports x) \<noteq> {} \<and> available (ex_ports x) \<subseteq> {1..65535} \<and>
    (\<forall>spec d. sp_AppName spec = app \<longrightarrow> (\<exists>cid. cid \<noteq> '''' \<and> fst (CreateContainer raw ord spec d) = Inr cid))"

lemma start_spec_app: "sp_AppName (start_spec cmd payload p dir) = st_AppName payload"
  by (simp add: start_spec_def)

lemma Execute_start_wired:
  assumes "can_start raw ord (st_AppName payload) x" and "ex_outside x = (d, c)"
    and cmd: "\<not> expired now cmd" "ac_Type cmd = ''start_sandbox''" "decode_start (ac_Payload cmd) = Some payload"
  obtains p cid d' where "p \<in> available (ex_ports x)" "cid \<noteq> ''''"
    "ex_sandboxes (snd (run_state (Execute (wired raw ord net je) now hint cmd) x)) = AList.update (ac_SandboxID cmd)
       \<lparr>si_ContainerID = cid, si_HostPort = p, si_AppName = st_AppName payload\<rparr> (ex_sandboxes x)"
    "ex_outside (snd (run_state (Execute (wired raw ord net je) now hint cmd) x)) = (d', snd (run_state (Client_AckCommand net
       (ac_ID cmd) \<lparr>ar_Status = ''success'', ar_Error = '''', ar_Result = Some (started_json cid p)\<rparr>) c))"
proof -
  have "alloc_ok (ex_ports x)" using assms(1) by (simp add: can_start_def executor_ok_def)
  then show ?thesis
  proof (cases rule: Allocate_cases[where hint = hint])
    case full
    with assms(1) show ?thesis by (simp add: can_start_def)
  next
    case (got p)
    obtain cid where "cid \<noteq> ''''" and "fst (CreateContainer raw ord (start_spec cmd payload p (ex_sandboxDir x)) d) = Inr cid"
      using assms(1) unfolding can_start_def by (metis start_spec_app)
    with cmd got assms(2) show ?thesis
      by (intro that[of p cid "snd (CreateContainer raw ord (start_spec cmd payload p (ex_sandboxDir x)) d)"])
        (simp_all add: Execute_def executeStartSandbox_def run_exec wired_def on_daemon_def on_client_def started_json_def split_beta Let_def)
  qed
qed

lemma pollLoop_one:
  assumes "ex_outside x = (d, c)" and "run_state (PollCommands net 30) c = (Inr [cmd], c')"
  shows "snd (run_state (pollLoop raw ord net je now hint 1) x) =
    snd (run_state (Execute (wired raw ord net je) (now cmd) (hint cmd) cmd) (x\<lparr>ex_outside := (d, c')\<rparr>))"
  using assms by (simp add: run_outside on_client_def split_beta)

lemma poll_single:
  assumes "schema_ok t" and "filter (pending_for n) (commands t) = [cmd]"
  defines "t' \<equiv> t\<lparr>commands := update_where (\<lambda>c. cmd_ID c = cmd_ID cmd) (dispatched (clock t)) (commands t)\<rparr>"
  shows "PollPendingCommands n t = (Inr [dispatched (clock t) cmd], t')"
    and "command_at t' (cmd_ID cmd) = Some (dispatched (clock t) cmd)"
proof -
  have ids: "poll_ids n (commands t) = [cmd_ID cmd]" using assms(2) by (simp add: poll_ids_def)
  have "cmd \<in> set (filter (pending_for n) (commands t))" using assms(2) by simp
  then have cmd: "cmd \<in> set (commands t)" by simp
  have d: "distinct (map cmd_ID (commands t))" using assms(1) by (simp add: schema_ok_def)
  have "filter (\<lambda>c. cmd_ID c = cmd_ID cmd \<and> True) (commands t) = [cmd]"
    using filter_key_unique[OF d row_at_unique[OF d cmd], of "\<lambda>_. True"] by simp
  then show "PollPendingCommands n t = (Inr [dispatched (clock t) cmd], t')"
    by (simp add: PollPendingCommands_def ids t'_def Let_def)
  show "command_at t' (cmd_ID cmd) = Some (dispatched (clock t) cmd)"
    unfolding command_at_def t'_def using row_at_unique[OF d cmd]
    by (simp add: row_at_update_where dispatched_def)
qed

definition taken :: "Command \<Rightarrow> tables \<Rightarrow> tables" where
  "taken cmd t = t\<lparr>commands := update_where (\<lambda>c. cmd_ID c = cmd_ID cmd) (dispatched (clock t)) (commands t)\<rparr>"

lemma taken_frame [simp]:
  "sandbox_at (taken cmd t) i = sandbox_at t i" "node_at (taken cmd t) n = node_at t n" "pk_ok (taken cmd t) = pk_ok t"
  "clock (taken cmd t) = clock t"
  by (simp_all add: taken_def sandbox_at_def node_at_def pk_ok_def)

lemma dispatched_sel [simp]:
  "cmd_ID (dispatched ts c) = cmd_ID c" "cmd_SandboxID (dispatched ts c) = cmd_SandboxID c"
  "cmd_CommandType (dispatched ts c) = cmd_CommandType c" "cmd_CreatedAt (dispatched ts c) = cmd_CreatedAt c"
  "received (dispatched ts c) = received c"
  by (simp_all add: dispatched_def received_def)

text \<open>Polling a single pending command.\<close>

lemma poll_one:
  assumes "schema_ok t" and "linked s base c" and "plain (cl_nodeID c)" and "cl_net c = quiet t b" and "ex_outside x = (d, c)"
    and lib: "\<And>w. am_lib (amb w) = lib" "al_ParseUUID lib (cl_nodeID c) = Some n"
      "parse (al_RFC3339 lib (cmd_CreatedAt cmd)) = Some (second * (cmd_CreatedAt cmd div second))"
    and cmd: "filter (pending_for n) (commands t) = [cmd]"
  obtains c' where "linked s base c'" "cl_nodeID c' = cl_nodeID c" "cl_net c' = quiet (taken cmd t) b"
    "snd (run_state (pollLoop raw ord (control_net s amb render parse base) je now hint 1) x) =
      snd (run_state (Execute (wired raw ord (control_net s amb render parse base) je) (now (received cmd)) (hint (received cmd)) (received cmd))
        (x\<lparr>ex_outside := (d, c')\<rparr>))"
proof -
  let ?net = "control_net s amb render parse base"
  let ?c = "c\<lparr>cl_net := quiet (taken cmd t) b,
      cl_sent := cl_sent c @ [authorized c ''GET'' (''/v1/agents/'' @ cl_nodeID c @ ''/commands?wait=30'') None]\<rparr>"
  note poll = poll_single[OF assms(1) cmd(1), folded taken_def]
  have "run_state (PollCommands ?net 30) c = (Inr [received cmd], ?c)"
    using PollCommands_pending[OF assms(2,3,4) _ poll(1), of amb parse render] lib by simp
  from pollLoop_one[OF assms(5) this]
  have "snd (run_state (pollLoop raw ord ?net je now hint 1) x) =
      snd (run_state (Execute (wired raw ord ?net je) (now (received cmd)) (hint (received cmd)) (received cmd)) (x\<lparr>ex_outside := (d, ?c)\<rparr>))" .
  moreover have "linked s base ?c" using assms(2) by (simp add: linked_def authToken_def split: if_splits)
  ultimately show ?thesis using that[of ?c] by simp
qed

text \<open>One round of the poll loop of an agent that is connected to the control plane: the start command that is pending for it
  is carried out, and its acknowledgment is in the database.\<close>

lemma start_command_runs:
  assumes "schema_ok t" and "linked s base c" and "plain (cl_nodeID c)" and "plain (cmd_ID cmd)"
    and "cl_net c = quiet t b" and "ex_outside x = (d, c)" and "can_start raw ord (st_AppName payload) x"
    and lib: "\<And>w. am_lib (amb w) = lib" "al_ParseUUID lib (cl_nodeID c) = Some n"
      "al_ParseUUID lib (cmd_ID cmd) = Some (cmd_ID cmd)"
      "parse (al_RFC3339 lib (cmd_CreatedAt cmd)) = Some (second * (cmd_CreatedAt cmd div second))"
    and cmd: "filter (pending_for n) (commands t) = [cmd]" "cmd_CommandType cmd = CmdStartSandbox" "cmd_SandboxID cmd = Some i"
      "decode_start (Some (cmd_Payload cmd)) = Some payload" "\<not> expired (now (received cmd)) (received cmd)"
    and row: "sandbox_at t i = Some r" "sb_State r \<in> {StateStarting, StateFailed, StateRunning}" "version_room 1 r"
      "sb_NodeID r = Some m" "node_at t m = Some nd"
  shows "\<exists>cid p. cid \<noteq> '''' \<and> p \<in> available (ex_ports x) \<and>
    (let x' = snd (run_state (pollLoop raw ord (control_net s amb render parse base) je now hint 1) x) in
     ex_sandboxes x' = AList.update i \<lparr>si_ContainerID = cid, si_HostPort = p, si_AppName = st_AppName payload\<rparr> (ex_sandboxes x) \<and>
     cl_net (snd (ex_outside x')) = acknowledged (sv_agentLifecycle s) (cmd_ID cmd) r m nd cid p (taken cmd t) b)"
proof -
  let ?net = "control_net s amb render parse base" and ?cmd = "dispatched (clock t) cmd"
  let ?x' = "snd (run_state (pollLoop raw ord ?net je now hint 1) x)"
  obtain c' where c': "linked s base c'" "cl_nodeID c' = cl_nodeID c" "cl_net c' = quiet (taken cmd t) b"
    and loop: "?x' = snd (run_state (Execute (wired raw ord ?net je) (now (received cmd)) (hint (received cmd)) (received cmd))
      (x\<lparr>ex_outside := (d, c')\<rparr>))"
    by (rule poll_one[where amb = amb and parse = parse and render = render and raw = raw and ord = ord and je = je and now = now and hint = hint,
          OF assms(1,2,3,5,6) lib(1,2,4) cmd(1)])
  have start: "ac_Type (received cmd) = ''start_sandbox''" "decode_start (ac_Payload (received cmd)) = Some payload"
    "ac_SandboxID (received cmd) = i" "ac_ID (received cmd) = cmd_ID cmd"
    using cmd by (simp_all add: received_def)
  have can: "can_start raw ord (st_AppName payload) (x\<lparr>ex_outside := (d, c')\<rparr>)"
    using assms(7) by (simp add: can_start_def executor_ok_def tracked_ports_def)
  obtain p cid d' where ex: "p \<in> available (ex_ports x)" "cid \<noteq> ''''"
    "ex_sandboxes ?x' = AList.update i \<lparr>si_ContainerID = cid, si_HostPort = p, si_AppName = st_AppName payload\<rparr> (ex_sandboxes x)"
    "ex_outside ?x' = (d', snd (run_state (Client_AckCommand ?net
       (cmd_ID cmd) \<lparr>ar_Status = ''success'', ar_Error = '''', ar_Result = Some (started_json cid p)\<rparr>) c'))"
    using Execute_start_wired[OF can _ cmd(5) start(1,2), of d c' ?net je "hint (received cmd)"]
    unfolding loop start(3,4) by auto
  have "p \<in> {1..65535}" using ex(1) assms(7) by (auto simp: can_start_def)
  then have p: "fits_int32 p" "p \<noteq> 0" by (simp_all add: fits_int32_def)
  from Client_Ack_started[OF c'(1), where n = n and i = i and r = r and m = m and nd = nd and cmd = ?cmd and amb = amb,
      OF _ assms(4) c'(3) _ _ _ _ _ _ _ row(2,3,4) _ ex(2) p]
  have "cl_net (snd (run_state (Client_AckCommand ?net (cmd_ID cmd)
      \<lparr>ar_Status = ''success'', ar_Error = '''', ar_Result = Some (started_json cid p)\<rparr>) c')) =
    acknowledged (sv_agentLifecycle s) (cmd_ID cmd) r m nd cid p (taken cmd t) b"
    using assms(1,3) c'(2) lib cmd row poll_single(2)[OF assms(1) cmd(1), folded taken_def] by simp
  with ex show ?thesis unfolding Let_def by (intro exI[of _ cid] exI[of _ p]) simp
qed

lemma decode_start_create:
  assumes "pred_option (\<lambda>m. sorted_wrt (<) (map fst m)) (cq_Env req)"
  shows "decode_start (Some (create_payload req)) =
    Some \<lparr>st_AppName = cq_AppName req, st_Image = cq_Image req,
      st_Resources = \<lparr>rs_CPUCores = res_CPUCores (cq_Resources req), rs_MemoryMB = of_int (sint (res_MemoryMB (cq_Resources req)))\<rparr>,
      st_Env = cq_Env req\<rparr>"
proof -
  have "decode_env_map (env_json (cq_Env req)) None = (cq_Env req, True)"
  proof (cases "cq_Env req")
    case (Some m)
    let ?ms = "map (\<lambda>(k, v). (k, JStr v)) m"
    have "fold (\<lambda>(k, v). env_put k (fst (decode_string v ''''))) ?ms [] =
        fold (\<lambda>(k, v). env_put k (case v of JStr s \<Rightarrow> s | _ \<Rightarrow> '''')) ?ms []"
      by (simp add: fold_map comp_def decode_string_def case_prod_unfold)
    moreover have "decode_env (JObj ?ms) = Some m" using assms Some by (intro decode_env_perm) simp_all
    ultimately show ?thesis
      using Some by (simp add: decode_env_map_def decode_env_def env_json_def list_all_iff decode_string_def split_beta)
  qed (simp add: decode_env_map_def env_json_def)
  then show ?thesis
    using fits_int64_int32[OF fits_int32_sint, of "res_MemoryMB (cq_Resources req)"]
    by (simp add: decode_start_def create_payload_def start_payload_def resources_json_def decode_resourceSpec_def decode_simps
        del: of_int_sint)
qed

section \<open>The way of a stop command\<close>

text \<open>Docker can stop and remove a container.\<close>

definition can_stop :: "'d raw_docker \<Rightarrow> string \<Rightarrow> bool" where
  "can_stop raw cid \<longleftrightarrow> (\<forall>d. fst (StopContainer raw cid (10 * second) d) = Inr () \<and> fst (RemoveContainer raw cid d) = Inr ())"

lemma Execute_stop_wired:
  assumes "can_stop raw cid" and "ex_outside x = (d, c)" and "map_of (ex_sandboxes x) (ac_SandboxID cmd) = Some info"
    and cmd: "\<not> expired now cmd" "ac_Type cmd = ''stop_sandbox''" "decode_container (ac_Payload cmd) = Some cid"
  obtains d' where
    "ex_sandboxes (snd (run_state (Execute (wired raw ord net je) now hint cmd) x)) = AList.delete (ac_SandboxID cmd) (ex_sandboxes x)"
    "ex_ports (snd (run_state (Execute (wired raw ord net je) now hint cmd) x)) = snd (Release (si_HostPort info) (ex_ports x))"
    "ex_outside (snd (run_state (Execute (wired raw ord net je) now hint cmd) x)) = (d', snd (run_state (Client_AckCommand net
       (ac_ID cmd) \<lparr>ar_Status = ''success'', ar_Error = '''', ar_Result = Some JEmpty\<rparr>) c))"
proof -
  let ?d = "snd (RemoveContainer raw cid (snd (StopContainer raw cid (10 * second) d)))"
  show ?thesis
    using assms
    by (intro that[of ?d])
      (simp_all add: Execute_def executeStopSandbox_def can_stop_def run_exec wired_def on_daemon_def on_client_def split_beta Let_def)
qed

lemma decode_container_payload: "decode_container (Some (container_payload r)) = Some (text_or_empty (sb_ContainerID r))"
  by (simp add: decode_container_def container_payload_def decode_simps)

section \<open>Properties\<close>

lemma not_expired_soon:
  assumes "ac_TimeoutSeconds cmd = 60" and "ac_IssuedAt cmd = second * (ts div second)" and "now \<le> ts + 59 * second"
  shows "\<not> expired now cmd"
proof -
  have "ts - second < second * (ts div second)"
    using mult_div_mod_eq[of second ts] pos_mod_bound[of second ts] by simp
  then show ?thesis using assms by (simp add: expired_def)
qed

text \<open>C2. A sandbox that is created runs: after a creation that found a node, one round of the poll loop of the agent of that
  node, within 59 seconds and over the HTTP interface of the control plane, takes the start command from the
  queue, has Docker create the container and acknowledges it; then the database has the sandbox running on the node
  with this container and its port, the command is completed, the agent tracks the sandbox, and the route to its port is
  handed to the batcher.\<close>

theorem created_sandbox_runs:
  assumes "schema_ok t" and "row_at sb_AppName (cq_AppName req) (sandboxes t) = None" and "sandbox_at t i = None"
    and "command_at t k = None" and "fst (ListHealthyNodes t) = Inr ns" and "Schedule (map to_candidate ns) (required_mb req) = Inr n"
    and "pred_option (\<lambda>m. sorted_wrt (<) (map fst m)) (cq_Env req)" and "filter (pending_for n) (commands t) = []"
    and agent: "linked s base c" "plain (cl_nodeID c)" "plain k" "cl_net c = snd (run_state (CreateSandbox i k req) (quiet t b))"
      "ex_outside x = (d, c)" "can_start raw ord (cq_AppName req) x" "\<And>cmd. now cmd \<le> clock t + 59 * second"
    and lib: "\<And>w. am_lib (amb w) = lib" "al_ParseUUID lib (cl_nodeID c) = Some n" "al_ParseUUID lib k = Some k"
      "parse (al_RFC3339 lib (clock t)) = Some (second * (clock t div second))"
  shows "\<exists>cid p r nd. p \<in> available (ex_ports x) \<and>
    (let x' = snd (run_state (pollLoop raw ord (control_net s amb render parse base) je now hint 1) x);
         w' = cl_net (snd (ex_outside x')) in
     sandbox_at (db w') i = Some r \<and> sb_State r = StateRunning \<and> sb_ContainerID r = Some cid \<and> sb_HostPort r = Some (of_int p) \<and>
     sb_NodeID r = Some n \<and> sb_AppName r = cq_AppName req \<and> map_option cmd_Status (command_at (db w') k) = Some CmdCompleted \<and>
     map_of (ex_sandboxes x') i = Some \<lparr>si_ContainerID = cid, si_HostPort = p, si_AppName = cq_AppName req\<rparr> \<and>
     node_at t n = Some nd \<and> batcher w' = (if ls_routeNotifier (sv_agentLifecycle s)
       then snd (OnSandboxRunning (cq_AppName req) i (upstream_of nd (of_int p)) b) else b))"
proof -
  let ?cmd = "start_command k n i (create_payload req) (clock t)"
  let ?r = "assigned n None None (clock t) (created i req (clock t))"
  define t1 where "t1 = log_event (scheduled_event i n ''control-plane'' (create_payload req)) (add_command ?cmd (add_sandbox ?r t))"
  obtain nd where nd: "node_at t n = Some nd" using Schedule_node_known[OF assms(5,6)] by blast
  have run: "run_state (CreateSandbox i k req) (quiet t b) = (Inr (the_result i req n), quiet t1 b)"
    using create_run[OF _ assms(2,3,5)] place_run[OF _ assms(3,4)] assms(1,6) nd by (simp add: t1_def)
  have ok: "schema_ok t1"
    using keepsD[OF schema.CreateSandbox_keeps[of i k req], of "quiet t b"] assms(1) run by simp
  have at: "sandbox_at t1 i = Some ?r" "node_at t1 n = Some nd" "clock t1 = clock t" "filter (pending_for n) (commands t1) = [?cmd]"
    using assms(3,8) nd unfolding t1_def
    by (simp_all add: frame_simps) (simp_all add: log_event_def add_command_def add_sandbox_def start_command_def pending_for_def)
  have room: "version_room 1 ?r"
    by (simp add: version_room_def assigned_def created_def new_sandbox_def int32_max_def)
  have soon: "\<not> expired (now (received ?cmd)) (received ?cmd)"
    using agent(7) by (intro not_expired_soon[where ts = "clock t"]) (simp_all add: received_def start_command_def)
  have ID: "sb_ID ?r = i" "sb_AppName ?r = cq_AppName req" by simp_all
  obtain pl where pl: "decode_start (Some (cmd_Payload ?cmd)) = Some pl" "st_AppName pl = cq_AppName req"
    using decode_start_create[OF assms(7)] by (simp add: start_command_def)
  then have can: "can_start raw ord (st_AppName pl) x" using agent(6) by simp
  from start_command_runs[where now = now and hint = hint and amb = amb and parse = parse and render = render and je = je and b = b,
      OF ok agent(1,2) _ _ agent(5) can lib(1,2) _ _ at(4) _ _ pl(1) soon at(1) _ room _ at(2)]
  obtain cid p where "cid \<noteq> ''''" and p: "p \<in> available (ex_ports x)" and x:
    "ex_sandboxes (snd (run_state (pollLoop raw ord (control_net s amb render parse base) je now hint 1) x)) =
       AList.update i \<lparr>si_ContainerID = cid, si_HostPort = p, si_AppName = cq_AppName req\<rparr> (ex_sandboxes x)"
    "cl_net (snd (ex_outside (snd (run_state (pollLoop raw ord (control_net s amb render parse base) je now hint 1) x)))) =
       acknowledged (sv_agentLifecycle s) k ?r n nd cid p (taken ?cmd t1) b"
    using agent(3,4) lib(3,4) run pl(2) by (auto simp: Let_def start_command_def)
  have "sandbox_at (db (acknowledged (sv_agentLifecycle s) k ?r n nd cid p (taken ?cmd t1) b)) i =
      Some (recovered (sv_agentLifecycle s) (runs (clock t) cid (of_int p) ?r))"
    using at(1,3) ID by (simp add: acknowledged_def frame_simps)
  moreover have "map_option cmd_Status (command_at (db (acknowledged (sv_agentLifecycle s) k ?r n nd cid p (taken ?cmd t1) b)) k) =
      Some CmdCompleted"
    using poll_single(2)[OF ok at(4), folded taken_def] by (simp add: acknowledged_def frame_simps start_command_def)
  ultimately show ?thesis
    using p x nd
    by (intro exI[of _ cid] exI[of _ p] exI[of _ "recovered (sv_agentLifecycle s) (runs (clock t) cid (of_int p) ?r)"] exI[of _ nd])
      (simp add: Let_def recovered_def acknowledged_def update_Some_unfold)
qed

definition a_link :: "world Client" where
  "a_link = (NewClient (snd (run_state (CreateSandbox ''s'' ''c'' a_request) (quiet (a_db [] []) (NewBatcher id)))) ''http://cp''
     \<lparr>rr_Hostname = ''h'', rr_TailscaleIP = ''100.64.0.1'', rr_AgentListenPort = 9090, rr_CapacityMB = 2048, rr_CapacityCPU = 2,
      rr_AgentVersion = ''0.1.0''\<rparr> ''key'')\<lparr>cl_nodeID := ''n1''\<rparr>"

definition a_ready_agent :: "(unit \<times> world Client) executor" where
  "a_ready_agent = NewCommandExecutor ((), a_link) (NewAllocator 8001 8002) ''/var/forge''"

lemma a_ready_agent_can_start: "can_start a_daemon id ''shop'' a_ready_agent"
proof -
  have shop: "\<not> str_contains ''shop'' ''..''" "\<not> str_contains ''shop'' ''/''" "\<not> IsAbs ''shop''" by code_simp+
  have "fst (CreateContainer a_daemon id spec d) = Inr ''c-1''" if "sp_AppName spec = ''shop''" for spec d
    using that shop
    by (simp add: CreateContainer_def PrepareBindMount_def and_if_ok_def wrapped_def a_daemon_def Let_def del: Path_Join.simps)
  then show ?thesis
    by (auto simp: can_start_def a_ready_agent_def executor_ok_New) (auto simp: NewCommandExecutor_def NewAllocator_def)
qed

theorem created_sandbox_runs_witness:
  "\<exists>r. sandbox_at (db (cl_net (snd (ex_outside (snd (run_state (pollLoop a_daemon id
      (control_net a_server (\<lambda>_. an_ambient) (\<lambda>_. '''') (\<lambda>_. Some (10 ^ 10)) ''http://cp'')
      (\<lambda>_. '''') (\<lambda>_. 10 ^ 10) (\<lambda>_. 8001) 1) a_ready_agent)))))) ''s'' = Some r \<and> sb_State r = StateRunning"
proof -
  let ?t = "a_db [] []"
  have create: "schema_ok ?t" "row_at sb_AppName (cq_AppName a_request) (sandboxes ?t) = None" "sandbox_at ?t ''s'' = None"
    "command_at ?t ''c'' = None" "fst (ListHealthyNodes ?t) = Inr [a_node]"
    "Schedule (map to_candidate [a_node]) (required_mb a_request) = Inr ''n1''"
    "pred_option (\<lambda>m. sorted_wrt (<) (map fst m)) (cq_Env a_request)" "filter (pending_for ''n1'') (commands ?t) = []"
    by (simp_all add: schema_ok_def named_status_def AllStates_def concrete a_request_def required_mb_def to_candidate_def Schedule_def
        nc_free_def int32_less_def ListHealthyNodes_def Let_def in_int32_def free_mb_def)
  have link: "linked a_server ''http://cp'' a_link" "plain (cl_nodeID a_link)" "plain ''c''"
    "cl_net a_link = snd (run_state (CreateSandbox ''s'' ''c'' a_request) (quiet ?t (NewBatcher id)))"
    by (simp_all add: linked_def a_link_def NewClient_def authToken_def a_server_def plain_def)
  have lib: "al_ParseUUID (am_lib an_ambient) (cl_nodeID a_link) = Some ''n1''" "al_ParseUUID (am_lib an_ambient) ''c'' = Some ''c''"
    by (simp_all add: an_ambient_def a_lib_def a_link_def)
  have out: "ex_outside a_ready_agent = ((), a_link)" by (simp add: a_ready_agent_def NewCommandExecutor_def)
  have can: "can_start a_daemon id (cq_AppName a_request) a_ready_agent"
    using a_ready_agent_can_start by (simp add: a_request_def)
  have clock: "clock ?t = 10 ^ 10" by (simp add: a_db_def)
  from created_sandbox_runs[where render = "\<lambda>_. ''''" and je = "\<lambda>_. ''''" and hint = "\<lambda>_. 8001" and now = "\<lambda>_. 10 ^ 10"
      and parse = "\<lambda>_. Some (10 ^ 10)" and amb = "\<lambda>_. an_ambient", OF create link out can _ _ lib]
  show ?thesis unfolding Let_def clock by auto
qed

text \<open>C3. A sandbox that is destroyed stops: after a destruction was accepted for a sandbox that its agent runs, one round of the poll loop
  of this agent, within 59 seconds and over the HTTP interface, takes the stop command from the queue, has Docker stop and remove the
  container and acknowledges it; then the sandbox is \<^verbatim>\<open>destroyed\<close>, the command is completed, the agent has forgotten the sandbox and
  its host port is free again, and the removal of the route is handed to the batcher.\<close>

theorem destroyed_sandbox_stops:
  assumes "schema_ok t" and "sandbox_at t i = Some r" and "NextState (sb_State r) EventDestroyRequest = Some StateDestroying"
    and "version_room 2 r" and "sb_NodeID r = Some n" and "command_at t k = None" and "filter (pending_for n) (commands t) = []"
    and agent: "linked s base c" "plain (cl_nodeID c)" "plain k" "cl_net c = snd (run_state (DestroySandbox k i) (quiet t b))"
      "ex_outside x = (d, c)" "executor_ok x" "map_of (ex_sandboxes x) i = Some info"
      "can_stop raw (text_or_empty (sb_ContainerID r))" "\<And>cmd. now cmd \<le> clock t + 59 * second"
    and lib: "\<And>w. am_lib (amb w) = lib" "al_ParseUUID lib (cl_nodeID c) = Some n" "al_ParseUUID lib k = Some k"
      "parse (al_RFC3339 lib (clock t)) = Some (second * (clock t div second))"
  shows "let x' = snd (run_state (pollLoop raw ord (control_net s amb render parse base) je now hint 1) x);
         w' = cl_net (snd (ex_outside x')) in
     map_option sb_State (sandbox_at (db w') i) = Some StateDestroyed \<and> map_option cmd_Status (command_at (db w') k) = Some CmdCompleted \<and>
     map_of (ex_sandboxes x') i = None \<and> si_HostPort info \<in> available (ex_ports x') \<and>
     batcher w' = (if ls_routeNotifier (sv_agentLifecycle s) then snd (OnSandboxStopped (sb_AppName r) b) else b)"
proof -
  let ?cmd = "(start_command k n i (container_payload r) (clock t))\<lparr>cmd_CommandType := CmdStopSandbox\<rparr>"
  let ?r = "moved StateDestroying (clock t) r" and ?net = "control_net s amb render parse base"
  define t1 where "t1 = log_event (destroy_event r StateDestroying) (add_command ?cmd (put_sandbox ?r t))"
  have ID: "sb_ID r = i" using assms(2) by (rule sandbox_at_ID)
  have room: "version_room 1 r" "version_room 1 ?r"
    using assms(4) version_room_mono[of 2 r 1] version_room_moved[of 1 r] by simp_all
  have run: "run_state (DestroySandbox k i) (quiet t b) = (Inr (), quiet t1 b)"
    using DestroySandbox_run[OF assms(1,2) room(1) assms(6), of b] assms(3,5) by (simp add: t1_def)
  have ok: "schema_ok t1"
    using keepsD[OF schema.DestroySandbox_keeps[of k i], of "quiet t b"] assms(1) run by simp
  have at: "sandbox_at t1 i = Some ?r" "clock t1 = clock t" "filter (pending_for n) (commands t1) = [?cmd]"
    using assms(2,7) ID unfolding t1_def
    by (simp_all add: frame_simps) (simp_all add: log_event_def add_command_def put_sandbox_def start_command_def pending_for_def)
  have net: "cl_net c = quiet t1 b" using agent(4) run by simp
  have issued: "parse (al_RFC3339 lib (cmd_CreatedAt ?cmd)) = Some (second * (cmd_CreatedAt ?cmd div second))"
    using lib(4) by (simp add: start_command_def)
  obtain c' where c': "linked s base c'" "cl_nodeID c' = cl_nodeID c" "cl_net c' = quiet (taken ?cmd t1) b"
    and loop: "snd (run_state (pollLoop raw ord ?net je now hint 1) x) =
      snd (run_state (Execute (wired raw ord ?net je) (now (received ?cmd)) (hint (received ?cmd)) (received ?cmd)) (x\<lparr>ex_outside := (d, c')\<rparr>))"
    by (rule poll_one[where amb = amb and parse = parse and render = render and raw = raw and ord = ord and je = je and now = now and hint = hint,
          OF ok agent(1,2) net agent(5) lib(1,2) issued at(3)])
  have stop: "ac_Type (received ?cmd) = ''stop_sandbox''" "ac_SandboxID (received ?cmd) = i" "ac_ID (received ?cmd) = k"
    "decode_container (ac_Payload (received ?cmd)) = Some (text_or_empty (sb_ContainerID r))"
    by (simp_all add: received_def start_command_def decode_container_payload)
  have soon: "\<not> expired (now (received ?cmd)) (received ?cmd)"
    using agent(9) by (intro not_expired_soon[where ts = "clock t"]) (simp_all add: received_def start_command_def)
  have tracked: "map_of (ex_sandboxes (x\<lparr>ex_outside := (d, c')\<rparr>)) (ac_SandboxID (received ?cmd)) = Some info"
    using agent(7) stop(2) by simp
  obtain d' where ex: "ex_sandboxes (snd (run_state (pollLoop raw ord ?net je now hint 1) x)) = AList.delete i (ex_sandboxes x)"
    "ex_ports (snd (run_state (pollLoop raw ord ?net je now hint 1) x)) = snd (Release (si_HostPort info) (ex_ports x))"
    "ex_outside (snd (run_state (pollLoop raw ord ?net je now hint 1) x)) = (d', snd (run_state (Client_AckCommand ?net k
       \<lparr>ar_Status = ''success'', ar_Error = '''', ar_Result = Some JEmpty\<rparr>) c'))"
    using Execute_stop_wired[OF agent(8) _ tracked soon stop(1,4), of d c' ord ?net je "hint (received ?cmd)"]
    unfolding loop stop(2,3) by auto
  let ?t2 = "taken ?cmd t1"
  have "sandbox_at ?t2 i = Some ?r" "pk_ok ?t2" using at(1) ok by (simp_all add: schema_ok_def)
  from HandleAck_stop_run[OF this(2,1) room(2), of "sv_agentLifecycle s" k "''success''" "Some JEmpty" b]
  have ack: "run_state (HandleAck (sv_agentLifecycle s) k i CmdStopSandbox ''success'' (Some JEmpty)) (quiet ?t2 b) =
     (Inr (), quiet (acked k CmdCompleted (Some JEmpty) (log_event (destroyed_event ?r (Some JEmpty))
        (put_sandbox (moved StateDestroyed (clock t) ?r) ?t2)))
      (if ls_routeNotifier (sv_agentLifecycle s) then snd (OnSandboxStopped (sb_AppName r) b) else b))" (is "_ = (_, ?w)")
    using at(2) by simp
  have cmd: "command_at ?t2 k = Some (dispatched (clock t1) ?cmd)"
    using poll_single(2)[OF ok at(3), folded taken_def] by (simp add: start_command_def)
  have "snd (run_state (Client_AckCommand ?net k \<lparr>ar_Status = ''success'', ar_Error = '''', ar_Result = Some JEmpty\<rparr>) c') =
      c'\<lparr>cl_net := ?w, cl_sent := cl_sent c' @ [authorized c' ''POST'' (''/v1/agents/'' @ cl_nodeID c' @ ''/commands/'' @ k @ ''/ack'')
        (Some (ack_json \<lparr>ar_Status = ''success'', ar_Error = '''', ar_Result = Some JEmpty\<rparr>))]\<rparr>"
    using Client_Ack[where amb = amb and n = n and i = i, OF c'(1) _ agent(3) c'(3) _ _ cmd] agent(2) c'(2) lib ack
    by (simp add: start_command_def)
  with ex(3) have w: "cl_net (snd (ex_outside (snd (run_state (pollLoop raw ord ?net je now hint 1) x)))) = ?w" by simp
  have "map_option sb_State (sandbox_at (db ?w) i) = Some StateDestroyed"
    using at(1) ID by (simp add: frame_simps)
  moreover have "map_option cmd_Status (command_at (db ?w) k) = Some CmdCompleted"
    using cmd by (simp add: frame_simps)
  moreover have "si_HostPort info \<in> available (snd (Release (si_HostPort info) (ex_ports x)))"
  proof -
    have "si_HostPort info \<in> set (tracked_ports x)" using map_of_SomeD[OF agent(7)] by (force simp: tracked_ports_def)
    then have "si_HostPort info \<in> allocated (ex_ports x)" using agent(6) by (auto simp: executor_ok_def)
    then show ?thesis by (simp add: Release_def)
  qed
  ultimately show ?thesis unfolding Let_def w ex(1,2) by (simp add: delete_conv')
qed

definition a_stop_link :: "world Client" where
  "a_stop_link = a_link\<lparr>cl_net := snd (run_state (DestroySandbox ''c'' ''s'') (quiet (a_db [a_sandbox ''s'' StateRunning 0] []) (NewBatcher id)))\<rparr>"

definition a_busy_agent :: "(unit \<times> world Client) executor" where
  "a_busy_agent = (NewCommandExecutor ((), a_stop_link) (snd (Allocate 8001 (NewAllocator 8001 8002))) ''/var/forge'')
     \<lparr>ex_sandboxes := [(''s'', \<lparr>si_ContainerID = ''c1'', si_HostPort = 8001, si_AppName = ''app-s''\<rparr>)]\<rparr>"

definition a_removing_daemon :: "unit raw_docker" where
  "a_removing_daemon = a_daemon\<lparr>rd_ContainerRemove := (\<lambda>i f e. (Inr (), e))\<rparr>"

theorem destroyed_sandbox_stops_witness:
  "map_option sb_State (sandbox_at (db (cl_net (snd (ex_outside (snd (run_state (pollLoop a_removing_daemon id
      (control_net a_server (\<lambda>_. an_ambient) (\<lambda>_. '''') (\<lambda>_. Some (10 ^ 10)) ''http://cp'')
      (\<lambda>_. '''') (\<lambda>_. 10 ^ 10) (\<lambda>_. 8001) 1) a_busy_agent)))))) ''s'') = Some StateDestroyed"
proof -
  let ?t = "a_db [a_sandbox ''s'' StateRunning 0] []" and ?r = "a_sandbox ''s'' StateRunning 0"
  have row: "schema_ok ?t" "sandbox_at ?t ''s'' = Some ?r" "NextState (sb_State ?r) EventDestroyRequest = Some StateDestroying"
    "version_room 2 ?r" "sb_NodeID ?r = Some ''n1''" "command_at ?t ''c'' = None" "filter (pending_for ''n1'') (commands ?t) = []"
    by (simp_all add: schema_ok_def concrete named_status_def AllStates_def)
  have link: "linked a_server ''http://cp'' a_stop_link" "plain (cl_nodeID a_stop_link)" "plain ''c''"
    "cl_net a_stop_link = snd (run_state (DestroySandbox ''c'' ''s'') (quiet ?t (NewBatcher id)))"
    by (simp_all add: linked_def a_stop_link_def a_link_def NewClient_def authToken_def a_server_def plain_def)
  have agent: "ex_outside a_busy_agent = ((), a_stop_link)" "executor_ok a_busy_agent"
    "map_of (ex_sandboxes a_busy_agent) ''s'' = Some \<lparr>si_ContainerID = ''c1'', si_HostPort = 8001, si_AppName = ''app-s''\<rparr>"
    by (auto simp: a_busy_agent_def NewCommandExecutor_def executor_ok_def tracked_ports_def Allocate_def NewAllocator_def first_key_def
        alloc_ok_def)
  have stop: "can_stop a_removing_daemon (text_or_empty (sb_ContainerID ?r))"
    by (simp add: can_stop_def StopContainer_def RemoveContainer_def a_removing_daemon_def a_daemon_def wrapped_def)
  have lib: "al_ParseUUID (am_lib an_ambient) (cl_nodeID a_stop_link) = Some ''n1''" "al_ParseUUID (am_lib an_ambient) ''c'' = Some ''c''"
    by (simp_all add: an_ambient_def a_lib_def a_stop_link_def a_link_def)
  have clock: "clock ?t = 10 ^ 10" by (simp add: a_db_def)
  from destroyed_sandbox_stops[where render = "\<lambda>_. ''''" and je = "\<lambda>_. ''''" and hint = "\<lambda>_. 8001" and now = "\<lambda>_. 10 ^ 10"
      and parse = "\<lambda>_. Some (10 ^ 10)" and amb = "\<lambda>_. an_ambient" and ord = id, OF row link agent stop _ _ lib]
  show ?thesis unfolding Let_def clock by simp
qed

text \<open>C36. The two sides agree on the types of their messages: a registration and a heartbeat are decoded to the values
  that the agent encoded exactly when these fit the integer types of the control plane, and refused otherwise;
  acknowledgments and events arrive as they were sent; and the answer to a registration is what the agent
  decodes.\<close>

theorem agent_messages_well_typed:
  "decode_register (Some (register_json r)) =
     (if fits_int32 (rr_AgentListenPort r) \<and> fits_int32 (rr_CapacityMB r) then Some (as_registered r) else None) \<and>
   decode_heartbeat (Some (heartbeat_json h)) =
     (if fits_int32 (hr_UsedMB h) \<and> fits_int32 (hr_RunningContainers h) \<and> list_all (\<lambda>c. fits_int64 (hc_HostPort c)) (hr_Containers h)
      then Some \<lparr>hb_UsedMb = of_int (hr_UsedMB h), hb_RunningContainers = of_int (hr_RunningContainers h),
        hb_Containers = Some (map as_container (hr_Containers h))\<rparr> else None) \<and>
   decode_ack (Some (ack_json a)) = Some (ar_Status a, ar_Error a, ar_Result a) \<and>
   decode_event (Some (event_json e)) =
     (if fits_int64 (er_ExitCode e) then Some (er_SandboxID e, er_EventType e, er_Payload e) else None) \<and>
   decode_registered (rp_Body (registered iv i tok)) =
     (if fits_int64 iv then Some \<lparr>rs_NodeID = i, rs_AgentToken = tok, rs_HeartbeatIntervalSeconds = of_int iv\<rparr> else None)"
proof -
  have "decode_registered (rp_Body (registered iv i tok)) =
      (if fits_int64 iv then Some \<lparr>rs_NodeID = i, rs_AgentToken = tok, rs_HeartbeatIntervalSeconds = of_int iv\<rparr> else None)"
    by (simp add: registered_def writeJSON_def decode_registered_def decode_simps)
  then show ?thesis using decode_register_json decode_heartbeat_json decode_ack_json decode_event_json by blast
qed

lemma untracked_name:
  assumes "\<And>m. set (ord m) = set m" and "app \<notin> set (map (si_AppName \<circ> snd) (ex_sandboxes x))"
  shows "resolveSandboxID ord x app = app"
proof -
  have "find (\<lambda>(i, info). si_AppName info = app) (ord (ex_sandboxes x)) = None"
    using assms by (force simp: find_None_iff)
  then show ?thesis by (simp add: resolveSandboxID_def)
qed

text \<open>The events of a container that an agent does not track are lost. Such are all containers that run when an agent is
  restarted, since its table of sandboxes starts empty: the watcher maps the exit of the container, but the
  report names the application instead of the sandbox, and the control plane refuses it with 400 and changes
  nothing, unless the name of the application happens to be a UUID.\<close>

theorem untracked_event_refused:
  assumes "\<And>m. set (ord m) = set m" and "app \<notin> set (map (si_AppName \<circ> snd) (ex_sandboxes x))"
    and "app \<noteq> ''''" and "al_ParseUUID lib app = None" and "\<And>code. fits_int64 (sscanf code)"
  shows "\<exists>sb. mapEvent \<lparr>ce_ContainerID = cid, ce_ContainerName = ''forge-'' @ app, ce_Action = ''die'', ce_ExitCode = code, ce_Time = ts\<rparr> = Some sb \<and>
    rp_Status (fst (run_state (handleReportEvent lib ls newCmd nodeStr (Some (event_json (event_report ord sscanf x sb)))) w)) = 400 \<and>
    snd (run_state (handleReportEvent lib ls newCmd nodeStr (Some (event_json (event_report ord sscanf x sb)))) w) = w"
proof -
  let ?sb = "\<lparr>we_AppName = app, we_ContainerID = cid, we_EventType = ''container_exited'', we_ExitCode = code, we_Time = ts, we_OOMKilled = False\<rparr>"
  let ?e = "event_report ord sscanf x ?sb"
  have "mapEvent \<lparr>ce_ContainerID = cid, ce_ContainerName = ''forge-'' @ app, ce_Action = ''die'', ce_ExitCode = code, ce_Time = ts\<rparr> = Some ?sb"
    by (simp add: mapEvent_def containerPrefix_def trim_prefix_def Let_def)
  moreover have "er_SandboxID ?e = app" "er_EventType ?e = ''container_exited''" "fits_int64 (er_ExitCode ?e)"
    using untracked_name[OF assms(1,2)] assms(5) by (simp_all add: event_report_def fits_int64_def)
  then have "run_state (handleReportEvent lib ls newCmd nodeStr (Some (event_json ?e))) w =
      (if al_ParseUUID lib nodeStr = None then Bad_Request ''invalid node ID: must be a valid UUID''
       else Bad_Request ''sandbox_id must be a valid UUID'', w)"
    using assms(3,4) by (simp add: handleReportEvent_def decode_event_json split: option.split)
  ultimately show ?thesis by (intro exI[of _ ?sb]) simp
qed

theorem untracked_event_refused_witness:
  "\<exists>sb. mapEvent \<lparr>ce_ContainerID = ''c-1'', ce_ContainerName = ''forge-shop'', ce_Action = ''die'', ce_ExitCode = ''137'', ce_Time = 0\<rparr> = Some sb \<and>
    rp_Status (fst (run_state (handleReportEvent (a_lib\<lparr>al_ParseUUID := (\<lambda>s. if length s = 36 then Some s else None)\<rparr>) a_service ''c'' ''n1''
      (Some (event_json (event_report id (\<lambda>_. 137) an_executor sb)))) (a_world StateRunning))) = 400"
  using untracked_event_refused[of id "''shop''" an_executor "a_lib\<lparr>al_ParseUUID := (\<lambda>s. if length s = 36 then Some s else None)\<rparr>"
      "\<lambda>_. 137" "''c-1''" "''137''" 0 a_service "''c''" "''n1''" "a_world StateRunning"]
  by (auto simp: an_executor_def NewCommandExecutor_def fits_int64_def)

end
