(* ===== verification/Cli.thy ===== *)
theory Cli
  imports Protocol
begin

text \<open>
  The command line client, \<^verbatim>\<open>cli/cmd/forge\<close>. A command is a program on the state of an HTTP transport whose result is
  the text it prints and the error it fails with, if any. The transport tells the status of a reply and its body
  as text and, where it is JSON, as a document, or the error of sending or reading. Arguments and flags
  are parameters, with the defaults of the flags left to \<^verbatim>\<open>cobra\<close>; the name of an error of \<^verbatim>\<open>encoding/json\<close> is left
  out of messages. Cells of a table are without tabs and line breaks.
\<close>

section \<open>Client\<close>

record apiError =
  ae_Type :: string
  ae_Title :: string
  ae_Status :: int
  ae_Detail :: string

definition apiError_text :: "apiError \<Rightarrow> string" where
  "apiError_text e = (if ae_Detail e \<noteq> '''' then ae_Title e @ '': '' @ ae_Detail e else ae_Title e)"

record apiClient =
  api_baseURL :: string
  api_token :: string

definition newAPIClient :: "string \<Rightarrow> string \<Rightarrow> apiClient" where
  "newAPIClient baseURL token = \<lparr>api_baseURL = baseURL, api_token = token\<rparr>"

text \<open>The error of sending, or the status with the error of reading or the body.\<close>

record 'n transport =
  tr_Do :: "http_request \<Rightarrow> 'n \<Rightarrow> (string + int \<times> (string + string \<times> json option)) \<times> 'n"
  tr_invalid :: "string \<Rightarrow> string option"

definition setAuth :: "apiClient \<Rightarrow> string option" where
  "setAuth c = (if api_token c \<noteq> '''' then Some (''Bearer '' @ api_token c) else None)"

definition decode_apiError :: "json option \<Rightarrow> apiError option" where
  "decode_apiError b = (case b of None \<Rightarrow> None | Some j \<Rightarrow>
    (let (ms, ok) = object_members j;
         (ty, ok1) = decode_field ''type'' decode_string ms '''';
         (ti, ok2) = decode_field ''title'' decode_string ms '''';
         (st, ok3) = decode_field ''status'' decode_int64 ms 0;
         (de, ok4) = decode_field ''detail'' decode_string ms ''''
     in if ok \<and> ok1 \<and> ok2 \<and> ok3 \<and> ok4
        then Some \<lparr>ae_Type = ty, ae_Title = ti, ae_Status = sint st, ae_Detail = de\<rparr> else None))"

definition parseError :: "string \<times> json option \<Rightarrow> int \<Rightarrow> string" where
  "parseError body statusCode =
    (let other = ''HTTP '' @ show_int statusCode @ '': '' @ fst body in
     case decode_apiError (snd body) of
       None \<Rightarrow> other
     | Some ae \<Rightarrow> if ae_Title ae \<noteq> '''' then apiError_text (ae\<lparr>ae_Status := statusCode\<rparr>) else other)"

definition send :: "'n transport \<Rightarrow> http_request \<Rightarrow> ('n, string + int \<times> (string + string \<times> json option)) state" where
  "send tr q =
    (case tr_invalid tr (hq_URL q) of
       Some e \<Rightarrow> State_Monad.return (Inl (''creating request: '' @ e))
     | None \<Rightarrow> do {
         r \<leftarrow> State (tr_Do tr q);
         State_Monad.return (case r of Inl e \<Rightarrow> Inl (''sending request: '' @ e) | Inr x \<Rightarrow> Inr x) })"

definition read_body :: "string + int \<times> (string + string \<times> json option) \<Rightarrow> string + string \<times> json option" where
  "read_body r = (case r of
     Inl e \<Rightarrow> Inl e
   | Inr (code, Inl e) \<Rightarrow> Inl (''reading response: '' @ e)
   | Inr (code, Inr body) \<Rightarrow> if code \<ge> 400 then Inl (parseError body code) else Inr body)"

definition api_get :: "'n transport \<Rightarrow> apiClient \<Rightarrow> string \<Rightarrow> Values \<Rightarrow> ('n, string + string \<times> json option) state" where
  "api_get tr c path query = do {
     r \<leftarrow> send tr \<lparr>hq_Method = ''GET'',
       hq_URL = api_baseURL c @ path @ (if query \<noteq> [] then ''?'' @ Values_Encode query else ''''),
       hq_Auth = setAuth c, hq_Body = None\<rparr>;
     State_Monad.return (read_body r) }"

definition getRaw :: "'n transport \<Rightarrow> apiClient \<Rightarrow> string \<Rightarrow> Values \<Rightarrow> ('n, string + string \<times> json option) state" where
  "getRaw tr c path query = api_get tr c path query"

definition getNoAuth :: "'n transport \<Rightarrow> apiClient \<Rightarrow> string \<Rightarrow> ('n, string + string \<times> json option) state" where
  "getNoAuth tr c path = do {
     r \<leftarrow> send tr \<lparr>hq_Method = ''GET'', hq_URL = api_baseURL c @ path, hq_Auth = None, hq_Body = None\<rparr>;
     State_Monad.return (read_body r) }"

definition post :: "'n transport \<Rightarrow> apiClient \<Rightarrow> string \<Rightarrow> json option \<Rightarrow> ('n, string + string \<times> json option) state" where
  "post tr c path payload = do {
     r \<leftarrow> send tr \<lparr>hq_Method = ''POST'', hq_URL = api_baseURL c @ path, hq_Auth = setAuth c, hq_Body = payload\<rparr>;
     State_Monad.return (read_body r) }"

text \<open>A failure to read the body of an error leaves it empty, or what was read of it (\<open>Inl\<close> carries no text).\<close>

definition del :: "'n transport \<Rightarrow> apiClient \<Rightarrow> string \<Rightarrow> ('n, string + unit) state" where
  "del tr c path = do {
     r \<leftarrow> send tr \<lparr>hq_Method = ''DELETE'', hq_URL = api_baseURL c @ path, hq_Auth = setAuth c, hq_Body = None\<rparr>;
     State_Monad.return (case r of
       Inl e \<Rightarrow> Inl e
     | Inr (code, body) \<Rightarrow>
         if code \<ge> 400 then Inl (parseError (case body of Inl _ \<Rightarrow> ('''', None) | Inr x \<Rightarrow> x) code) else Inr ()) }"

section \<open>Output\<close>

definition newline :: string where "newline = [CHR 0x0A]"

text \<open>\<^verbatim>\<open>text/tabwriter\<close> with a padding of two: every cell but the last of a row is filled up to the width of its column.\<close>

definition column_width :: "string list list \<Rightarrow> nat \<Rightarrow> nat" where
  "column_width rows j = fold max (map (\<lambda>r. if j < length r then length (r ! j) else 0) rows) 0 + 2"

fun table_row :: "(nat \<Rightarrow> nat) \<Rightarrow> nat \<Rightarrow> string list \<Rightarrow> string" where
  "table_row width j [] = ''''"
| "table_row width j [cell] = cell"
| "table_row width j (cell # cells) = cell @ replicate (width j - length cell) (CHR '' '') @ table_row width (Suc j) cells"

definition printTable :: "string list \<Rightarrow> string list list \<Rightarrow> string" where
  "printTable headers rows =
    (let all_rows = headers # rows in concat (map (\<lambda>r. table_row (column_width all_rows) 0 r @ newline) all_rows))"

definition truncateID :: "string \<Rightarrow> string" where
  "truncateID i = (if length i > 8 then take 8 i else i)"

definition envOrDefault :: "(string \<Rightarrow> string) \<Rightarrow> string \<Rightarrow> string \<Rightarrow> string" where
  "envOrDefault getenv key fallback = (if getenv key \<noteq> '''' then getenv key else fallback)"

definition resolveClient :: "(string \<Rightarrow> string) \<Rightarrow> string option \<Rightarrow> string option \<Rightarrow> apiClient" where
  "resolveClient getenv apiURL apiToken = newAPIClient
     (case apiURL of Some u \<Rightarrow> u | None \<Rightarrow> envOrDefault getenv ''FORGE_API_URL'' ''http://localhost:8080'')
     (case apiToken of Some t \<Rightarrow> t | None \<Rightarrow> envOrDefault getenv ''FORGE_API_TOKEN'' '''')"

text \<open>The slice under a key of a response.\<close>

definition decode_rows :: "string \<Rightarrow> (json \<Rightarrow> 'a \<times> bool) \<Rightarrow> json option \<Rightarrow> 'a list option" where
  "decode_rows key d body = (case body of None \<Rightarrow> None | Some j \<Rightarrow>
    (let (ms, ok) = object_members j; (xs, ok') = decode_field key (decode_list d) ms []
     in if ok \<and> ok' then Some xs else None))"

definition fails :: "string \<Rightarrow> string \<times> string option" where
  "fails e = ('''', Some e)"

definition prints :: "string \<Rightarrow> string \<times> string option" where
  "prints out = (out, None)"

section \<open>Sandboxes\<close>

record sandbox_row =
  sl_ID :: string
  sl_AppName :: string
  sl_State :: string
  sl_NodeID :: string
  sl_URL :: string

definition decode_sandbox_row :: "json \<Rightarrow> sandbox_row \<times> bool" where
  "decode_sandbox_row j =
    (let (ms, ok) = object_members j;
         (i, ok1) = decode_field ''id'' decode_string ms '''';
         (a, ok2) = decode_field ''app_name'' decode_string ms '''';
         (s, ok3) = decode_field ''state'' decode_string ms '''';
         (n, ok4) = decode_field ''node_id'' decode_string ms '''';
         (u, ok5) = decode_field ''url'' decode_string ms ''''
     in (\<lparr>sl_ID = i, sl_AppName = a, sl_State = s, sl_NodeID = n, sl_URL = u\<rparr>, ok \<and> ok1 \<and> ok2 \<and> ok3 \<and> ok4 \<and> ok5))"

definition set_if :: "string \<Rightarrow> string \<Rightarrow> Values \<Rightarrow> Values" where
  "set_if k v q = (if v \<noteq> '''' then Values_Set k v q else q)"

definition sandbox_cells :: "sandbox_row \<Rightarrow> string list" where
  "sandbox_cells s = [truncateID (sl_ID s), sl_AppName s, sl_State s, truncateID (sl_NodeID s), sl_URL s]"

definition newSandboxListCmd :: "'n transport \<Rightarrow> apiClient \<Rightarrow> string \<Rightarrow> string \<Rightarrow> string \<Rightarrow> ('n, string \<times> string option) state" where
  "newSandboxListCmd tr c appName nodeID state = do {
     r \<leftarrow> api_get tr c ''/v1/sandboxes'' (set_if ''state'' state (set_if ''node_id'' nodeID (set_if ''app_name'' appName [])));
     State_Monad.return (case r of
       Inl e \<Rightarrow> fails (''listing sandboxes: '' @ e)
     | Inr (_, body) \<Rightarrow>
         (case decode_rows ''sandboxes'' decode_sandbox_row body of
            None \<Rightarrow> fails ''parsing response''
          | Some rows \<Rightarrow> prints (printTable [''ID'', ''APP_NAME'', ''STATE'', ''NODE'', ''URL''] (map sandbox_cells rows)))) }"

text \<open>\<open>indent\<close> is \<^verbatim>\<open>json.MarshalIndent\<close>; a body that is not JSON is printed as it is.\<close>

definition newSandboxInspectCmd :: "'n transport \<Rightarrow> apiClient \<Rightarrow> (json \<Rightarrow> string) \<Rightarrow> string \<Rightarrow> ('n, string \<times> string option) state" where
  "newSandboxInspectCmd tr c indent i = do {
     r \<leftarrow> api_get tr c (''/v1/sandboxes/'' @ i) [];
     State_Monad.return (case r of
       Inl e \<Rightarrow> fails (''inspecting sandbox: '' @ e)
     | Inr (txt, None) \<Rightarrow> prints txt
     | Inr (_, Some j) \<Rightarrow> prints (indent j @ newline)) }"

definition newSandboxLogsCmd :: "'n transport \<Rightarrow> apiClient \<Rightarrow> bool \<Rightarrow> int \<Rightarrow> string \<Rightarrow> ('n, string \<times> string option) state" where
  "newSandboxLogsCmd tr c follow tail i = do {
     let q = Values_Set ''tail'' (show_int tail) [];
     r \<leftarrow> getRaw tr c (''/v1/sandboxes/'' @ i @ ''/logs'') (if follow then Values_Set ''follow'' ''true'' q else q);
     State_Monad.return (case r of Inl e \<Rightarrow> fails (''fetching logs: '' @ e) | Inr (txt, _) \<Rightarrow> prints txt) }"

definition newSandboxRestartCmd :: "'n transport \<Rightarrow> apiClient \<Rightarrow> string \<Rightarrow> ('n, string \<times> string option) state" where
  "newSandboxRestartCmd tr c i = do {
     r \<leftarrow> post tr c (''/v1/sandboxes/'' @ i @ ''/restart'') None;
     State_Monad.return (case r of
       Inl e \<Rightarrow> fails (''restarting sandbox: '' @ e) | Inr _ \<Rightarrow> prints (''Sandbox '' @ i @ '' restart queued'' @ newline)) }"

definition newSandboxDestroyCmd :: "'n transport \<Rightarrow> apiClient \<Rightarrow> string \<Rightarrow> ('n, string \<times> string option) state" where
  "newSandboxDestroyCmd tr c i = do {
     r \<leftarrow> del tr c (''/v1/sandboxes/'' @ i);
     State_Monad.return (case r of
       Inl e \<Rightarrow> fails (''destroying sandbox: '' @ e) | Inr _ \<Rightarrow> prints (''Sandbox '' @ i @ '' destruction queued'' @ newline)) }"

section \<open>Nodes\<close>

definition decode_node_cells :: "json \<Rightarrow> string list \<times> bool" where
  "decode_node_cells j =
    (let (ms, ok) = object_members j;
         (i, ok1) = decode_field ''id'' decode_string ms '''';
         (h, ok2) = decode_field ''hostname'' decode_string ms '''';
         (s, ok3) = decode_field ''status'' decode_string ms '''';
         (mb, ok4) = decode_field ''capacity_mb'' decode_int64 ms 0;
         (u, ok5) = decode_field ''used_mb'' decode_int64 ms 0;
         (k, ok6) = decode_field ''running_sandboxes'' decode_int64 ms 0;
         (v, ok7) = decode_field ''agent_version'' decode_string ms ''''
     in ([truncateID i, h, s, show_int (sint mb), show_int (sint u), show_int (sint k), v],
         ok \<and> ok1 \<and> ok2 \<and> ok3 \<and> ok4 \<and> ok5 \<and> ok6 \<and> ok7))"

definition newNodeListCmd :: "'n transport \<Rightarrow> apiClient \<Rightarrow> ('n, string \<times> string option) state" where
  "newNodeListCmd tr c = do {
     r \<leftarrow> api_get tr c ''/v1/nodes'' [];
     State_Monad.return (case r of
       Inl e \<Rightarrow> fails (''listing nodes: '' @ e)
     | Inr (_, body) \<Rightarrow>
         (case decode_rows ''nodes'' decode_node_cells body of
            None \<Rightarrow> fails ''parsing response''
          | Some rows \<Rightarrow>
              prints (printTable [''ID'', ''HOSTNAME'', ''STATUS'', ''CAPACITY'', ''USED'', ''SANDBOXES'', ''VERSION''] rows))) }"

text \<open>A map is encoded with its keys in order.\<close>

definition newNodeAddCmd ::
    "'n transport \<Rightarrow> apiClient \<Rightarrow> string \<Rightarrow> string \<Rightarrow> int \<Rightarrow> string \<Rightarrow> ('n, string \<times> string option) state" where
  "newNodeAddCmd tr c hostname tailscaleIP capacityMb agentVer = do {
     r \<leftarrow> post tr c ''/v1/nodes/register'' (Some (JObj
       [(''agent_version'', JStr agentVer), (''capacity_mb'', JNum (of_int capacityMb)), (''hostname'', JStr hostname),
        (''tailscale_ip'', JStr tailscaleIP)]));
     State_Monad.return (case r of
       Inl e \<Rightarrow> fails (''registering node: '' @ e)
     | Inr (_, body) \<Rightarrow>
         (case decode_registered body of
            None \<Rightarrow> fails ''parsing response''
          | Some resp \<Rightarrow> prints (''Node registered successfully'' @ newline @ ''  Node ID:    '' @ rs_NodeID resp @ newline @
              ''  Heartbeat:  '' @ show_int (sint (rs_HeartbeatIntervalSeconds resp)) @ ''s'' @ newline))) }"

definition newNodeDrainCmd :: "'n transport \<Rightarrow> apiClient \<Rightarrow> string \<Rightarrow> ('n, string \<times> string option) state" where
  "newNodeDrainCmd tr c i = do {
     r \<leftarrow> post tr c (''/v1/nodes/'' @ i @ ''/drain'') None;
     State_Monad.return (case r of
       Inl e \<Rightarrow> fails (''draining node: '' @ e) | Inr _ \<Rightarrow> prints (''Node '' @ i @ '' set to draining'' @ newline)) }"

definition newNodeRemoveCmd :: "'n transport \<Rightarrow> apiClient \<Rightarrow> string \<Rightarrow> ('n, string \<times> string option) state" where
  "newNodeRemoveCmd tr c i = do {
     r \<leftarrow> del tr c (''/v1/nodes/'' @ i);
     State_Monad.return (case r of
       Inl e \<Rightarrow> fails (''removing node: '' @ e) | Inr _ \<Rightarrow> prints (''Node '' @ i @ '' removed'' @ newline)) }"

section \<open>Routes\<close>

definition decode_route_row :: "json \<Rightarrow> Route \<times> bool" where
  "decode_route_row j =
    (let (ms, ok) = object_members j;
         (a, ok1) = decode_field ''app_name'' decode_string ms '''';
         (i, ok2) = decode_field ''sandbox_id'' decode_string ms '''';
         (u, ok3) = decode_field ''upstream'' decode_string ms ''''
     in (\<lparr>rt_AppName = a, rt_SandboxID = i, rt_Upstream = u\<rparr>, ok \<and> ok1 \<and> ok2 \<and> ok3))"

definition newRoutesListCmd :: "'n transport \<Rightarrow> apiClient \<Rightarrow> ('n, string \<times> string option) state" where
  "newRoutesListCmd tr c = do {
     r \<leftarrow> api_get tr c ''/v1/routes'' [];
     State_Monad.return (case r of
       Inl e \<Rightarrow> fails (''listing routes: '' @ e)
     | Inr (_, body) \<Rightarrow>
         (case decode_rows ''routes'' decode_route_row body of
            None \<Rightarrow> fails ''parsing response''
          | Some rows \<Rightarrow> prints (printTable [''APP_NAME'', ''SANDBOX_ID'', ''UPSTREAM'']
              (map (\<lambda>r. [rt_AppName r, truncateID (rt_SandboxID r), rt_Upstream r]) rows)))) }"

definition decode_running_row :: "json \<Rightarrow> string \<times> bool" where
  "decode_running_row j =
    (let (ms, ok) = object_members j;
         (i, ok1) = decode_field ''id'' decode_string ms '''';
         (a, ok2) = decode_field ''app_name'' decode_string ms '''';
         (s, ok3) = decode_field ''state'' decode_string ms ''''
     in (a, ok \<and> ok1 \<and> ok2 \<and> ok3))"

definition drifts :: "string list \<Rightarrow> string list \<Rightarrow> (string \<times> string) list" where
  "drifts routed running =
    map (\<lambda>a. (a, ''orphan route'')) (filter (\<lambda>a. a \<notin> set running) routed) @
    map (\<lambda>a. (a, ''missing route'')) (filter (\<lambda>a. a \<notin> set routed) running)"

definition newRoutesVerifyCmd :: "'n transport \<Rightarrow> apiClient \<Rightarrow> ('n, string \<times> string option) state" where
  "newRoutesVerifyCmd tr c = do {
     r \<leftarrow> api_get tr c ''/v1/routes'' [];
     case r of
       Inl e \<Rightarrow> State_Monad.return (fails (''fetching routes: '' @ e))
     | Inr (_, body) \<Rightarrow>
       (case decode_rows ''routes'' decode_route_row body of
          None \<Rightarrow> State_Monad.return (fails ''parsing routes'')
        | Some routes \<Rightarrow> do {
            r \<leftarrow> api_get tr c ''/v1/sandboxes'' (Values_Set ''state'' ''running'' []);
            State_Monad.return (case r of
              Inl e \<Rightarrow> fails (''fetching sandboxes: '' @ e)
            | Inr (_, body) \<Rightarrow>
                (case decode_rows ''sandboxes'' decode_running_row body of
                   None \<Rightarrow> fails ''parsing sandboxes''
                 | Some running \<Rightarrow>
                     (let ds = drifts (map rt_AppName routes) running in
                      if ds = [] then prints (''No drift detected -- routes are clean'' @ newline)
                      else (printTable [''APP_NAME'', ''ISSUE''] (map (\<lambda>(a, k). [a, k]) ds),
                            Some (''found '' @ show_nat (length ds) @ '' route drift(s)''))))) }) }"

section \<open>Events and health\<close>

text \<open>Times are in nanoseconds; \<^verbatim>\<open>Sub\<close> saturates at the ends of \<^verbatim>\<open>time.Duration\<close>. Durations in seconds, minutes and hours are exact
  here, where Go has floating-point numbers.\<close>

definition time_Sub :: "int \<Rightarrow> int \<Rightarrow> Duration" where
  "time_Sub t u = word_of_int (max (- (2 ^ 63)) (min (2 ^ 63 - 1) (t - u)))"

definition go_Round :: "rat \<Rightarrow> int" where
  "go_Round q = (if q < 0 then - \<lfloor>- q + 1 / 2\<rfloor> else \<lfloor>q + 1 / 2\<rfloor>)"

definition formatRelativeTime :: "int \<Rightarrow> int \<Rightarrow> string" where
  "formatRelativeTime now t =
    (let d0 = time_Sub now t;
         d = sint (if sint d0 < 0 then - d0 else d0);
         minute = 60 * 1000000000; hour = 60 * minute in
     if d < minute then show_int (go_Round (of_int d / 1000000000)) @ ''s ago''
     else if d < hour then show_int (go_Round (of_int d / of_int minute)) @ ''m ago''
     else if d < 24 * hour then
       (let h = d div hour; m = (d div minute) mod 60
        in if m > 0 then show_int h @ ''h'' @ show_int m @ ''m ago'' else show_int h @ ''h ago'')
     else show_int (d div (24 * hour)) @ ''d ago'')"

record event_item =
  vl_SandboxID :: string
  vl_EventType :: string
  vl_PrevState :: string
  vl_NextState :: string
  vl_CreatedAt :: string

definition decode_event_item :: "json \<Rightarrow> event_item \<times> bool" where
  "decode_event_item j =
    (let (ms, ok) = object_members j;
         (i, ok1) = decode_field ''id'' decode_int64 ms 0;
         (s, ok2) = decode_field ''sandbox_id'' decode_string ms '''';
         (t, ok3) = decode_field ''event_type'' decode_string ms '''';
         (p, ok4) = decode_field ''prev_state'' decode_string ms '''';
         (n, ok5) = decode_field ''next_state'' decode_string ms '''';
         (c, ok6) = decode_field ''created_at'' decode_string ms ''''
     in (\<lparr>vl_SandboxID = s, vl_EventType = t, vl_PrevState = p, vl_NextState = n, vl_CreatedAt = c\<rparr>,
         ok \<and> ok1 \<and> ok2 \<and> ok3 \<and> ok4 \<and> ok5 \<and> ok6))"

text \<open>\<open>parse\<close> is \<^verbatim>\<open>time.Parse\<close> with the layout of the API; the zero time stands for no time.\<close>

definition event_time :: "(string \<Rightarrow> int option) \<Rightarrow> event_item \<Rightarrow> int" where
  "event_time parse e =
    (if vl_CreatedAt e \<noteq> '''' then case parse (vl_CreatedAt e) of None \<Rightarrow> zero_nanos | Some t \<Rightarrow> t else zero_nanos)"

definition event_shown :: "(string \<Rightarrow> int option) \<Rightarrow> int \<Rightarrow> event_item \<Rightarrow> bool" where
  "event_shown parse sinceTime e \<longleftrightarrow>
    \<not> (sinceTime \<noteq> zero_nanos \<and> event_time parse e \<noteq> zero_nanos \<and> event_time parse e < sinceTime)"

definition event_cells :: "(string \<Rightarrow> int option) \<Rightarrow> int \<Rightarrow> event_item \<Rightarrow> string list" where
  "event_cells parse now e =
    [if event_time parse e \<noteq> zero_nanos then formatRelativeTime now (event_time parse e) else vl_CreatedAt e,
     vl_EventType e, truncateID (vl_SandboxID e),
     if vl_PrevState e \<noteq> '''' \<or> vl_NextState e \<noteq> '''' then vl_PrevState e @ '' -> '' @ vl_NextState e else '''']"

text \<open>\<open>duration\<close> is \<^verbatim>\<open>time.ParseDuration\<close>, \<open>quote\<close> the verb \<^verbatim>\<open>%q\<close>.\<close>

definition newEventsCmd ::
    "'n transport \<Rightarrow> apiClient \<Rightarrow> (string \<Rightarrow> int option) \<Rightarrow> (string \<Rightarrow> string + Duration) \<Rightarrow> (string \<Rightarrow> string) \<Rightarrow> int \<Rightarrow>
      string \<Rightarrow> string \<Rightarrow> string \<Rightarrow> int \<Rightarrow> ('n, string \<times> string option) state" where
  "newEventsCmd tr c parse duration quote now sandboxID eventType since limit = do {
     r \<leftarrow> api_get tr c ''/v1/events'' (set_if ''event_type'' eventType (set_if ''sandbox_id'' sandboxID
            (Values_Set ''limit'' (show_int limit) [])));
     State_Monad.return (case r of
       Inl e \<Rightarrow> fails (''fetching events: '' @ e)
     | Inr (_, body) \<Rightarrow>
         (case decode_rows ''events'' decode_event_item body of
            None \<Rightarrow> fails ''parsing response''
          | Some rows \<Rightarrow>
              (let shown = (\<lambda>sinceTime. prints (printTable [''TIME'', ''TYPE'', ''SANDBOX_ID'', ''TRANSITION'']
                     (map (event_cells parse now) (filter (event_shown parse sinceTime) rows))))
               in if since = '''' then shown zero_nanos
                  else case duration since of
                    Inl e \<Rightarrow> fails (''invalid --since duration '' @ quote since @ '': '' @ e)
                  | Inr dur \<Rightarrow> shown (now + sint (- dur))))) }"

definition go_quot :: "int \<Rightarrow> int \<Rightarrow> int" where
  "go_quot a b = (if a < 0 then - (- a div b) else a div b)"

definition formatUptime :: "int \<Rightarrow> string" where
  "formatUptime seconds =
    (let h = go_quot seconds 3600; m = go_quot (go_rem seconds 3600) 60; s = go_rem seconds 60 in
     if h > 0 \<and> m > 0 then show_int h @ ''h '' @ show_int m @ ''m '' @ show_int s @ ''s''
     else if h > 0 then show_int h @ ''h '' @ show_int s @ ''s''
     else if m > 0 then show_int m @ ''m '' @ show_int s @ ''s''
     else show_int s @ ''s'')"

definition decode_health :: "json option \<Rightarrow> (string \<times> string \<times> int) option" where
  "decode_health b = (case b of None \<Rightarrow> None | Some j \<Rightarrow>
    (let (ms, ok) = object_members j;
         (s, ok1) = decode_field ''status'' decode_string ms '''';
         (p, ok2) = decode_field ''postgres'' decode_string ms '''';
         (u, ok3) = decode_field ''uptime_seconds'' decode_int64 ms 0
     in if ok \<and> ok1 \<and> ok2 \<and> ok3 then Some (s, p, sint u) else None))"

definition newHealthCmd :: "'n transport \<Rightarrow> apiClient \<Rightarrow> ('n, string \<times> string option) state" where
  "newHealthCmd tr c = do {
     r \<leftarrow> getNoAuth tr c ''/v1/healthz'';
     State_Monad.return (case r of
       Inl e \<Rightarrow> fails (''checking health: '' @ e)
     | Inr (_, body) \<Rightarrow>
         (case decode_health body of
            None \<Rightarrow> fails ''parsing response''
          | Some (status, postgres, uptime) \<Rightarrow>
              (''Control Plane: '' @ (if status \<noteq> ''ok'' then ''FAIL'' else ''OK'') @ newline @
               ''Postgres:      '' @ (if postgres \<noteq> ''ok'' then ''FAIL'' else ''OK'') @ newline @
               ''Uptime:        '' @ formatUptime uptime @ newline,
               if status \<noteq> ''ok'' then Some (''control plane unhealthy: status='' @ status) else None))) }"

section \<open>The client and the control plane\<close>

definition control_transport :: "server \<Rightarrow> (world \<Rightarrow> ambient) \<Rightarrow> (json \<Rightarrow> string) \<Rightarrow> string \<Rightarrow> world transport" where
  "control_transport s amb render base = \<lparr>tr_Do = (\<lambda>q w. case deliver s amb render base q w of
       (Reply code txt j, w') \<Rightarrow> (Inr (code, Inr (txt, j)), w')
     | (NotSent e, w') \<Rightarrow> (Inl e, w')
     | (NoReply e, w') \<Rightarrow> (Inl e, w')), tr_invalid = (\<lambda>_. None)\<rparr>"

definition result_of :: "(json \<Rightarrow> string) \<Rightarrow> response \<Rightarrow> string + string \<times> json option" where
  "result_of render r =
    (let body = (case rp_Body r of None \<Rightarrow> rp_Text r | Some j \<Rightarrow> render j, rp_Body r)
     in if rp_Status r \<ge> 400 then Inl (parseError body (rp_Status r)) else Inr body)"

lemma api_get_control:
  assumes "api_baseURL c = base" and "sv_config s = Some (api_token c, secret)" and "api_token c \<noteq> ''''"
    and "CHR ''?'' \<notin> set rest" and "values_ok query" and "public_routes (''/v1/'' @ rest) None = []"
    and "map_of (v1_routes (slashes rest) query None) ''GET'' = Some req" and "\<not> public req"
  shows "run_state (api_get (control_transport s amb render base) c (''/v1/'' @ rest) query) w =
    (let (r, w') = run_state (route s (amb w) secret req) w in (result_of render r, w'))"
proof -
  let ?q = "\<lparr>hq_Method = ''GET'', hq_URL = base @ (''/v1/'' @ rest) @ (if query \<noteq> [] then ''?'' @ Values_Encode query else ''''),
    hq_Auth = Some (''Bearer '' @ api_token c), hq_Body = None\<rparr>"
  have enc: "parse_query (Values_Encode query) = query" using assms(5) by (rule parse_query_Encode)
  have "CHR ''?'' \<notin> set (''/v1/'' @ rest)" using assms(4) by simp
  from target_base[OF this, of base] have
    "target base (hq_URL ?q) = Some (''/v1/'' @ rest, if query \<noteq> [] then Values_Encode query else '''')"
    by (cases query) simp_all
  moreover have "parse_query (if query \<noteq> [] then Values_Encode query else '''') = query"
    using enc by (auto simp: parse_query_def parse_pair_def)
  ultimately have "deliver s amb render base ?q w =
      (let (r, w') = run_state (route s (amb w) secret req) w in (reply_of render r, w'))"
    using assms(2,3,6-8)
    by (intro deliver_routed[where rest = rest and query = "if query \<noteq> [] then Values_Encode query else ''''"]) simp_all
  then show ?thesis
    using assms(1,3)
    by (simp add: api_get_def send_def setAuth_def control_transport_def reply_of_def read_body_def result_of_def Let_def split_beta)
qed

text \<open>A problem of the API as the client reports it.\<close>

lemma parseError_problem:
  assumes "title \<noteq> ''''" and "fits_int64 code"
  shows "parseError (txt, rp_Body (WriteProblem code ty title detail)) status =
    (if detail \<noteq> '''' then title @ '': '' @ detail else title)"
  using assms
  by (simp add: parseError_def decode_apiError_def WriteProblem_def writeJSON_def omit_empty_def apiError_text_def decode_simps)

lemma result_of_problem:
  assumes "title \<noteq> ''''" and "400 \<le> code" and "code < 600"
  shows "result_of render (WriteProblem code ty title detail) = Inl (if detail \<noteq> '''' then title @ '': '' @ detail else title)"
  using parseError_problem[OF assms(1), of code] assms(2,3)
  by (simp add: result_of_def fits_int64_def)

lemma decode_field_append:
  "decode_field f d (xs @ ys) old =
    (let (x, ok) = decode_field f d xs old; (y, ok') = decode_field f d ys x in (y, ok \<and> ok'))"
  by (induction xs arbitrary: old) (auto simp: Let_def split_beta)

lemma decode_field_omit:
  "decode_field f d (omit_nil k v) old = (if fold_eq k f then case v of None \<Rightarrow> (old, True) | Some j \<Rightarrow> d j old else (old, True))"
  "decode_field f d (omit_empty k s) old = (if fold_eq k f \<and> s \<noteq> '''' then d (JStr s) old else (old, True))"
  by (simp_all add: omit_nil_def omit_empty_def Let_def split: option.split)

definition row_cells :: "Sandbox \<Rightarrow> string list" where
  "row_cells s = [truncateID (sb_ID s), sb_AppName s, SandboxState_string (sb_State s),
     truncateID (case sb_NodeID s of None \<Rightarrow> '''' | Some n \<Rightarrow> n), ''https://'' @ sb_AppName s @ ''.myappx.live'']"

lemma decode_sandbox_row_response:
  "decode_sandbox_row (sandboxToResponse lib s v) =
    (\<lparr>sl_ID = sb_ID s, sl_AppName = sb_AppName s, sl_State = SandboxState_string (sb_State s),
      sl_NodeID = (case sb_NodeID s of None \<Rightarrow> '''' | Some n \<Rightarrow> n), sl_URL = ''https://'' @ sb_AppName s @ ''.myappx.live''\<rparr>, True)"
  unfolding decode_sandbox_row_def sandboxToResponse_def
  by (simp add: decode_field_append decode_field_omit decode_simps split: option.split)

lemma decode_running_row_response: "decode_running_row (sandboxToResponse lib s v) = (sb_AppName s, True)"
  unfolding decode_running_row_def sandboxToResponse_def
  by (simp add: decode_field_append decode_field_omit decode_simps)

lemma decode_sandbox_list:
  assumes "\<And>s v. snd (d (sandboxToResponse lib s v))"
  shows "decode_rows ''sandboxes'' d (rp_Body (sandbox_list lib rows)) =
    Some (map (\<lambda>s. fst (d (sandboxToResponse lib s (al_RFC3339 lib (sb_VerifiedAt s))))) rows)"
proof -
  let ?js = "map (\<lambda>s. sandboxToResponse lib s (al_RFC3339 lib (sb_VerifiedAt s))) rows"
  have "list_all (snd \<circ> d) ?js" using assms by (simp add: list_all_iff)
  moreover have "\<not> fold_eq ''fleet_verified_at'' ''sandboxes''" "fold_eq ''sandboxes'' ''sandboxes''"
    by (simp_all add: fold_eq_def lower_char_def)
  ultimately show ?thesis
    by (simp add: decode_rows_def sandbox_list_def writeJSON_def object_members_def decode_list_def decode_field_omit comp_def)
qed

text \<open>The rows that the filters of \<^verbatim>\<open>forge sandbox list\<close> select: the first one given decides alone.\<close>

definition selected :: "api_lib \<Rightarrow> tables \<Rightarrow> string \<Rightarrow> string \<Rightarrow> string \<Rightarrow> Sandbox list option" where
  "selected lib t app node st =
    (if app \<noteq> '''' then Some (case row_at sb_AppName app (sandboxes t) of None \<Rightarrow> [] | Some r \<Rightarrow> [r])
     else if st \<noteq> '''' then Some (newest_first sb_CreatedAt (filter (\<lambda>r. sb_State r = SandboxState_of st) (sandboxes t)))
     else if node \<noteq> '''' then
       map_option (\<lambda>n. newest_first sb_CreatedAt (filter (\<lambda>r. sb_NodeID r = Some n) (sandboxes t))) (al_ParseUUID lib node)
     else Some (take 50 (newest_first sb_CreatedAt (sandboxes t))))"

lemma set_if_ok: "values_ok q \<Longrightarrow> values_ok (set_if k v q)"
  by (simp add: set_if_def Values_Set_ok)

lemma Values_Get_set_if:
  assumes "values_ok q"
  shows "Values_Get k (set_if k v q) = (if v \<noteq> '''' then v else Values_Get k q)"
    "k' \<noteq> k \<Longrightarrow> Values_Get k' (set_if k v q) = Values_Get k' q"
  using assms by (simp_all add: set_if_def Values_Get_Set)

lemma values_ok_Nil: "values_ok []" by (simp add: values_ok_def)

lemma Values_Get_Nil: "Values_Get k [] = ''''" by (simp add: Values_Get_def)

lemma handleListSandboxes_run:
  assumes "values_ok q" and "Values_Get ''user_id'' q = ''''" and "Values_Get ''limit'' q = ''''"
  shows "run_state (handleListSandboxes lib True q) (quiet t b) =
    (case selected lib t (Values_Get ''app_name'' q) (Values_Get ''node_id'' q) (Values_Get ''state'' q) of
       Some rows \<Rightarrow> sandbox_list lib rows
     | None \<Rightarrow> Bad_Request ''invalid node_id: must be a valid UUID'', quiet t b)"
  using assms(2,3)
  by (auto simp: handleListSandboxes_def selected_def exec run_query_or parse_limit_def GetSandboxByAppName_def
      ListSandboxesByState_def ListSandboxesByNode_def ListSandboxes_def split: option.split)

lemma cli_path: "public_routes (''/v1/'' @ ''sandboxes'') None = []" "public_routes (''/v1/'' @ ''routes'') None = []"
  "slashes ''sandboxes'' = [''sandboxes'']" "slashes ''routes'' = [''routes'']"
  "map_of (v1_routes [''sandboxes''] q None) ''GET'' = Some (ListSandboxesReq q)"
  "map_of (v1_routes [''routes''] q None) ''GET'' = Some ListRoutesReq"
  by (simp_all add: public_routes_def v1_routes_def)

lemma result_of_sandbox_list: "\<exists>txt. result_of render (sandbox_list lib rows) = Inr (txt, rp_Body (sandbox_list lib rows))"
  by (simp add: result_of_def sandbox_list_def writeJSON_def)

lemma list_sandboxes_control:
  assumes "api_baseURL c = base" and "sv_config s = Some (api_token c, secret)" and "api_token c \<noteq> ''''"
    and "sv_sandboxReader s" and "values_ok q" and "Values_Get ''user_id'' q = ''''" and "Values_Get ''limit'' q = ''''"
  shows "run_state (api_get (control_transport s amb render base) c ''/v1/sandboxes'' q) (quiet t b) =
    (result_of render (case selected (am_lib (amb (quiet t b))) t (Values_Get ''app_name'' q) (Values_Get ''node_id'' q) (Values_Get ''state'' q) of
       Some rows \<Rightarrow> sandbox_list (am_lib (amb (quiet t b))) rows
     | None \<Rightarrow> Bad_Request ''invalid node_id: must be a valid UUID''), quiet t b)"
  using api_get_control[OF assms(1,2,3) _ assms(5) cli_path(1), of "ListSandboxesReq q" amb render "quiet t b"]
    handleListSandboxes_run[OF assms(5,6,7)] assms(4) by (simp add: cli_path)

lemma decode_route_list:
  "decode_rows ''routes'' decode_route_row (Some (JObj [(''routes'', JArr (map (\<lambda>r. JObj
     [(''app_name'', JStr (rt_AppName r)), (''sandbox_id'', JStr (rt_SandboxID r)), (''upstream'', JStr (rt_Upstream r))]) rs))])) = Some rs"
proof -
  have row: "decode_route_row (JObj [(''app_name'', JStr (rt_AppName r)), (''sandbox_id'', JStr (rt_SandboxID r)),
      (''upstream'', JStr (rt_Upstream r))]) = (r, True)" for r
    by (simp add: decode_route_row_def decode_simps)
  show ?thesis by (simp add: decode_rows_def decode_list_def object_members_def fold_eq_def row comp_def list_all_iff)
qed

section \<open>Properties\<close>

text \<open>C39. \<^verbatim>\<open>forge sandbox list\<close> against a control plane that knows its token prints exactly the rows of the database that the
  filters select, in the order and with the abbreviations of the code, and changes nothing. The filters are not combined: with
  an application name the others are ignored, with a state the node is; without a filter only the fifty newest
  sandboxes are shown.\<close>

theorem cli_sandbox_list:
  assumes "api_baseURL c = base" and "sv_config s = Some (api_token c, secret)" and "api_token c \<noteq> ''''" and "sv_sandboxReader s"
  shows "run_state (newSandboxListCmd (control_transport s amb render base) c app node st) (quiet t b) =
    (case selected (am_lib (amb (quiet t b))) t app node st of
       Some rows \<Rightarrow> prints (printTable [''ID'', ''APP_NAME'', ''STATE'', ''NODE'', ''URL''] (map row_cells rows))
     | None \<Rightarrow> fails ''listing sandboxes: Bad Request: invalid node_id: must be a valid UUID'', quiet t b)"
proof -
  let ?q = "set_if ''state'' st (set_if ''node_id'' node (set_if ''app_name'' app []))" and ?lib = "am_lib (amb (quiet t b))"
  have ok: "values_ok ?q" by (intro set_if_ok values_ok_Nil)
  have get: "Values_Get ''app_name'' ?q = app" "Values_Get ''node_id'' ?q = node" "Values_Get ''state'' ?q = st"
    "Values_Get ''user_id'' ?q = ''''" "Values_Get ''limit'' ?q = ''''"
    by (simp_all add: Values_Get_set_if set_if_ok values_ok_Nil Values_Get_Nil)
  note run = list_sandboxes_control[OF assms ok get(4,5), of amb render t b, unfolded get]
  show ?thesis
  proof (cases "selected ?lib t app node st")
    case None
    have "result_of render (Bad_Request ''invalid node_id: must be a valid UUID'') = Inl ''Bad Request: invalid node_id: must be a valid UUID''"
      unfolding Bad_Request_def by (subst result_of_problem) simp_all
    with None run show ?thesis by (simp add: newSandboxListCmd_def fails_def)
  next
    case (Some rows)
    obtain raw where "result_of render (sandbox_list ?lib rows) = Inr (raw, rp_Body (sandbox_list ?lib rows))"
      using result_of_sandbox_list by blast
    moreover have "decode_rows ''sandboxes'' decode_sandbox_row (rp_Body (sandbox_list ?lib rows)) =
        Some (map (\<lambda>s. fst (decode_sandbox_row (sandboxToResponse ?lib s (al_RFC3339 ?lib (sb_VerifiedAt s))))) rows)"
      by (rule decode_sandbox_list) (simp add: decode_sandbox_row_response)
    moreover have "sandbox_cells (fst (decode_sandbox_row (sandboxToResponse ?lib r v))) = row_cells r" for r v
      by (simp add: decode_sandbox_row_response sandbox_cells_def row_cells_def)
    ultimately show ?thesis using Some run by (simp add: newSandboxListCmd_def comp_def)
  qed
qed

definition a_cli :: apiClient where
  "a_cli = newAPIClient ''http://cp'' ''key''"

theorem cli_sandbox_list_witness:
  "fst (run_state (newSandboxListCmd (control_transport a_server (\<lambda>_. an_ambient) (\<lambda>_. '''') ''http://cp'') a_cli '''' '''' ''running'')
     (quiet (a_db [a_sandbox ''s'' StateRunning 0, a_sandbox ''u'' StateStopped 0] []) (NewBatcher id))) =
   prints (printTable [''ID'', ''APP_NAME'', ''STATE'', ''NODE'', ''URL''] [row_cells (a_sandbox ''s'' StateRunning 0)])"
proof -
  have "SandboxState_of ''running'' = StateRunning" by code_simp
  then have "selected (am_lib an_ambient) (a_db [a_sandbox ''s'' StateRunning 0, a_sandbox ''u'' StateStopped 0] []) '''' '''' ''running'' =
      Some [a_sandbox ''s'' StateRunning 0]"
    by (simp add: selected_def concrete)
  then show ?thesis
    using cli_sandbox_list[of a_cli "''http://cp''" a_server "''secret''" "\<lambda>_. an_ambient" "\<lambda>_. ''''" "''''" "''''" "''running''"
        "a_db [a_sandbox ''s'' StateRunning 0, a_sandbox ''u'' StateStopped 0] []" "NewBatcher id"]
    by (simp add: a_cli_def newAPIClient_def a_server_def)
qed

lemma drifts_set:
  "set (drifts routed running) = {(a, ''orphan route'') | a. a \<in> set routed \<and> a \<notin> set running} \<union>
    {(a, ''missing route'') | a. a \<notin> set routed \<and> a \<in> set running}"
  by (auto simp: drifts_def)

text \<open>C38. \<^verbatim>\<open>forge routes verify\<close> is right: it reports no drift exactly when the proxy has routes for the running sandboxes and for
  nothing else, and otherwise fails after a table of exactly the routes without a running sandbox and the
  running sandboxes without a route. Nothing changes.\<close>

theorem cli_routes_verify:
  assumes "api_baseURL c = base" and "sv_config s = Some (api_token c, secret)" and "api_token c \<noteq> ''''" and "sv_sandboxReader s"
    and "am_routes (amb (quiet t b)) = Some (Inr rs)"
  shows "\<exists>ds. set ds = {(a, ''orphan route'') | a. a \<in> rt_AppName ` set rs \<and> (\<forall>r \<in> set (sandboxes t). sb_State r = StateRunning \<longrightarrow> sb_AppName r \<noteq> a)} \<union>
      {(a, ''missing route'') | a. a \<notin> rt_AppName ` set rs \<and> (\<exists>r \<in> set (sandboxes t). sb_State r = StateRunning \<and> sb_AppName r = a)} \<and>
    run_state (newRoutesVerifyCmd (control_transport s amb render base) c) (quiet t b) =
      (if ds = [] then prints (''No drift detected -- routes are clean'' @ newline)
       else (printTable [''APP_NAME'', ''ISSUE''] (map (\<lambda>(a, k). [a, k]) ds), Some (''found '' @ show_nat (length ds) @ '' route drift(s)'')),
       quiet t b)"
proof -
  let ?lib = "am_lib (amb (quiet t b))" and ?q = "Values_Set ''state'' ''running'' []"
  let ?rows = "newest_first sb_CreatedAt (filter (\<lambda>r. sb_State r = StateRunning) (sandboxes t))"
  let ?ds = "drifts (map rt_AppName rs) (map sb_AppName ?rows)"
  have ok: "values_ok ?q" by (intro Values_Set_ok values_ok_Nil)
  have get: "Values_Get ''app_name'' ?q = ''''" "Values_Get ''node_id'' ?q = ''''" "Values_Get ''state'' ?q = ''running''"
    "Values_Get ''user_id'' ?q = ''''" "Values_Get ''limit'' ?q = ''''"
    by (simp_all add: Values_Get_Set values_ok_Nil Values_Get_Nil)
  have st: "SandboxState_of ''running'' = StateRunning" by code_simp
  obtain raw where raw: "result_of render (sandbox_list ?lib ?rows) = Inr (raw, rp_Body (sandbox_list ?lib ?rows))"
    using result_of_sandbox_list by blast
  have run: "run_state (api_get (control_transport s amb render base) c ''/v1/sandboxes'' ?q) (quiet t b) =
      (Inr (raw, rp_Body (sandbox_list ?lib ?rows)), quiet t b)"
    using list_sandboxes_control[OF assms(1-4) ok get(4,5), of amb render t b, unfolded get] raw by (simp add: selected_def st)
  have names: "decode_rows ''sandboxes'' decode_running_row (rp_Body (sandbox_list ?lib ?rows)) = Some (map sb_AppName ?rows)"
    by (subst decode_sandbox_list) (simp_all add: decode_running_row_response)
  have "run_state (api_get (control_transport s amb render base) c ''/v1/routes'' []) (quiet t b) =
      (result_of render (fst (run_state (handleListRoutes (Some (Inr rs))) (quiet t b))), quiet t b)"
    using api_get_control[OF assms(1-3) _ values_ok_Nil cli_path(2), of ListRoutesReq amb render "quiet t b"] assms(5)
    by (simp add: cli_path handleListRoutes_def)
  then have "run_state (newRoutesVerifyCmd (control_transport s amb render base) c) (quiet t b) =
      (if ?ds = [] then prints (''No drift detected -- routes are clean'' @ newline)
       else (printTable [''APP_NAME'', ''ISSUE''] (map (\<lambda>(a, k). [a, k]) ?ds), Some (''found '' @ show_nat (length ?ds) @ '' route drift(s)'')),
       quiet t b)"
    using run names by (simp add: newRoutesVerifyCmd_def handleListRoutes_def result_of_def writeJSON_def decode_route_list Let_def)
  moreover have "a \<in> set (map sb_AppName ?rows) \<longleftrightarrow> (\<exists>r \<in> set (sandboxes t). sb_State r = StateRunning \<and> sb_AppName r = a)" for a
    by auto
  then have "set ?ds = {(a, ''orphan route'') | a. a \<in> rt_AppName ` set rs \<and> (\<forall>r \<in> set (sandboxes t). sb_State r = StateRunning \<longrightarrow> sb_AppName r \<noteq> a)} \<union>
      {(a, ''missing route'') | a. a \<notin> rt_AppName ` set rs \<and> (\<exists>r \<in> set (sandboxes t). sb_State r = StateRunning \<and> sb_AppName r = a)}"
    unfolding drifts_set by simp
  ultimately show ?thesis by blast
qed

theorem cli_routes_verify_witness:
  "\<exists>ds. set ds = {(''old'', ''orphan route''), (sb_AppName (a_sandbox ''s'' StateRunning 0), ''missing route'')} \<and>
    fst (run_state (newRoutesVerifyCmd (control_transport a_server (\<lambda>_. an_ambient\<lparr>am_routes := Some (Inr [\<lparr>rt_AppName = ''old'',
        rt_SandboxID = ''o'', rt_Upstream = ''10.0.0.1:3000''\<rparr>])\<rparr>) (\<lambda>_. '''') ''http://cp'') a_cli)
      (quiet (a_db [a_sandbox ''s'' StateRunning 0] []) (NewBatcher id))) =
    (printTable [''APP_NAME'', ''ISSUE''] (map (\<lambda>(a, k). [a, k]) ds), Some (''found '' @ show_nat (length ds) @ '' route drift(s)''))"
proof -
  let ?r = "\<lparr>rt_AppName = ''old'', rt_SandboxID = ''o'', rt_Upstream = ''10.0.0.1:3000''\<rparr>"
  let ?s = "a_sandbox ''s'' StateRunning 0" and ?a = "an_ambient\<lparr>am_routes := Some (Inr [?r])\<rparr>"
  have drift: "{(a, ''orphan route'') | a. a \<in> rt_AppName ` set [?r] \<and>
        (\<forall>r \<in> set (sandboxes (a_db [?s] [])). sb_State r = StateRunning \<longrightarrow> sb_AppName r \<noteq> a)} \<union>
      {(a, ''missing route'') | a. a \<notin> rt_AppName ` set [?r] \<and>
        (\<exists>r \<in> set (sandboxes (a_db [?s] [])). sb_State r = StateRunning \<and> sb_AppName r = a)} =
      {(''old'', ''orphan route''), (sb_AppName ?s, ''missing route'')}" (is "?D = ?E")
    by (auto simp: concrete)
  have "\<exists>ds. set ds = ?D \<and>
    run_state (newRoutesVerifyCmd (control_transport a_server (\<lambda>_. ?a) (\<lambda>_. '''') ''http://cp'') a_cli) (quiet (a_db [?s] []) (NewBatcher id)) =
      (if ds = [] then prints (''No drift detected -- routes are clean'' @ newline)
       else (printTable [''APP_NAME'', ''ISSUE''] (map (\<lambda>(a, k). [a, k]) ds), Some (''found '' @ show_nat (length ds) @ '' route drift(s)'')),
       quiet (a_db [?s] []) (NewBatcher id))"
    by (rule cli_routes_verify[where secret = "''secret''"]) (simp_all add: a_cli_def newAPIClient_def a_server_def)
  then show ?thesis unfolding drift by (rule ex_forward) (elim conjE, simp, fastforce)
qed

text \<open>\<^verbatim>\<open>forge healthcheck\<close> never prints \<^verbatim>\<open>FAIL\<close> for this control plane: it answers a failed ping with 503, which the client
  turns into an error before it looks at the body.\<close>

theorem cli_health:
  assumes "api_baseURL c = base" and "fits_int64 (am_uptime (amb w))"
  shows "run_state (newHealthCmd (control_transport s amb render base) c) w =
    (if am_ping (amb w) then
       prints (''Control Plane: OK'' @ newline @ ''Postgres:      OK'' @ newline @
         ''Uptime:        '' @ formatUptime (am_uptime (amb w)) @ newline)
     else fails (''checking health: HTTP '' @ show_int 503 @ '': '' @
       render (JObj [(''status'', JStr ''error''), (''postgres'', JStr ''unreachable''), (''uptime_seconds'', JNum (of_int (am_uptime (amb w))))])), w)"
proof -
  have "target base (base @ ''/v1/healthz'') = Some (''/v1/healthz'', '''')" by (rule target_base) simp
  then show ?thesis
    using assms sint_of_int64[OF assms(2)]
    by (simp add: newHealthCmd_def getNoAuth_def send_def control_transport_def deliver_def serve_http_def public_routes_def
        RegisterRoutes_def handleHealthz_def writeJSON_def read_body_def parseError_def decode_apiError_def decode_health_def
        decode_simps decode_int64_def fits_int64_def prints_def fails_def)
qed

end
