(* ===== verification/Proxy.thy ===== *)
theory Proxy
  imports Reconciler
begin

text \<open>
  The proxy side of routing: the Caddy client (\<^verbatim>\<open>control/internal/routing/caddy.go\<close>) and the drift detector
  (\<^verbatim>\<open>drift.go\<close>). Caddy itself is not part of the sources: its admin API is a parameter, three functions from
  a request and the state of the server to a reply and the next state. The detector works on the
  interface \<^verbatim>\<open>RouteListFetcher\<close> that the client implements. Go leaves the order of a map's iteration open;
  the two orders are arguments.
\<close>

section \<open>Caddy client\<close>

text \<open>A reply: no request could be built, no response arrived, or a status, the text of the body, and its
  JSON value if it has one.\<close>

datatype http_reply = BadRequest string | NoResponse string | Response int string "json option"

record 'c caddy =
  admin_post :: "string \<Rightarrow> json \<Rightarrow> 'c \<Rightarrow> http_reply \<times> 'c"
  admin_delete :: "string \<Rightarrow> 'c \<Rightarrow> http_reply \<times> 'c"
  admin_get :: "string \<Rightarrow> 'c \<Rightarrow> http_reply \<times> 'c"

record 'c CaddyClient =
  baseURL :: string
  http :: "'c caddy"

definition trim_right_slash :: "string \<Rightarrow> string" where
  "trim_right_slash s = rev (dropWhile (\<lambda>c. c = CHR ''/'') (rev s))"

definition NewCaddyClient :: "string \<Rightarrow> 'c caddy \<Rightarrow> 'c CaddyClient" where
  "NewCaddyClient url srv = \<lparr>baseURL = trim_right_slash url, http = srv\<rparr>"

definition buildRouteJSON :: "Route \<Rightarrow> json" where
  "buildRouteJSON r = JObj
    [(''@id'', JStr (''route-'' @ rt_AppName r)),
     (''handle'', JArr [JObj
        [(''handler'', JStr ''reverse_proxy''),
         (''headers'', JObj [(''request'', JObj [(''set'', JObj
            [(''X-Forwarded-Host'', JArr [JStr ''{http.request.host}'']),
             (''X-Sandbox-ID'', JArr [JStr (rt_SandboxID r)])])])]),
         (''transport'', JObj [(''protocol'', JStr ''http'')]),
         (''upstreams'', JArr [JObj [(''dial'', JStr (rt_Upstream r))]])]]),
     (''match'', JArr [JObj [(''host'', JArr [JStr (rt_AppName r @ ''.myappx.live'')])]])]"

definition status_error :: "string \<Rightarrow> int \<Rightarrow> string \<Rightarrow> string" where
  "status_error what code body = what @ '': status '' @ show_int code @ '': '' @ body"

definition routes_url :: "'c CaddyClient \<Rightarrow> string" where
  "routes_url c = baseURL c @ ''/config/apps/http/servers/srv0/routes''"

definition AddRoute :: "'c CaddyClient \<Rightarrow> Route \<Rightarrow> 'c \<Rightarrow> (string + unit) \<times> 'c" where
  "AddRoute c r s =
    (let (reply, s') = admin_post (http c) (routes_url c) (buildRouteJSON r) s in
     ((case reply of
         BadRequest e \<Rightarrow> Inl (''create request: '' @ e)
       | NoResponse e \<Rightarrow> Inl (''caddy POST: '' @ e)
       | Response code body _ \<Rightarrow>
           if code = 200 then Inr () else Inl (status_error ''caddy AddRoute'' code body)), s'))"

definition RemoveRoute :: "'c CaddyClient \<Rightarrow> string \<Rightarrow> 'c \<Rightarrow> (string + unit) \<times> 'c" where
  "RemoveRoute c appName s =
    (let (reply, s') = admin_delete (http c) (baseURL c @ ''/id/route-'' @ appName) s in
     ((case reply of
         BadRequest e \<Rightarrow> Inl (''create request: '' @ e)
       | NoResponse e \<Rightarrow> Inl (''caddy DELETE: '' @ e)
       | Response code body _ \<Rightarrow>
           if code = 200 \<or> code = 404 then Inr ()
           else Inl (status_error ''caddy RemoveRoute'' code body)), s'))"

text \<open>Decoding of the routes that Caddy returns.\<close>

record caddyRoutePayload =
  cp_ID :: string
  cp_Handle :: "(string \<times> string list) list"

definition decode_upstream :: "json \<Rightarrow> string \<times> bool" where
  "decode_upstream j =
    (let (ms, ok) = object_members j; (d, ok') = decode_field ''dial'' decode_string ms '''' in (d, ok \<and> ok'))"

definition decode_handler :: "json \<Rightarrow> (string \<times> string list) \<times> bool" where
  "decode_handler j =
    (let (ms, ok) = object_members j;
         (h, ok1) = decode_field ''handler'' decode_string ms '''';
         (us, ok2) = decode_field ''upstreams'' (decode_list decode_upstream) ms []
     in ((h, us), ok \<and> ok1 \<and> ok2))"

definition decode_match :: "json \<Rightarrow> string list \<times> bool" where
  "decode_match j =
    (let (ms, ok) = object_members j;
         (hs, ok') = decode_field ''host'' (decode_list (\<lambda>v. decode_string v '''')) ms [] in (hs, ok \<and> ok'))"

definition decode_payload :: "json \<Rightarrow> caddyRoutePayload \<times> bool" where
  "decode_payload j =
    (let (ms, ok) = object_members j;
         (i, ok1) = decode_field ''@id'' decode_string ms '''';
         (_, ok2) = decode_field ''match'' (decode_list decode_match) ms [];
         (hs, ok3) = decode_field ''handle'' (decode_list decode_handler) ms []
     in (\<lparr>cp_ID = i, cp_Handle = hs\<rparr>, ok \<and> ok1 \<and> ok2 \<and> ok3))"

definition parseRoute :: "caddyRoutePayload \<Rightarrow> Route" where
  "parseRoute p =
    \<lparr>rt_AppName = (if prefix ''route-'' (cp_ID p) then drop 6 (cp_ID p) else ''''),
     rt_SandboxID = '''',
     rt_Upstream = (case cp_Handle p of (_, u # _) # _ \<Rightarrow> u | _ \<Rightarrow> '''')\<rparr>"

definition ListRoutes :: "'c CaddyClient \<Rightarrow> 'c \<Rightarrow> (string + Route list) \<times> 'c" where
  "ListRoutes c s =
    (let (reply, s') = admin_get (http c) (routes_url c) s in
     ((case reply of
         BadRequest e \<Rightarrow> Inl (''create request: '' @ e)
       | NoResponse e \<Rightarrow> Inl (''caddy GET: '' @ e)
       | Response code body j \<Rightarrow>
           if code \<noteq> 200 then Inl (status_error ''caddy ListRoutes'' code body)
           else case j of
             None \<Rightarrow> Inl ''decode routes: invalid JSON''
           | Some v \<Rightarrow>
              (case decode_list decode_payload v [] of
                 (raw, ok) \<Rightarrow>
                   if ok then Inr (filter (\<lambda>r. rt_AppName r \<noteq> '''') (map parseRoute raw))
                   else Inl ''decode routes: type mismatch'')), s'))"

fun Apply_adds :: "'c CaddyClient \<Rightarrow> Route list \<Rightarrow> 'c \<Rightarrow> string list \<times> 'c" where
  "Apply_adds c [] s = ([], s)"
| "Apply_adds c (r # rs) s =
    (let (x, s') = AddRoute c r s; (errs, s'') = Apply_adds c rs s'
     in (case x of Inl e \<Rightarrow> (''add '' @ rt_AppName r @ '': '' @ e) # errs | Inr _ \<Rightarrow> errs, s''))"

fun Apply_removes :: "'c CaddyClient \<Rightarrow> string list \<Rightarrow> 'c \<Rightarrow> string list \<times> 'c" where
  "Apply_removes c [] s = ([], s)"
| "Apply_removes c (a # as) s =
    (let (x, s') = RemoveRoute c a s; (errs, s'') = Apply_removes c as s'
     in (case x of Inl e \<Rightarrow> (''remove '' @ a @ '': '' @ e) # errs | Inr _ \<Rightarrow> errs, s''))"

text \<open>\<^verbatim>\<open>errors.Join\<close> of no error is nil.\<close>

definition Apply :: "'c CaddyClient \<Rightarrow> batch \<Rightarrow> 'c \<Rightarrow> (string list + unit) \<times> 'c" where
  "Apply c b s =
    (let (e1, s1) = Apply_adds c (fst b) s; (e2, s2) = Apply_removes c (snd b) s1
     in (if e1 @ e2 = [] then Inr () else Inl (e1 @ e2), s2))"

section \<open>Drift detector\<close>

record 'c RouteListFetcher =
  px_ListRoutes :: "'c \<Rightarrow> (string + Route list) \<times> 'c"
  px_AddRoute :: "Route \<Rightarrow> 'c \<Rightarrow> (string + unit) \<times> 'c"
  px_RemoveRoute :: "string \<Rightarrow> 'c \<Rightarrow> (string + unit) \<times> 'c"

definition caddy_fetcher :: "'c CaddyClient \<Rightarrow> 'c RouteListFetcher" where
  "caddy_fetcher c =
    \<lparr>px_ListRoutes = ListRoutes c, px_AddRoute = AddRoute c, px_RemoveRoute = RemoveRoute c\<rparr>"

definition on_proxy :: "('c \<Rightarrow> 'a \<times> 'c) \<Rightarrow> ('c \<times> world, 'a) state" where
  "on_proxy f = State (\<lambda>(c, w). let (x, c') = f c in (x, (c', w)))"

definition on_store :: "'a query \<Rightarrow> ('c \<times> world, db_error + 'a) state" where
  "on_store q = State (\<lambda>(c, w). let (x, w') = run_state (stmt q) w in (x, (c, w')))"

definition remove_stale :: "'c RouteListFetcher \<Rightarrow> string set \<Rightarrow> string \<Rightarrow> ('c \<times> world, nat) state" where
  "remove_stale px running appName =
    (if appName \<in> running then State_Monad.return 0
     else do {
       x \<leftarrow> on_proxy (px_RemoveRoute px appName);
       State_Monad.return (case x of Inl _ \<Rightarrow> 0 | Inr _ \<Rightarrow> 1) })"

definition add_missing ::
    "'c RouteListFetcher \<Rightarrow> string set \<Rightarrow> string \<times> Sandbox \<Rightarrow> ('c \<times> world, nat) state" where
  "add_missing px routed p = (case p of (appName, sb) \<Rightarrow>
    if appName \<in> routed then State_Monad.return 0
    else case sb_NodeID sb of
      None \<Rightarrow> State_Monad.return 0
    | Some nodeID \<Rightarrow> do {
        r \<leftarrow> on_store (GetNode nodeID);
        case r of
          Inl _ \<Rightarrow> State_Monad.return 0
        | Inr node \<Rightarrow>
            (case sb_HostPort sb of
               None \<Rightarrow> State_Monad.return 0
             | Some port \<Rightarrow> do {
                 x \<leftarrow> on_proxy (px_AddRoute px \<lparr>rt_AppName = appName, rt_SandboxID = sb_ID sb,
                        rt_Upstream = upstream_of node port\<rparr>);
                 State_Monad.return (case x of Inl _ \<Rightarrow> 0 | Inr _ \<Rightarrow> 1) }) })"

text \<open>The keys of \<^verbatim>\<open>caddyMap\<close>, and the entries of \<^verbatim>\<open>pgMap\<close> (the last row of a name wins).\<close>

definition pg_map :: "Sandbox list \<Rightarrow> (string \<times> Sandbox) list" where
  "pg_map sbs = fold (\<lambda>sb m. AList.update (sb_AppName sb) sb m) sbs []"

definition detect ::
    "'c RouteListFetcher \<Rightarrow> (string list \<Rightarrow> string list) \<Rightarrow>
      ((string \<times> Sandbox) list \<Rightarrow> (string \<times> Sandbox) list) \<Rightarrow> ('c \<times> world, unit) state" where
  "detect px ord1 ord2 = do {
     l \<leftarrow> on_proxy (px_ListRoutes px);
     case l of
       Inl _ \<Rightarrow> State_Monad.return ()
     | Inr caddyRoutes \<Rightarrow> do {
         s \<leftarrow> on_store (ListSandboxesByState StateRunning);
         case s of
           Inl _ \<Rightarrow> State_Monad.return ()
         | Inr sbs \<Rightarrow> do {
             _ \<leftarrow> for_each (remove_stale px (set (map sb_AppName sbs)))
                    (ord1 (remdups (map rt_AppName caddyRoutes)));
             _ \<leftarrow> for_each (add_missing px (set (map rt_AppName caddyRoutes))) (ord2 (pg_map sbs));
             State_Monad.return () } } }"

section \<open>What the detector relies on\<close>

text \<open>The documented behaviour of the admin API as the client's interface shows it: the proxy has a table of
  application names and upstream addresses (\<open>view\<close>), which listing reads, adding a new name extends and
  removing a name shrinks.\<close>

definition faithful :: "('c \<Rightarrow> (string \<times> string) list) \<Rightarrow> 'c RouteListFetcher \<Rightarrow> bool" where
  "faithful view px \<longleftrightarrow>
    (\<forall>c. \<exists>rs. px_ListRoutes px c = (Inr rs, c) \<and> map (\<lambda>r. (rt_AppName r, rt_Upstream r)) rs = view c) \<and>
    (\<forall>c r. rt_AppName r \<notin> fst ` set (view c) \<longrightarrow>
       (\<exists>c'. px_AddRoute px r c = (Inr (), c') \<and> view c' = view c @ [(rt_AppName r, rt_Upstream r)])) \<and>
    (\<forall>c a. \<exists>c'. px_RemoveRoute px a c = (Inr (), c') \<and> view c' = filter (\<lambda>x. fst x \<noteq> a) (view c))"

lemma faithfulD:
  assumes "faithful view px"
  shows "\<exists>rs. px_ListRoutes px c = (Inr rs, c) \<and> map (\<lambda>r. (rt_AppName r, rt_Upstream r)) rs = view c"
    and "rt_AppName r \<notin> fst ` set (view c) \<Longrightarrow>
      \<exists>c'. px_AddRoute px r c = (Inr (), c') \<and> view c' = view c @ [(rt_AppName r, rt_Upstream r)]"
    and "\<exists>c'. px_RemoveRoute px a c = (Inr (), c') \<and> view c' = filter (\<lambda>x. fst x \<noteq> a) (view c)"
  using assms by (simp_all add: faithful_def)

lemma run_on_proxy: "run_state (on_proxy f) (c, w) = (fst (f c), (snd (f c), w))"
  by (simp add: on_proxy_def split: prod.split)

lemma run_on_store: "run_state (on_store q) (c, quiet t b) = (fst (q t), (c, quiet (snd (q t)) b))"
  by (simp add: on_store_def run_stmt)

lemma remove_loop:
  assumes "faithful view px"
  shows "\<exists>c'. snd (run_state (for_each (remove_stale px R) as) (c, w)) = (c', w) \<and>
    set (view c') = {x \<in> set (view c). fst x \<notin> set as \<or> fst x \<in> R}"
proof (induction as arbitrary: c)
  case (Cons a as)
  obtain c1 where c1: "px_RemoveRoute px a c = (Inr (), c1)" "view c1 = filter (\<lambda>x. fst x \<noteq> a) (view c)"
    using faithfulD(3)[OF assms] by blast
  let ?c = "if a \<in> R then c else c1"
  have "snd (run_state (remove_stale px R a) (c, w)) = (?c, w)"
    by (simp add: remove_stale_def run_monad run_on_proxy c1)
  moreover obtain c' where "snd (run_state (for_each (remove_stale px R) as) (?c, w)) = (c', w)"
    "set (view c') = {x \<in> set (view ?c). fst x \<notin> set as \<or> fst x \<in> R}" using Cons by blast
  ultimately show ?case using c1(2)
    by (intro exI[of _ c']) (auto simp add: for_each_state simp del: for_each.simps)
qed (simp add: for_each_state)

definition routable :: "tables \<Rightarrow> Sandbox \<Rightarrow> string option" where
  "routable t sb = (case sb_NodeID sb of
     None \<Rightarrow> None
   | Some n \<Rightarrow> (case node_at t n of
       None \<Rightarrow> None
     | Some nd \<Rightarrow> map_option (upstream_of nd) (sb_HostPort sb)))"

lemma add_loop:
  assumes "faithful view px" and "distinct (map fst ps)"
    and "\<forall>p \<in> set ps. fst p \<in> S \<or> fst p \<notin> fst ` set (view c)"
  shows "\<exists>c'. snd (run_state (for_each (add_missing px S) ps) (c, quiet t b)) = (c', quiet t b) \<and>
    set (view c') = set (view c) \<union> {(a, u). a \<notin> S \<and> (\<exists>sb. (a, sb) \<in> set ps \<and> routable t sb = Some u)}"
  using assms(2,3)
proof (induction ps arbitrary: c)
  case (Cons p ps)
  obtain a sb where p: "p = (a, sb)" by (cases p)
  show ?case
  proof (cases "a \<in> S \<or> routable t sb = None")
    case True
    then have "snd (run_state (add_missing px S p) (c, quiet t b)) = (c, quiet t b)"
      by (auto simp: p add_missing_def run_monad run_on_store GetNode_def routable_def split: option.split)
    moreover obtain c' where "snd (run_state (for_each (add_missing px S) ps) (c, quiet t b)) = (c', quiet t b)"
      "set (view c') = set (view c) \<union> {(a, u). a \<notin> S \<and> (\<exists>sb. (a, sb) \<in> set ps \<and> routable t sb = Some u)}"
    proof -
      have "distinct (map fst ps)" "\<forall>p \<in> set ps. fst p \<in> S \<or> fst p \<notin> fst ` set (view c)"
        using Cons.prems by simp_all
      from Cons.IH[OF this] show ?thesis using that by blast
    qed
    ultimately show ?thesis using True p
      by (intro exI[of _ c']) (auto simp add: for_each_state simp del: for_each.simps)
  next
    case False
    then obtain u where u: "routable t sb = Some u" "a \<notin> S" by auto
    let ?r = "\<lparr>rt_AppName = a, rt_SandboxID = sb_ID sb, rt_Upstream = u\<rparr>"
    obtain c1 where c1: "px_AddRoute px ?r c = (Inr (), c1)" "view c1 = view c @ [(a, u)]"
      using faithfulD(2)[OF assms(1), of ?r c] Cons.prems(2) p u by auto
    have step: "snd (run_state (add_missing px S p) (c, quiet t b)) = (c1, quiet t b)"
      using u c1 by (auto simp: p add_missing_def run_monad run_on_store run_on_proxy GetNode_def routable_def
          split: option.splits)
    have d: "distinct (map fst ps)" using Cons.prems by simp
    have "\<forall>q \<in> set ps. fst q \<in> S \<or> fst q \<notin> fst ` set (view c1)"
    proof
      fix q assume "q \<in> set ps"
      then have "fst q \<noteq> a" and "fst q \<in> S \<or> fst q \<notin> fst ` set (view c)"
        using Cons.prems p by auto
      then show "fst q \<in> S \<or> fst q \<notin> fst ` set (view c1)" by (simp add: c1(2))
    qed
    from Cons.IH[OF d this] obtain c' where
      "snd (run_state (for_each (add_missing px S) ps) (c1, quiet t b)) = (c', quiet t b)"
      "set (view c') = set (view c1) \<union> {(a, u). a \<notin> S \<and> (\<exists>sb. (a, sb) \<in> set ps \<and> routable t sb = Some u)}"
      by blast
    then show ?thesis using step p u c1(2)
      by (intro exI[of _ c']) (auto simp add: for_each_state simp del: for_each.simps)
  qed
qed (simp add: for_each_state)

lemma update_fresh: "k \<notin> fst ` set m \<Longrightarrow> AList.update k v m = m @ [(k, v)]"
  by (induction m) auto

lemma pg_map_distinct:
  assumes "distinct (map sb_AppName sbs)"
  shows "pg_map sbs = map (\<lambda>sb. (sb_AppName sb, sb)) sbs"
proof -
  have "fold (\<lambda>sb m. AList.update (sb_AppName sb) sb m) sbs m = m @ map (\<lambda>sb. (sb_AppName sb, sb)) sbs"
    if "sb_AppName ` set sbs \<inter> fst ` set m = {}" for m
    using assms that by (induction sbs arbitrary: m) (auto simp: update_fresh)
  from this[of "[]"] show ?thesis by (simp add: pg_map_def)
qed

section \<open>Properties\<close>

text \<open>A route survives the way to the proxy and back: the document built for a route decodes without a
  type error and parses to the same application name and upstream; only the sandbox id, which goes into
  a header, is not read back.\<close>

theorem parseRoute_buildRouteJSON:
  "snd (decode_payload (buildRouteJSON r)) \<and>
   parseRoute (fst (decode_payload (buildRouteJSON r))) = r\<lparr>rt_SandboxID := ''''\<rparr>"
  by (simp add: buildRouteJSON_def decode_payload_def object_members_def fold_eq_def lower_char_def
      decode_list_def decode_string_def decode_match_def decode_handler_def decode_upstream_def parseRoute_def)


text \<open>A proxy that keeps its table as a list.\<close>

definition list_proxy :: "(string \<times> string) list RouteListFetcher" where
  "list_proxy =
    \<lparr>px_ListRoutes = (\<lambda>c. (Inr (map (\<lambda>(a, u). \<lparr>rt_AppName = a, rt_SandboxID = '''', rt_Upstream = u\<rparr>) c), c)),
     px_AddRoute = (\<lambda>r c. (Inr (), c @ [(rt_AppName r, rt_Upstream r)])),
     px_RemoveRoute = (\<lambda>a c. (Inr (), filter (\<lambda>x. fst x \<noteq> a) c))\<rparr>"


end
