(* ===== verification/Filepush.thy ===== *)
theory Filepush
  imports Signed_URL Executor
begin

text \<open>
  The file push endpoint of an agent, \<^verbatim>\<open>agent/internal/filepush\<close>: the writer, which checks every path and
  writes, creates or deletes files below a code directory, and the HTTP handler in front of it. The
  operating system is an argument that answers every call with success or failure and may do anything to
  its own state; \<open>fp_calls\<close> lists the calls made. A tar archive is given as what the readers of \<^verbatim>\<open>compress/gzip\<close>
  and \<^verbatim>\<open>archive/tar\<close> deliver: the headers in order, the bytes of each entry and whether they could all be
  read, and how the stream ends. Paths are lexical: symbolic links below the code directory are outside
  the model.
\<close>

section \<open>Paths\<close>

definition protectedFiles :: "string list" where
  "protectedFiles = [''metro.config.js'', ''metro.config.ts'', ''metro.config.cjs'', ''metro.config.mjs'']"

definition isValidPath :: "string \<Rightarrow> bool" where
  "isValidPath p =
    (if p = '''' then False
     else if IsAbs p then False
     else let clean = Clean p in
       if ''..'' \<in> set (slashes clean) then False
       else if clean \<in> set protectedFiles then False
       else True)"

section \<open>Base64\<close>

definition b64_value :: "char \<Rightarrow> nat option" where
  "b64_value c = (let n = of_char c in
     if 65 \<le> n \<and> n \<le> 90 then Some (n - 65)
     else if 97 \<le> n \<and> n \<le> 122 then Some (n - 71)
     else if 48 \<le> n \<and> n \<le> 57 then Some (n + 4)
     else if c = CHR ''+'' then Some 62
     else if c = CHR ''/'' then Some 63 else None)"

definition b64_bytes :: "nat \<Rightarrow> nat \<Rightarrow> nat \<Rightarrow> nat \<Rightarrow> nat \<Rightarrow> string" where
  "b64_bytes k a b c d =
    (let n = ((a * 64 + b) * 64 + c) * 64 + d
     in take k [char_of (n div 65536), char_of (n div 256 mod 256), char_of (n mod 256)])"

fun b64_groups :: "string \<Rightarrow> string option" where
  "b64_groups [] = Some []"
| "b64_groups (a # b # c # d # rest) =
    (case (b64_value a, b64_value b) of
       (Some x, Some y) \<Rightarrow>
         if c = CHR ''='' \<and> d = CHR ''='' \<and> rest = [] then Some (b64_bytes 1 x y 0 0)
         else (case b64_value c of
           None \<Rightarrow> None
         | Some z \<Rightarrow>
             if d = CHR ''='' \<and> rest = [] then Some (b64_bytes 2 x y z 0)
             else (case (b64_value d, b64_groups rest) of
               (Some w, Some s) \<Rightarrow> Some (b64_bytes 3 x y z w @ s)
             | _ \<Rightarrow> None))
     | _ \<Rightarrow> None)"
| "b64_groups _ = None"

text \<open>\<^verbatim>\<open>base64.StdEncoding.DecodeString\<close>: line breaks are skipped, padding is required.\<close>

definition base64_decode :: "string \<Rightarrow> string option" where
  "base64_decode s = b64_groups (filter (\<lambda>c. of_char c \<noteq> (10 :: nat) \<and> of_char c \<noteq> (13 :: nat)) s)"

section \<open>Writer\<close>

record FileEntry =
  fe_Path :: string
  fe_Content :: string
  fe_Delete :: bool

record WriteResult =
  wr_Written :: "string list"
  wr_Failed :: "string list"

datatype fs_call =
    OsRemove string
  | OsMkdirAll string
  | OsWriteFile string string
  | OsCreate string
  | OsWrite string string

record 'e files =
  fp_outside :: 'e
  fp_calls :: "fs_call list"

type_synonym 'e os = "fs_call \<Rightarrow> 'e \<Rightarrow> bool \<times> 'e"

definition syscall :: "'e os \<Rightarrow> fs_call \<Rightarrow> ('e files, bool) state" where
  "syscall os call = State (\<lambda>x. let (ok, e) = os call (fp_outside x) in
     (ok, \<lparr>fp_outside = e, fp_calls = fp_calls x @ [call]\<rparr>))"

definition and_then :: "('s, bool) state \<Rightarrow> ('s, bool) state \<Rightarrow> ('s, bool) state" where
  "and_then a b = do { ok \<leftarrow> a; if ok then b else State_Monad.return False }"

definition write_entry :: "'e os \<Rightarrow> string \<Rightarrow> FileEntry \<Rightarrow> ('e files, bool) state" where
  "write_entry os codeDir f =
    (if \<not> isValidPath (fe_Path f) then State_Monad.return False
     else let fullPath = Path_Join [codeDir, fe_Path f] in
       if fe_Delete f then syscall os (OsRemove fullPath)
       else case base64_decode (fe_Content f) of
         None \<Rightarrow> State_Monad.return False
       | Some data \<Rightarrow>
           and_then (syscall os (OsMkdirAll (Dir fullPath))) (syscall os (OsWriteFile fullPath data)))"

definition sort_results :: "(string \<times> bool) list \<Rightarrow> WriteResult" where
  "sort_results rs = \<lparr>wr_Written = map fst (filter snd rs), wr_Failed = map fst (filter (Not \<circ> snd) rs)\<rparr>"

definition WriteFiles :: "'e os \<Rightarrow> string \<Rightarrow> FileEntry list \<Rightarrow> ('e files, WriteResult) state" where
  "WriteFiles os codeDir fs = do {
     oks \<leftarrow> for_each (write_entry os codeDir) fs;
     State_Monad.return (sort_results (zip (map fe_Path fs) oks)) }"

record tar_entry =
  te_Regular :: bool
  te_Name :: string
  te_Data :: string
  te_Readable :: bool

record tar_archive =
  ta_Gzip :: "string option"
  ta_Entries :: "tar_entry list"
  ta_End :: "string option"

definition write_tar_entry :: "'e os \<Rightarrow> string \<Rightarrow> tar_entry \<Rightarrow> ('e files, bool) state" where
  "write_tar_entry os codeDir h =
    (let name = Clean (te_Name h) in
     if \<not> isValidPath name then State_Monad.return False
     else let fullPath = Path_Join [codeDir, name] in
       and_then (syscall os (OsMkdirAll (Dir fullPath)))
         (and_then (syscall os (OsCreate fullPath))
           (do { ok \<leftarrow> syscall os (OsWrite fullPath (te_Data h)); State_Monad.return (ok \<and> te_Readable h) })))"

definition WriteTar :: "'e os \<Rightarrow> string \<Rightarrow> tar_archive \<Rightarrow> ('e files, WriteResult \<times> string option) state" where
  "WriteTar os codeDir r =
    (case ta_Gzip r of
       Some err \<Rightarrow> State_Monad.return (sort_results [], Some (''opening gzip reader: '' @ err))
     | None \<Rightarrow> do {
         let hs = filter te_Regular (ta_Entries r);
         oks \<leftarrow> for_each (write_tar_entry os codeDir) hs;
         State_Monad.return (sort_results (zip (map (Clean \<circ> te_Name) hs) oks),
           map_option (append ''reading tar entry: '') (ta_End r)) })"

section \<open>Handler\<close>

text \<open>What the handler reads of a request. The body is \<^verbatim>\<open>None\<close> where it is not a JSON document.\<close>

record push_request =
  pr_TLS :: bool
  pr_Host :: string
  pr_RequestURI :: string
  pr_Path :: string
  pr_ContentType :: string
  pr_ContentLength :: int
  pr_JSON :: "json option"
  pr_Tar :: tar_archive

datatype push_response =
    Forbidden url_error
  | PushError int string
  | PushResult WriteResult

definition decode_FileEntry :: "json \<Rightarrow> FileEntry \<times> bool" where
  "decode_FileEntry j =
    (let (ms, ok) = object_members j;
         (p, ok1) = decode_field ''path'' decode_string ms '''';
         (c, ok2) = decode_field ''content'' decode_string ms '''';
         (d, ok3) = decode_field ''delete'' decode_bool ms False
     in (\<lparr>fe_Path = p, fe_Content = c, fe_Delete = d\<rparr>, ok \<and> ok1 \<and> ok2 \<and> ok3))"

definition decode_push :: "json option \<Rightarrow> FileEntry list option" where
  "decode_push b = (case b of None \<Rightarrow> None | Some j \<Rightarrow>
    (let (ms, ok) = object_members j;
         (fs, ok1) = decode_field ''files'' (decode_list decode_FileEntry) ms []
     in if ok \<and> ok1 then Some fs else None))"

definition extractSandboxID :: "string \<Rightarrow> string" where
  "extractSandboxID path =
    (case slashes (trim_prefix ''/'' path) of
       a # b # c # d # _ \<Rightarrow> if a = ''v1'' \<and> b = ''sandboxes'' \<and> d = ''files'' then c else ''''
     | _ \<Rightarrow> '''')"

definition handleJSON :: "'e os \<Rightarrow> push_request \<Rightarrow> string \<Rightarrow> ('e files, push_response) state" where
  "handleJSON os r codeDir =
    (if pr_ContentLength r = 0 then State_Monad.return (PushError 400 ''empty request body'')
     else case decode_push (pr_JSON r) of
       None \<Rightarrow> State_Monad.return (PushError 400 ''invalid JSON body'')
     | Some fs \<Rightarrow> do { result \<leftarrow> WriteFiles os codeDir fs; State_Monad.return (PushResult result) })"

definition handleTar :: "'e os \<Rightarrow> push_request \<Rightarrow> string \<Rightarrow> ('e files, push_response) state" where
  "handleTar os r codeDir =
    (if pr_ContentLength r = 0 then State_Monad.return (PushError 400 ''empty request body'')
     else do {
       (result, err) \<leftarrow> WriteTar os codeDir (pr_Tar r);
       State_Monad.return (case err of
         Some _ \<Rightarrow> PushError 500 ''tar extraction failed''
       | None \<Rightarrow> PushResult result) })"

definition request_url :: "push_request \<Rightarrow> string" where
  "request_url r = (if pr_TLS r then ''https'' else ''http'') @ ''://'' @ pr_Host r @ pr_RequestURI r"

definition push_ServeHTTP ::
    "url_lib \<Rightarrow> mac \<Rightarrow> int \<Rightarrow> string \<Rightarrow> (string \<Rightarrow> string + string) \<Rightarrow> 'e os \<Rightarrow> push_request \<Rightarrow>
      ('e files, push_response) state" where
  "push_ServeHTTP lib mac now hmacSecret resolver os r =
    (case VerifyURL lib mac now (request_url r) hmacSecret of
       Inl err \<Rightarrow> State_Monad.return (Forbidden err)
     | Inr _ \<Rightarrow>
         (let sandboxID = extractSandboxID (pr_Path r) in
          if sandboxID = '''' then
            State_Monad.return (PushError 400 ''invalid URL path: cannot extract sandbox ID'')
          else case resolver sandboxID of
            Inl _ \<Rightarrow> State_Monad.return (PushError 404 ''sandbox not found on this node'')
          | Inr codeDir \<Rightarrow>
              if prefix ''application/json'' (pr_ContentType r) then handleJSON os r codeDir
              else if prefix ''application/x-tar'' (pr_ContentType r) then handleTar os r codeDir
              else State_Monad.return (PushError 400 (''unsupported content type: '' @ pr_ContentType r))))"

section \<open>Confinement\<close>

fun confined :: "string \<Rightarrow> fs_call \<Rightarrow> bool" where
  "confined d (OsMkdirAll p) \<longleftrightarrow> at_or_below d p \<or> p = Dir (Clean d)"
| "confined d (OsRemove p) \<longleftrightarrow> at_or_below d p \<and> p \<notin> (\<lambda>f. Path_Join [d, f]) ` set protectedFiles"
| "confined d (OsWriteFile p _) \<longleftrightarrow> at_or_below d p \<and> p \<notin> (\<lambda>f. Path_Join [d, f]) ` set protectedFiles"
| "confined d (OsCreate p) \<longleftrightarrow> at_or_below d p \<and> p \<notin> (\<lambda>f. Path_Join [d, f]) ` set protectedFiles"
| "confined d (OsWrite p _) \<longleftrightarrow> at_or_below d p \<and> p \<notin> (\<lambda>f. Path_Join [d, f]) ` set protectedFiles"

lemma isValidPath_parts:
  assumes "isValidPath p"
  shows "\<not> IsAbs p" and "dotdot \<notin> set (parts p)" and "path_string False (parts p) \<notin> set protectedFiles"
proof -
  have p: "p \<noteq> ''''" "\<not> IsAbs p" "''..'' \<notin> set (slashes (Clean p))" "Clean p \<notin> set protectedFiles"
    using assms by (auto simp: isValidPath_def Let_def split: if_splits)
  then have "Clean p = path_string False (parts p)" by (simp add: Clean_def)
  moreover have "\<forall>w \<in> set (parts p). proper w" using parts_proper by blast
  ultimately show "\<not> IsAbs p" "dotdot \<notin> set (parts p)" "path_string False (parts p) \<notin> set protectedFiles"
    using p slashes_path_string[of "parts p"] by (auto simp: dotdot_def split: if_splits)
qed

lemma protected_parts: "m \<in> set protectedFiles \<Longrightarrow> \<not> IsAbs m \<and> parts m = [m]"
  by (auto simp: protectedFiles_def parts_def IsAbs_def clean_step_def dotdot_def)

lemma valid_target:
  assumes "isValidPath p" and "d \<noteq> ''''"
  shows "at_or_below d (Path_Join [d, p])" and "Path_Join [d, p] \<notin> (\<lambda>f. Path_Join [d, f]) ` set protectedFiles"
proof -
  note v = isValidPath_parts[OF assms(1)]
  show "at_or_below d (Path_Join [d, p])" by (rule Path_Join_at_or_below[OF assms(2) v(1,2)])
  show "Path_Join [d, p] \<notin> (\<lambda>f. Path_Join [d, f]) ` set protectedFiles"
  proof
    assume "Path_Join [d, p] \<in> (\<lambda>f. Path_Join [d, f]) ` set protectedFiles"
    then obtain m where m: "m \<in> set protectedFiles" and eq: "Path_Join [d, p] = Path_Join [d, m]" by blast
    have mp: "\<not> IsAbs m" "parts m = [m]" "dotdot \<notin> set (parts m)"
      using protected_parts[OF m] m by (auto simp: protectedFiles_def dotdot_def)
    have "normal (IsAbs d) (parts d @ parts q)" if "dotdot \<notin> set (parts q)" for q
      using normal_append[OF parts_normal] parts_proper that by metis
    then have "parts d @ parts p = parts d @ parts m"
      using eq parts_path_string[where sfx = "''''"] v(2) mp(3)
      unfolding Path_Join_parts[OF assms(2) v(1,2)] Path_Join_parts[OF assms(2) mp(1,3)]
      by (metis append_Nil2)
    with mp v(3) m show False by (simp add: path_string_def)
  qed
qed

lemma confined_target:
  assumes "isValidPath p" and "d \<noteq> ''''" and "t = Path_Join [d, p]"
  shows "confined d (OsMkdirAll (Dir t))" "confined d (OsRemove t)" "confined d (OsWriteFile t s)"
    "confined d (OsCreate t)" "confined d (OsWrite t s)"
  using valid_target[OF assms(1,2)] Dir_at_or_below[OF valid_target(1)[OF assms(1,2)] assms(2)]
  by (auto simp: assms(3))

text \<open>A step that makes only calls that satisfy \<open>P\<close>.\<close>

definition only_calls :: "(fs_call \<Rightarrow> bool) \<Rightarrow> ('e files, 'a) state \<Rightarrow> bool" where
  "only_calls P m \<longleftrightarrow> (\<forall>x. \<exists>cs. fp_calls (snd (run_state m x)) = fp_calls x @ cs \<and> list_all P cs)"

lemma only_calls_return [simp]: "only_calls P (State_Monad.return a)"
  by (simp add: only_calls_def)

lemma only_calls_bind:
  assumes "only_calls P m" and "\<And>a. only_calls P (f a)"
  shows "only_calls P (State_Monad.bind m f)"
  unfolding only_calls_def
proof
  fix x
  from assms(1) obtain cs where "fp_calls (snd (run_state m x)) = fp_calls x @ cs" "list_all P cs"
    unfolding only_calls_def by blast
  moreover from assms(2)[of "fst (run_state m x)"] obtain cs' where
    "fp_calls (snd (run_state (f (fst (run_state m x))) (snd (run_state m x)))) = fp_calls (snd (run_state m x)) @ cs'"
    "list_all P cs'" unfolding only_calls_def by blast
  ultimately show "\<exists>cs. fp_calls (snd (run_state (State_Monad.bind m f) x)) = fp_calls x @ cs \<and> list_all P cs"
    by (auto simp: run_state_bind split: prod.split intro!: exI[of _ "cs @ cs'"])
qed

lemma only_calls_syscall: "P c \<Longrightarrow> only_calls P (syscall os c)"
  by (auto simp: only_calls_def syscall_def split: prod.split)

lemma only_calls_and_then: "only_calls P a \<Longrightarrow> only_calls P b \<Longrightarrow> only_calls P (and_then a b)"
  unfolding and_then_def by (rule only_calls_bind) auto

lemma only_calls_for_each: "(\<And>y. only_calls P (f y)) \<Longrightarrow> only_calls P (for_each f ys)"
  by (induction ys) (auto intro!: only_calls_bind)

lemmas only_calls_rules = only_calls_bind only_calls_syscall only_calls_and_then only_calls_for_each only_calls_return

lemma write_entry_confined: "d \<noteq> '''' \<Longrightarrow> only_calls (confined d) (write_entry os d f)"
  unfolding write_entry_def Let_def
  by (auto split: option.split intro!: only_calls_rules confined_target)

lemma write_tar_entry_confined: "d \<noteq> '''' \<Longrightarrow> only_calls (confined d) (write_tar_entry os d h)"
  unfolding write_tar_entry_def Let_def
  by (auto intro!: only_calls_rules confined_target)

lemma WriteFiles_confined: "d \<noteq> '''' \<Longrightarrow> only_calls (confined d) (WriteFiles os d fs)"
  unfolding WriteFiles_def by (intro only_calls_rules write_entry_confined)

lemma WriteTar_confined: "d \<noteq> '''' \<Longrightarrow> only_calls (confined d) (WriteTar os d r)"
  unfolding WriteTar_def Let_def by (auto split: option.split intro!: only_calls_rules write_tar_entry_confined)

lemma handlers_confined:
  assumes "d \<noteq> ''''"
  shows "only_calls (confined d) (handleJSON os r d)" "only_calls (confined d) (handleTar os r d)"
  unfolding handleJSON_def handleTar_def
  using WriteFiles_confined[OF assms, of os] WriteTar_confined[OF assms, of os]
  by (auto split: option.split prod.split intro!: only_calls_rules)

lemma CodeDir_nonempty: "CodeDir i x = Inr d \<Longrightarrow> d \<noteq> ''''"
  by (auto simp: CodeDir_def split: option.splits)

lemma push_calls:
  "\<exists>calls. fp_calls (snd (run_state (push_ServeHTTP lib mac now secret (\<lambda>i. CodeDir i ex) os r) x)) = fp_calls x @ calls \<and>
    list_all (\<lambda>c. (\<exists>u. VerifyURL lib mac now (request_url r) secret = Inr u) \<and>
      (\<exists>d. CodeDir (extractSandboxID (pr_Path r)) ex = Inr d \<and> confined d c)) calls"
proof (cases "(\<exists>u. VerifyURL lib mac now (request_url r) secret = Inr u) \<and> extractSandboxID (pr_Path r) \<noteq> '''' \<and>
    (\<exists>d. CodeDir (extractSandboxID (pr_Path r)) ex = Inr d)")
  case False
  then have "snd (run_state (push_ServeHTTP lib mac now secret (\<lambda>i. CodeDir i ex) os r) x) = x"
    by (auto simp: push_ServeHTTP_def Let_def split: sum.split)
  then show ?thesis by simp
next
  case True
  then obtain u d where v: "VerifyURL lib mac now (request_url r) secret = Inr u"
    and d: "CodeDir (extractSandboxID (pr_Path r)) ex = Inr d" and i: "extractSandboxID (pr_Path r) \<noteq> ''''" by blast
  have "only_calls (confined d) (push_ServeHTTP lib mac now secret (\<lambda>i. CodeDir i ex) os r)"
    using v d i handlers_confined[OF CodeDir_nonempty[OF d], of os r] by (simp add: push_ServeHTTP_def)
  then obtain calls where
    "fp_calls (snd (run_state (push_ServeHTTP lib mac now secret (\<lambda>i. CodeDir i ex) os r) x)) = fp_calls x @ calls"
    "list_all (confined d) calls" unfolding only_calls_def by blast
  with v d show ?thesis by (auto simp: list_all_iff)
qed

section \<open>Properties\<close>

text \<open>C29. A pushed file stays in its sandbox: whatever the request and whatever the operating system answers, a
  request that is not signed or whose sandbox the agent does not track touches nothing, and every call of an
  accepted one removes, creates or writes a path at or below the code directory of the sandbox named in the
  URL and none of the protected Metro configurations; only the parent of the code directory may be
  (re-)created besides, for a path that means the code directory itself.\<close>

theorem push_confined:
  "\<exists>calls. fp_calls (snd (run_state (push_ServeHTTP lib mac now secret (\<lambda>i. CodeDir i ex) os r) x)) = fp_calls x @ calls \<and>
    list_all (\<lambda>c. (\<exists>u. VerifyURL lib mac now (request_url r) secret = Inr u) \<and>
      (\<exists>d. CodeDir (extractSandboxID (pr_Path r)) ex = Inr d \<and> confined d c)) calls"
  by (rule push_calls)

end
