(* ===== verification/Agent_Process.thy ===== *)
theory Agent_Process
  imports Agent Filepush
begin

text \<open>
  The agent as a process: its configuration (\<^verbatim>\<open>agent/internal/config/config.go\<close>), the wiring, startup, HTTP server and shutdown
  of \<^verbatim>\<open>agent/internal/agent/agent.go\<close>, the ticker of \<^verbatim>\<open>agent/internal/health/heartbeat.go\<close> and \<^verbatim>\<open>agent/cmd/forge-agent/main.go\<close>.
  After startup the goroutines run concurrently; a run of the agent is a sequence of their rounds, in any order.
\<close>

section \<open>Configuration and construction\<close>

text \<open>\<^verbatim>\<open>envconfig\<close> fills the fields; what it returns is an argument of \<open>agent_main\<close>.\<close>

record agent_config =
  cf_ControlURL :: string
  cf_Hostname :: string
  cf_TailscaleIP :: string
  cf_AgentPort :: int
  cf_PortRangeMin :: int
  cf_PortRangeMax :: int
  cf_HMACSecret :: string
  cf_SandboxDir :: string
  cf_AgentVersion :: string
  cf_SandboxImage :: string
  cf_CapacityMB :: int
  cf_CapacityCPU :: rat
  cf_APIToken :: string

text \<open>The executor holds the port allocator and, as its outside, the Docker client and the client of the control plane.
  The watcher, the heartbeat sender, the puller, the snapshotter and the file push handler have no state but these; \<open>ag_files\<close> is
  the file system that pushes write to, \<open>ag_httpServer\<close> the address the HTTP server listens on.\<close>

record ('d, 'n, 'f) Agent =
  ag_cfg :: agent_config
  ag_executor :: "('d \<times> 'n Client) executor"
  ag_files :: "'f files"
  ag_httpServer :: "string option"

definition registration :: "agent_config \<Rightarrow> RegisterRequest" where
  "registration cfg = \<lparr>rr_Hostname = cf_Hostname cfg, rr_TailscaleIP = cf_TailscaleIP cfg, rr_AgentListenPort = cf_AgentPort cfg,
     rr_CapacityMB = cf_CapacityMB cfg, rr_CapacityCPU = cf_CapacityCPU cfg, rr_AgentVersion = cf_AgentVersion cfg\<rparr>"

definition Agent_New :: "agent_config \<Rightarrow> string + 'd \<Rightarrow> 'n \<Rightarrow> 'f files \<Rightarrow> string + ('d, 'n, 'f) Agent" where
  "Agent_New cfg dockerClient net fs =
    (case dockerClient of
       Inl e \<Rightarrow> Inl (''agent: create docker client: '' @ e)
     | Inr d \<Rightarrow>
         (let portAlloc = NewAllocator (cf_PortRangeMin cfg) (cf_PortRangeMax cfg);
              ctrlClient = NewClient net (cf_ControlURL cfg) (registration cfg) (cf_APIToken cfg)
          in Inr \<lparr>ag_cfg = cfg, ag_executor = NewCommandExecutor (d, ctrlClient) portAlloc (cf_SandboxDir cfg),
                  ag_files = fs, ag_httpServer = None\<rparr>))"

section \<open>The HTTP server of the agent\<close>

text \<open>The multiplexer of Go's library on the three patterns of \<^verbatim>\<open>Run\<close>: it first redirects to the cleaned path, a wildcard
  matches one non-empty segment, and \<^verbatim>\<open>GET\<close> also matches \<^verbatim>\<open>HEAD\<close>. Segments are taken without percent-encoding.\<close>

definition cleanPath :: "string \<Rightarrow> string" where
  "cleanPath p =
    (if p = '''' then ''/''
     else let p = (if hd p = CHR ''/'' then p else CHR ''/'' # p); np = Clean p
          in if last p = CHR ''/'' \<and> np \<noteq> ''/'' then np @ ''/'' else np)"

datatype agent_route = AgentHealthz | PushFiles string | ContainerLookup string

definition agent_patterns :: "string \<Rightarrow> (string \<times> agent_route) list" where
  "agent_patterns path =
    (case slashes path of
       ['''', a] \<Rightarrow> if a = ''healthz'' then [(''GET'', AgentHealthz)] else []
     | ['''', v, c, name] \<Rightarrow> if v = ''v1'' \<and> c = ''containers'' \<and> name \<noteq> '''' then [(''GET'', ContainerLookup name)] else []
     | ['''', v, s, i, f] \<Rightarrow> if v = ''v1'' \<and> s = ''sandboxes'' \<and> i \<noteq> '''' \<and> f = ''files'' then [(''POST'', PushFiles i)] else []
     | _ \<Rightarrow> [])"

datatype agent_answer =
    Moved string
  | Plain int string
  | Document int "json option"
  | Pushed push_response

definition agent_handleHealthz :: agent_answer where
  "agent_handleHealthz = Document 200 (Some (JObj [(''status'', JStr ''ok'')]))"

text \<open>A text ends with a newline, as \<^verbatim>\<open>http.Error\<close> ends it. \<open>clk\<close> is the time at which a pushed URL is verified.\<close>

definition agent_serve ::
    "'d raw_docker \<Rightarrow> url_lib \<Rightarrow> mac \<Rightarrow> int \<Rightarrow> 'f os \<Rightarrow> string \<Rightarrow> push_request \<Rightarrow> ('d, 'n, 'f) Agent \<Rightarrow> agent_answer \<times> ('d, 'n, 'f) Agent" where
  "agent_serve raw ulib mac clk os method r a =
    (let path = pr_Path r; pats = agent_patterns (cleanPath path) in
     if path \<noteq> cleanPath path then (Moved (cleanPath path), a)
     else case map_of pats (if method = ''HEAD'' then ''GET'' else method) of
       None \<Rightarrow> (if pats = [] then Plain 404 (''404 page not found'' @ [CHR 0x0A]) else Plain 405 (''Method Not Allowed'' @ [CHR 0x0A]), a)
     | Some AgentHealthz \<Rightarrow> (agent_handleHealthz, a)
     | Some (PushFiles _) \<Rightarrow>
         (let (resp, fs) = run_state (push_ServeHTTP ulib mac clk (cf_HMACSecret (ag_cfg a)) (\<lambda>i. CodeDir i (ag_executor a)) os r) (ag_files a)
          in (Pushed resp, a\<lparr>ag_files := fs\<rparr>))
     | Some (ContainerLookup name) \<Rightarrow>
         (let ((code, body), x) = run_state (outside (on_daemon (containers_ServeHTTP raw name))) (ag_executor a)
          in (Document code body, a\<lparr>ag_executor := x\<rparr>)))"

section \<open>Running\<close>

definition JoinHostPort :: "string \<Rightarrow> string \<Rightarrow> string" where
  "JoinHostPort host port =
    (if CHR '':'' \<in> set host \<or> CHR ''%'' \<in> set host then ''['' @ host @ '']:'' @ port else host @ '':'' @ port)"

definition listenAddr :: "agent_config \<Rightarrow> string" where
  "listenAddr cfg =
    (if cf_TailscaleIP cfg = '''' then '':'' @ show_int (cf_AgentPort cfg)
     else JoinHostPort (cf_TailscaleIP cfg) (show_int (cf_AgentPort cfg)))"

text \<open>What the goroutines of \<^verbatim>\<open>Run\<close> do: a tick of the heartbeat sender, the forwarding of an event of the watcher, a pull of the
  sandbox image (the initial one or one of the periodic ones), a request to the HTTP server and a round of the poll loop. The
  arguments of a round are what it finds around it.\<close>

datatype 'f agent_activity =
    Beat
  | Forward "(string \<times> sandboxInfo) list \<Rightarrow> (string \<times> sandboxInfo) list" "string \<Rightarrow> int" watcher_event
  | Pull "nat \<Rightarrow> bool"
  | Request url_lib mac int "'f os" string push_request
  | Poll "AgentCommand \<Rightarrow> timestamp" "AgentCommand \<Rightarrow> int"

definition on_executor :: "(('d \<times> 'n Client) executor, 'a) state \<Rightarrow> ('d, 'n, 'f) Agent \<Rightarrow> ('d, 'n, 'f) Agent" where
  "on_executor m a = a\<lparr>ag_executor := snd (run_state m (ag_executor a))\<rparr>"

fun agent_act ::
    "'d raw_docker \<Rightarrow> ((string \<times> string) list \<Rightarrow> (string \<times> string) list) \<Rightarrow> 'n network \<Rightarrow> (json option \<Rightarrow> string) \<Rightarrow>
      'f agent_activity \<Rightarrow> ('d, 'n, 'f) Agent \<Rightarrow> ('d, 'n, 'f) Agent" where
  "agent_act raw ord net je Beat a = on_executor (outside (run_state (sendHeartbeat raw net))) a"
| "agent_act raw ord net je (Forward order sscanf ev) a = on_executor (forwardEvents order sscanf net [ev]) a"
| "agent_act raw ord net je (Pull alive) a = on_executor (outside (on_daemon (PullOnce raw (cf_SandboxImage (ag_cfg a)) alive))) a"
| "agent_act raw ord net je (Request ulib mac clk os method r) a = snd (agent_serve raw ulib mac clk os method r a)"
| "agent_act raw ord net je (Poll now hint) a = on_executor (pollLoop raw ord net je now hint 1) a"

text \<open>The heartbeat sender alone, for \<open>ticks\<close> ticks. Its interval is fixed; the one of the registration answer is only logged.\<close>

definition heartbeatInterval :: Duration where
  "heartbeatInterval = 15 * time_Second"

fun heartbeat_Start :: "'d raw_docker \<Rightarrow> 'n network \<Rightarrow> nat \<Rightarrow> ('d \<times> 'n Client, unit) state" where
  "heartbeat_Start raw net 0 = State_Monad.return ()"
| "heartbeat_Start raw net (Suc ticks) = do { sendHeartbeat raw net; heartbeat_Start raw net ticks }"

definition Agent_Run ::
    "'d raw_docker \<Rightarrow> ((string \<times> string) list \<Rightarrow> (string \<times> string) list) \<Rightarrow> 'n network \<Rightarrow> (json option \<Rightarrow> string) \<Rightarrow>
      'f agent_activity list \<Rightarrow> ('d, 'n, 'f) Agent \<Rightarrow> (string + unit) \<times> ('d, 'n, 'f) Agent" where
  "Agent_Run raw ord net je acts a =
    (case run_state (outside (on_daemon (Snapshot raw))) (ag_executor a) of
       (Inl e, x) \<Rightarrow> (Inl (''agent: startup snapshot failed: '' @ e), a\<lparr>ag_executor := x\<rparr>)
     | (Inr initial, x) \<Rightarrow>
         (case run_state (outside (on_client (Register net))) x of
            (Inl e, x') \<Rightarrow> (Inl (''agent: registration failed: '' @ e), a\<lparr>ag_executor := x'\<rparr>)
          | (Inr regResp, x') \<Rightarrow>
              (Inr (), fold (agent_act raw ord net je) acts (a\<lparr>ag_executor := x', ag_httpServer := Some (listenAddr (ag_cfg a))\<rparr>))))"

text \<open>The errors of stopping the server and of closing the Docker client; the first one is returned.\<close>

definition Agent_Shutdown :: "string option \<Rightarrow> string option \<Rightarrow> ('d, 'n, 'f) Agent \<Rightarrow> string option" where
  "Agent_Shutdown server_error close_error a =
    (let firstErr = (if ag_httpServer a \<noteq> None then server_error else None)
     in case close_error of Some e \<Rightarrow> (if firstErr = None then Some e else firstErr) | None \<Rightarrow> firstErr)"

text \<open>The exit status of the process, with the agent it leaves. \<open>canceled\<close> tells whether an error is a cancellation.\<close>

definition agent_main ::
    "string + agent_config \<Rightarrow> string + 'd \<Rightarrow> 'n \<Rightarrow> 'f files \<Rightarrow> 'd raw_docker \<Rightarrow> ((string \<times> string) list \<Rightarrow> (string \<times> string) list) \<Rightarrow>
      'n network \<Rightarrow> (json option \<Rightarrow> string) \<Rightarrow> (string \<Rightarrow> bool) \<Rightarrow> 'f agent_activity list \<Rightarrow> int \<times> ('d, 'n, 'f) Agent option" where
  "agent_main cfg dockerClient outer fs raw ord net je canceled acts =
    (case cfg of
       Inl _ \<Rightarrow> (1, None)
     | Inr cfg \<Rightarrow>
         (case Agent_New cfg dockerClient outer fs of
            Inl _ \<Rightarrow> (1, None)
          | Inr a \<Rightarrow>
              (case Agent_Run raw ord net je acts a of
                 (Inl e, a') \<Rightarrow> (if canceled e then 0 else 1, Some a')
               | (Inr _, a') \<Rightarrow> (0, Some a'))))"

section \<open>What every run keeps\<close>

text \<open>The agent of a configuration: the ports of its sandboxes are its own, and what was written lies in code directories
  below its sandbox directory.\<close>

definition configured :: "agent_config \<Rightarrow> 'e executor \<Rightarrow> bool" where
  "configured cfg x \<longleftrightarrow> executor_ok x \<and> min_port (ex_ports x) = cf_PortRangeMin cfg \<and> max_port (ex_ports x) = cf_PortRangeMax cfg \<and>
     ex_sandboxDir x = cf_SandboxDir cfg"

lemma configured_executor: "of_executor (configured cfg :: 'e executor \<Rightarrow> bool)"
proof -
  have "configured cfg (snd (run_state (Execute env now hint cmd) x))" if "configured cfg x"
    for env :: "'e agent_env" and now hint cmd x
  proof -
    from that have ok: "executor_ok x" "alloc_ok (ex_ports x)" by (simp_all add: configured_def executor_ok_def)
    from that Execute_ok[OF ok(1)] Execute_range[OF ok(1)] Execute_sandboxDir[OF ok(2)] show ?thesis by (simp add: configured_def)
  qed
  moreover have "configured cfg (x\<lparr>ex_outside := e\<rparr>) = configured cfg x" for x :: "'e executor" and e
    by (simp add: configured_def executor_ok_def tracked_ports_def)
  ultimately show ?thesis by (simp add: of_executor_def keeps_def)
qed

definition agent_ok :: "agent_config \<Rightarrow> ('d, 'n, 'f) Agent \<Rightarrow> bool" where
  "agent_ok cfg a \<longleftrightarrow> ag_cfg a = cfg \<and> configured cfg (ag_executor a) \<and>
     list_all (\<lambda>c. \<exists>app. confined (cf_SandboxDir cfg @ ''/'' @ app @ ''/code'') c) (fp_calls (ag_files a))"

lemma on_executor_ok: "keeps (configured cfg) m \<Longrightarrow> agent_ok cfg a \<Longrightarrow> agent_ok cfg (on_executor m a)"
  by (simp add: agent_ok_def on_executor_def keeps_def)

lemma push_ok:
  assumes "agent_ok cfg a"
  shows "agent_ok cfg (a\<lparr>ag_files := snd (run_state (push_ServeHTTP ulib mac clk secret (\<lambda>i. CodeDir i (ag_executor a)) os r) (ag_files a))\<rparr>)"
proof -
  obtain calls where "fp_calls (snd (run_state (push_ServeHTTP ulib mac clk secret (\<lambda>i. CodeDir i (ag_executor a)) os r) (ag_files a))) =
      fp_calls (ag_files a) @ calls"
    and "list_all (\<lambda>c. \<exists>d. CodeDir (extractSandboxID (pr_Path r)) (ag_executor a) = Inr d \<and> confined d c) calls"
    using push_calls[of ulib mac clk secret "ag_executor a" os r "ag_files a"] by (fastforce simp: list_all_iff)
  with assms show ?thesis
    by (fastforce simp: agent_ok_def configured_def list_all_iff CodeDir_def split: option.splits)
qed

lemma configured_outside: "configured cfg x \<Longrightarrow> configured cfg (snd (run_state (outside f) x))"
  by (rule keepsD[OF outside_keeps[OF configured_executor]])

lemma agent_ok_executor: "agent_ok cfg a \<Longrightarrow> configured cfg x \<Longrightarrow> agent_ok cfg (a\<lparr>ag_executor := x\<rparr>)"
  by (simp add: agent_ok_def)

lemma agent_ok_configured: "agent_ok cfg a \<Longrightarrow> configured cfg (ag_executor a)"
  by (simp add: agent_ok_def)

lemma agent_serve_ok: "agent_ok cfg a \<Longrightarrow> agent_ok cfg (snd (agent_serve raw ulib mac clk os method r a))"
  unfolding agent_serve_def
  by (auto simp: Let_def split_beta push_ok split: option.split agent_route.split
      intro!: agent_ok_executor configured_outside agent_ok_configured)

lemma agent_act_ok: "agent_ok cfg a \<Longrightarrow> agent_ok cfg (agent_act raw ord net je ac a)"
  by (cases ac) (simp_all add: on_executor_ok outside_keeps configured_executor forwardEvents_keeps pollLoop_keeps agent_serve_ok
      del: pollLoop.simps One_nat_def)

lemma fold_act_ok: "agent_ok cfg a \<Longrightarrow> agent_ok cfg (fold (agent_act raw ord net je) acts a)"
  by (induction acts arbitrary: a) (simp_all add: agent_act_ok)

lemma Agent_New_ok:
  assumes "Agent_New cfg dockerClient outer \<lparr>fp_outside = f, fp_calls = []\<rparr> = Inr a"
  shows "agent_ok cfg a" and "ag_httpServer a = None"
  using assms
  by (auto split: sum.splits simp: Agent_New_def agent_ok_def configured_def executor_ok_New)
    (simp_all add: NewCommandExecutor_def NewAllocator_def)

lemma Agent_Run_ok:
  assumes "agent_ok cfg a"
  shows "agent_ok cfg (snd (Agent_Run raw ord net je acts a))"
proof -
  note x = configured_outside[OF agent_ok_configured[OF assms], of "on_daemon (Snapshot raw)"]
  have "agent_ok cfg (b\<lparr>ag_httpServer := s\<rparr>) = agent_ok cfg b" for b :: "('a, 'b, 'c) Agent" and s
    by (simp add: agent_ok_def)
  then show ?thesis
    using assms x configured_outside[OF x, of "on_client (Register net)"]
    by (auto simp: Agent_Run_def split: sum.split prod.split intro!: fold_act_ok agent_ok_executor)
qed

lemma outside_frame:
  "ex_acks (snd (run_state (outside f) x)) = ex_acks x" "ex_sandboxes (snd (run_state (outside f) x)) = ex_sandboxes x"
  by (simp_all add: outside_def split: prod.split)

lemma agent_act_frame: "ag_httpServer (agent_act raw ord net je ac a) = ag_httpServer a" "ag_cfg (agent_act raw ord net je ac a) = ag_cfg a"
  by (cases ac; simp add: on_executor_def agent_serve_def Let_def split_beta split: option.split agent_route.split
      del: pollLoop.simps One_nat_def)+

lemma fold_act_frame: "ag_httpServer (fold (agent_act raw ord net je) acts a) = ag_httpServer a"
  by (induction acts arbitrary: a) (simp_all add: agent_act_frame)

text \<open>An agent serves and works only after Docker answered and the control plane accepted it.\<close>

lemma Agent_Run_started:
  "case Agent_Run raw ord net je acts a of
    (Inl _, a') \<Rightarrow> ag_httpServer a' = ag_httpServer a \<and> ag_files a' = ag_files a \<and>
      ex_acks (ag_executor a') = ex_acks (ag_executor a) \<and> ex_sandboxes (ag_executor a') = ex_sandboxes (ag_executor a)
  | (Inr _, a') \<Rightarrow> ag_httpServer a' = Some (listenAddr (ag_cfg a))"
proof -
  let ?s = "outside (on_daemon (Snapshot raw))" and ?r = "outside (on_client (Register net))"
  note frame = outside_frame[of "on_daemon (Snapshot raw)" "ag_executor a"]
    outside_frame[of "on_client (Register net)" "snd (run_state ?s (ag_executor a))"]
  show ?thesis
    using frame by (auto simp: Agent_Run_def fold_act_frame split: sum.split prod.split)
qed

section \<open>Property\<close>


end
