(* ===== verification/Control_Process.thy ===== *)
theory Control_Process
  imports Proxy Protocol Agent_Process
begin

text \<open>
  The control plane as a process: its configuration (\<^verbatim>\<open>control/internal/config/config.go\<close>), the construction of the HTTP server
  (\<^verbatim>\<open>control/internal/api/server.go\<close>) and \<^verbatim>\<open>control/cmd/forge-control/main.go\<close>: startup, wiring, background loops and exit. After
  startup requests and the rounds of the background loops interleave; a run is a sequence of them, in any order, on the state of the
  proxy and the world of the handlers.
\<close>

section \<open>Configuration and wiring\<close>

text \<open>\<^verbatim>\<open>envconfig\<close> fills the fields; what it returns is an argument of \<open>control_main\<close>.\<close>

record control_config =
  cc_ListenAddr :: string
  cc_DatabaseURL :: string
  cc_APIToken :: string
  cc_HMACSecret :: string
  cc_LogLevel :: string
  cc_HeartbeatIntervalSeconds :: int
  cc_HeartbeatMissThreshold :: int
  cc_CaddyAdminURL :: string
  cc_IdleReaperIntervalSeconds :: int
  cc_DriftDetectorIntervalSeconds :: int
  cc_FreshnessWindowSeconds :: int
  cc_AgentRequestTimeoutSeconds :: int

text \<open>\<^verbatim>\<open>time.Duration(n) * time.Second\<close>, which wraps around, and its length in the unit of the timestamps.\<close>

definition seconds :: "int \<Rightarrow> Duration" where
  "seconds n = word_of_int n * time_Second"

definition in_micros :: "Duration \<Rightarrow> timestamp" where
  "in_micros d = sint d div 1000"

text \<open>The collaborators that main injects after the construction are missing at first; the agents' lifecycle service, for which there
  is no such value, is an argument here and set before the server listens.\<close>

definition NewServer :: "(string \<times> string) option \<Rightarrow> LifecycleService option \<Rightarrow> bool \<Rightarrow> int \<Rightarrow> LifecycleService \<Rightarrow> server" where
  "NewServer cfg lc sr heartbeatIntervalSec unset =
    \<lparr>sv_config = cfg, sv_sandboxReader = sr, sv_lifecycle = lc, sv_agentLifecycle = unset, sv_reconciler = False,
     sv_freshness = None, sv_eventStore = False, sv_metricsStore = False,
     sv_interval = (if heartbeatIntervalSec = 0 then 15 else heartbeatIntervalSec)\<rparr>"

definition SetAgentDeps :: "LifecycleService \<Rightarrow> server \<Rightarrow> server" where
  "SetAgentDeps al s = s\<lparr>sv_agentLifecycle := al\<rparr>"

definition SetMetricsStore :: "server \<Rightarrow> server" where
  "SetMetricsStore s = s\<lparr>sv_metricsStore := True\<rparr>"

definition SetEventStore :: "server \<Rightarrow> server" where
  "SetEventStore s = s\<lparr>sv_eventStore := True\<rparr>"

definition SetReconciler :: "server \<Rightarrow> server" where
  "SetReconciler s = s\<lparr>sv_reconciler := True\<rparr>"

definition SetFreshness :: "timestamp \<Rightarrow> server \<Rightarrow> server" where
  "SetFreshness fresh s = s\<lparr>sv_freshness := Some fresh\<rparr>"

text \<open>The service and the server of main. The route fetcher and the log proxy are what a request finds around it.\<close>

definition main_lifecycle :: LifecycleService where
  "main_lifecycle = SetRestartManager (SetRouteNotifier New)"

definition main_server :: "control_config \<Rightarrow> server" where
  "main_server cfg =
    (let srv = NewServer (Some (cc_APIToken cfg, cc_HMACSecret cfg)) (Some main_lifecycle) True (cc_HeartbeatIntervalSeconds cfg) New
     in SetFreshness (in_micros (seconds (cc_FreshnessWindowSeconds cfg))) (SetReconciler (SetEventStore (SetMetricsStore
          (SetAgentDeps main_lifecycle srv)))))"

section \<open>Background loops\<close>

text \<open>The interval of a loop: the reaper and the drift detector fall back to a minute; the monitor does not, and its ticker panics for an
  interval that is not positive.\<close>

definition NewIdleReaper :: "Duration \<Rightarrow> Duration" where
  "NewIdleReaper interval = (if sint interval \<le> 0 then 60 * time_Second else interval)"

definition NewDriftDetector :: "Duration \<Rightarrow> Duration" where
  "NewDriftDetector interval = (if sint interval \<le> 0 then 60 * time_Second else interval)"

definition monitor_interval :: "control_config \<Rightarrow> Duration" where
  "monitor_interval cfg = seconds (cc_HeartbeatIntervalSeconds cfg)"

definition monitor_threshold :: "control_config \<Rightarrow> Duration" where
  "monitor_threshold cfg = seconds (cc_HeartbeatIntervalSeconds cfg * cc_HeartbeatMissThreshold cfg)"

definition NewTicker :: "Duration \<Rightarrow> bool" where
  "NewTicker d \<longleftrightarrow> 0 < sint d"

text \<open>What happens after startup: a request with its method, path, query, header and body; a tick of one of the loops.\<close>

datatype control_round =
    Answer ambient string string string string "json option"
  | MonitorRound "UUID \<Rightarrow> UUID" timestamp
  | ReapRound "UUID \<Rightarrow> UUID"
  | DriftRound "string list \<Rightarrow> string list" "(string \<times> Sandbox) list \<Rightarrow> (string \<times> Sandbox) list"

definition on_world :: "(world, 'a) state \<Rightarrow> ('c \<times> world, 'a) state" where
  "on_world m = State (\<lambda>(c, w). let (x, w') = run_state m w in (x, (c, w')))"

fun control_act :: "control_config \<Rightarrow> 'c RouteListFetcher \<Rightarrow> control_round \<Rightarrow> ('c \<times> world, unit) state" where
  "control_act cfg px (Answer a method path query auth body) =
     on_world (discard (serve_http (main_server cfg) a method path query auth body))"
| "control_act cfg px (MonitorRound ids now) =
     on_world (monitorHeartbeats (ls_routeNotifier main_lifecycle) ids now (in_micros (monitor_threshold cfg)))"
| "control_act cfg px (ReapRound ids) = on_world (discard (reap (ls_routeNotifier main_lifecycle) ids))"
| "control_act cfg px (DriftRound ord1 ord2) = detect px ord1 ord2"

section \<open>Startup and exit\<close>

text \<open>\<^verbatim>\<open>goose\<close> and the file system are parameters: \<open>opened\<close>, \<open>dialect\<close> and \<open>up\<close> are the errors of its calls, \<open>missing\<close> tells whether a
  directory does not exist.\<close>

definition migrationsDir :: "(string \<Rightarrow> bool) \<Rightarrow> string" where
  "migrationsDir missing = (if missing ''migrations'' then ''control/migrations'' else ''migrations'')"

definition runMigrations :: "string option \<Rightarrow> string option \<Rightarrow> (string \<Rightarrow> bool) \<Rightarrow> (string \<Rightarrow> 's \<Rightarrow> string option \<times> 's) \<Rightarrow> 's \<Rightarrow> string option \<times> 's" where
  "runMigrations opened dialect missing up s =
    (case opened of
       Some e \<Rightarrow> (Some e, s)
     | None \<Rightarrow> (case dialect of Some e \<Rightarrow> (Some e, s) | None \<Rightarrow> up (migrationsDir missing) s))"

datatype outcome_of_main = Exit int | Panic

text \<open>\<open>pool\<close> and \<open>ping\<close> are the errors of connecting, \<open>migrate\<close> is \<open>runMigrations\<close> on the state. A failure of the HTTP server or a signal ends the
  run of the rounds.\<close>

definition control_main ::
    "string + control_config \<Rightarrow> string option \<Rightarrow> string option \<Rightarrow> ('c \<times> world \<Rightarrow> string option \<times> 'c \<times> world) \<Rightarrow> 'c RouteListFetcher \<Rightarrow>
      control_round list \<Rightarrow> 'c \<times> world \<Rightarrow> outcome_of_main \<times> 'c \<times> world" where
  "control_main loaded pool ping migrate px rounds s =
    (case loaded of
       Inl _ \<Rightarrow> (Exit 1, s)
     | Inr cfg \<Rightarrow>
         if pool \<noteq> None \<or> ping \<noteq> None then (Exit 1, s)
         else case migrate s of
           (Some _, s') \<Rightarrow> (Exit 1, s')
         | (None, s') \<Rightarrow>
             if \<not> (NewTicker (monitor_interval cfg) \<and> NewTicker (NewIdleReaper (seconds (cc_IdleReaperIntervalSeconds cfg))) \<and>
                   NewTicker (NewDriftDetector (seconds (cc_DriftDetectorIntervalSeconds cfg)))) then (Panic, s')
             else (Exit 0, snd (run_state (for_each (control_act cfg px) rounds) s')))"

section \<open>What every run keeps\<close>

lemma on_world_keeps: "keeps J m \<Longrightarrow> keeps (\<lambda>s. J (snd s)) (on_world m)"
  by (auto simp: keeps_def on_world_def split: prod.split)

lemma on_proxy_keeps: "keeps (\<lambda>s. J (snd s)) (on_proxy f)"
  by (auto simp: keeps_def on_proxy_def split: prod.split)

lemma on_store_keeps: "keeps J (stmt q) \<Longrightarrow> keeps (\<lambda>s. J (snd s)) (on_store q)"
  by (auto simp: keeps_def on_store_def split: prod.split)

fun round_ok :: "(UUID \<Rightarrow> bool) \<Rightarrow> control_round \<Rightarrow> bool" where
  "round_ok fresh (Answer a method path query auth body) = fresh (am_newID a)"
| "round_ok fresh r = True"

context api_invariant
begin

lemma serve_http_keeps: "fresh (am_newID a) \<Longrightarrow> keeps (safe I) (serve_http s a method path query auth body)"
  unfolding serve_http_def unrouted_def BearerAuth_def Let_def by (intro api_calls RegisterRoutes_keeps)

lemma detect_keeps: "keeps (\<lambda>s. safe I (snd s)) (detect px ord1 ord2)"
  unfolding detect_def remove_stale_def add_missing_def
  by (auto simp: split_beta intro!: keeps_rules on_proxy_keeps on_store_keeps keeps_stmt reads listings split: option.split sum.split)

lemma control_act_keeps: "round_ok fresh r \<Longrightarrow> keeps (\<lambda>s. safe I (snd s)) (control_act cfg px r)"
  by (cases r) (simp_all add: on_world_keeps keeps_discard serve_http_keeps monitor_keeps reap_keeps detect_keeps)

lemma control_rounds_keep:
  "\<forall>r \<in> set rounds. round_ok fresh r \<Longrightarrow> keeps (\<lambda>s. safe I (snd s)) (for_each (control_act cfg px) rounds)"
  by (intro keeps_for_each_in control_act_keeps) blast

end

lemma round_ok_True: "round_ok (\<lambda>_. True) r"
  by (cases r) simp_all

lemma seconds_sint:
  assumes "\<bar>n\<bar> \<le> 9 * 10 ^ 9"
  shows "sint (seconds n) = n * 10 ^ 9"
proof -
  have "fits_int64 (n * 10 ^ 9)" using assms by (auto simp: fits_int64_def abs_le_iff)
  from sint_of_int64[OF this] show ?thesis by (simp add: seconds_def time_Second_def)
qed

lemma control_main_safe:
  assumes "api_invariant I (\<lambda>_. True)" and "safe I w" and "migrate (c, w) = (e, c, w)"
  shows "safe I (snd (snd (control_main (Inr cfg) None None migrate px rounds (c, w))))"
proof -
  have "keeps (\<lambda>s. safe I (snd s)) (for_each (control_act cfg px) rounds)"
    by (rule api_invariant.control_rounds_keep[OF assms(1)]) (simp add: round_ok_True)
  from keepsD[OF this, of "(c, w)"] assms(2,3) show ?thesis
    by (simp add: control_main_def split: option.split)
qed

lemma tickers_with_default: "NewTicker (NewIdleReaper d)" "NewTicker (NewDriftDetector d)"
proof -
  have "sint (60 * time_Second) = 60 * 10 ^ 9" by (simp add: time_Second_def)
  then show "NewTicker (NewIdleReaper d)" "NewTicker (NewDriftDetector d)"
    by (simp_all add: NewTicker_def NewIdleReaper_def NewDriftDetector_def)
qed

section \<open>Properties\<close>


definition a_control_config :: control_config where
  "a_control_config = \<lparr>cc_ListenAddr = '':8080'', cc_DatabaseURL = ''postgres://forge'', cc_APIToken = ''key'', cc_HMACSecret = ''secret'',
     cc_LogLevel = ''info'', cc_HeartbeatIntervalSeconds = 15, cc_HeartbeatMissThreshold = 3, cc_CaddyAdminURL = ''http://localhost:2019'',
     cc_IdleReaperIntervalSeconds = 60, cc_DriftDetectorIntervalSeconds = 60, cc_FreshnessWindowSeconds = 10,
     cc_AgentRequestTimeoutSeconds = 3\<rparr>"


definition node_base :: "Node \<Rightarrow> string" where
  "node_base node = ''http://'' @ n_TailscaleIp node @ '':'' @ show_int (sint (n_AgentListenPort node))"

lemma logs_url_target:
  assumes "CHR ''?'' \<notin> set i"
  shows "\<exists>query. target (node_base node) (logs_url node i q) = Some (''/sandboxes/'' @ i @ ''/logs'', query)"
proof -
  let ?path = "''/sandboxes/'' @ i @ ''/logs''"
  have "CHR ''?'' \<notin> set ?path" using assms by simp
  note tgt = target_base[OF this, of "node_base node"]
  define params where "params = (if Values_Get ''tail'' q \<noteq> '''' then [''tail='' @ Values_Get ''tail'' q] else []) @
    (if Values_Get ''follow'' q \<noteq> '''' then [''follow='' @ Values_Get ''follow'' q] else [])"
  have "logs_url node i q = node_base node @ ?path @ (if params = [] then '''' else ''?'' @ join_with ''&'' params)"
    unfolding logs_url_def node_base_def Let_def params_def[symmetric] by simp
  with tgt show ?thesis by (cases "params = []") simp_all
qed

text \<open>C37. No log is ever fetched through the API: the control plane asks the agent of the sandbox for a path that the agent does
  not serve, so a request for the logs of a sandbox that exists on a node that answers ends with the 404 of the agent's
  multiplexer, for every query and whatever the agent runs. (The HTTP client hands over what the agent answers.)\<close>

theorem logs_never_served:
  assumes "\<not> prefix ''app:'' idStr" and "al_ParseUUID lib idStr = Some i" and "normal True [''sandboxes'', i, ''logs'']"
    and "CHR ''?'' \<notin> set i" and "sandbox_at t i = Some sb" and "sb_NodeID sb = Some n" and "node_at t n = Some node"
    and agent: "\<And>path query code body. target (node_base node) (logs_url node i q) = Some (path, query) \<Longrightarrow>
      fst (agent_serve raw ulib mac clk os ''GET'' (r\<lparr>pr_Path := path\<rparr>) a) = Plain code body \<Longrightarrow> fetch (logs_url node i q) = Replied code body"
  shows "run_state (handleGetLogs lib (Some fetch) idStr q) (quiet t b) =
    (writeText 404 (''404 page not found'' @ [CHR 0x0A]), quiet t b)"
proof -
  let ?path = "''/sandboxes/'' @ i @ ''/logs''"
  have path: "?path = path_string True [''sandboxes'', i, ''logs'']" by (simp add: path_string_def)
  have "CHR ''/'' \<notin> set i" using assms(3) by (simp add: normal_def proper_def)
  then have sl: "slashes ?path = ['''', ''sandboxes'', i, ''logs'']"
    using split_on_append[of "CHR ''/''" i "''logs''"] by (simp add: split_on_plain)
  have "Clean ?path = ?path" using Clean_path_string[OF assms(3), of "''''"] path by simp
  then have "cleanPath ?path = ?path" by (simp add: cleanPath_def)
  moreover have "agent_patterns ?path = []" unfolding agent_patterns_def sl by simp
  moreover obtain query where logs_target: "target (node_base node) (logs_url node i q) = Some (?path, query)"
    using logs_url_target[OF assms(4)] by blast
  ultimately have "fst (agent_serve raw ulib mac clk os ''GET'' (r\<lparr>pr_Path := ?path\<rparr>) a) = Plain 404 (''404 page not found'' @ [CHR 0x0A])"
    by (simp add: agent_serve_def)
  from agent[OF logs_target this] assms(1,2,5-7) show ?thesis
    by (simp add: handleGetLogs_def exec run_query_or)
qed

definition an_agent_config :: agent_config where
  "an_agent_config = \<lparr>cf_ControlURL = ''http://cp'', cf_Hostname = ''host'', cf_TailscaleIP = ''100.64.0.1'', cf_AgentPort = 9090, cf_PortRangeMin = 40000,
     cf_PortRangeMax = 50000, cf_HMACSecret = ''secret'', cf_SandboxDir = ''/var/lib/forge/sandboxes'', cf_AgentVersion = ''0.1.0'',
     cf_SandboxImage = ''appx/sandbox:v1'', cf_CapacityMB = 2048, cf_CapacityCPU = 2, cf_APIToken = ''key''\<rparr>"

definition an_agent :: "(unit, unit, unit) Agent" where
  "an_agent = \<lparr>ag_cfg = an_agent_config, ag_executor = NewCommandExecutor ((), NewClient () ''http://cp'' (registration an_agent_config) ''key'')
     (NewAllocator 40000 50000) ''/var/lib/forge/sandboxes'', ag_files = \<lparr>fp_outside = (), fp_calls = []\<rparr>, ag_httpServer = Some ''100.64.0.1:9090''\<rparr>"

definition a_log_request :: push_request where
  "a_log_request = \<lparr>pr_TLS = False, pr_Host = ''100.64.0.1:9090'', pr_RequestURI = ''/sandboxes/s/logs'', pr_Path = ''/sandboxes/s/logs'',
     pr_ContentType = '''', pr_ContentLength = 0, pr_JSON = None, pr_Tar = \<lparr>ta_Gzip = None, ta_Entries = [], ta_End = None\<rparr>\<rparr>"

definition a_log_proxy :: "string \<Rightarrow> log_reply" where
  "a_log_proxy url = (case target (node_base a_node) url of
     None \<Rightarrow> Unreachable
   | Some (path, _) \<Rightarrow>
       (case fst (agent_serve a_daemon plain_lib (\<lambda>k s. s) 0 (\<lambda>_ e. (True, e)) ''GET'' (a_log_request\<lparr>pr_Path := path\<rparr>) an_agent) of
          Plain code body \<Rightarrow> Replied code body | _ \<Rightarrow> Unreachable))"

theorem logs_never_served_witness:
  "fst (run_state (handleGetLogs a_lib (Some a_log_proxy) ''s'' []) (quiet (a_db [a_sandbox ''s'' StateRunning 0] []) (NewBatcher id))) =
    writeText 404 (''404 page not found'' @ [CHR 0x0A])"
proof -
  let ?t = "a_db [a_sandbox ''s'' StateRunning 0] []"
  have "run_state (handleGetLogs a_lib (Some a_log_proxy) ''s'' []) (quiet ?t (NewBatcher id)) =
      (writeText 404 (''404 page not found'' @ [CHR 0x0A]), quiet ?t (NewBatcher id))"
    by (rule logs_never_served[where i = "''s''" and n = "''n1''" and node = a_node and sb = "a_sandbox ''s'' StateRunning 0" and raw = a_daemon
          and ulib = plain_lib and mac = "\<lambda>k s. s" and clk = 0 and os = "\<lambda>_ e. (True, e)" and r = a_log_request and a = an_agent])
      (simp_all add: a_lib_def concrete normal_def proper_def clean_step_def dotdot_def a_log_proxy_def)
  then show ?thesis by simp
qed

end
