(* ===== verification/Spec2Isabelle.thy ===== *)
theory Spec2Isabelle
  imports Cli Control_Process
begin

text \<open>
  Forge is a container orchestrator: a control plane (\<^verbatim>\<open>control/\<close>) that keeps sandboxes, nodes, commands and an
  audit log in PostgreSQL and programs a Caddy proxy, one agent per node (\<^verbatim>\<open>agent/\<close>) that polls commands, runs
  containers with Docker, accepts pushed files and sends heartbeats, and a command line client (\<^verbatim>\<open>cli/\<close>). This development models
  the three programs and their protocol as executable definitions and proves what they do, together and under interference.

  \<^bold>\<open>The control plane.\<close>
  \<^item> \<open>Forge_Prelude\<close>: 32-bit arithmetic, decimal text, JSON documents and Go's decoding of them, rows of a table, and
    the calculus \<open>keeps\<close> for invariants of monadic programs.
  \<^item> \<open>Models\<close> (\<^verbatim>\<open>shared-go/models\<close>): states, events, the transition table and its shape.
  \<^item> \<open>Store\<close>, \<open>Store_Laws\<close> (\<^verbatim>\<open>control/internal/store\<close>, with the constraints of \<^verbatim>\<open>control/migrations\<close>): one function per SQL
    statement on a record of four tables; the constraints as an invariant (\<open>schema_ok\<close>, kept by every statement),
    compare-and-swap races, exactly-once delivery of commands.
  \<^item> \<open>Scheduler\<close>: the selection loop on \<^verbatim>\<open>int32\<close> equals its specification. \<open>Routing\<close>: the debouncing batcher refines the
    immediate application of every notice. \<open>Proxy\<close>: the Caddy client and the drift detector.
  \<^item> \<open>Control_World\<close>: the world of the handlers, a state with a schedule of interference before every statement
    (other requests, faults), and the contract of the store as locales: \<open>work_invariant\<close> for the work on sandboxes, \<open>store_invariant\<close>,
    which adds the status of nodes. They are interpreted for the schema, the audit log, the states that no transition leaves and,
    the former, for the table of nodes.
  \<^item> \<open>Restart\<close>, \<open>Lifecycle\<close>, \<open>Recovery\<close>, \<open>Lifecycle_Laws\<close>, \<open>Recovery_Laws\<close> (\<^verbatim>\<open>control/internal/lifecycle\<close>): creation, acknowledgment,
    events, destruction, wake, restart, crash handling, idle reaping and rescheduling, with the exact answer and
    database of each handler on its branches.
  \<^item> \<open>Control_Plane\<close>: sequences of calls of these services, and the heartbeat monitor with the exact effect of its tick on the nodes.
    \<open>Reconciler\<close>: the heartbeat reconciler, the freshness service and its HTTP client of the agents.
  \<^item> \<open>Paths\<close>, \<open>Signed_URL\<close> (\<^verbatim>\<open>shared-go/auth\<close>): the text functions of Go's library that the code relies on, URL signing and
    verification.
  \<^item> \<open>Api\<close>, \<open>Api_Laws\<close>, \<open>Server\<close> (\<^verbatim>\<open>control/internal/api\<close>): every handler, and the route table with its
    authentication. The locale \<open>api_invariant\<close> extends \<open>store_invariant\<close> with the statements of the API; inside it every
    handler is shown to keep the invariant, and its interpretations give the invariants of the whole server.
  \<^item> \<open>Control_Process\<close> (\<^verbatim>\<open>control/cmd/forge-control\<close>, \<^verbatim>\<open>control/internal/config\<close>): the process from its configuration through migrations, wiring
    and the interleaving of requests and background loops to its exit.

  \<^bold>\<open>The agent.\<close>
  \<^item> \<open>Ports\<close>, \<open>Executor\<close>: the port pool and the command executor over an arbitrary Docker and control plane.
  \<^item> \<open>Docker\<close>: the Docker client over an arbitrary daemon. \<open>Watcher\<close>: the stream of container events and the watcher that reconnects to it; over any
    number of broken connections no event is lost. \<open>Filepush\<close>: the file push handler over an arbitrary operating
    system. \<open>Control_Client\<close>: the client of the control plane over an arbitrary network.
  \<^item> \<open>Agent\<close>: heartbeats, container lookup, event forwarding and the poll loop, with the executor wired to those clients. \<open>Agent_Process\<close>
    (\<^verbatim>\<open>agent/cmd/forge-agent\<close>, \<^verbatim>\<open>agent/internal/config\<close>, the rest of \<^verbatim>\<open>agent.go\<close>): construction, startup, the HTTP server, the interleaving of the
    goroutines, shutdown and exit.

  \<^bold>\<open>Both sides.\<close>
  \<^item> \<open>Protocol\<close>: requests as method, path, query and body, routed as \<^verbatim>\<open>routes.go\<close> does; what one side encodes is what the other decodes; the way of a
    start and of a stop command from the queue through the poll, Docker and the acknowledgment back to the database.
  \<^item> \<open>Cli\<close> (\<^verbatim>\<open>cli/cmd/forge\<close>): every command of the client over an arbitrary transport, and what listing sandboxes, verifying routes and checking the health
    print against the modelled control plane.
  \<^item> This theory: what a heartbeat of an agent does to the control plane's database, and the way of a file push from the redirect to
    the code directory.

  \<^bold>\<open>Parameters.\<close> Time, fresh identifiers, random tokens, map iteration orders, HMAC-SHA256, the URL parser, UUID, address and time
  parsing, environment decoding, migrations, Docker, the operating system and the network are arguments; a theorem that needs something of them
  has it as a hypothesis. Floating-point values are rationals. Log calls are left out.

  \<^bold>\<open>Loops.\<close> A loop over a list is recursion over it. Retry loops count their attempts (five registrations, four image
  pulls), which is the bound of the source. The long poll runs for at most one tick per second of its wait. The poll loop, the watcher and the
  ticker loops are given the number of rounds before the context is cancelled, or their rounds are the steps of a run of the process.

  \<^bold>\<open>Concurrency.\<close> Handlers of the control plane interleave at statements, which are atomic in the database. Code under a mutex
  is atomic. The goroutines of an agent interleave at the rounds of their loops, an arbitrary sequence of them being a run.

  \<^bold>\<open>Not modelled.\<close> The adapters of \<^verbatim>\<open>main.go\<close> that only pass a call to the store on (a handler issues the statement itself), the interfaces that
  exist for tests, the choice of a log handler, the parsing of flags and the command tree of \<^verbatim>\<open>cobra\<close>, signals and process control; the
  TypeScript SDK, images and deployment scripts, which are not Go.
\<close>

section \<open>Control plane and agent together\<close>

lemma decode_heartbeat_of:
  "decode_heartbeat (Some (heartbeat_json (heartbeat_of []))) =
    Some \<lparr>hb_UsedMb = 0, hb_RunningContainers = 0, hb_Containers = Some []\<rparr>"
  by code_simp

section \<open>Properties\<close>

text \<open>C27. An agent that runs only containers it created reports none of them, since they carry no label, and the
  control plane believes it: whatever the daemon lists, the next heartbeat marks every live sandbox of the
  node that is older than a minute as destroyed, and the read-through check of any such sandbox is told that
  its container does not exist.\<close>

theorem agent_disowns_its_sandboxes:
  assumes "schema_ok t" and "al_ParseUUID lib idStr = Some i" and "node_at t i = Some node"
    and "fst (rd_ContainerList raw d) = Inr items" and "list_all created_here items"
    and "sandbox_at t s = Some r" and "losable (clock t) i r" and "sb_AppName r \<noteq> ''''"
    and "agents (container_url node (sb_AppName r)) = Inr (fst (containers_ServeHTTP raw (sb_AppName r) d))"
  shows "\<exists>snap. fst (Snapshot raw d) = Inr snap \<and>
    map_option sb_State (sandbox_at (db (snd (run_state
      (handleHeartbeat lib True (clock t) idStr (Some (heartbeat_json (heartbeat_of snap)))) (quiet t b)))) s) = Some StateDestroyed \<and>
    fst (run_state (Freshness_GetSandbox now later fresh (ContainerExists agents) (sb_AppName r) True) (quiet t b)) = Inl ErrSandboxNotFound"
proof (intro exI conjI)
  show "fst (Snapshot raw d) = Inr []" by (rule Snapshot_created_here[OF assms(4,5)])
  have beat: "run_state (handleHeartbeat lib True (clock t) idStr (Some (heartbeat_json (heartbeat_of [])))) (quiet t b) =
      (status_only 200, quiet (t\<lparr>nodes := map (beaten (clock t) i 0 0) (nodes t),
         sandboxes := map (reconciled (clock t) i []) (sandboxes t)\<rparr>) b)"
    using assms(3) by (intro handleHeartbeat_run[OF assms(1,2) _ decode_heartbeat_of]) simp_all
  show "map_option sb_State (sandbox_at (db (snd (run_state
      (handleHeartbeat lib True (clock t) idStr (Some (heartbeat_json (heartbeat_of [])))) (quiet t b)))) s) = Some StateDestroyed"
    using assms(6,7) unfolding beat sandbox_at_def
    by (simp add: row_at_map reconciled_ID) (simp add: reconciled_def lost_def)
  have "denies (agents (container_url node (sb_AppName r)))"
    using containers_ServeHTTP_created_here[OF assms(4,5,8)] assms(9)
    by (cases "fst (containers_ServeHTTP raw (sb_AppName r) d)") (simp add: denies_def)
  moreover have "row_at sb_AppName (sb_AppName r) (sandboxes t) = Some r"
    by (rule row_at_distinct[OF schema_app_names[OF assms(1)] sandbox_at_in[OF assms(6)]])
  ultimately show "fst (run_state (Freshness_GetSandbox now later fresh (ContainerExists agents) (sb_AppName r) True) (quiet t b)) =
      Inl ErrSandboxNotFound"
    using assms(3,7) by (auto simp: Freshness_miss losable_def)
qed

definition a_shadow_daemon :: "unit raw_docker" where
  "a_shadow_daemon = a_daemon\<lparr>rd_ContainerList :=
     (\<lambda>e. (Inr [\<lparr>li_ID = ''c1'', li_Labels = [], li_State = ''running'', li_PublicPorts = [30001]\<rparr>], e))\<rparr>"

theorem agent_disowns_its_sandboxes_witness:
  "\<exists>snap. fst (Snapshot a_shadow_daemon ()) = Inr snap \<and>
    map_option sb_State (sandbox_at (db (snd (run_state
      (handleHeartbeat a_lib True (10 ^ 10) ''n1'' (Some (heartbeat_json (heartbeat_of snap))))
        (quiet (a_db [a_sandbox ''s'' StateRunning 0] []) (NewBatcher id))))) ''s'') = Some StateDestroyed"
proof -
  let ?t = "a_db [a_sandbox ''s'' StateRunning 0] []" and ?r = "a_sandbox ''s'' StateRunning 0"
  have hyps: "schema_ok ?t" "al_ParseUUID a_lib ''n1'' = Some ''n1''" "node_at ?t ''n1'' = Some a_node"
    "sandbox_at ?t ''s'' = Some ?r" "losable (clock ?t) ''n1'' ?r" "sb_AppName ?r \<noteq> ''''"
    by (simp_all add: schema_ok_def concrete named_status_def AllStates_def a_lib_def losable_def live_state_def)
  have items: "fst (rd_ContainerList a_shadow_daemon ()) =
      Inr [\<lparr>li_ID = ''c1'', li_Labels = [], li_State = ''running'', li_PublicPorts = [30001]\<rparr>]"
    by (simp add: a_shadow_daemon_def)
  have now: "clock ?t = 10 ^ 10" by (simp add: a_db_def)
  from agent_disowns_its_sandboxes[OF hyps(1,2,3) items _ hyps(4,5,6),
      where agents = "\<lambda>u. Inr (fst (containers_ServeHTTP a_shadow_daemon (sb_AppName ?r) ()))" and b = "NewBatcher id"
        and now = 0 and later = 0 and fresh = 0]
  show ?thesis unfolding now by (simp add: created_here_iff) blast
qed

text \<open>C28. A file push arrives: for a sandbox on a node the control plane answers 307 with a signed URL, and an agent
  with the same secret that is sent to this URL within its 60 seconds accepts it and writes to the code
  directory it has for that very sandbox; later it refuses it as expired. Of the libraries it needs that
  URLs parse to their path and back, of the keyed hash that its output is 32 bytes.\<close>

theorem file_push_arrives:
  assumes "al_ParseUUID lib idStr = Some i" and "sandbox_at t i = Some sb" and "sb_NodeID sb = Some n" and "node_at t n = Some node"
    and parse: "url_Parse ulib (agent_url node i) = Inr u" "u_Path u = ''/v1/sandboxes/'' @ i @ ''/files''" "u_RawQuery u = ''''"
    and ulib: "\<And>q. list_all query_char q \<Longrightarrow>
      url_Parse ulib (url_String ulib (u\<lparr>u_RawQuery := q\<rparr>)) = Inr (u\<lparr>u_RawQuery := q\<rparr>)"
    and mac: "\<And>s. length (mac secret s) = 32"
    and range: "- (2 ^ 63) \<le> unix (now + 60 * second)" "unix (now + 60 * second) < 2 ^ 63"
    and i: "i \<noteq> ''''" "CHR ''/'' \<notin> set i"
    and r: "rp_Location (fst (run_state (handleFilePush lib ulib mac now secret idStr) (quiet t b))) = Some (request_url r)"
      "pr_Path r = u_Path u" "prefix ''application/json'' (pr_ContentType r)"
    and dir: "CodeDir i ex = Inr d"
  shows "rp_Status (fst (run_state (handleFilePush lib ulib mac now secret idStr) (quiet t b))) = 307 \<and>
    run_state (push_ServeHTTP ulib mac later secret (\<lambda>i. CodeDir i ex) os r) x =
      (if unix later \<le> unix (now + 60 * second) then run_state (handleJSON os r d) x else (Forbidden URLExpired, x))"
proof -
  have "parse_query (u_RawQuery u) = []" using parse(3) by (simp add: parse_query_def parse_pair_def)
  moreover have "mac secret s \<noteq> []" for s using mac[of s] by auto
  ultimately obtain s where s: "SignURL ulib mac now (agent_url node i) secret (60 * second) = Inr s"
    and v: "\<exists>y. VerifyURL ulib mac later s secret = (if unix later \<le> unix (now + 60 * second) then Inr y else Inl URLExpired)"
    using verify_signed[OF parse(1) ulib _ _ _ range, of mac secret later] by auto
  have push: "fst (run_state (handleFilePush lib ulib mac now secret idStr) (quiet t b)) =
      \<lparr>rp_Status = 307, rp_Location = Some s, rp_Body = None, rp_Text = []\<rparr>"
    using assms(1-4) s by (simp add: handleFilePush_def exec run_query_or)
  have "slashes (''v1/sandboxes/'' @ i @ ''/files'') = [''v1'', ''sandboxes'', i, ''files'']"
    using i(2) split_on_append[of "CHR ''/''" i "''files''"] by (simp add: split_on_plain)
  then have "extractSandboxID (pr_Path r) = i"
    using r(2) parse(2) by (simp add: extractSandboxID_def trim_prefix_def)
  with push r v i dir show ?thesis by (auto simp: push_ServeHTTP_def)
qed

definition a_tracking_executor :: "unit executor" where
  "a_tracking_executor = (NewCommandExecutor () (NewAllocator 8000 8010) ''/var/forge'')\<lparr>
     ex_sandboxes := [(''s'', \<lparr>si_ContainerID = ''c1'', si_HostPort = 8001, si_AppName = ''shop''\<rparr>)]\<rparr>"

text \<open>The request of a client that follows the redirect to \<open>loc\<close> with an empty body.\<close>

definition a_push :: "string \<Rightarrow> push_request" where
  "a_push loc = \<lparr>pr_TLS = False, pr_Host = ''100.64.0.1:9090'', pr_RequestURI = drop 22 loc,
     pr_Path = ''/v1/sandboxes/s/files'', pr_ContentType = ''application/json'', pr_ContentLength = 0, pr_JSON = None,
     pr_Tar = \<lparr>ta_Gzip = None, ta_Entries = [], ta_End = None\<rparr>\<rparr>"

definition a_push_url :: URL where
  "a_push_url = \<lparr>u_Scheme = ''http'', u_Host = ''100.64.0.1:9090'', u_Path = ''/v1/sandboxes/s/files'', u_RawQuery = ''''\<rparr>"

lemma a_push_url_simps:
  "url_Parse plain_lib (agent_url a_node ''s'') = Inr a_push_url"
  "url_Parse plain_lib (url_String plain_lib (a_push_url\<lparr>u_RawQuery := q\<rparr>)) = Inr (a_push_url\<lparr>u_RawQuery := q\<rparr>)"
  by (simp_all add: plain_lib_def a_push_url_def agent_url_def a_node_def show_int_def show_nat.simps char_of_def bit_0 Let_def)

lemma a_push_signed:
  obtains loc where "SignURL plain_lib mac 0 (agent_url a_node ''s'') key (60 * second) = Inr loc"
    and "request_url (a_push loc) = loc"
  using that by (auto simp: SignURL_def Let_def a_push_url_simps)
    (simp add: plain_lib_def a_push_url_def request_url_def a_push_def)

theorem file_push_arrives_witness:
  "\<exists>loc. rp_Location (fst (run_state (handleFilePush a_lib plain_lib (\<lambda>k t. replicate 32 CHR ''x'') 0 ''secret'' ''s'')
      (quiet (a_db [a_sandbox ''s'' StateRunning 0] []) (NewBatcher id)))) = Some loc \<and>
    fst (run_state (push_ServeHTTP plain_lib (\<lambda>k t. replicate 32 CHR ''x'') 60000000 ''secret'' (\<lambda>i. CodeDir i a_tracking_executor)
      (\<lambda>_ e. (True, e)) (a_push loc)) \<lparr>fp_outside = (), fp_calls = []\<rparr>) = PushError 400 ''empty request body''"
proof -
  let ?mac = "\<lambda>(k :: string) (t :: string). replicate 32 CHR ''x''" and ?t = "a_db [a_sandbox ''s'' StateRunning 0] []"
  have hyps: "al_ParseUUID a_lib ''s'' = Some ''s''" "sandbox_at ?t ''s'' = Some (a_sandbox ''s'' StateRunning 0)"
    "sb_NodeID (a_sandbox ''s'' StateRunning 0) = Some ''n1''" "node_at ?t ''n1'' = Some a_node"
    "CodeDir ''s'' a_tracking_executor = Inr ''/var/forge/shop/code''"
    by (simp_all add: a_lib_def concrete CodeDir_def a_tracking_executor_def NewCommandExecutor_def)
  obtain loc where s: "SignURL plain_lib ?mac 0 (agent_url a_node ''s'') ''secret'' (60 * second) = Inr loc"
    and loc: "request_url (a_push loc) = loc" by (rule a_push_signed)
  have r: "rp_Location (fst (run_state (handleFilePush a_lib plain_lib ?mac 0 ''secret'' ''s'') (quiet ?t (NewBatcher id)))) =
      Some (request_url (a_push loc))"
    using hyps s by (simp add: handleFilePush_def exec run_query_or loc)
  have "run_state (push_ServeHTTP plain_lib ?mac 60000000 ''secret'' (\<lambda>i. CodeDir i a_tracking_executor)
      (\<lambda>_ e. (True, e)) (a_push loc)) \<lparr>fp_outside = (), fp_calls = []\<rparr> =
    run_state (handleJSON (\<lambda>_ e. (True, e)) (a_push loc) ''/var/forge/shop/code'') \<lparr>fp_outside = (), fp_calls = []\<rparr>"
    using file_push_arrives[OF hyps(1-4) a_push_url_simps(1) _ _ a_push_url_simps(2) _ _ _ _ _ r _ _ hyps(5),
        where later = 60000000 and os = "\<lambda>_ e. (True, e)" and x = "\<lparr>fp_outside = (), fp_calls = []\<rparr>"]
    by (simp add: a_push_url_def a_push_def unix_def)
  then show ?thesis using r loc by (simp add: handleJSON_def a_push_def)
qed

end
